(* ===== verification/Prelude.thy ===== *)
theory Prelude
  imports Main "HOL-Library.Word" "HOL-Library.Signed_Division" "HOL-Library.State_Monad"
begin

text \<open>
  What every theory of the development shares: the types that stand for Go's
  fixed-width integers, the collections that the component theories add their
  rewriting and introduction rules to, a few facts on lists, association lists
  and 64-bit words, and the reading of a state-monad program as a step from a
  state to a result and a state.

  A Go function with effects is a program of \<^verbatim>\<open>HOL-Library.State_Monad\<close>; a Go
  result pair \<^verbatim>\<open>(x, err)\<close> is a value of the sum \<open>err + 'a\<close>, the error on the left.
\<close>

type_synonym ('w, 'a) prog = "('w, 'a) state"
type_synonym int64 = "64 word"
type_synonym uint64 = "64 word"

subsection \<open>Collections the component theories fill\<close>

named_theorems emits_rules \<open>rules that compute what a program sends to the storage system\<close>

subsection \<open>Results\<close>

abbreviation is_ok :: "'e + 'a \<Rightarrow> bool" where
  "is_ok r \<equiv> \<not> isl r"

lemma sum_cases_distrib:
  "f (case r of Inl e \<Rightarrow> g e | Inr x \<Rightarrow> h x) = (case r of Inl e \<Rightarrow> f (g e) | Inr x \<Rightarrow> f (h x))"
  by (cases r) simp_all

subsection \<open>Running programs\<close>

abbreviation result_of :: "('w, 'a) prog \<Rightarrow> 'w \<Rightarrow> 'a" where
  "result_of m w \<equiv> fst (run_state m w)"

abbreviation after :: "('w, 'a) prog \<Rightarrow> 'w \<Rightarrow> 'w" where
  "after m w \<equiv> snd (run_state m w)"

lemma run_bind_split:
  "run_state (State_Monad.bind m f) w = run_state (f (result_of m w)) (after m w)"
  by (simp add: case_prod_beta)

lemma result_of_bind:
  "result_of (State_Monad.bind m f) w = result_of (f (result_of m w)) (after m w)"
  by (simp add: case_prod_beta)

lemma after_bind:
  "after (State_Monad.bind m f) w = after (f (result_of m w)) (after m w)"
  by (simp add: case_prod_beta)

subsection \<open>What a program returns\<close>

text \<open>\<open>yields m P\<close>: whatever the state and the outside world, the result satisfies \<open>P\<close>.\<close>

definition yields :: "('w, 'a) prog \<Rightarrow> ('a \<Rightarrow> bool) \<Rightarrow> bool" where
  "yields m P \<longleftrightarrow> (\<forall>w. P (result_of m w))"

lemma yieldsD: "yields m P \<Longrightarrow> P (result_of m w)"
  by (simp add: yields_def)

lemma yields_return: "P x \<Longrightarrow> yields (State_Monad.return x) P"
  by (simp add: yields_def)

lemma yields_bind: "(\<And>x. yields (f x) P) \<Longrightarrow> yields (State_Monad.bind m f) P"
  by (simp add: yields_def case_prod_beta)

lemma yields_after: "yields m Q \<Longrightarrow> (\<And>x. Q x \<Longrightarrow> yields (f x) P) \<Longrightarrow> yields (State_Monad.bind m f) P"
  by (simp add: yields_def case_prod_beta)

lemma yields_mono: "yields m Q \<Longrightarrow> (\<And>x. Q x \<Longrightarrow> P x) \<Longrightarrow> yields m P"
  by (simp add: yields_def)

lemma yields_if: "(b \<Longrightarrow> yields m P) \<Longrightarrow> (\<not> b \<Longrightarrow> yields n P) \<Longrightarrow> yields (if b then m else n) P"
  by simp

lemma yields_case_sum:
  "(\<And>e. r = Inl e \<Longrightarrow> yields (f e) P) \<Longrightarrow> (\<And>x. r = Inr x \<Longrightarrow> yields (g x) P) \<Longrightarrow>
   yields (case r of Inl e \<Rightarrow> f e | Inr x \<Rightarrow> g x) P"
  by (cases r) simp_all

lemma yields_case_option:
  "(r = None \<Longrightarrow> yields f P) \<Longrightarrow> (\<And>x. r = Some x \<Longrightarrow> yields (g x) P) \<Longrightarrow>
   yields (case r of None \<Rightarrow> f | Some x \<Rightarrow> g x) P"
  by (cases r) simp_all

lemma yields_let: "(\<And>x. x = a \<Longrightarrow> yields (f x) P) \<Longrightarrow> yields (let x = a in f x) P"
  by (simp add: Let_def)

lemmas yields_rules = yields_return yields_bind yields_if yields_case_sum yields_case_option yields_let

subsection \<open>Lists\<close>

lemma find_Some_first:
  assumes "find P xs = Some x"
  shows "\<exists>ys zs. xs = ys @ x # zs \<and> P x \<and> (\<forall>y \<in> set ys. \<not> P y)"
  using assms
proof (induction xs)
  case Nil
  then show ?case by simp
next
  case (Cons a xs)
  show ?case
  proof (cases "P a")
    case True
    with Cons.prems have "a # xs = [] @ x # xs \<and> P x \<and> (\<forall>y \<in> set []. \<not> P y)" by simp
    then show ?thesis by blast
  next
    case False
    with Cons obtain ys zs where "xs = ys @ x # zs" "P x" "\<forall>y \<in> set ys. \<not> P y"
      by auto
    with False have "a # xs = (a # ys) @ x # zs \<and> P x \<and> (\<forall>y \<in> set (a # ys). \<not> P y)" by simp
    then show ?thesis by blast
  qed
qed

lemma map_of_eq_Some_in: "map_of xs k = Some v \<Longrightarrow> (k, v) \<in> set xs"
  by (rule map_of_SomeD)

subsection \<open>Signed 64-bit words\<close>

lemma sint64_range: "- (2 ^ 63) \<le> sint (x :: int64)" "sint (x :: int64) < 2 ^ 63"
  using sint_ge [of x] sint_lt [of x] by simp_all

lemma sint64_add:
  fixes a b :: int64
  assumes "- (2 ^ 63) \<le> sint a + sint b" "sint a + sint b < 2 ^ 63"
  shows "sint (a + b) = sint a + sint b"
proof -
  have "sint (a + b) = signed_take_bit 63 (sint a + sint b)"
    by (simp add: sint_word_ariths)
  also have "\<dots> = sint a + sint b"
    using assms by (intro signed_take_bit_int_eq_self) simp_all
  finally show ?thesis .
qed

lemma sint64_mult:
  fixes a b :: int64
  assumes "- (2 ^ 63) \<le> sint a * sint b" "sint a * sint b < 2 ^ 63"
  shows "sint (a * b) = sint a * sint b"
proof -
  have "sint (a * b) = signed_take_bit 63 (sint a * sint b)"
    by (simp add: sint_word_ariths)
  also have "\<dots> = sint a * sint b"
    using assms by (intro signed_take_bit_int_eq_self) simp_all
  finally show ?thesis .
qed

lemma sint64_of_int:
  assumes "- (2 ^ 63) \<le> i" "i < 2 ^ 63"
  shows "sint (word_of_int i :: int64) = i"
  using assms by (simp add: sint_sbintrunc' signed_take_bit_int_eq_self)

end
