(* ===== verification/GoStd.thy ===== *)
theory GoStd
  imports Prelude
begin

text \<open>
  The functions of Go's standard library that the driver's logic rests on, as
  the driver uses them: \<^verbatim>\<open>strings\<close> (\<^verbatim>\<open>HasPrefix\<close>, \<^verbatim>\<open>Contains\<close>, \<^verbatim>\<open>ReplaceAll\<close>,
  \<^verbatim>\<open>Split\<close>, \<^verbatim>\<open>Fields\<close>, \<^verbatim>\<open>TrimSpace\<close>, \<^verbatim>\<open>ToLower\<close>) and \<^verbatim>\<open>strconv\<close> (\<^verbatim>\<open>Itoa\<close>,
  \<^verbatim>\<open>ParseInt\<close>, \<^verbatim>\<open>ParseUint\<close>). A Go string is its bytes, a list of \<open>char\<close>. Case
  mapping and white space are the ASCII ones; every name, protocol and flag the
  driver compares is ASCII.
\<close>

subsection \<open>strings\<close>

fun has_prefix :: "string \<Rightarrow> string \<Rightarrow> bool" where
  "has_prefix s [] = True"
| "has_prefix [] (p # ps) = False"
| "has_prefix (c # s) (p # ps) = (c = p \<and> has_prefix s ps)"

fun str_contains :: "string \<Rightarrow> string \<Rightarrow> bool" where
  "str_contains [] sub = (sub = [])"
| "str_contains (c # s) sub = (has_prefix (c # s) sub \<or> str_contains s sub)"

definition lower_char :: "char \<Rightarrow> char" where
  "lower_char c = (let n = of_char c :: nat in if 65 \<le> n \<and> n \<le> 90 then char_of (n + 32) else c)"

definition to_lower :: "string \<Rightarrow> string" where
  "to_lower s = map lower_char s"

definition is_space :: "char \<Rightarrow> bool" where
  "is_space c \<longleftrightarrow> (let n = of_char c :: nat in n = 32 \<or> (9 \<le> n \<and> n \<le> 13))"

definition trim_left :: "string \<Rightarrow> string" where
  "trim_left s = dropWhile is_space s"

definition trim_space :: "string \<Rightarrow> string" where
  "trim_space s = rev (trim_left (rev (trim_left s)))"

definition trim_prefix :: "string \<Rightarrow> string \<Rightarrow> string" where
  "trim_prefix s p = (if has_prefix s p then drop (length p) s else s)"

text \<open>\<^verbatim>\<open>strings.Split\<close> with a one-character separator, the only form the driver uses.\<close>

fun split_on :: "char \<Rightarrow> string \<Rightarrow> string list" where
  "split_on c [] = [[]]"
| "split_on c (x # xs) =
     (if x = c then [] # split_on c xs
      else (case split_on c xs of [] \<Rightarrow> [[x]] | y # ys \<Rightarrow> (x # y) # ys))"

fun join_with :: "string \<Rightarrow> string list \<Rightarrow> string" where
  "join_with sep [] = []"
| "join_with sep [x] = x"
| "join_with sep (x # y # ys) = x @ sep @ join_with sep (y # ys)"

text \<open>\<^verbatim>\<open>strings.Fields\<close>: the maximal runs of characters that are not white space.\<close>

fun fields_acc :: "string \<Rightarrow> string \<Rightarrow> string list" where
  "fields_acc [] acc = (if acc = [] then [] else [rev acc])"
| "fields_acc (c # s) acc =
     (if is_space c then (if acc = [] then fields_acc s [] else rev acc # fields_acc s [])
      else fields_acc s (c # acc))"

definition fields :: "string \<Rightarrow> string list" where
  "fields s = fields_acc s []"

text \<open>
  \<^verbatim>\<open>strings.ReplaceAll\<close> with a pattern that is not empty (every call of the driver
  passes a non-empty literal), scanning from the left without overlaps.
\<close>

function replace_all :: "string \<Rightarrow> string \<Rightarrow> string \<Rightarrow> string" where
  "replace_all [] old new = []"
| "replace_all (c # s) old new =
     (if old \<noteq> [] \<and> has_prefix (c # s) old
      then new @ replace_all (drop (length old) (c # s)) old new
      else c # replace_all s old new)"
  by pat_completeness auto
termination
  by (relation "measure (\<lambda>(s, old, new). length s)") auto

lemma has_prefix_iff: "has_prefix s p \<longleftrightarrow> (\<exists>t. s = p @ t)"
  by (induction s p rule: has_prefix.induct) auto

lemma has_prefix_append [simp]: "has_prefix (p @ s) p"
  by (simp add: has_prefix_iff)

lemma has_prefix_take: "has_prefix s p \<longleftrightarrow> take (length p) s = p"
  by (induction s p rule: has_prefix.induct) auto

lemma has_prefix_take_n:
  "has_prefix s p \<Longrightarrow> length p \<le> n \<Longrightarrow> has_prefix (take n s) p"
  by (auto simp: has_prefix_take min_def)

lemma str_contains_iff: "str_contains s sub \<longleftrightarrow> (\<exists>a b. s = a @ sub @ b)"
proof (induction s)
  case Nil
  then show ?case by auto
next
  case (Cons c s)
  show ?case
  proof
    assume "str_contains (c # s) sub"
    then consider "has_prefix (c # s) sub" | "str_contains s sub" by auto
    then show "\<exists>a b. c # s = a @ sub @ b"
    proof cases
      case 1
      then obtain t where "c # s = sub @ t" by (auto simp: has_prefix_iff)
      then have "c # s = [] @ sub @ t" by simp
      then show ?thesis by blast
    next
      case 2
      then obtain a b where "s = a @ sub @ b" using Cons.IH by blast
      then have "c # s = (c # a) @ sub @ b" by simp
      then show ?thesis by blast
    qed
  next
    assume "\<exists>a b. c # s = a @ sub @ b"
    then obtain a b where ab: "c # s = a @ sub @ b" by blast
    show "str_contains (c # s) sub"
    proof (cases a)
      case Nil
      with ab have "has_prefix (c # s) sub" by (simp add: has_prefix_iff)
      then show ?thesis by simp
    next
      case (Cons x xs)
      with ab have "s = xs @ sub @ b" by simp
      then have "str_contains s sub" using Cons.IH by blast
      then show ?thesis by simp
    qed
  qed
qed

lemma split_on_nonempty [simp]: "split_on c s \<noteq> []"
  by (induction s) (auto split: list.splits)

lemma split_on_no_sep: "c \<notin> set s \<Longrightarrow> split_on c s = [s]"
  by (induction s) auto

lemma split_on_parts_no_sep: "p \<in> set (split_on c s) \<Longrightarrow> c \<notin> set p"
proof (induction s arbitrary: p)
  case Nil
  then show ?case by simp
next
  case (Cons x xs)
  show ?case
  proof (cases "x = c")
    case True
    with Cons show ?thesis by auto
  next
    case False
    obtain y ys where y: "split_on c xs = y # ys" by (cases "split_on c xs") auto
    with Cons.IH have "c \<notin> set y" "\<And>q. q \<in> set ys \<Longrightarrow> c \<notin> set q" by auto
    with False y Cons.prems show ?thesis by auto
  qed
qed

lemma join_split: "join_with [c] (split_on c s) = s"
proof (induction s)
  case Nil
  then show ?case by simp
next
  case (Cons x xs)
  obtain y ys where y: "split_on c xs = y # ys" by (cases "split_on c xs") auto
  with Cons show ?case by (cases ys) auto
qed

lemma split_on_append_sep: "split_on c (a @ c # b) = split_on c a @ split_on c b"
proof (induction a)
  case Nil
  then show ?case by simp
next
  case (Cons x xs)
  obtain y ys where y: "split_on c xs = y # ys" by (cases "split_on c xs") auto
  then show ?case using Cons by auto
qed

lemma replace_all_char:
  "replace_all s [a] [b] = map (\<lambda>c. if c = a then b else c) s"
  by (induction s) auto

lemma replace_all_char_notin:
  assumes "a \<noteq> b"
  shows "a \<notin> set (replace_all s [a] [b])"
  using assms by (auto simp: replace_all_char)

lemma replace_all_char_keeps:
  "x \<in> set (replace_all s [a] [b]) \<Longrightarrow> x \<in> set s \<or> x = b"
  by (auto simp: replace_all_char split: if_splits)

lemma length_replace_all_char [simp]: "length (replace_all s [a] [b]) = length s"
  by (simp add: replace_all_char)

lemma to_lower_append [simp]: "to_lower (a @ b) = to_lower a @ to_lower b"
  by (simp add: to_lower_def)

lemma fields_acc_nonempty: "f \<in> set (fields_acc s acc) \<Longrightarrow> f \<noteq> []"
  by (induction s acc rule: fields_acc.induct) (auto split: if_splits)

lemma fields_acc_no_space:
  assumes "list_all (\<lambda>c. \<not> is_space c) acc"
  shows "list_all (list_all (\<lambda>c. \<not> is_space c)) (fields_acc s acc)"
  using assms
proof (induction s acc rule: fields_acc.induct)
  case (1 acc)
  then show ?case by simp
next
  case (2 c s acc)
  then show ?case by (cases "is_space c"; cases "acc = []") simp_all
qed

lemma fields_parts: "f \<in> set (fields s) \<Longrightarrow> f \<noteq> [] \<and> (\<forall>c \<in> set f. \<not> is_space c)"
  using fields_acc_nonempty [of f s "[]"] fields_acc_no_space [of "[]" s]
  by (simp add: fields_def list_all_iff)

subsection \<open>strconv\<close>

fun nat_digits :: "nat \<Rightarrow> string" where
  "nat_digits n = (if n < 10 then [char_of (48 + n)]
     else nat_digits (n div 10) @ [char_of (48 + n mod 10)])"

declare nat_digits.simps [simp del]

definition itoa :: "int \<Rightarrow> string" where
  "itoa i = (if i < 0 then ''-'' @ nat_digits (nat (- i)) else nat_digits (nat i))"

definition digit_of :: "nat \<Rightarrow> char \<Rightarrow> nat option" where
  "digit_of base c = (let n = of_char c in
     if 48 \<le> n \<and> n < 48 + base \<and> n \<le> 57 then Some (n - 48) else None)"

fun parse_digits :: "nat \<Rightarrow> string \<Rightarrow> nat \<Rightarrow> nat option" where
  "parse_digits base [] acc = Some acc"
| "parse_digits base (c # s) acc =
     (case digit_of base c of None \<Rightarrow> None | Some d \<Rightarrow> parse_digits base s (base * acc + d))"

definition parse_nat :: "nat \<Rightarrow> string \<Rightarrow> nat option" where
  "parse_nat base s = (if s = [] then None else parse_digits base s 0)"

text \<open>\<^verbatim>\<open>strconv.ParseInt(s, 10, bits)\<close>: an optional sign, digits, and the range of the width.\<close>

definition parse_int :: "nat \<Rightarrow> string \<Rightarrow> int option" where
  "parse_int bits s =
     (let (neg, ds) = (case s of [] \<Rightarrow> (False, [])
                        | c # r \<Rightarrow> if c = CHR ''-'' then (True, r)
                                  else if c = CHR ''+'' then (False, r) else (False, s))
      in case parse_nat 10 ds of
           None \<Rightarrow> None
         | Some n \<Rightarrow> (let i = (if neg then - int n else int n) in
             if - (2 ^ (bits - 1)) \<le> i \<and> i < 2 ^ (bits - 1) then Some i else None))"

text \<open>\<^verbatim>\<open>strconv.ParseUint(s, 8, 32)\<close>: octal digits, no sign, below two to the 32.\<close>

definition parse_octal32 :: "string \<Rightarrow> nat option" where
  "parse_octal32 s = (case parse_nat 8 s of None \<Rightarrow> None
     | Some n \<Rightarrow> if n < 2 ^ 32 then Some n else None)"

lemma of_char_digit: "d < 10 \<Longrightarrow> of_char (char_of (48 + d :: nat)) = 48 + d"
  by (simp only: of_char_of) simp

lemma digit_of_char: "d < 10 \<Longrightarrow> digit_of 10 (char_of (48 + d)) = Some d"
  unfolding digit_of_def Let_def of_char_digit by simp

lemma parse_digits_append:
  "parse_digits b (s @ t) acc =
     (case parse_digits b s acc of None \<Rightarrow> None | Some a \<Rightarrow> parse_digits b t a)"
  by (induction s arbitrary: acc) (auto split: option.splits)

lemma parse_nat_digits_0: "parse_digits 10 (nat_digits n) 0 = Some n"
proof (induction n rule: nat_digits.induct)
  case (1 n)
  show ?case
  proof (cases "n < 10")
    case True
    then show ?thesis by (simp add: nat_digits.simps [of n] digit_of_char)
  next
    case False
    then have "nat_digits n = nat_digits (n div 10) @ [char_of (48 + n mod 10)]"
      by (simp add: nat_digits.simps [of n])
    with False "1.IH" show ?thesis
      by (simp add: parse_digits_append digit_of_char)
  qed
qed

lemma nat_digits_nonempty [simp]: "nat_digits n \<noteq> []"
  by (subst nat_digits.simps) simp

lemma nat_digits_chars:
  "c \<in> set (nat_digits n) \<Longrightarrow> \<exists>d < 10. c = char_of (48 + d :: nat)"
proof (induction n rule: nat_digits.induct)
  case (1 n)
  show ?case
  proof (cases "n < 10")
    case True
    with "1.prems" show ?thesis by (auto simp: nat_digits.simps [of n])
  next
    case False
    with "1.prems" have "c \<in> set (nat_digits (n div 10)) \<or> c = char_of (48 + n mod 10)"
      by (auto simp: nat_digits.simps [of n])
    then show ?thesis
    proof
      assume "c \<in> set (nat_digits (n div 10))"
      then show ?thesis using "1.IH" False by blast
    next
      assume "c = char_of (48 + n mod 10)"
      then show ?thesis by (intro exI [of _ "n mod 10"]) simp
    qed
  qed
qed

lemma nat_digits_no_sign:
  assumes "c \<in> set (nat_digits n)"
  shows "c \<noteq> CHR ''-''" "c \<noteq> CHR ''+''"
proof -
  obtain d where d: "d < 10" "c = char_of (48 + d :: nat)"
    using nat_digits_chars [OF assms] by blast
  have "of_char c = (48 + d :: nat)" using of_char_digit [OF d(1)] d(2) by simp
  moreover have "of_char (CHR ''-'') = (45 :: nat)" "of_char (CHR ''+'') = (43 :: nat)"
    by simp_all
  ultimately show "c \<noteq> CHR ''-''" "c \<noteq> CHR ''+''" by auto
qed

lemma parse_int_neg:
  "parse_int bits (CHR ''-'' # nat_digits n) =
     (if - (2 ^ (bits - 1)) \<le> - int n then Some (- int n) else None)"
proof -
  have "(0::int) < 2 ^ (bits - 1)" by simp
  then have "- int n < 2 ^ (bits - 1)" by linarith
  then show ?thesis
    unfolding parse_int_def parse_nat_def Let_def by (simp add: parse_nat_digits_0)
qed

lemma parse_int_pos:
  "parse_int bits (nat_digits n) = (if int n < 2 ^ (bits - 1) then Some (int n) else None)"
proof -
  obtain c r where cr: "nat_digits n = c # r"
    by (cases "nat_digits n") auto
  then have "c \<noteq> CHR ''-''" "c \<noteq> CHR ''+''"
    using nat_digits_no_sign [of c n] by auto
  moreover have "- (2 ^ (bits - 1)) \<le> int n"
    by (rule order_trans [of _ 0]) simp_all
  moreover have "parse_digits 10 (c # r) 0 = Some n"
    using parse_nat_digits_0 [of n] cr by simp
  ultimately show ?thesis
    unfolding cr parse_int_def parse_nat_def Let_def by (simp del: parse_digits.simps)
qed

lemma parse_int_itoa:
  assumes "- (2 ^ (bits - 1)) \<le> i" "i < 2 ^ (bits - 1)"
  shows "parse_int bits (itoa i) = Some i"
proof (cases "i < 0")
  case True
  then have "itoa i = CHR ''-'' # nat_digits (nat (- i))" by (simp add: itoa_def)
  with True assms show ?thesis by (simp add: parse_int_neg)
next
  case False
  then have "itoa i = nat_digits (nat i)" by (simp add: itoa_def)
  with False assms show ?thesis by (simp add: parse_int_pos)
qed

lemma of_nat_less_two_power_aux: "int n < 2 ^ n"
  by (metis less_exp of_nat_less_iff of_nat_numeral of_nat_power)

lemma itoa_inj: "itoa i = itoa j \<Longrightarrow> i = j"
proof -
  assume eq: "itoa i = itoa j"
  obtain b where b: "\<bar>i\<bar> < 2 ^ b" "\<bar>j\<bar> < 2 ^ b"
  proof -
    have "\<bar>i\<bar> < 2 ^ nat \<bar>i\<bar>" "\<bar>j\<bar> < 2 ^ nat \<bar>j\<bar>"
      using of_nat_less_two_power_aux [of "nat \<bar>i\<bar>"] of_nat_less_two_power_aux [of "nat \<bar>j\<bar>"] by auto
    moreover have "(2::int) ^ nat \<bar>i\<bar> \<le> 2 ^ (nat \<bar>i\<bar> + nat \<bar>j\<bar>)"
      "(2::int) ^ nat \<bar>j\<bar> \<le> 2 ^ (nat \<bar>i\<bar> + nat \<bar>j\<bar>)" by simp_all
    ultimately show ?thesis by (intro that [of "nat \<bar>i\<bar> + nat \<bar>j\<bar>"]) linarith+
  qed
  from b have r: "- (2 ^ b) \<le> i" "i < 2 ^ b" "- (2 ^ b) \<le> j" "j < 2 ^ b"
    by linarith+
  then have pi: "parse_int (Suc b) (itoa i) = Some i"
    using parse_int_itoa [of "Suc b" i] by (simp only: diff_Suc_1)
  from r have pj: "parse_int (Suc b) (itoa j) = Some j"
    using parse_int_itoa [of "Suc b" j] by (simp only: diff_Suc_1)
  have "Some i = Some j" using pi pj by (simp only: eq)
  then show ?thesis by (simp only: option.inject)
qed

end
