(* ===== verification/Utils.thy ===== *)
theory Utils
  imports GoStd
begin

text \<open>
  \<^verbatim>\<open>pkg/utils/utils.go\<close> and \<^verbatim>\<open>pkg/utils/error.go\<close>: protocol names, byte and
  megabyte conversion at its 64-bit width, flag parsing, and the errors of the
  driver with \<^verbatim>\<open>errors.Is\<close> and \<^verbatim>\<open>errors.Join\<close>. The lemmas bound the rounding of
  the conversions and show where it wraps.
\<close>

subsection \<open>utils.go\<close>

definition UNIT_GB :: int64 where "UNIT_GB = 1024 * 1024 * 1024"
definition UNIT_MB :: int64 where "UNIT_MB = 1024 * 1024"

definition ProtocolSmb :: string where "ProtocolSmb = ''smb''"
definition ProtocolIscsi :: string where "ProtocolIscsi = ''iscsi''"
definition ProtocolNfs :: string where "ProtocolNfs = ''nfs''"
definition ProtocolNvme :: string where "ProtocolNvme = ''nvme''"
definition ProtocolDefault :: string where "ProtocolDefault = ProtocolIscsi"

lemmas protocol_defs = ProtocolSmb_def ProtocolIscsi_def ProtocolNfs_def ProtocolNvme_def
  ProtocolDefault_def

datatype AuthType = AuthTypeReadWrite | AuthTypeReadOnly | AuthTypeNoAccess

fun auth_string :: "AuthType \<Rightarrow> string" where
  "auth_string AuthTypeReadWrite = ''rw''"
| "auth_string AuthTypeReadOnly = ''ro''"
| "auth_string AuthTypeNoAccess = ''no''"

fun SliceContains :: "string list \<Rightarrow> string \<Rightarrow> bool" where
  "SliceContains [] s = False"
| "SliceContains (item # items) s = (s = item \<or> SliceContains items s)"

text \<open>Go's division on \<^verbatim>\<open>int64\<close> truncates towards zero.\<close>

definition div64 :: "int64 \<Rightarrow> int64 \<Rightarrow> int64" where
  "div64 a b = word_of_int (sint a sdiv sint b)"

definition MBToBytes :: "int64 \<Rightarrow> int64" where
  "MBToBytes sz = sz * UNIT_MB"

definition BytesToMB :: "int64 \<Rightarrow> int64" where
  "BytesToMB sz = div64 sz UNIT_MB"

definition BytesToMBCeil :: "int64 \<Rightarrow> int64" where
  "BytesToMBCeil sz = div64 (sz + UNIT_MB - 1) UNIT_MB"

definition StringToBoolean :: "string \<Rightarrow> bool" where
  "StringToBoolean value =
     (let v = to_lower (trim_space value) in v = ''yes'' \<or> v = ''true'' \<or> v = ''1'')"

definition StringToSlice :: "string \<Rightarrow> string list" where
  "StringToSlice value = fields value"

definition BoolToInt :: "bool \<Rightarrow> int" where
  "BoolToInt value = (if value then 1 else 0)"

lemma SliceContains_iff [simp]: "SliceContains items s \<longleftrightarrow> s \<in> set items"
  by (induction items) auto

lemma sint_UNIT_MB [simp]: "sint UNIT_MB = 1048576"
  by (simp add: UNIT_MB_def)

lemma sint_UNIT_GB [simp]: "sint UNIT_GB = 1073741824"
  by (simp add: UNIT_GB_def)

lemma sdiv_nonneg: "0 \<le> a \<Longrightarrow> 0 < b \<Longrightarrow> a sdiv b = (a :: int) div b"
  by (auto simp: signed_divide_int_def sgn_if)

lemma sint_div64:
  assumes "0 \<le> sint a" "0 < sint b"
  shows "sint (div64 a b) = sint a div sint b"
proof -
  have "sint a div sint b \<le> sint a div 1"
    using assms by (intro zdiv_mono2) simp_all
  then have "sint a div sint b < 2 ^ 63"
    using sint64_range(2) [of a] by simp
  moreover have "0 \<le> sint a div sint b"
    using assms by (simp add: pos_imp_zdiv_nonneg_iff)
  then have "- (2 ^ 63) \<le> sint a div sint b"
    by (rule order_trans [rotated]) simp
  ultimately show ?thesis
    using assms by (simp add: div64_def sdiv_nonneg sint64_of_int)
qed

lemma sint_BytesToMB: "0 \<le> sint sz \<Longrightarrow> sint (BytesToMB sz) = sint sz div 1048576"
  by (simp add: BytesToMB_def sint_div64)

lemma sint_add_unit:
  assumes "0 \<le> sint sz" "sint sz \<le> 2 ^ 63 - 2 ^ 20"
  shows "sint (sz + UNIT_MB - 1) = sint sz + 1048575"
proof -
  have "sint (UNIT_MB - 1) = 1048575"
    by (simp add: UNIT_MB_def)
  then have "sint (sz + (UNIT_MB - 1)) = sint sz + 1048575"
    using assms sint64_add [of sz "UNIT_MB - 1"] by simp
  then show ?thesis by (simp add: algebra_simps)
qed

lemma sint_BytesToMBCeil:
  assumes "0 \<le> sint sz" "sint sz \<le> 2 ^ 63 - 2 ^ 20"
  shows "sint (BytesToMBCeil sz) = (sint sz + 1048575) div 1048576"
  using assms sint_add_unit [OF assms] by (simp add: BytesToMBCeil_def sint_div64)

lemma sint_MBToBytes:
  assumes "0 \<le> sint m" "sint m < 2 ^ 43"
  shows "sint (MBToBytes m) = sint m * 1048576"
  using assms sint64_mult [of m UNIT_MB] by (simp add: MBToBytes_def)

lemma mb_ceil_round:
  assumes "0 \<le> sint sz" "sint sz \<le> 2 ^ 63 - 2 ^ 20"
  shows "sint sz \<le> sint (MBToBytes (BytesToMBCeil sz)) \<and>
    sint (MBToBytes (BytesToMBCeil sz)) < sint sz + 2 ^ 20"
proof -
  define q where "q = (sint sz + 1048575) div 1048576"
  have q: "q * 1048576 \<le> sint sz + 1048575" "sint sz \<le> q * 1048576" "0 \<le> q"
    unfolding q_def using assms(1) by linarith+
  from q(1) assms(2) have "q < 2 ^ 43" by simp
  then have "sint (MBToBytes (BytesToMBCeil sz)) = q * 1048576"
    using sint_BytesToMBCeil [OF assms] q(3) sint_MBToBytes [of "BytesToMBCeil sz"]
    unfolding q_def [symmetric] by simp
  with q show ?thesis by simp
qed

text \<open>Rounding a byte count up to megabytes and converting it back never
  gives less than was asked for, and less than one megabyte more, for every
  non-negative sz up to the last full megabyte below \<^verbatim>\<open>2^63\<close>.\<close>

theorem mb_ceil_bounds:
  assumes "0 \<le> sint sz" "sint sz \<le> 2 ^ 63 - 2 ^ 20"
  shows "sint sz \<le> sint (MBToBytes (BytesToMBCeil sz)) \<and>
    sint (MBToBytes (BytesToMBCeil sz)) < sint sz + 2 ^ 20"
  using assms by (rule mb_ceil_round)

theorem mb_ceil_bounds_witness:
  "sint (MBToBytes (BytesToMBCeil 1073741825)) < 1073741825 + 2 ^ 20 \<and>
   1073741825 \<le> sint (MBToBytes (BytesToMBCeil 1073741825))"
  using mb_ceil_bounds [of 1073741825] by simp

text \<open>Above that bound the rounding addition wraps: the largest sz becomes negative.\<close>

lemma mb_ceil_wraps: "sint (BytesToMBCeil (2 ^ 63 - 1)) < 0"
  by (simp add: BytesToMBCeil_def div64_def UNIT_MB_def signed_divide_int_def)

subsection \<open>error.go and the errors of the driver\<close>

text \<open>The gRPC status codes the driver answers with.\<close>

datatype code = InvalidArgument | Internal | NotFound | Unavailable | OutOfRange | AlreadyExists
  | ResourceExhausted | Unimplemented | Aborted | PermissionDenied

text \<open>
  One constructor per error type of \<^verbatim>\<open>error.go\<close> (the string types are only ever
  built from the empty string), then the errors of the web API client
  (\<^verbatim>\<open>DSM Api error\<close> with its code, and a request that got no usable answer), text
  errors of \<^verbatim>\<open>fmt.Errorf\<close> and \<^verbatim>\<open>errors.New\<close>, errors wrapped with \<^verbatim>\<open>%w\<close>,
  \<^verbatim>\<open>errors.Join\<close>, gRPC status errors, and \<open>Panicked\<close> for a run-time panic. A text
  error keeps its format string, a status error its code.
\<close>

datatype err =
    OutOfFreeSpaceError | AlreadyExistError | BadParametersError
  | NoSuchLunError | LunReachMaxCountError | TargetReachMaxCountError | NoSuchSnapshotError
  | BadLunTypeError | SnapshotReachMaxCountError | IscsiDefaultError int
  | NoSuchShareError | ShareReachMaxCountError | ShareSystemBusyError | ShareDefaultError int
  | NoSuchNamespaceError | SanReachMaxCountError | FailedToGetSubsystemError | SanDefaultError int
  | DsmApiError int | HttpError string
  | FmtError string | Wrapf string err | Join "err list" | Status code | Panicked string

text \<open>\<^verbatim>\<open>errors.Is\<close>: the error itself, or one that it wraps or joins.\<close>

fun errors_is :: "err \<Rightarrow> err \<Rightarrow> bool" where
  "errors_is (Wrapf m e) t = (Wrapf m e = t \<or> errors_is e t)"
| "errors_is (Join es) t = (Join es = t \<or> list_ex (\<lambda>e. errors_is e t) es)"
| "errors_is e t = (e = t)"

text \<open>\<^verbatim>\<open>errors.Join\<close>: nil when every argument is nil.\<close>

definition errors_join :: "err option list \<Rightarrow> err option" where
  "errors_join es = (let js = concat (map (case_option [] (\<lambda>e. [e])) es)
     in if js = [] then None else Some (Join js))"

lemma errors_join_None_iff [simp]: "errors_join es = None \<longleftrightarrow> (\<forall>e \<in> set es. e = None)"
  by (auto simp: errors_join_def Let_def split: option.splits)

end
