(* ===== verification/Json.thy ===== *)
theory Json
  imports Utils
begin

text \<open>
  JSON as \<^verbatim>\<open>encoding/json\<close> presents it to the driver. A decoder follows the rules
  of \<^verbatim>\<open>json.Unmarshal\<close>: a missing field or a \<^verbatim>\<open>null\<close> leaves the field at its zero
  value, the last of several equal keys wins, a value of another type or a number
  outside the field's width is an error (\<open>None\<close>). Keys are matched exactly; Go's
  fallback to a match up to case is not modelled (the storage system answers with
  the exact names of the struct tags).
\<close>

datatype json = JNull | JBool bool | JNum int | JFloat string | JStr string
  | JArr "json list" | JObj "(string \<times> json) list"

type_synonym jobject = "(string \<times> json) list"
type_synonym 'a decoder = "json \<Rightarrow> 'a option"

fun jfield_rev :: "string \<Rightarrow> jobject \<Rightarrow> json" where
  "jfield_rev k [] = JNull"
| "jfield_rev k ((k', v) # o') = (if k' = k \<and> v \<noteq> JNull then v else jfield_rev k o')"

definition jfield :: "string \<Rightarrow> jobject \<Rightarrow> json" where
  "jfield k ob = jfield_rev k (rev ob)"

fun dec_string :: "string decoder" where
  "dec_string JNull = Some []"
| "dec_string (JStr s) = Some s"
| "dec_string _ = None"

fun dec_bool :: "bool decoder" where
  "dec_bool JNull = Some False"
| "dec_bool (JBool b) = Some b"
| "dec_bool _ = None"

text \<open>Go's \<^verbatim>\<open>int\<close> is 64 bits wide on every platform the driver is built for.\<close>

fun dec_int :: "int decoder" where
  "dec_int JNull = Some 0"
| "dec_int (JNum n) = (if - (2 ^ 63) \<le> n \<and> n < 2 ^ 63 then Some n else None)"
| "dec_int _ = None"

definition dec_int64 :: "int64 decoder" where
  "dec_int64 j = map_option word_of_int (dec_int j)"

fun dec_uint64 :: "uint64 decoder" where
  "dec_uint64 JNull = Some 0"
| "dec_uint64 (JNum n) = (if 0 \<le> n \<and> n < 2 ^ 64 then Some (word_of_int n) else None)"
| "dec_uint64 _ = None"

definition dec_opt :: "'a decoder \<Rightarrow> 'a option decoder" where
  "dec_opt f j = (if j = JNull then Some None else map_option Some (f j))"

fun dec_all :: "'a decoder \<Rightarrow> json list \<Rightarrow> 'a list option" where
  "dec_all f [] = Some []"
| "dec_all f (j # js) = do { x \<leftarrow> f j; xs \<leftarrow> dec_all f js; Some (x # xs) }"

fun dec_list :: "'a decoder \<Rightarrow> 'a list decoder" where
  "dec_list f JNull = Some []"
| "dec_list f (JArr js) = dec_all f js"
| "dec_list f _ = None"

fun dec_obj :: "(jobject \<Rightarrow> 'a option) \<Rightarrow> 'a decoder" where
  "dec_obj f JNull = f []"
| "dec_obj f (JObj ob) = f ob"
| "dec_obj f _ = None"

definition dec_field :: "string \<Rightarrow> 'a decoder \<Rightarrow> 'a decoder" where
  "dec_field k f = dec_obj (\<lambda>ob. f (jfield k ob))"

definition dec_unit :: "unit decoder" where
  "dec_unit = dec_obj (\<lambda>_. Some ())"

definition enc_int64 :: "int64 \<Rightarrow> json" where
  "enc_int64 x = JNum (sint x)"

lemma jfield_rev_append:
  "jfield_rev k (xs @ ys) = (if jfield_rev k xs = JNull then jfield_rev k ys else jfield_rev k xs)"
  by (induction k xs rule: jfield_rev.induct) auto

lemma jfield_Nil [simp]: "jfield k [] = JNull"
  by (simp add: jfield_def)

lemma jfield_Cons:
  "jfield k ((k', v) # ob) = (if jfield k ob = JNull then (if k' = k then v else JNull) else jfield k ob)"
  by (auto simp: jfield_def jfield_rev_append)

lemma enc_int64_not_null [simp]: "enc_int64 x \<noteq> JNull"
  by (simp add: enc_int64_def)

lemma dec_int64_enc [simp]: "dec_int64 (enc_int64 x) = Some x"
  using sint64_range [of x] by (simp add: dec_int64_def enc_int64_def)

end
