(* ===== verification/WebTypes.thy ===== *)
theory WebTypes
  imports Json
begin

text \<open>
  The data of \<^verbatim>\<open>pkg/dsm/webapi\<close>: one record per struct, its fields in the order of
  the source and prefixed with the struct they belong to, and one decoder per struct
  that the storage system answers with, reading the keys of the struct tags. A share
  is both sent and read, so \<open>ShareInfo\<close> has an encoder as well, with a round trip.
\<close>

subsection \<open>storage.go\<close>

record VolInfo =
  vi_Name :: string
  vi_Path :: string
  vi_Status :: string
  vi_FsType :: string
  vi_Size :: string
  vi_Free :: string
  vi_Container :: string
  vi_Location :: string

definition dec_VolInfo :: "VolInfo decoder" where
  "dec_VolInfo = dec_obj (\<lambda>ob. do {
     name \<leftarrow> dec_string (jfield ''display_name'' ob);
     path \<leftarrow> dec_string (jfield ''volume_path'' ob);
     st \<leftarrow> dec_string (jfield ''status'' ob);
     fs \<leftarrow> dec_string (jfield ''fs_type'' ob);
     total \<leftarrow> dec_string (jfield ''size_total_byte'' ob);
     free \<leftarrow> dec_string (jfield ''size_free_byte'' ob);
     cont \<leftarrow> dec_string (jfield ''container'' ob);
     loc \<leftarrow> dec_string (jfield ''location'' ob);
     Some \<lparr>vi_Name = name, vi_Path = path, vi_Status = st, vi_FsType = fs, vi_Size = total,
           vi_Free = free, vi_Container = cont, vi_Location = loc\<rparr> })"

subsection \<open>iscsi.go\<close>

record LunDevAttrib =
  da_DevAttrib :: string
  da_Enable :: int

record LunInfo =
  lun_Name :: string
  lun_Uuid :: string
  lun_LunType :: int
  lun_Location :: string
  lun_Size :: uint64
  lun_Used :: uint64
  lun_Status :: string
  lun_FlashcacheStatus :: string
  lun_IsActionLocked :: bool
  lun_DevAttribs :: "LunDevAttrib list"

record MappedLun =
  ml_LunUuid :: string
  ml_MappingIndex :: int

record ConncetedSession =
  cs_Iqn :: string
  cs_Ip :: string

record NetworkPortal =
  np_ControllerId :: int
  np_InterfaceName :: string

record TargetInfo =
  tg_Name :: string
  tg_Iqn :: string
  tg_Status :: string
  tg_MaxSessions :: int
  tg_MappedLuns :: "MappedLun list"
  tg_ConnectedSessions :: "ConncetedSession list"
  tg_NetworkPortals :: "NetworkPortal list"
  tg_TargetId :: int

record LunCreateSpec =
  lc_Name :: string
  lc_Description :: string
  lc_Location :: string
  lc_Size :: int64
  lc_Type :: string
  lc_DevAttribs :: "LunDevAttrib list"

record LunUpdateSpec =
  lu_Uuid :: string
  lu_NewSize :: uint64

record LunCloneSpec =
  lcl_Name :: string
  lcl_SrcLunUuid :: string
  lcl_Location :: string

record TargetCreateSpec =
  tc_Name :: string
  tc_Iqn :: string

definition dec_LunDevAttrib :: "LunDevAttrib decoder" where
  "dec_LunDevAttrib = dec_obj (\<lambda>ob. do {
     a \<leftarrow> dec_string (jfield ''dev_attrib'' ob);
     e \<leftarrow> dec_int (jfield ''enable'' ob);
     Some \<lparr>da_DevAttrib = a, da_Enable = e\<rparr> })"

definition enc_LunDevAttrib :: "LunDevAttrib \<Rightarrow> json" where
  "enc_LunDevAttrib a = JObj [(''dev_attrib'', JStr (da_DevAttrib a)), (''enable'', JNum (da_Enable a))]"

definition dec_LunInfo :: "LunInfo decoder" where
  "dec_LunInfo = dec_obj (\<lambda>ob. do {
     name \<leftarrow> dec_string (jfield ''name'' ob);
     uuid \<leftarrow> dec_string (jfield ''uuid'' ob);
     ty \<leftarrow> dec_int (jfield ''type'' ob);
     loc \<leftarrow> dec_string (jfield ''location'' ob);
     sz \<leftarrow> dec_uint64 (jfield ''size'' ob);
     used \<leftarrow> dec_uint64 (jfield ''allocated_size'' ob);
     st \<leftarrow> dec_string (jfield ''status'' ob);
     fc \<leftarrow> dec_string (jfield ''flashcache_status'' ob);
     locked \<leftarrow> dec_bool (jfield ''is_action_locked'' ob);
     attrs \<leftarrow> dec_list dec_LunDevAttrib (jfield ''dev_attribs'' ob);
     Some \<lparr>lun_Name = name, lun_Uuid = uuid, lun_LunType = ty, lun_Location = loc,
           lun_Size = sz, lun_Used = used, lun_Status = st, lun_FlashcacheStatus = fc,
           lun_IsActionLocked = locked, lun_DevAttribs = attrs\<rparr> })"

definition dec_MappedLun :: "MappedLun decoder" where
  "dec_MappedLun = dec_obj (\<lambda>ob. do {
     u \<leftarrow> dec_string (jfield ''lun_uuid'' ob);
     i \<leftarrow> dec_int (jfield ''mapping_index'' ob);
     Some \<lparr>ml_LunUuid = u, ml_MappingIndex = i\<rparr> })"

definition dec_ConncetedSession :: "ConncetedSession decoder" where
  "dec_ConncetedSession = dec_obj (\<lambda>ob. do {
     q \<leftarrow> dec_string (jfield ''iqn'' ob);
     i \<leftarrow> dec_string (jfield ''ip'' ob);
     Some \<lparr>cs_Iqn = q, cs_Ip = i\<rparr> })"

definition dec_NetworkPortal :: "NetworkPortal decoder" where
  "dec_NetworkPortal = dec_obj (\<lambda>ob. do {
     c \<leftarrow> dec_int (jfield ''controller_id'' ob);
     i \<leftarrow> dec_string (jfield ''interface_name'' ob);
     Some \<lparr>np_ControllerId = c, np_InterfaceName = i\<rparr> })"

definition dec_TargetInfo :: "TargetInfo decoder" where
  "dec_TargetInfo = dec_obj (\<lambda>ob. do {
     name \<leftarrow> dec_string (jfield ''name'' ob);
     iqn \<leftarrow> dec_string (jfield ''iqn'' ob);
     st \<leftarrow> dec_string (jfield ''status'' ob);
     ms \<leftarrow> dec_int (jfield ''max_sessions'' ob);
     ml \<leftarrow> dec_list dec_MappedLun (jfield ''mapped_luns'' ob);
     cs \<leftarrow> dec_list dec_ConncetedSession (jfield ''connected_sessions'' ob);
     np \<leftarrow> dec_list dec_NetworkPortal (jfield ''network_portals'' ob);
     i \<leftarrow> dec_int (jfield ''target_id'' ob);
     Some \<lparr>tg_Name = name, tg_Iqn = iqn, tg_Status = st, tg_MaxSessions = ms,
           tg_MappedLuns = ml, tg_ConnectedSessions = cs, tg_NetworkPortals = np,
           tg_TargetId = i\<rparr> })"

subsection \<open>san.go\<close>

record SnapshotInfo =
  sn_Name :: string
  sn_Uuid :: string
  sn_ParentUuid :: string
  sn_Status :: string
  sn_TotalSize :: int64
  sn_CreateTime :: int64
  sn_RootPath :: string

record SnapshotCreateSpec =
  sc_Name :: string
  sc_SrcUuid :: string
  sc_Description :: string
  sc_TakenBy :: string
  sc_IsLocked :: bool

record SnapshotCloneSpec =
  scl_Name :: string
  scl_SrcUuid :: string
  scl_SrcSnapshotUuid :: string

definition dec_SnapshotInfo :: "SnapshotInfo decoder" where
  "dec_SnapshotInfo = dec_obj (\<lambda>ob. do {
     name \<leftarrow> dec_string (jfield ''name'' ob);
     uuid \<leftarrow> dec_string (jfield ''uuid'' ob);
     pu \<leftarrow> dec_string (jfield ''parent_uuid'' ob);
     st \<leftarrow> dec_string (jfield ''status'' ob);
     ts \<leftarrow> dec_int64 (jfield ''total_size'' ob);
     ct \<leftarrow> dec_int64 (jfield ''create_time'' ob);
     rp \<leftarrow> dec_string (jfield ''root_path'' ob);
     Some \<lparr>sn_Name = name, sn_Uuid = uuid, sn_ParentUuid = pu, sn_Status = st,
           sn_TotalSize = ts, sn_CreateTime = ct, sn_RootPath = rp\<rparr> })"

subsection \<open>nvmeof.go\<close>

record NamespaceInfo =
  ns_Uuid :: string
  ns_Name :: string
  ns_Location :: string
  ns_Size :: uint64
  ns_IsThinProvision :: bool
  ns_IsActionLocked :: bool
  ns_BufferedIo :: bool
  ns_SupportDiscard :: bool
  ns_SupportFua :: bool
  ns_SubsystemUuid :: string

record SubsystemInfo =
  ss_Uuid :: string
  ss_Name :: string
  ss_Nqn :: string
  ss_Status :: string
  ss_Ports :: "string list"

record SubsystemCreateSpec =
  ssc_Name :: string
  ssc_Nqn :: string

record NamespaceCreateSpec =
  nc_Name :: string
  nc_Location :: string
  nc_Description :: string
  nc_Size :: uint64
  nc_ThinProvisioning :: bool
  nc_Reclaim :: bool

record NamespaceSetSpec =
  nst_Uuid :: string
  nst_NewSize :: uint64

record NamespaceCloneSpec =
  ncl_Name :: string
  ncl_SrcUuid :: string
  ncl_Location :: string

definition dec_NamespaceInfo :: "NamespaceInfo decoder" where
  "dec_NamespaceInfo = dec_obj (\<lambda>ob. do {
     uuid \<leftarrow> dec_string (jfield ''uuid'' ob);
     name \<leftarrow> dec_string (jfield ''name'' ob);
     loc \<leftarrow> dec_string (jfield ''location'' ob);
     sz \<leftarrow> dec_uint64 (jfield ''size'' ob);
     thin \<leftarrow> dec_bool (jfield ''is_thin_provision'' ob);
     locked \<leftarrow> dec_bool (jfield ''is_action_locked'' ob);
     bio \<leftarrow> dec_bool (jfield ''buffered_io'' ob);
     disc \<leftarrow> dec_bool (jfield ''support_discard'' ob);
     fua \<leftarrow> dec_bool (jfield ''support_fua'' ob);
     su \<leftarrow> dec_string (jfield ''subsystem_uuid'' ob);
     Some \<lparr>ns_Uuid = uuid, ns_Name = name, ns_Location = loc, ns_Size = sz,
           ns_IsThinProvision = thin, ns_IsActionLocked = locked, ns_BufferedIo = bio,
           ns_SupportDiscard = disc, ns_SupportFua = fua, ns_SubsystemUuid = su\<rparr> })"

definition dec_SubsystemInfo :: "SubsystemInfo decoder" where
  "dec_SubsystemInfo = dec_obj (\<lambda>ob. do {
     uuid \<leftarrow> dec_string (jfield ''uuid'' ob);
     name \<leftarrow> dec_string (jfield ''name'' ob);
     nqn \<leftarrow> dec_string (jfield ''nqn'' ob);
     st \<leftarrow> dec_string (jfield ''status'' ob);
     ports \<leftarrow> dec_list dec_string (jfield ''ports'' ob);
     Some \<lparr>ss_Uuid = uuid, ss_Name = name, ss_Nqn = nqn, ss_Status = st, ss_Ports = ports\<rparr> })"

subsection \<open>share.go\<close>

record ShareInfo =
  sh_Name :: string
  sh_VolPath :: string
  sh_Desc :: string
  sh_EnableShareCow :: bool
  sh_EnableRecycleBin :: bool
  sh_RecycleBinAdminOnly :: bool
  sh_Encryption :: int
  sh_QuotaForCreate :: "int64 option"
  sh_QuotaValueInMB :: int64
  sh_SupportSnapshot :: bool
  sh_Uuid :: string
  sh_NameOrg :: string

record ShareUpdateInfo =
  su_Name :: string
  su_VolPath :: string
  su_QuotaForCreate :: "int64 option"

record ShareSnapshotInfo =
  ssn_Uuid :: string
  ssn_Time :: string
  ssn_Desc :: string
  ssn_SnapSize :: string
  ssn_Lock :: bool
  ssn_ScheduleSnapshot :: bool

record ShareCreateSpec =
  shc_Name :: string
  shc_ShareInfo :: ShareInfo

record ShareCloneSpec =
  shcl_Name :: string
  shcl_Snapshot :: string
  shcl_ShareInfo :: ShareInfo

record ShareSnapshotCreateSpec =
  sscs_ShareName :: string
  sscs_Desc :: string
  sscs_IsLocked :: bool

record SharePermission =
  sp_Name :: string
  sp_IsReadonly :: bool
  sp_IsWritable :: bool
  sp_IsDeny :: bool
  sp_IsCustom :: bool
  sp_IsAdmin :: bool

record SharePermissionSetSpec =
  sps_Name :: string
  sps_UserGroupType :: string
  sps_Permissions :: "SharePermission list"

record NfsInfo =
  nfs_EnableNfs :: bool
  nfs_EnableNfsV4 :: bool
  nfs_NfsV4Domain :: string
  nfs_ReadSize :: int
  nfs_SupportEncryptShare :: int
  nfs_SupportMajorVer :: int
  nfs_SupportMinorVer :: int
  nfs_UnixPriEnable :: bool
  nfs_WriteSize :: int

record SecurityFlavor =
  sf_Kerbros :: bool
  sf_KerbrosIntegrity :: bool
  sf_KerbrosPrivacy :: bool
  sf_Sys :: bool

record PrivilegeRule =
  pr_Async :: bool
  pr_Client :: string
  pr_Crossmnt :: bool
  pr_Insecure :: bool
  pr_Privilege :: string
  pr_RootSquash :: string
  pr_SecurityFlavor :: SecurityFlavor

record SharePrivilege =
  spv_ShareName :: string
  spv_Rule :: "PrivilegeRule list"

definition enc_opt_quota :: "int64 option \<Rightarrow> jobject" where
  "enc_opt_quota q = (case q of None \<Rightarrow> [] | Some v \<Rightarrow> [(''share_quota'', enc_int64 v)])"

definition enc_ShareInfo :: "ShareInfo \<Rightarrow> json" where
  "enc_ShareInfo s = JObj
     ([(''name'', JStr (sh_Name s)), (''vol_path'', JStr (sh_VolPath s)), (''desc'', JStr (sh_Desc s)),
       (''enable_share_cow'', JBool (sh_EnableShareCow s)),
       (''enable_recycle_bin'', JBool (sh_EnableRecycleBin s)),
       (''recycle_bin_admin_only'', JBool (sh_RecycleBinAdminOnly s)),
       (''encryption'', JNum (sh_Encryption s))]
      @ enc_opt_quota (sh_QuotaForCreate s) @
      [(''quota_value'', enc_int64 (sh_QuotaValueInMB s)),
       (''support_snapshot'', JBool (sh_SupportSnapshot s)),
       (''uuid'', JStr (sh_Uuid s)), (''name_org'', JStr (sh_NameOrg s))])"

definition dec_ShareInfo :: "ShareInfo decoder" where
  "dec_ShareInfo = dec_obj (\<lambda>ob. do {
     name \<leftarrow> dec_string (jfield ''name'' ob);
     path \<leftarrow> dec_string (jfield ''vol_path'' ob);
     desc \<leftarrow> dec_string (jfield ''desc'' ob);
     cow \<leftarrow> dec_bool (jfield ''enable_share_cow'' ob);
     bin \<leftarrow> dec_bool (jfield ''enable_recycle_bin'' ob);
     adm \<leftarrow> dec_bool (jfield ''recycle_bin_admin_only'' ob);
     encr \<leftarrow> dec_int (jfield ''encryption'' ob);
     qc \<leftarrow> dec_opt dec_int64 (jfield ''share_quota'' ob);
     qv \<leftarrow> dec_int64 (jfield ''quota_value'' ob);
     snap \<leftarrow> dec_bool (jfield ''support_snapshot'' ob);
     uuid \<leftarrow> dec_string (jfield ''uuid'' ob);
     org \<leftarrow> dec_string (jfield ''name_org'' ob);
     Some \<lparr>sh_Name = name, sh_VolPath = path, sh_Desc = desc, sh_EnableShareCow = cow,
           sh_EnableRecycleBin = bin, sh_RecycleBinAdminOnly = adm, sh_Encryption = encr,
           sh_QuotaForCreate = qc, sh_QuotaValueInMB = qv, sh_SupportSnapshot = snap,
           sh_Uuid = uuid, sh_NameOrg = org\<rparr> })"

definition enc_ShareUpdateInfo :: "ShareUpdateInfo \<Rightarrow> json" where
  "enc_ShareUpdateInfo u = JObj
     ([(''name'', JStr (su_Name u)), (''vol_path'', JStr (su_VolPath u))]
      @ enc_opt_quota (su_QuotaForCreate u))"

definition dec_ShareSnapshotInfo :: "ShareSnapshotInfo decoder" where
  "dec_ShareSnapshotInfo = dec_obj (\<lambda>ob. do {
     uuid \<leftarrow> dec_string (jfield ''ruuid'' ob);
     t \<leftarrow> dec_string (jfield ''time'' ob);
     desc \<leftarrow> dec_string (jfield ''desc'' ob);
     sz \<leftarrow> dec_string (jfield ''snap_size'' ob);
     l \<leftarrow> dec_bool (jfield ''lock'' ob);
     sch \<leftarrow> dec_bool (jfield ''schedule_snapshot'' ob);
     Some \<lparr>ssn_Uuid = uuid, ssn_Time = t, ssn_Desc = desc, ssn_SnapSize = sz, ssn_Lock = l,
           ssn_ScheduleSnapshot = sch\<rparr> })"

definition enc_SharePermission :: "SharePermission \<Rightarrow> json" where
  "enc_SharePermission p = JObj
     ([(''name'', JStr (sp_Name p)), (''is_readonly'', JBool (sp_IsReadonly p)),
       (''is_writable'', JBool (sp_IsWritable p)), (''is_deny'', JBool (sp_IsDeny p))]
      @ (if sp_IsCustom p then [(''is_custom'', JBool True)] else [])
      @ (if sp_IsAdmin p then [(''is_admin'', JBool True)] else []))"

definition dec_SharePermission :: "SharePermission decoder" where
  "dec_SharePermission = dec_obj (\<lambda>ob. do {
     name \<leftarrow> dec_string (jfield ''name'' ob);
     ro \<leftarrow> dec_bool (jfield ''is_readonly'' ob);
     wr \<leftarrow> dec_bool (jfield ''is_writable'' ob);
     dn \<leftarrow> dec_bool (jfield ''is_deny'' ob);
     cu \<leftarrow> dec_bool (jfield ''is_custom'' ob);
     ad \<leftarrow> dec_bool (jfield ''is_admin'' ob);
     Some \<lparr>sp_Name = name, sp_IsReadonly = ro, sp_IsWritable = wr, sp_IsDeny = dn,
           sp_IsCustom = cu, sp_IsAdmin = ad\<rparr> })"

definition dec_NfsInfo :: "NfsInfo decoder" where
  "dec_NfsInfo = dec_obj (\<lambda>ob. do {
     en \<leftarrow> dec_bool (jfield ''enable_nfs'' ob);
     en4 \<leftarrow> dec_bool (jfield ''enable_nfs_v4'' ob);
     dom4 \<leftarrow> dec_string (jfield ''nfs_v4_domain'' ob);
     rs \<leftarrow> dec_int (jfield ''read_size'' ob);
     se \<leftarrow> dec_int (jfield ''support_encrypt_share'' ob);
     maj \<leftarrow> dec_int (jfield ''support_major_ver'' ob);
     mi \<leftarrow> dec_int (jfield ''support_minor_ver'' ob);
     up \<leftarrow> dec_bool (jfield ''unix_pri_enable'' ob);
     ws \<leftarrow> dec_int (jfield ''write_size'' ob);
     Some \<lparr>nfs_EnableNfs = en, nfs_EnableNfsV4 = en4, nfs_NfsV4Domain = dom4, nfs_ReadSize = rs,
           nfs_SupportEncryptShare = se, nfs_SupportMajorVer = maj, nfs_SupportMinorVer = mi,
           nfs_UnixPriEnable = up, nfs_WriteSize = ws\<rparr> })"

definition enc_SecurityFlavor :: "SecurityFlavor \<Rightarrow> json" where
  "enc_SecurityFlavor f = JObj [(''kerberos'', JBool (sf_Kerbros f)),
     (''kerberos_integrity'', JBool (sf_KerbrosIntegrity f)),
     (''kerberos_privacy'', JBool (sf_KerbrosPrivacy f)), (''sys'', JBool (sf_Sys f))]"

definition dec_SecurityFlavor :: "SecurityFlavor decoder" where
  "dec_SecurityFlavor = dec_obj (\<lambda>ob. do {
     k \<leftarrow> dec_bool (jfield ''kerberos'' ob);
     ki \<leftarrow> dec_bool (jfield ''kerberos_integrity'' ob);
     kp \<leftarrow> dec_bool (jfield ''kerberos_privacy'' ob);
     s \<leftarrow> dec_bool (jfield ''sys'' ob);
     Some \<lparr>sf_Kerbros = k, sf_KerbrosIntegrity = ki, sf_KerbrosPrivacy = kp, sf_Sys = s\<rparr> })"

definition enc_PrivilegeRule :: "PrivilegeRule \<Rightarrow> json" where
  "enc_PrivilegeRule r = JObj [(''async'', JBool (pr_Async r)), (''client'', JStr (pr_Client r)),
     (''crossmnt'', JBool (pr_Crossmnt r)), (''insecure'', JBool (pr_Insecure r)),
     (''privilege'', JStr (pr_Privilege r)), (''root_squash'', JStr (pr_RootSquash r)),
     (''security_flavor'', enc_SecurityFlavor (pr_SecurityFlavor r))]"

definition dec_PrivilegeRule :: "PrivilegeRule decoder" where
  "dec_PrivilegeRule = dec_obj (\<lambda>ob. do {
     a \<leftarrow> dec_bool (jfield ''async'' ob);
     c \<leftarrow> dec_string (jfield ''client'' ob);
     x \<leftarrow> dec_bool (jfield ''crossmnt'' ob);
     i \<leftarrow> dec_bool (jfield ''insecure'' ob);
     p \<leftarrow> dec_string (jfield ''privilege'' ob);
     rs \<leftarrow> dec_string (jfield ''root_squash'' ob);
     f \<leftarrow> dec_SecurityFlavor (jfield ''security_flavor'' ob);
     Some \<lparr>pr_Async = a, pr_Client = c, pr_Crossmnt = x, pr_Insecure = i, pr_Privilege = p,
           pr_RootSquash = rs, pr_SecurityFlavor = f\<rparr> })"

definition dec_SharePrivilege :: "SharePrivilege decoder" where
  "dec_SharePrivilege = dec_obj (\<lambda>ob. do {
     n \<leftarrow> dec_string (jfield ''share_name'' ob);
     r \<leftarrow> dec_list dec_PrivilegeRule (jfield ''rule'' ob);
     Some \<lparr>spv_ShareName = n, spv_Rule = r\<rparr> })"

subsection \<open>systeminfo.go\<close>

record DsmSysInfo =
  si_Model :: string
  si_FirmwareVer :: string
  si_Serial :: string
  si_Hostname :: string
  si_SupportNvmeof :: string

record NetworkInterface =
  ni_Ifname :: string
  ni_Ip :: string
  ni_Mask :: string
  ni_Speed :: int
  ni_Status :: string
  ni_Type :: string
  ni_UseDhcp :: bool

definition dec_DsmSysInfo :: "DsmSysInfo decoder" where
  "dec_DsmSysInfo = dec_obj (\<lambda>ob. do {
     m \<leftarrow> dec_string (jfield ''model'' ob);
     f \<leftarrow> dec_string (jfield ''firmware_ver'' ob);
     s \<leftarrow> dec_string (jfield ''serial'' ob);
     h \<leftarrow> dec_string (jfield ''hostname'' ob);
     n \<leftarrow> dec_string (jfield ''support_nvmeof'' ob);
     Some \<lparr>si_Model = m, si_FirmwareVer = f, si_Serial = s, si_Hostname = h, si_SupportNvmeof = n\<rparr> })"

definition dec_NetworkInterface :: "NetworkInterface decoder" where
  "dec_NetworkInterface = dec_obj (\<lambda>ob. do {
     n \<leftarrow> dec_string (jfield ''ifname'' ob);
     i \<leftarrow> dec_string (jfield ''ip'' ob);
     m \<leftarrow> dec_string (jfield ''mask'' ob);
     sp \<leftarrow> dec_int (jfield ''speed'' ob);
     st \<leftarrow> dec_string (jfield ''status'' ob);
     t \<leftarrow> dec_string (jfield ''type'' ob);
     d \<leftarrow> dec_bool (jfield ''use_dhcp'' ob);
     Some \<lparr>ni_Ifname = n, ni_Ip = i, ni_Mask = m, ni_Speed = sp, ni_Status = st, ni_Type = t,
           ni_UseDhcp = d\<rparr> })"

subsection \<open>Round trips\<close>

text \<open>A share description survives being marshalled and unmarshalled, the optional
  quota pointer included.\<close>

theorem ShareInfo_roundtrip:
  assumes "- (2 ^ 63) \<le> sh_Encryption s" "sh_Encryption s < 2 ^ 63"
  shows "dec_ShareInfo (enc_ShareInfo s) = Some s"
proof (cases "sh_QuotaForCreate s")
  case None
  with assms show ?thesis
    by (simp add: dec_ShareInfo_def enc_ShareInfo_def enc_opt_quota_def dec_opt_def jfield_def)
next
  case (Some q)
  with assms show ?thesis
    by (simp add: dec_ShareInfo_def enc_ShareInfo_def enc_opt_quota_def dec_opt_def jfield_def)
qed

theorem ShareInfo_roundtrip_witness:
  "dec_ShareInfo (enc_ShareInfo \<lparr>sh_Name = ''k8s-csi-pvc-1'', sh_VolPath = ''/volume1'', sh_Desc = '''',
     sh_EnableShareCow = False, sh_EnableRecycleBin = True, sh_RecycleBinAdminOnly = True,
     sh_Encryption = 0, sh_QuotaForCreate = Some 1024, sh_QuotaValueInMB = 0,
     sh_SupportSnapshot = False, sh_Uuid = '''', sh_NameOrg = ''''\<rparr>) \<noteq> None"
  by (subst ShareInfo_roundtrip) simp_all

lemma PrivilegeRule_roundtrip: "dec_PrivilegeRule (enc_PrivilegeRule r) = Some r"
  by (simp add: dec_PrivilegeRule_def enc_PrivilegeRule_def dec_SecurityFlavor_def
      enc_SecurityFlavor_def jfield_def)

end
