(* ===== verification/Transport.thy ===== *)
theory Transport
  imports WebTypes
begin

text \<open>
  \<^verbatim>\<open>pkg/dsm/webapi/dsmwebapi.go\<close>: the HTTP client of one storage system (a DSM), its
  session, and \<^verbatim>\<open>sendRequest\<close> with its re-login. What is not this repository's code
  is the record \<open>env\<close>: the network round trip to the storage system (with the body
  parsed as JSON), the parsing of certificates and URLs, the number of retries
  \<^verbatim>\<open>cenkalti/backoff\<close> allows within its time limit, and the order in which Go
  iterates over a map. Every definition below takes it as an argument.

  The state is \<open>world\<close>: the outside world, the table \<^verbatim>\<open>DsmService.dsms\<close>, the session
  id of each host (\<^verbatim>\<open>DSM.Sid\<close>, the one field that changes after a DSM was added), and a
  log of the requests sent, which no operation reads. The log is what safety
  properties are stated on: \<open>emits D m Q\<close> says that the program \<open>m\<close> only extends it,
  by calls that satisfy \<open>Q\<close> together with the result, whatever the storage system
  answers.
\<close>

subsection \<open>State and environment\<close>

record DSM =
  Ip :: string
  Port :: int
  Username :: string
  Password :: string
  Https :: bool
  Controller :: string
  TLSCACert :: string
  TLSServerName :: string
  InsecureSkipVerify :: bool
  Hostname :: string
  SupportNvmeof :: bool
  FirmwareVer :: string

datatype pval = PStr string | PQuote string | PQuoteList "string list" | PJson json

type_synonym params = "(string \<times> pval) list"

record tls_config =
  tls_ServerName :: string
  tls_InsecureSkipVerify :: bool
  tls_RootCAs :: "(bool \<times> string) option" \<comment> \<open>system pool loaded, appended certificates\<close>

datatype http_client = PlainClient | TlsClient tls_config

record http_request =
  rq_post :: bool
  rq_https :: bool
  rq_host :: string
  rq_port :: int
  rq_path :: string
  rq_query :: params
  rq_cookie :: "string option"

text \<open>No answer, or a status code with a body that is JSON or is not.\<close>

datatype reply = NoReply | Reply int "json option"

record 'n env =
  env_pem_parses :: "string \<Rightarrow> bool"
  env_system_pool :: bool
  env_url_parses :: "bool \<Rightarrow> string \<Rightarrow> int \<Rightarrow> string \<Rightarrow> bool"
  env_http :: "http_client \<Rightarrow> http_request \<Rightarrow> 'n \<Rightarrow> reply \<times> 'n"
  env_retries :: "nat \<Rightarrow> 'n \<Rightarrow> nat"
  env_map_order :: "'n \<Rightarrow> nat list \<times> 'n"

record call =
  c_host :: string
  c_path :: string
  c_query :: params
  c_cookie :: "string option"
  c_reply :: reply

record 'n world =
  nas :: 'n
  dsms :: "(string \<times> DSM) list"
  sids :: "string \<Rightarrow> string"
  calls :: "call list"

subsection \<open>Reading calls\<close>

fun param :: "string \<Rightarrow> params \<Rightarrow> pval option" where
  "param k [] = None"
| "param k ((k', v) # ps) = (if k' = k then Some v else param k ps)"

definition c_api :: "call \<Rightarrow> pval option" where
  "c_api c = param ''api'' (c_query c)"

definition c_method :: "call \<Rightarrow> pval option" where
  "c_method c = param ''method'' (c_query c)"

definition read_methods :: "string list" where
  "read_methods = [''login'', ''get'', ''list'', ''load'', ''info'', ''list_snapshot'', ''get_snapshot'']"

text \<open>A call that can change what is stored: its method is none of the reading ones.\<close>

definition mutating :: "call \<Rightarrow> bool" where
  "mutating c \<longleftrightarrow> (\<forall>m \<in> set read_methods. c_method c \<noteq> Some (PStr m))"

subsection \<open>What a program sends\<close>

definition emits ::
  "(string \<times> DSM) list \<Rightarrow> ('n world, 'a) prog \<Rightarrow> ('a \<Rightarrow> call list \<Rightarrow> bool) \<Rightarrow> bool" where
  "emits D m Q \<longleftrightarrow> (\<forall>w. dsms w = D \<longrightarrow> dsms (after m w) = D \<and>
     (\<exists>t. calls (after m w) = calls w @ t \<and> Q (result_of m w) t))"

abbreviation only :: "(string \<times> DSM) list \<Rightarrow> (call \<Rightarrow> bool) \<Rightarrow> ('n world, 'a) prog \<Rightarrow> bool" where
  "only D R m \<equiv> emits D m (\<lambda>_ t. list_all R t)"

lemma emitsI:
  assumes "\<And>w. dsms w = D \<Longrightarrow> dsms (after m w) = D"
    and "\<And>w. dsms w = D \<Longrightarrow> \<exists>t. calls (after m w) = calls w @ t \<and> Q (result_of m w) t"
  shows "emits D m Q"
  using assms by (simp add: emits_def)

lemma emitsE:
  assumes "emits D m Q" "dsms w = D"
  obtains t where "dsms (after m w) = D" "calls (after m w) = calls w @ t" "Q (result_of m w) t"
  using assms by (auto simp: emits_def)

lemma emitsD:
  assumes "emits D m Q" "dsms w = D"
  shows "\<exists>t. calls (after m w) = calls w @ t \<and> Q (result_of m w) t"
  using assms by (simp add: emits_def)

lemma emits_runE:
  assumes "emits D m Q" "dsms w = D" "run_state m w = (r, w')"
  obtains t where "dsms w' = D" "calls w' = calls w @ t" "Q r t"
  using assms(1,2) by (rule emitsE) (use assms(3) in simp)

lemma emits_return [emits_rules]: "Q x [] \<Longrightarrow> emits D (State_Monad.return x) Q"
  by (rule emitsI) simp_all

lemma emits_bind:
  assumes m: "emits D m P" and f: "\<And>x t. P x t \<Longrightarrow> emits D (f x) (\<lambda>y t'. Q y (t @ t'))"
  shows "emits D (State_Monad.bind m f) Q"
proof (rule emitsI)
  fix w :: "'a world"
  assume "dsms w = D"
  with m obtain t where t: "dsms (after m w) = D" "calls (after m w) = calls w @ t" "P (result_of m w) t"
    by (rule emitsE)
  from f [OF t(3)] t(1) obtain t' where
    "dsms (after (f (result_of m w)) (after m w)) = D"
    "calls (after (f (result_of m w)) (after m w)) = calls (after m w) @ t'"
    "Q (result_of (f (result_of m w)) (after m w)) (t @ t')"
    by (rule emitsE)
  with t show "dsms (after (State_Monad.bind m f) w) = D"
    and "\<exists>t. calls (after (State_Monad.bind m f) w) = calls w @ t \<and> Q (result_of (State_Monad.bind m f) w) t"
    by (auto simp: case_prod_beta)
qed

lemma emits_mono:
  assumes "emits D m P" "\<And>x t. P x t \<Longrightarrow> Q x t"
  shows "emits D m Q"
  using assms unfolding emits_def by blast

lemma emits_conj:
  assumes "emits D m P" "emits D m Q"
  shows "emits D m (\<lambda>x t. P x t \<and> Q x t)"
proof (rule emitsI)
  fix w :: "'a world"
  assume w: "dsms w = D"
  with assms(1) show "dsms (after m w) = D" by (rule emitsE)
  from assms(1) w obtain t where "calls (after m w) = calls w @ t" "P (result_of m w) t"
    by (rule emitsE)
  moreover from assms(2) w obtain t' where "calls (after m w) = calls w @ t'" "Q (result_of m w) t'"
    by (rule emitsE)
  ultimately show "\<exists>t. calls (after m w) = calls w @ t \<and> P (result_of m w) t \<and> Q (result_of m w) t"
    by auto
qed

lemma only_bind [emits_rules]:
  assumes "only D R m" "\<And>x. only D R (f x)"
  shows "only D R (State_Monad.bind m f)"
  using assms(1) by (rule emits_bind) (use assms(2) in \<open>auto elim!: emits_mono\<close>)

lemma only_weaken: "only D R m \<Longrightarrow> (\<And>c. R c \<Longrightarrow> S c) \<Longrightarrow> only D S m"
  by (erule emits_mono) (auto simp: list_all_iff)

lemma emits_if [emits_rules]:
  "(b \<Longrightarrow> emits D m Q) \<Longrightarrow> (\<not> b \<Longrightarrow> emits D n Q) \<Longrightarrow> emits D (if b then m else n) Q"
  by simp

lemma emits_case_sum [emits_rules]:
  "(\<And>e. r = Inl e \<Longrightarrow> emits D (f e) Q) \<Longrightarrow> (\<And>x. r = Inr x \<Longrightarrow> emits D (g x) Q) \<Longrightarrow>
   emits D (case r of Inl e \<Rightarrow> f e | Inr x \<Rightarrow> g x) Q"
  by (cases r) simp_all

lemma emits_case_option [emits_rules]:
  "(r = None \<Longrightarrow> emits D f Q) \<Longrightarrow> (\<And>x. r = Some x \<Longrightarrow> emits D (g x) Q) \<Longrightarrow>
   emits D (case r of None \<Rightarrow> f | Some x \<Rightarrow> g x) Q"
  by (cases r) simp_all

lemma emits_case_prod [emits_rules]:
  "(\<And>x y. p = (x, y) \<Longrightarrow> emits D (f x y) Q) \<Longrightarrow> emits D (case p of (x, y) \<Rightarrow> f x y) Q"
  by (cases p) simp

lemma emits_let [emits_rules]:
  "(\<And>x. x = a \<Longrightarrow> emits D (f x) Q) \<Longrightarrow> emits D (let x = a in f x) Q"
  by (simp add: Let_def)

lemma emits_get:
  assumes "\<And>w. dsms w = D \<Longrightarrow> emits D (f w) Q"
  shows "emits D (State_Monad.bind State_Monad.get f) Q"
proof (rule emitsI)
  fix w :: "'a world"
  assume w: "dsms w = D"
  from assms [OF w] w show "dsms (after (State_Monad.bind State_Monad.get f) w) = D"
    by (simp add: emits_def)
  from assms [OF w] w show "\<exists>t. calls (after (State_Monad.bind State_Monad.get f) w) = calls w @ t \<and>
      Q (result_of (State_Monad.bind State_Monad.get f) w) t"
    by (simp add: emits_def)
qed

subsection \<open>Sending one request\<close>

text \<open>\<^verbatim>\<open>newHTTPClient\<close>.\<close>

definition newHTTPClient :: "'n env \<Rightarrow> DSM \<Rightarrow> err + http_client" where
  "newHTTPClient env dsm =
     (if \<not> Https dsm then Inr PlainClient
      else if InsecureSkipVerify dsm then
        Inr (TlsClient \<lparr>tls_ServerName = TLSServerName dsm, tls_InsecureSkipVerify = True,
                        tls_RootCAs = None\<rparr>)
      else if TLSCACert dsm \<noteq> [] then
        (if env_pem_parses env (TLSCACert dsm)
         then Inr (TlsClient \<lparr>tls_ServerName = TLSServerName dsm, tls_InsecureSkipVerify = False,
                              tls_RootCAs = Some (env_system_pool env, TLSCACert dsm)\<rparr>)
         else Inl (FmtError ''failed to parse TLS CA certificate for DSM %s''))
      else Inr (TlsClient \<lparr>tls_ServerName = TLSServerName dsm, tls_InsecureSkipVerify = False,
                           tls_RootCAs = None\<rparr>))"

text \<open>The envelope \<^verbatim>\<open>{success, error: {code}, data}\<close>; \<^verbatim>\<open>data\<close> stays raw, \<open>None\<close> when absent.\<close>

definition dec_envelope :: "(bool \<times> int \<times> json option) decoder" where
  "dec_envelope = dec_obj (\<lambda>ob. do {
     s \<leftarrow> dec_bool (jfield ''success'' ob);
     c \<leftarrow> dec_field ''code'' dec_int (jfield ''error'' ob);
     Some (s, c, map_of (rev ob) ''data'') })"

text \<open>
  What \<^verbatim>\<open>sendRequestWithoutConnectionCheck\<close> makes of the answer: the error code of the
  \<^verbatim>\<open>Response\<close> it returns, and the error or the decoded data. A template that gets no
  data keeps its zero value, which is what decoding \<^verbatim>\<open>null\<close> gives.
\<close>

fun interpret_reply :: "'a decoder \<Rightarrow> reply \<Rightarrow> int \<times> (err + 'a)" where
  "interpret_reply dec NoReply = (0, Inl (HttpError ''no response''))"
| "interpret_reply dec (Reply st body) =
     (if st \<noteq> 200 \<and> st \<noteq> 302 then (0, Inl (HttpError ''Bad response status code: %d''))
      else case body of
        None \<Rightarrow> (0, Inl (HttpError ''invalid JSON''))
      | Some j \<Rightarrow> (case dec_envelope j of
          None \<Rightarrow> (0, Inl (HttpError ''invalid envelope''))
        | Some (success, ecode, data) \<Rightarrow>
            if \<not> success then (ecode, Inl (DsmApiError ecode))
            else (case dec (case data of None \<Rightarrow> JNull | Some d \<Rightarrow> d) of
                None \<Rightarrow> (0, Inl (HttpError ''invalid data''))
              | Some a \<Rightarrow> (ecode, Inr a))))"

definition sendRequestWithoutConnectionCheck ::
  "'n env \<Rightarrow> DSM \<Rightarrow> string \<Rightarrow> 'a decoder \<Rightarrow> params \<Rightarrow> string \<Rightarrow> ('n world, int \<times> (err + 'a)) prog" where
  "sendRequestWithoutConnectionCheck env dsm data dec params cgiPath =
     (case newHTTPClient env dsm of
        Inl e \<Rightarrow> State_Monad.return (0, Inl e)
      | Inr client \<Rightarrow>
          if \<not> env_url_parses env (Https dsm) (Ip dsm) (Port dsm) cgiPath
          then State_Monad.return (0, Inl (HttpError ''invalid URL''))
          else do {
            w \<leftarrow> State_Monad.get;
            let sid = sids w (Ip dsm);
            let req = \<lparr>rq_post = (data \<noteq> []), rq_https = Https dsm, rq_host = Ip dsm,
                       rq_port = Port dsm, rq_path = cgiPath, rq_query = params,
                       rq_cookie = (if sid \<noteq> [] then Some sid else None)\<rparr>;
            let ans = env_http env client req (nas w);
            let out = interpret_reply dec (fst ans);
            _ \<leftarrow> State_Monad.set (w\<lparr>nas := snd ans, calls := calls w @
                   [\<lparr>c_host = Ip dsm, c_path = cgiPath, c_query = params, c_cookie = rq_cookie req,
                     c_reply = fst ans\<rparr>]\<rparr>);
            State_Monad.return out
          })"

definition set_sid :: "DSM \<Rightarrow> string \<Rightarrow> ('n world, unit) prog" where
  "set_sid dsm sid = do {
     w \<leftarrow> State_Monad.get;
     State_Monad.set (w\<lparr>sids := (sids w)(Ip dsm := sid)\<rparr>) }"

definition login_params :: "DSM \<Rightarrow> params" where
  "login_params dsm =
     [(''api'', PStr ''SYNO.API.Auth''), (''method'', PStr ''login''), (''version'', PStr ''3''),
      (''account'', PStr (Username dsm)), (''passwd'', PStr (Password dsm)), (''format'', PStr ''sid'')]"

definition Login :: "'n env \<Rightarrow> DSM \<Rightarrow> ('n world, err option) prog" where
  "Login env dsm = do {
     r \<leftarrow> sendRequestWithoutConnectionCheck env dsm [] (dec_field ''sid'' dec_string)
            (login_params dsm) ''webapi/auth.cgi'';
     case snd r of
       Inl e \<Rightarrow> State_Monad.return (Some (FmtError ''%s''))
     | Inr sid \<Rightarrow> do { _ \<leftarrow> set_sid dsm sid; State_Monad.return None } }"

definition Logout :: "'n env \<Rightarrow> DSM \<Rightarrow> ('n world, err option) prog" where
  "Logout env dsm = do {
     r \<leftarrow> sendRequestWithoutConnectionCheck env dsm [] dec_unit
            [(''api'', PStr ''SYNO.API.Auth''), (''method'', PStr ''logout''), (''version'', PStr ''1'')]
            ''webapi/entry.cgi'';
     case snd r of
       Inl e \<Rightarrow> State_Monad.return (Some e)
     | Inr _ \<Rightarrow> do { _ \<leftarrow> set_sid dsm []; State_Monad.return None } }"

definition needs_login :: "int \<times> (err + 'a) \<Rightarrow> bool" where
  "needs_login r \<longleftrightarrow> isl (snd r) \<and> (fst r = 105 \<or> fst r = 106 \<or> fst r = 119)"

definition sendRequest ::
  "'n env \<Rightarrow> DSM \<Rightarrow> string \<Rightarrow> 'a decoder \<Rightarrow> params \<Rightarrow> string \<Rightarrow> ('n world, int \<times> (err + 'a)) prog" where
  "sendRequest env dsm data dec params cgiPath = do {
     r \<leftarrow> sendRequestWithoutConnectionCheck env dsm data dec params cgiPath;
     if needs_login r then do {
       l \<leftarrow> Login env dsm;
       case l of
         Some e \<Rightarrow> State_Monad.return (0, Inl (FmtError ''Failed to re-login to DSM: [%s]. err: %v''))
       | None \<Rightarrow> sendRequestWithoutConnectionCheck env dsm data dec params cgiPath
     } else State_Monad.return r }"

abbreviation entry_cgi :: string where
  "entry_cgi \<equiv> ''webapi/entry.cgi''"

subsection \<open>What sending emits\<close>

definition is_login :: "call \<Rightarrow> bool" where
  "is_login c \<longleftrightarrow> c_method c = Some (PStr ''login'')"

text \<open>A call that carries a request: its parameters, whether or not it was answered.\<close>

definition carries :: "DSM \<Rightarrow> params \<Rightarrow> call \<Rightarrow> bool" where
  "carries dsm ps c \<longleftrightarrow> c_host c = Ip dsm \<and> c_query c = ps"

text \<open>
  The value of an answer: success, with data of the expected shape. The storage system
  sends an error code only when it reports a failure; some operations look at the code
  of a success as well, so a value is called clean when there is none.
\<close>

definition reply_value :: "bool \<Rightarrow> 'a decoder \<Rightarrow> reply \<Rightarrow> 'a option" where
  "reply_value clean dec rp = (case interpret_reply dec rp of
     (c, Inr x) \<Rightarrow> if clean \<and> c \<noteq> 0 then None else Some x | (c, Inl e) \<Rightarrow> None)"

text \<open>The requests of \<open>sendRequest\<close> leave the driver: a client and a URL can be built.\<close>

definition reach :: "'n env \<Rightarrow> DSM \<Rightarrow> bool" where
  "reach env dsm \<longleftrightarrow> is_ok (newHTTPClient env dsm) \<and>
     env_url_parses env (Https dsm) (Ip dsm) (Port dsm) entry_cgi"

text \<open>
  The contract of one request, re-login and retries included: only the request and
  logins are sent, the request at least once if it can be; an answer with a clean value
  gives the result; a result comes from an answer.
\<close>

definition sent :: "'n env \<Rightarrow> DSM \<Rightarrow> params \<Rightarrow> 'a decoder \<Rightarrow> (err + 'a) \<Rightarrow> call list \<Rightarrow> bool" where
  "sent env dsm ps dec r t \<longleftrightarrow>
     (if reach env dsm then list_ex (carries dsm ps) t else t = []) \<and>
     list_all (\<lambda>c. carries dsm ps c \<or> (c_host c = Ip dsm \<and> is_login c)) t \<and>
     list_all (\<lambda>c. carries dsm ps c \<longrightarrow>
       (case reply_value True dec (c_reply c) of None \<Rightarrow> True | Some x \<Rightarrow> r = Inr x)) t \<and>
     (case r of Inl e \<Rightarrow> True
      | Inr x \<Rightarrow> list_ex (\<lambda>c. carries dsm ps c \<and> reply_value False dec (c_reply c) = Some x) t)"

lemma sends_emits:
  "emits D (sendRequestWithoutConnectionCheck env dsm data dec ps path)
     (\<lambda>r t. t = [] \<and> isl (snd r) \<and> fst r = 0 \<or>
        (\<exists>ck rp. r = interpret_reply dec rp \<and>
           t = [\<lparr>c_host = Ip dsm, c_path = path, c_query = ps, c_cookie = ck, c_reply = rp\<rparr>]))"
  unfolding sendRequestWithoutConnectionCheck_def
  by (intro emits_rules; (auto simp: emits_def Let_def; fail)?)

lemma set_sid_emits: "emits D (set_sid dsm sid) (\<lambda>_ t. t = [])"
  by (simp add: set_sid_def emits_def)

definition login_trace :: "DSM \<Rightarrow> call list \<Rightarrow> bool" where
  "login_trace dsm t \<longleftrightarrow> list_all (\<lambda>c. c_host c = Ip dsm \<and> c_query c = login_params dsm) t"

lemma Login_emits: "emits D (Login env dsm) (\<lambda>r t. login_trace dsm t)"
  unfolding Login_def
  by (rule emits_bind [OF sends_emits], rule emits_case_sum)
    (auto intro!: emits_return emits_bind [OF set_sid_emits] simp: login_trace_def)

definition not_login :: "params \<Rightarrow> bool" where
  "not_login ps \<longleftrightarrow> param ''method'' ps \<noteq> Some (PStr ''login'')"

lemma is_login_login_params [simp]: "c_query c = login_params dsm \<Longrightarrow> is_login c"
  by (simp add: is_login_def c_method_def login_params_def)

lemma not_login_carries: "not_login ps \<Longrightarrow> carries dsm ps c \<Longrightarrow> \<not> is_login c"
  by (simp add: not_login_def carries_def is_login_def c_method_def)

lemma sent_silent: "sent env dsm ps dec r [] \<longleftrightarrow> \<not> reach env dsm \<and> isl r"
  by (auto simp: sent_def split: sum.splits)

lemma sent_one:
  "reach env dsm \<Longrightarrow> sent env dsm ps dec (snd (interpret_reply dec rp))
     [\<lparr>c_host = Ip dsm, c_path = p, c_query = ps, c_cookie = ck, c_reply = rp\<rparr>]"
  by (auto simp: sent_def carries_def reply_value_def split: prod.splits sum.splits if_splits)

lemma sent_login_append:
  assumes "not_login ps" "login_trace dsm t" "sent env dsm ps dec r t'" "t \<noteq> [] \<Longrightarrow> reach env dsm"
  shows "sent env dsm ps dec r (t @ t')"
  using assms unfolding sent_def login_trace_def list_all_append list_ex_append
  by (auto simp: list_all_iff dest: not_login_carries split: sum.splits if_splits)

text \<open>A failed attempt before another one leaves the contract of the second.\<close>

lemma sent_again:
  assumes "sent env dsm ps dec (Inl e) t" "sent env dsm ps dec r t'"
  shows "sent env dsm ps dec r (t @ t')"
  using assms unfolding sent_def
  by (auto simp: list_all_iff split: option.splits sum.splits if_splits)

text \<open>Attempts the driver gives up after a request and a login that failed.\<close>

lemma sent_give_up:
  assumes "sent env dsm ps dec (Inl e) t" "not_login ps" "login_trace dsm t'" "reach env dsm"
  shows "sent env dsm ps dec (Inl e') (t @ t')"
  using assms unfolding sent_def login_trace_def list_all_append list_ex_append
  by (auto simp: list_all_iff dest: not_login_carries split: option.splits)

lemma sent_result:
  assumes "sent env dsm ps dec r t"
    and "\<And>x. r = Inr x \<Longrightarrow> r' = Inr x" "is_ok r' \<Longrightarrow> is_ok r"
  shows "sent env dsm ps dec r' t"
  using assms by (cases r; cases r') (auto simp: sent_def list_all_iff split: option.splits)

lemma once_emits:
  "emits D (sendRequestWithoutConnectionCheck env dsm data dec ps entry_cgi)
     (\<lambda>r t. sent env dsm ps dec (snd r) t \<and> (needs_login r \<longrightarrow> reach env dsm))"
proof (cases "reach env dsm")
  case False
  then show ?thesis
    unfolding sendRequestWithoutConnectionCheck_def reach_def
    by (auto intro!: emits_return split: sum.splits simp: sent_silent reach_def needs_login_def)
next
  case True
  then obtain cl where cl: "newHTTPClient env dsm = Inr cl"
      "env_url_parses env (Https dsm) (Ip dsm) (Port dsm) entry_cgi"
    by (cases "newHTTPClient env dsm") (auto simp: reach_def)
  show ?thesis
    unfolding sendRequestWithoutConnectionCheck_def cl
    using cl(2) sent_one [OF True] True by (auto simp: emits_def Let_def)
qed

theorem sendRequest_emits:
  assumes ps: "not_login ps"
  shows "emits D (sendRequest env dsm data dec ps entry_cgi) (\<lambda>r t. sent env dsm ps dec (snd r) t)"
  unfolding sendRequest_def
proof (rule emits_bind [OF once_emits], rule emits_if)
  fix r :: "int \<times> (err + 'b)" and t
  assume *: "sent env dsm ps dec (snd r) t \<and> (needs_login r \<longrightarrow> reach env dsm)"
  then show "emits D (State_Monad.return r) (\<lambda>y t'. sent env dsm ps dec (snd y) (t @ t'))"
    by (intro emits_return) simp
  assume "needs_login r"
  with * obtain e where e: "sent env dsm ps dec (Inl e) t" and reach: "reach env dsm"
    by (cases "snd r") (auto simp: needs_login_def)
  show "emits D (do { l \<leftarrow> Login env dsm;
       case l of None \<Rightarrow> sendRequestWithoutConnectionCheck env dsm data dec ps entry_cgi
       | Some e \<Rightarrow> State_Monad.return (0, Inl (FmtError ''Failed to re-login to DSM: [%s]. err: %v'')) })
     (\<lambda>y t'. sent env dsm ps dec (snd y) (t @ t'))"
  proof (rule emits_bind [OF Login_emits], intro emits_case_option)
    fix l :: "err option" and t1 x
    assume t1: "login_trace dsm t1"
    show "emits D (State_Monad.return (0, Inl (FmtError ''Failed to re-login to DSM: [%s]. err: %v'')))
       (\<lambda>y t'. sent env dsm ps dec (snd y) (t @ t1 @ t'))"
      using sent_give_up [OF e ps t1 reach] by (intro emits_return) simp
    show "emits D (sendRequestWithoutConnectionCheck env dsm data dec ps entry_cgi)
       (\<lambda>y t'. sent env dsm ps dec (snd y) (t @ t1 @ t'))"
      by (rule emits_mono [OF once_emits], intro sent_again [OF e] sent_login_append [OF ps t1])
        (use reach in auto)
  qed
qed

text \<open>An answer with a clean value leaves the error code zero.\<close>

definition clean_code :: "DSM \<Rightarrow> params \<Rightarrow> 'a decoder \<Rightarrow> int \<times> (err + 'a) \<Rightarrow> call list \<Rightarrow> bool" where
  "clean_code dsm ps dec r t \<longleftrightarrow>
     list_all (\<lambda>c. carries dsm ps c \<and> reply_value True dec (c_reply c) \<noteq> None \<longrightarrow> fst r = 0) t"

lemma reply_value_code: "reply_value True dec rp = Some x \<Longrightarrow> fst (interpret_reply dec rp) = 0"
  by (auto simp: reply_value_def split: prod.splits sum.splits if_splits)

lemma once_code:
  "emits D (sendRequestWithoutConnectionCheck env dsm data dec ps path) (clean_code dsm ps dec)"
  by (rule emits_mono [OF sends_emits])
    (auto simp: clean_code_def simp del: split_paired_Ex dest!: reply_value_code)

lemma sendRequest_code:
  assumes ps: "not_login ps"
  shows "emits D (sendRequest env dsm data dec ps path) (clean_code dsm ps dec)"
  unfolding sendRequest_def
proof (rule emits_bind [OF once_code], rule emits_if)
  fix r :: "int \<times> (err + 'b)" and t
  assume *: "clean_code dsm ps dec r t"
  then show "emits D (State_Monad.return r) (\<lambda>y t'. clean_code dsm ps dec y (t @ t'))"
    by (intro emits_return) simp
  assume "needs_login r"
  with * have t: "clean_code dsm ps dec r' t" for r' :: "int \<times> (err + 'b)"
    by (auto simp: clean_code_def needs_login_def list_all_iff)
  show "emits D (do { l \<leftarrow> Login env dsm;
       case l of None \<Rightarrow> sendRequestWithoutConnectionCheck env dsm data dec ps path
       | Some e \<Rightarrow> State_Monad.return (0, Inl (FmtError ''Failed to re-login to DSM: [%s]. err: %v'')) })
     (\<lambda>y t'. clean_code dsm ps dec y (t @ t'))"
  proof (rule emits_bind [OF Login_emits], intro emits_case_option)
    fix l :: "err option" and t1 x
    assume "login_trace dsm t1"
    then have t1: "clean_code dsm ps dec r' t1" for r' :: "int \<times> (err + 'b)"
      using not_login_carries [OF ps]
      by (fastforce simp: clean_code_def login_trace_def list_all_iff)
    show "emits D (State_Monad.return (0, Inl (FmtError ''Failed to re-login to DSM: [%s]. err: %v'')))
       (\<lambda>y t'. clean_code dsm ps dec y (t @ t1 @ t'))"
      using t t1 by (intro emits_return) (simp only: clean_code_def list_all_append append.right_neutral)
    show "emits D (sendRequestWithoutConnectionCheck env dsm data dec ps path)
       (\<lambda>y t'. clean_code dsm ps dec y (t @ t1 @ t'))"
      using t t1 by (intro emits_mono [OF once_code]) (simp only: clean_code_def list_all_append)
  qed
qed

lemma sent_failed:
  assumes "sent env dsm ps dec r t" "clean_code dsm ps dec (c, r) t" "c \<noteq> 0"
  shows "sent env dsm ps dec (Inl e) t"
  using assms by (auto simp: sent_def clean_code_def list_all_iff)

subsection \<open>TLS\<close>

text \<open>A storage system configured for https is only ever talked to over TLS; the
  certificate check is switched off exactly when the operator asked for it; a configured
  CA that does not parse is an error and not a silent fall back to the system's roots.\<close>

theorem newHTTPClient_tls:
  assumes "Https dsm"
  shows "(\<exists>cfg. newHTTPClient env dsm = Inr (TlsClient cfg) \<and>
            tls_ServerName cfg = TLSServerName dsm \<and>
            tls_InsecureSkipVerify cfg = InsecureSkipVerify dsm \<and>
            (\<not> InsecureSkipVerify dsm \<longrightarrow>
              tls_RootCAs cfg = (if TLSCACert dsm = [] then None
                                 else Some (env_system_pool env, TLSCACert dsm))))
       \<or> (isl (newHTTPClient env dsm) \<and> \<not> InsecureSkipVerify dsm \<and>
            TLSCACert dsm \<noteq> [] \<and> \<not> env_pem_parses env (TLSCACert dsm))"
  using assms by (simp add: newHTTPClient_def)

text \<open>A closed environment and a storage system, for the witnesses of this theory.\<close>

definition silent_env :: "nat env" where
  "silent_env = \<lparr>env_pem_parses = (\<lambda>_. False), env_system_pool = True,
      env_url_parses = (\<lambda>_ _ _ _. True), env_http = (\<lambda>_ _ n. (NoReply, n)),
      env_retries = (\<lambda>_ _. 0), env_map_order = (\<lambda>n. ([], n))\<rparr>"

definition https_dsm :: DSM where
  "https_dsm = \<lparr>Ip = ''10.0.0.1'', Port = 5001, Username = ''csi'', Password = ''pw'', Https = True,
     Controller = '''', TLSCACert = ''-'', TLSServerName = '''', InsecureSkipVerify = False,
     Hostname = ''nas'', SupportNvmeof = True, FirmwareVer = ''7.2''\<rparr>"

theorem newHTTPClient_tls_witness: "isl (newHTTPClient silent_env https_dsm)"
  using newHTTPClient_tls [of https_dsm silent_env]
  by (simp add: newHTTPClient_def https_dsm_def silent_env_def)

subsection \<open>The re-login\<close>

abbreviation cookie_of :: "string \<Rightarrow> string option" where
  "cookie_of sid \<equiv> (if sid \<noteq> [] then Some sid else None)"

lemma send_cases:
  assumes "run_state (sendRequestWithoutConnectionCheck env dsm data dec ps path) w = (r, w1)"
  obtains (silent) "w1 = w" "isl (snd r)" "fst r = 0"
  | (sends) c where "sids w1 = sids w" "calls w1 = calls w @ [c]" "c_query c = ps"
      "c_cookie c = cookie_of (sids w (Ip dsm))" "interpret_reply dec (c_reply c) = r"
proof (cases "newHTTPClient env dsm")
  case (Inl e)
  with assms silent show ?thesis by (auto simp: sendRequestWithoutConnectionCheck_def)
next
  case (Inr cl)
  show ?thesis
  proof (cases "env_url_parses env (Https dsm) (Ip dsm) (Port dsm) path")
    case False
    with Inr assms silent show ?thesis by (auto simp: sendRequestWithoutConnectionCheck_def)
  next
    case True
    show ?thesis
      using assms Inr True
      by (intro sends [of "last (calls w1)"])
        (auto simp: sendRequestWithoutConnectionCheck_def Let_def)
  qed
qed

lemma Login_cases:
  assumes "run_state (Login env dsm) w = (l, w1)"
  obtains (silent) "w1 = w" "l \<noteq> None"
  | (refused) c where "l \<noteq> None" "calls w1 = calls w @ [c]" "c_query c = login_params dsm"
  | (accepted) c s where "l = None" "calls w1 = calls w @ [c]" "c_query c = login_params dsm"
      "snd (interpret_reply (dec_field ''sid'' dec_string) (c_reply c)) = Inr s"
      "sids w1 (Ip dsm) = s"
proof -
  obtain r w2 where r: "run_state (sendRequestWithoutConnectionCheck env dsm []
      (dec_field ''sid'' dec_string) (login_params dsm) ''webapi/auth.cgi'') w = (r, w2)"
    by (cases "run_state (sendRequestWithoutConnectionCheck env dsm []
      (dec_field ''sid'' dec_string) (login_params dsm) ''webapi/auth.cgi'') w") simp
  from r show ?thesis
  proof (cases rule: send_cases)
    case silent
    with assms r that(1) show ?thesis
      by (auto simp: Login_def set_sid_def split: sum.splits)
  next
    case (sends c)
    with assms r that(2,3) show ?thesis
      by (auto simp: Login_def set_sid_def split: sum.splits)
  qed
qed

text \<open>C33: \<^verbatim>\<open>sendRequest\<close> sends the request at most twice. It sends it again only
  after a login that the storage system accepted, that login only after the first answer
  refused the session (codes 105, 106 and 119), the second request carries the session id
  of that login, and its answer is the result.\<close>

theorem sendRequest_relogin:
  assumes "run_state (sendRequest env dsm data dec ps path) w = (r, w')"
  shows "\<exists>t. calls w' = calls w @ t \<and>
    (t = [] \<and> isl (snd r) \<or>
     (\<exists>a. t = [a] \<and> c_query a = ps \<and> c_cookie a = cookie_of (sids w (Ip dsm))) \<or>
     (\<exists>a l. t = [a, l] \<and> c_query a = ps \<and> c_query l = login_params dsm \<and> isl (snd r) \<and>
        fst (interpret_reply dec (c_reply a)) \<in> {105, 106, 119}) \<or>
     (\<exists>a l b s. t = [a, l, b] \<and> c_query a = ps \<and>
        fst (interpret_reply dec (c_reply a)) \<in> {105, 106, 119} \<and>
        c_query l = login_params dsm \<and>
        snd (interpret_reply (dec_field ''sid'' dec_string) (c_reply l)) = Inr s \<and>
        c_query b = ps \<and> c_cookie b = cookie_of s \<and> interpret_reply dec (c_reply b) = r))"
proof -
  let ?once = "sendRequestWithoutConnectionCheck env dsm data dec ps path"
  obtain r1 w1 where first: "run_state ?once w = (r1, w1)" by fastforce
  show ?thesis
  proof (cases "needs_login r1")
    case False
    with assms first have "r = r1" "w' = w1" by (simp_all add: sendRequest_def)
    with first show ?thesis by (auto elim!: send_cases)
  next
    case True
    obtain l w2 where login: "run_state (Login env dsm) w1 = (l, w2)" by fastforce
    from first True obtain a where a: "calls w1 = calls w @ [a]" "c_query a = ps"
        "fst (interpret_reply dec (c_reply a)) \<in> {105, 106, 119}"
        "c_cookie a = cookie_of (sids w (Ip dsm))"
      by (auto elim!: send_cases simp: needs_login_def)
    show ?thesis
    proof (cases l)
      case (Some e)
      with assms first True login have "w' = w2" "isl (snd r)" by (auto simp: sendRequest_def)
      with login a Some show ?thesis by (auto elim!: Login_cases)
    next
      case None
      with assms first True login have again: "run_state ?once w2 = (r, w')"
        by (simp add: sendRequest_def)
      from login None obtain c s where c: "calls w2 = calls w1 @ [c]" "c_query c = login_params dsm"
          "snd (interpret_reply (dec_field ''sid'' dec_string) (c_reply c)) = Inr s"
          "sids w2 (Ip dsm) = s"
        by (auto elim!: Login_cases)
      from again show ?thesis
      proof (cases rule: send_cases)
        case silent
        with a c show ?thesis by auto
      next
        case (sends b)
        with a c show ?thesis by (intro exI [of _ "[a, c, b]"]) auto
      qed
    qed
  qed
qed

text \<open>A storage system that accepts the session \<^verbatim>\<open>S2\<close> only, and hands it out at login.\<close>

definition api_ok :: "json \<Rightarrow> reply" where
  "api_ok d = Reply 200 (Some (JObj [(''success'', JBool True), (''data'', d)]))"

definition api_error :: "int \<Rightarrow> reply" where
  "api_error c = Reply 200 (Some (JObj [(''success'', JBool False), (''error'', JObj [(''code'', JNum c)])]))"

definition session_env :: "nat env" where
  "session_env = silent_env\<lparr>env_http := (\<lambda>_ req n.
     (if rq_path req = ''webapi/auth.cgi'' then api_ok (JObj [(''sid'', JStr ''S2'')])
      else if rq_cookie req = Some ''S2'' then api_ok JNull else api_error 119, n + 1))\<rparr>"

definition http_dsm :: DSM where
  "http_dsm = https_dsm\<lparr>Https := False, Port := 5000\<rparr>"

definition world0 :: "nat world" where
  "world0 = \<lparr>nas = 0, dsms = [(''10.0.0.1'', http_dsm)], sids = (\<lambda>_. []), calls = []\<rparr>"

lemmas sample_defs = silent_env_def https_dsm_def http_dsm_def world0_def

lemmas send_defs = sendRequest_def sendRequestWithoutConnectionCheck_def newHTTPClient_def
  Login_def set_sid_def needs_login_def dec_envelope_def dec_field_def dec_unit_def
  api_ok_def api_error_def jfield_def

theorem sendRequest_relogin_witness:
  "\<exists>r w'. run_state (sendRequest session_env http_dsm [] dec_unit [(''method'', PStr ''get'')] entry_cgi) world0 = (r, w') \<and>
     map c_cookie (calls w') = [None, None, Some ''S2''] \<and> snd r = Inr ()"
proof -
  let ?m = "sendRequest session_env http_dsm [] dec_unit [(''method'', PStr ''get'')] entry_cgi"
  obtain r w' where run: "run_state ?m world0 = (r, w')" by fastforce
  with sendRequest_relogin [OF run]
  have "map c_cookie (calls w') = [None, None, Some ''S2''] \<and> snd r = Inr ()"
    by (auto simp: send_defs session_env_def sample_defs Let_def)
  with run show ?thesis by (intro exI [of _ r] exI [of _ w']) simp
qed

text \<open>A storage system that gives a fixed sequence of answers, for the witnesses of the
  later theories.\<close>

definition script_env :: "(nat \<Rightarrow> reply) \<Rightarrow> nat env" where
  "script_env script = silent_env\<lparr>env_http := (\<lambda>_ _ n. (script n, n + 1)), env_retries := (\<lambda>_ _. 2)\<rparr>"

lemma interpret_api_ok [simp]:
  "interpret_reply dec (api_ok d) = (0, case dec d of None \<Rightarrow> Inl (HttpError ''invalid data'') | Some a \<Rightarrow> Inr a)"
  by (auto simp: api_ok_def dec_envelope_def dec_field_def jfield_def split: option.splits)

lemma interpret_api_error [simp]:
  assumes "- (2 ^ 63) \<le> c" "c < 2 ^ 63"
  shows "interpret_reply dec (api_error c) = (c, Inl (DsmApiError c))"
  using assms by (simp add: api_error_def dec_envelope_def dec_field_def jfield_def)

lemma needs_login_simps [simp]:
  "\<not> needs_login (c, Inr x)" "needs_login (c, Inl e) \<longleftrightarrow> c = 105 \<or> c = 106 \<or> c = 119"
  by (simp_all add: needs_login_def)

lemma env_retries_script [simp]: "env_retries (script_env sc) ms n = 2"
  by (simp add: script_env_def)

lemma env_map_order_script [simp]: "env_map_order (script_env sc) n = ([], n)"
  by (simp add: script_env_def silent_env_def)

lemma run_sendRequest_script:
  assumes "\<not> needs_login (interpret_reply dec (sc (nas w)))" "\<not> Https dsm"
  shows "run_state (sendRequest (script_env sc) dsm [] dec ps path) w =
     (interpret_reply dec (sc (nas w)), w\<lparr>nas := nas w + 1, calls := calls w @
        [\<lparr>c_host = Ip dsm, c_path = path, c_query = ps, c_cookie = cookie_of (sids w (Ip dsm)),
          c_reply = sc (nas w)\<rparr>]\<rparr>)"
  using assms
  by (simp add: sendRequest_def sendRequestWithoutConnectionCheck_def newHTTPClient_def
      script_env_def silent_env_def Let_def)

lemma http_dsm_simps [simp]:
  "\<not> Https http_dsm" "Ip http_dsm = ''10.0.0.1''" "SupportNvmeof http_dsm" "Hostname http_dsm = ''nas''"
  "FirmwareVer http_dsm = ''7.2''"
  by (simp_all add: http_dsm_def https_dsm_def)

lemma world0_simps [simp]:
  "nas world0 = 0" "dsms world0 = [(''10.0.0.1'', http_dsm)]" "sids world0 = (\<lambda>_. [])" "calls world0 = []"
  by (simp_all add: world0_def)

end
