(* ===== verification/Retry.thy ===== *)
theory Retry
  imports Transport
begin

text \<open>
  What the web API operations share: \<^verbatim>\<open>backoff.Retry\<close> of \<^verbatim>\<open>cenkalti/backoff\<close> (a loop that
  runs an operation again after an error that is not permanent, until its time is up),
  the mapping of the storage system's error codes to the driver's errors, and the
  interface \<open>sender\<close>: an operation that issues one API request and keeps the contract
  \<open>sent\<close>. The number of retries that fit in the time limit depends on the clock, so it
  is the component \<open>env_retries\<close> of the environment; it is finite, since the limit is.
\<close>

subsection \<open>backoff.Retry\<close>

text \<open>An attempt leaves its captured variables \<open>'r\<close> and an error that is permanent
  (\<open>True\<close>) or worth another attempt.\<close>

type_synonym ('w, 'r) attempt = "('w, 'r \<times> (bool \<times> err) option) prog"

fun retry_n :: "nat \<Rightarrow> ('w, 'r) attempt \<Rightarrow> ('w, 'r \<times> err option) prog" where
  "retry_n 0 op = do { a \<leftarrow> op; State_Monad.return (fst a, map_option snd (snd a)) }"
| "retry_n (Suc n) op = do {
     a \<leftarrow> op;
     case snd a of
       None \<Rightarrow> State_Monad.return (fst a, None)
     | Some (permanent, e) \<Rightarrow>
         if permanent then State_Monad.return (fst a, Some e) else retry_n n op }"

definition backoff_retry ::
  "'n env \<Rightarrow> nat \<Rightarrow> ('n world, 'r) attempt \<Rightarrow> ('n world, 'r \<times> err option) prog" where
  "backoff_retry env ms op = do {
     w \<leftarrow> State_Monad.get;
     retry_n (env_retries env ms (nas w)) op }"

lemma retry_n_emits:
  assumes op: "emits D op P"
    and last: "\<And>a t. P a t \<Longrightarrow> Q (fst a, map_option snd (snd a)) t"
    and again: "\<And>r e t x t'. P (r, Some (False, e)) t \<Longrightarrow> Q x t' \<Longrightarrow> Q x (t @ t')"
  shows "emits D (retry_n n op) Q"
proof (induction n)
  case 0
  show ?case
    by (simp del: split_paired_All, rule emits_bind [OF op], rule emits_return) (simp add: last)
next
  case (Suc n)
  show ?case
  proof (simp del: split_paired_All, rule emits_bind [OF op])
    fix a t
    assume P: "P a t"
    show "emits D (case snd a of None \<Rightarrow> State_Monad.return (fst a, None)
       | Some (permanent, e) \<Rightarrow>
           if permanent then State_Monad.return (fst a, Some e) else retry_n n op)
       (\<lambda>y t'. Q y (t @ t'))"
    proof (cases "snd a")
      case None
      with P last [OF P] show ?thesis by (auto intro: emits_return)
    next
      case (Some pe)
      obtain p e where pe: "pe = (p, e)" by (cases pe)
      show ?thesis
      proof (cases p)
        case True
        with P last [OF P] Some pe show ?thesis by (auto intro: emits_return)
      next
        case False
        with P Some pe have "P (fst a, Some (False, e)) t" by (cases a) simp
        then have "emits D (retry_n n op) (\<lambda>y t'. Q y (t @ t'))"
          by (intro emits_mono [OF Suc.IH]) (rule again)
        with Some pe False show ?thesis by simp
      qed
    qed
  qed
qed

lemma backoff_emits:
  assumes "emits D op P"
    and "\<And>a t. P a t \<Longrightarrow> Q (fst a, map_option snd (snd a)) t"
    and "\<And>r e t x t'. P (r, Some (False, e)) t \<Longrightarrow> Q x t' \<Longrightarrow> Q x (t @ t')"
  shows "emits D (backoff_retry env ms op) Q"
  unfolding backoff_retry_def
proof (rule emits_get)
  fix w :: "'a world"
  show "emits D (retry_n (env_retries env ms (nas w)) op) Q"
    using assms(1) by (rule retry_n_emits) (fact assms(2), fact assms(3))
qed

lemma only_backoff [emits_rules]: "only D R op \<Longrightarrow> only D R (backoff_retry env ms op)"
  by (rule backoff_emits) auto

text \<open>The loop ends without an error only on an attempt that ended without one, and gives
  up early only on a permanent error.\<close>

lemma retry_n_last:
  assumes "run_state (retry_n n op) w = ((r, eo), w')"
  shows "\<exists>u o'. run_state op u = ((r, o'), w') \<and> map_option snd o' = eo"
  using assms
proof (induction n arbitrary: w)
  case 0
  obtain r' o' w1 where "run_state op w = ((r', o'), w1)" by (metis surj_pair)
  with 0 show ?case by (intro exI [of _ w] exI [of _ o']) simp
next
  case (Suc n)
  obtain a w1 where a: "run_state op w = (a, w1)" by fastforce
  show ?case
  proof (cases "snd a")
    case None
    with Suc.prems a have "run_state op w = ((r, None), w') \<and> eo = None"
      by (cases a) auto
    then show ?thesis by (intro exI [of _ w] exI [of _ None]) simp
  next
    case (Some pe)
    show ?thesis
    proof (cases "fst pe")
      case True
      with Suc.prems a Some have "run_state op w = ((r, Some pe), w') \<and> eo = Some (snd pe)"
        by (cases a; cases pe) auto
      then show ?thesis by (intro exI [of _ w] exI [of _ "Some pe"]) simp
    next
      case False
      with Suc.prems a Some have "run_state (retry_n n op) w1 = ((r, eo), w')"
        by (cases pe) auto
      then show ?thesis by (rule Suc.IH)
    qed
  qed
qed

subsection \<open>Go's iteration over a map\<close>

text \<open>
  The order is unspecified, and may differ from one loop to the next: the environment
  picks, at each step, which of the remaining entries comes next. Whatever it picks,
  every entry comes exactly once.
\<close>

function permute_by :: "nat list \<Rightarrow> 'a list \<Rightarrow> 'a list" where
  "permute_by picks [] = []"
| "permute_by [] (x # xs) = x # xs"
| "permute_by (k # ks) (x # xs) =
     (let i = k mod length (x # xs)
      in (x # xs) ! i # permute_by ks (take i (x # xs) @ drop (Suc i) (x # xs)))"
  by pat_completeness auto
termination
  by (relation "measure (\<lambda>(ks, xs). length xs)") (auto simp: less_Suc_eq_le min_def)

lemma set_take_nth_drop:
  assumes "i < length xs"
  shows "insert (xs ! i) (set (take i xs @ drop (Suc i) xs)) = set xs"
  using assms by (metis Un_insert_right id_take_nth_drop list.set(2) set_append)

lemma set_permute_by [simp]: "set (permute_by ks xs) = set xs"
proof (induction ks xs rule: permute_by.induct)
  case (3 k ks x xs)
  let ?i = "k mod length (x # xs)"
  have "?i < length (x # xs)" by (rule mod_less_divisor) simp
  then have "insert ((x # xs) ! ?i) (set (take ?i (x # xs) @ drop (Suc ?i) (x # xs))) = set (x # xs)"
    by (rule set_take_nth_drop)
  with 3 [OF refl] show ?case by (simp add: Let_def del: take_Suc_Cons drop_Suc_Cons)
qed simp_all

definition range_dsms :: "'n env \<Rightarrow> ('n world, DSM list) prog" where
  "range_dsms env = do {
     w \<leftarrow> State_Monad.get;
     let (picks, n) = env_map_order env (nas w);
     _ \<leftarrow> State_Monad.set (w\<lparr>nas := n\<rparr>);
     State_Monad.return (permute_by picks (map snd (dsms w))) }"

lemma range_dsms_emits:
  "emits D (range_dsms env) (\<lambda>ds t. t = [] \<and> set ds = snd ` set D)"
  by (simp add: emits_def range_dsms_def Let_def case_prod_beta)

lemma only_range_dsms [emits_rules]: "only D R (range_dsms env)"
  by (rule emits_mono [OF range_dsms_emits]) simp

subsection \<open>Error codes\<close>

text \<open>
  The mappings of the web API files: a function of the error code of the response and
  of the error of the request. \<open>mapped\<close> is their use in an operation that returns the
  mapped error when the request failed, \<open>mapped_all\<close> their use in one that maps
  unconditionally. The interface asks that a failure stays a failure and that a success
  without a code stays a success.
\<close>

definition mapped :: "(int \<Rightarrow> err option \<Rightarrow> err option) \<Rightarrow> int \<times> (err + 'a) \<Rightarrow> err + 'a" where
  "mapped f r = (case snd r of
     Inl e \<Rightarrow> Inl (case f (fst r) (Some e) of Some e' \<Rightarrow> e' | None \<Rightarrow> e)
   | Inr x \<Rightarrow> Inr x)"

definition err_of :: "err + 'a \<Rightarrow> err option" where
  "err_of r = (case r of Inl e \<Rightarrow> Some e | Inr _ \<Rightarrow> None)"

lemma err_of_simps [simp]: "err_of (Inl e) = Some e" "err_of (Inr x) = None"
  by (simp_all add: err_of_def)

lemma err_of_None_iff: "err_of r = None \<longleftrightarrow> (\<exists>x. r = Inr x)"
  by (cases r) simp_all

definition mapped_all :: "(int \<Rightarrow> err option \<Rightarrow> err option) \<Rightarrow> int \<times> (err + unit) \<Rightarrow> err + unit" where
  "mapped_all f r = (case f (fst r) (err_of (snd r)) of Some e \<Rightarrow> Inl e | None \<Rightarrow> Inr ())"

locale err_mapping =
  fixes f :: "int \<Rightarrow> err option \<Rightarrow> err option"
  assumes keeps_failure: "f c (Some e) \<noteq> None"
    and keeps_success: "f 0 None = None"
begin

lemma mapped_ok [simp]: "mapped f r = Inr x \<longleftrightarrow> snd r = Inr x"
  by (cases "snd r") (simp_all add: mapped_def)

lemma mapped_all_ok: "mapped_all f r = Inr () \<Longrightarrow> snd r = Inr ()"
  by (cases "snd r") (simp_all add: mapped_all_def keeps_failure split: option.splits)

lemma mapped_failure: "snd r = Inl e \<Longrightarrow> \<exists>e'. f (fst r) (Some e) = Some e' \<and> mapped f r = Inl e'"
  using keeps_failure [of "fst r" e] by (auto simp: mapped_def)

lemma mapped_sent: "sent env dsm ps dec (snd r) t \<Longrightarrow> sent env dsm ps dec (mapped f r) t"
  by (erule sent_result) (auto simp: mapped_def split: sum.splits)

end

subsection \<open>The interface of an API request\<close>

text \<open>
  \<open>sender snd_op dec\<close>: issuing the parameters \<open>ps\<close> on \<open>dsm\<close> keeps the contract \<open>sent\<close>. Its
  lemmas say which operations leave the stored data alone, and that a change of the
  result by the caller keeps the contract.
\<close>

definition reading :: "params \<Rightarrow> bool" where
  "reading ps \<longleftrightarrow> (\<exists>m \<in> set read_methods. param ''method'' ps = Some (PStr m))"

definition quiet :: "call \<Rightarrow> bool" where
  "quiet c \<longleftrightarrow> \<not> mutating c"

lemma quiet_login: "is_login c \<Longrightarrow> quiet c"
  by (auto simp: quiet_def mutating_def is_login_def read_methods_def)

lemma quiet_carries: "reading ps \<Longrightarrow> carries dsm ps c \<Longrightarrow> quiet c"
  by (auto simp: quiet_def mutating_def reading_def carries_def c_method_def)

lemma sent_only:
  assumes "sent env dsm ps dec r t" "\<And>c. carries dsm ps c \<Longrightarrow> R c"
    "\<And>c. c_host c = Ip dsm \<Longrightarrow> is_login c \<Longrightarrow> R c"
  shows "list_all R t"
  using assms by (auto simp: sent_def list_all_iff)

lemma sent_quiet: "sent env dsm ps dec r t \<Longrightarrow> reading ps \<Longrightarrow> list_all quiet t"
  by (erule sent_only) (auto intro: quiet_login quiet_carries)

locale sender =
  fixes env :: "'n env"
    and send :: "DSM \<Rightarrow> params \<Rightarrow> ('n world, err + 'a) prog"
    and dec :: "'a decoder"
  assumes send_emits: "not_login ps \<Longrightarrow> emits D (send dsm ps) (\<lambda>r t. sent env dsm ps dec r t)"
begin

lemma read_only: "reading ps \<Longrightarrow> not_login ps \<Longrightarrow> only D quiet (send dsm ps)"
  by (rule emits_mono [OF send_emits]) (auto dest: sent_quiet)

lemma finish:
  assumes "not_login ps" "\<And>r t. sent env dsm ps dec r t \<Longrightarrow> Q (g r) t"
  shows "emits D (do { r \<leftarrow> send dsm ps; State_Monad.return (g r) }) Q"
  using assms by (intro emits_bind [OF send_emits] emits_return) simp_all

end

end
