(* ===== verification/Effects.thy ===== *)
theory Effects
  imports Retry
begin

text \<open>
  What the requests in a log did to the storage system, read off the requests and the
  answers alone: the LUNs, targets, namespaces, subsystems, shares and snapshots that a
  successful answer says exist now, and the ones a request asks to delete. The
  contracts of the operations that create and delete are stated on these sets, and so
  are the properties of the rollback.
\<close>

datatype res = ResLun string | ResTarget string | ResNs string | ResSub string
  | ResShare string | ResLunSnap string | ResNsSnap string | ResShareSnap string string

definition calls_api :: "string \<Rightarrow> string \<Rightarrow> call \<Rightarrow> bool" where
  "calls_api api m c \<longleftrightarrow> c_api c = Some (PStr api) \<and> c_method c = Some (PStr m)"

definition answers :: "bool \<Rightarrow> string \<Rightarrow> call \<Rightarrow> string option" where
  "answers clean key c = reply_value clean (dec_field key dec_string) (c_reply c)"

fun created :: "bool \<Rightarrow> res \<Rightarrow> call \<Rightarrow> bool" where
  "created cl (ResLun u) c \<longleftrightarrow>
     calls_api ''SYNO.Core.ISCSI.LUN'' ''create'' c \<and> answers cl ''uuid'' c = Some u \<or>
     calls_api ''SYNO.Core.ISCSI.LUN'' ''clone'' c \<and> answers cl ''dst_lun_uuid'' c = Some u \<or>
     calls_api ''SYNO.Core.ISCSI.LUN'' ''clone_snapshot'' c \<and> answers cl ''cloned_lun_uuid'' c = Some u"
| "created cl (ResTarget i) c \<longleftrightarrow>
     calls_api ''SYNO.Core.ISCSI.Target'' ''create'' c \<and>
     map_option itoa (reply_value cl (dec_field ''target_id'' dec_int) (c_reply c)) = Some i"
| "created cl (ResNs u) c \<longleftrightarrow>
     calls_api ''SYNO.San.Nvme.Namespace'' ''create'' c \<and> answers cl ''uuid'' c = Some u \<or>
     calls_api ''SYNO.San.Nvme.Namespace'' ''clone'' c \<and> answers cl ''dst_namespace_uuid'' c = Some u \<or>
     calls_api ''SYNO.San.Nvme.Namespace'' ''clone_snapshot'' c \<and>
       answers cl ''cloned_namespace_uuid'' c = Some u"
| "created cl (ResSub u) c \<longleftrightarrow>
     calls_api ''SYNO.San.Nvme.Subsystem'' ''create'' c \<and> answers cl ''uuid'' c = Some u"
| "created cl (ResShare n) c \<longleftrightarrow>
     calls_api ''SYNO.Core.Share'' ''create'' c \<and> param ''name'' (c_query c) = Some (PQuote n) \<and>
       reply_value cl dec_unit (c_reply c) \<noteq> None \<or>
     calls_api ''SYNO.Core.Share'' ''clone'' c \<and> param ''name'' (c_query c) = Some (PQuote n) \<and>
       answers cl ''name'' c \<noteq> None"
| "created cl (ResLunSnap u) c \<longleftrightarrow>
     calls_api ''SYNO.Core.ISCSI.LUN'' ''take_snapshot'' c \<and> answers cl ''snapshot_uuid'' c = Some u"
| "created cl (ResNsSnap u) c \<longleftrightarrow>
     calls_api ''SYNO.San.Nvme.Namespace'' ''take_snapshot'' c \<and> answers cl ''snapshot_uuid'' c = Some u"
| "created cl (ResShareSnap n t) c \<longleftrightarrow>
     calls_api ''SYNO.Core.Share.Snapshot'' ''create'' c \<and>
     param ''name'' (c_query c) = Some (PQuote n) \<and> reply_value cl dec_string (c_reply c) = Some t"

fun deletes :: "res \<Rightarrow> call \<Rightarrow> bool" where
  "deletes (ResLun u) c \<longleftrightarrow> calls_api ''SYNO.Core.ISCSI.LUN'' ''delete'' c \<and>
     param ''uuid'' (c_query c) = Some (PQuote u)"
| "deletes (ResTarget i) c \<longleftrightarrow> calls_api ''SYNO.Core.ISCSI.Target'' ''delete'' c \<and>
     param ''target_id'' (c_query c) = Some (PQuote i)"
| "deletes (ResNs u) c \<longleftrightarrow> calls_api ''SYNO.San.Nvme.Namespace'' ''delete'' c \<and>
     param ''uuid'' (c_query c) = Some (PQuote u)"
| "deletes (ResSub u) c \<longleftrightarrow> calls_api ''SYNO.San.Nvme.Subsystem'' ''delete'' c \<and>
     param ''uuid'' (c_query c) = Some (PQuote u)"
| "deletes (ResShare n) c \<longleftrightarrow> calls_api ''SYNO.Core.Share'' ''delete'' c \<and>
     param ''name'' (c_query c) = Some (PQuoteList [n])"
| "deletes (ResLunSnap u) c \<longleftrightarrow> calls_api ''SYNO.Core.ISCSI.LUN'' ''delete_snapshot'' c \<and>
     param ''snapshot_uuid'' (c_query c) = Some (PQuote u)"
| "deletes (ResNsSnap u) c \<longleftrightarrow> calls_api ''SYNO.San.Nvme.Namespace'' ''delete_snapshot'' c \<and>
     param ''snapshot_uuid'' (c_query c) = Some (PQuote u)"
| "deletes (ResShareSnap n t) c \<longleftrightarrow> calls_api ''SYNO.Core.Share.Snapshot'' ''delete'' c \<and>
     param ''name'' (c_query c) = Some (PQuote n) \<and>
     param ''snapshots'' (c_query c) = Some (PQuoteList [t])"

definition made :: "bool \<Rightarrow> call list \<Rightarrow> (string \<times> res) set" where
  "made cl t = {(h, k). \<exists>c \<in> set t. c_host c = h \<and> created cl k c}"

definition deleted :: "call list \<Rightarrow> (string \<times> res) set" where
  "deleted t = {(h, k). \<exists>c \<in> set t. c_host c = h \<and> deletes k c}"

lemma made_Nil [simp]: "made cl [] = {}" and deleted_Nil [simp]: "deleted [] = {}"
  by (simp_all add: made_def deleted_def)

lemma made_append [simp]: "made cl (s @ t) = made cl s \<union> made cl t"
  by (auto simp: made_def)

lemma deleted_append [simp]: "deleted (s @ t) = deleted s \<union> deleted t"
  by (auto simp: deleted_def)

lemma reply_value_clean: "reply_value True dec rp = Some x \<Longrightarrow> reply_value False dec rp = Some x"
  by (auto simp: reply_value_def split: prod.splits sum.splits if_splits)

lemma created_clean: "created True k c \<Longrightarrow> created False k c"
  by (cases k) (auto simp: answers_def dest: reply_value_clean)

lemma made_clean: "made True t \<subseteq> made False t"
  by (auto simp: made_def intro: created_clean)

lemma login_effects [simp]:
  assumes "is_login c"
  shows "\<not> created cl k c" "\<not> deletes k c"
  using assms by (cases k; simp add: is_login_def calls_api_def)+

lemma quiet_effects:
  assumes "quiet c"
  shows "\<not> created cl k c" "\<not> deletes k c"
  using assms by (cases k; auto simp: quiet_def mutating_def calls_api_def read_methods_def)+

lemma quiet_trace:
  assumes "list_all quiet t"
  shows "made cl t = {}" "deleted t = {}"
  using assms quiet_effects by (auto simp: made_def deleted_def list_all_iff)

subsection \<open>Contracts of creating, deleting and other requests\<close>

definition harmless :: "call list \<Rightarrow> bool" where
  "harmless t \<longleftrightarrow> made False t = {} \<and> deleted t = {}"

definition makes :: "'n env \<Rightarrow> DSM \<Rightarrow> ('a \<Rightarrow> res) \<Rightarrow> (err + 'a) \<Rightarrow> call list \<Rightarrow> bool" where
  "makes env dsm f r t \<longleftrightarrow>
     (\<forall>hk \<in> made True t. case r of Inl e \<Rightarrow> False | Inr x \<Rightarrow> hk = (Ip dsm, f x)) \<and>
     (case r of Inl e \<Rightarrow> True | Inr x \<Rightarrow> reach env dsm \<and> (Ip dsm, f x) \<in> made False t) \<and>
     (\<forall>hk \<in> made False t. fst hk = Ip dsm \<and> snd hk \<in> range f) \<and> deleted t = {}"

definition drops :: "'n env \<Rightarrow> DSM \<Rightarrow> res \<Rightarrow> call list \<Rightarrow> bool" where
  "drops env dsm k t \<longleftrightarrow> made False t = {} \<and>
     deleted t = (if reach env dsm then {(Ip dsm, k)} else {})"

lemma harmless_Nil [simp]: "harmless []"
  by (simp add: harmless_def)

lemma harmless_append [simp]: "harmless (s @ t) \<longleftrightarrow> harmless s \<and> harmless t"
  by (auto simp: harmless_def)

lemma harmlessD: "harmless t \<Longrightarrow> made cl t = {}" "harmless t \<Longrightarrow> deleted t = {}"
  using made_clean [of t] by (cases cl; auto simp: harmless_def)+

lemma quiet_harmless: "list_all quiet t \<Longrightarrow> harmless t"
  by (simp add: harmless_def quiet_trace)

lemma emits_quiet_harmless: "only D quiet m \<Longrightarrow> emits D m (\<lambda>_. harmless)"
  by (erule emits_mono) (rule quiet_harmless)

definition no_effect :: "params \<Rightarrow> bool" where
  "no_effect ps \<longleftrightarrow> (\<forall>c k. c_query c = ps \<longrightarrow> \<not> created False k c \<and> \<not> deletes k c)"

lemma no_effectI:
  assumes "\<And>c k. c_query c = ps \<Longrightarrow> \<not> created False k c" "\<And>c k. c_query c = ps \<Longrightarrow> \<not> deletes k c"
  shows "no_effect ps"
  using assms by (simp add: no_effect_def)

lemma sent_harmless: "sent env dsm ps dec r t \<Longrightarrow> no_effect ps \<Longrightarrow> harmless t"
  by (auto simp: sent_def harmless_def made_def deleted_def no_effect_def carries_def list_all_iff)

lemma sent_makes:
  assumes "sent env dsm ps dec r t"
    and ok: "\<And>c k. c_query c = ps \<Longrightarrow> created True k c \<Longrightarrow>
      \<exists>x. reply_value True dec (c_reply c) = Some x \<and> k = f x"
    and mk: "\<And>c x. c_query c = ps \<Longrightarrow> reply_value False dec (c_reply c) = Some x \<Longrightarrow> created False (f x) c"
    and only_f: "\<And>c k. c_query c = ps \<Longrightarrow> created False k c \<Longrightarrow> k \<in> range f"
    and nodel: "\<And>c k. c_query c = ps \<Longrightarrow> \<not> deletes k c"
  shows "makes env dsm f r t"
  unfolding makes_def
proof (intro conjI ballI)
  fix hk
  assume "hk \<in> made True t"
  then obtain c k where c: "c \<in> set t" "hk = (c_host c, k)" "created True k c"
    by (auto simp: made_def)
  with assms(1) have "carries dsm ps c" "c_host c = Ip dsm"
    by (auto simp: sent_def list_all_iff carries_def)
  with ok [of c k] c obtain x where x: "reply_value True dec (c_reply c) = Some x" "k = f x"
    by (auto simp: carries_def)
  with assms(1) c \<open>carries dsm ps c\<close> have "r = Inr x"
    by (auto simp: sent_def list_all_iff)
  with c x \<open>c_host c = Ip dsm\<close> show "case r of Inl e \<Rightarrow> False | Inr x \<Rightarrow> hk = (Ip dsm, f x)" by simp
next
  show "case r of Inl e \<Rightarrow> True | Inr x \<Rightarrow> reach env dsm \<and> (Ip dsm, f x) \<in> made False t"
    using assms(1) mk
    by (cases r) (auto simp: sent_def list_ex_iff made_def carries_def split: if_splits)
  fix hk
  assume "hk \<in> made False t"
  then obtain c k where c: "c \<in> set t" "hk = (c_host c, k)" "created False k c"
    by (auto simp: made_def)
  with assms(1) have "c_query c = ps \<and> c_host c = Ip dsm"
    by (auto simp: sent_def list_all_iff carries_def)
  with c only_f show "fst hk = Ip dsm" "snd hk \<in> range f" by auto
next
  show "deleted t = {}"
    using assms(1) nodel by (auto simp: sent_def deleted_def list_all_iff carries_def)
qed

lemma makes_map:
  assumes "makes env dsm (\<lambda>x. f (g x)) r t"
  shows "makes env dsm f (map_sum id g r) t"
proof -
  have "range (\<lambda>x. f (g x)) \<subseteq> range f" by auto
  with assms show ?thesis unfolding makes_def by (cases r) (simp_all, blast+)
qed

lemma sent_drops:
  assumes "sent env dsm ps dec r t"
    and "\<And>c k'. c_query c = ps \<Longrightarrow> deletes k' c \<longleftrightarrow> k' = k"
    and "\<And>c k'. c_query c = ps \<Longrightarrow> \<not> created False k' c"
  shows "drops env dsm k t"
proof -
  from assms(1,3) have "made False t = {}"
    by (auto simp: sent_def made_def list_all_iff carries_def)
  moreover have "deleted t \<subseteq> {(Ip dsm, k)}"
    using assms(1,2) by (auto simp: sent_def deleted_def list_all_iff carries_def)
  moreover have "(Ip dsm, k) \<in> deleted t \<longleftrightarrow> reach env dsm"
    using assms(1,2) by (auto simp: sent_def deleted_def list_ex_iff carries_def split: if_splits)
  ultimately show ?thesis by (auto simp: drops_def)
qed

text \<open>Evaluating \<open>created\<close> and \<open>deletes\<close> on the parameters of an operation.\<close>

lemma created_simps:
  "calls_api api m c \<longleftrightarrow> param ''api'' (c_query c) = Some (PStr api) \<and>
     param ''method'' (c_query c) = Some (PStr m)"
  by (simp add: calls_api_def c_api_def c_method_def)

lemma created_cases:
  "(\<And>u. \<not> created cl (ResLun u) c) \<Longrightarrow> (\<And>i. \<not> created cl (ResTarget i) c) \<Longrightarrow>
   (\<And>u. \<not> created cl (ResNs u) c) \<Longrightarrow> (\<And>u. \<not> created cl (ResSub u) c) \<Longrightarrow>
   (\<And>n. \<not> created cl (ResShare n) c) \<Longrightarrow> (\<And>u. \<not> created cl (ResLunSnap u) c) \<Longrightarrow>
   (\<And>u. \<not> created cl (ResNsSnap u) c) \<Longrightarrow> (\<And>n t. \<not> created cl (ResShareSnap n t) c) \<Longrightarrow>
   \<not> created cl k c"
  by (cases k) simp_all

end
