(* ===== verification/Iscsi.thy ===== *)
theory Iscsi
  imports Effects
begin

text \<open>
  \<^verbatim>\<open>pkg/dsm/webapi/iscsi.go\<close>: the LUN, target and LUN-snapshot operations, one
  definition each, with the error-code mapping they share. A \<^verbatim>\<open>%q\<close>-quoted parameter is
  \<open>PQuote\<close>, a JSON list of strings \<open>PQuoteList\<close>, a marshalled value \<open>PJson\<close>; the other
  parameters are the strings that are sent. The lemmas give each operation's contract:
  what it creates or deletes, or that it does neither.
\<close>

definition errCodeMapping :: "int \<Rightarrow> err option \<Rightarrow> err option" where
  "errCodeMapping errCode oriErr =
     (if errCode = 18990002 then Some OutOfFreeSpaceError
      else if errCode = 18990531 then Some NoSuchLunError
      else if errCode = 18990538 then Some AlreadyExistError
      else if errCode = 18990541 then Some LunReachMaxCountError
      else if errCode = 18990542 then Some TargetReachMaxCountError
      else if errCode = 18990744 then Some AlreadyExistError
      else if errCode = 18990532 then Some NoSuchSnapshotError
      else if errCode = 18990500 then Some BadLunTypeError
      else if errCode = 18990543 then Some SnapshotReachMaxCountError
      else if errCode > 18990000 then Some (IscsiDefaultError errCode)
      else oriErr)"

interpretation iscsi_map: err_mapping errCodeMapping
  by unfold_locales (auto simp: errCodeMapping_def)

definition iscsi_request :: "'n env \<Rightarrow> 'a decoder \<Rightarrow> DSM \<Rightarrow> params \<Rightarrow> ('n world, err + 'a) prog" where
  "iscsi_request env dec dsm ps = do {
     r \<leftarrow> sendRequest env dsm [] dec ps entry_cgi;
     State_Monad.return (mapped errCodeMapping r) }"

interpretation iscsi: sender env "iscsi_request env dec" dec for env dec
proof
  fix ps :: params and D and dsm
  assume ps: "not_login ps"
  show "emits D (iscsi_request env dec dsm ps) (\<lambda>r t. sent env dsm ps dec r t)"
    unfolding iscsi_request_def
    by (rule emits_bind [OF sendRequest_emits [OF ps]], rule emits_return)
      (simp add: iscsi_map.mapped_sent)
qed

abbreviation lun_api :: pval where "lun_api \<equiv> PStr ''SYNO.Core.ISCSI.LUN''"
abbreviation target_api :: pval where "target_api \<equiv> PStr ''SYNO.Core.ISCSI.Target''"
abbreviation v1 :: "string \<times> pval" where "v1 \<equiv> (''version'', PStr ''1'')"

definition lun_additional :: pval where
  "lun_additional = PQuoteList [''allocated_size'', ''status'', ''flashcache_status'', ''is_action_locked'']"

definition target_additional :: pval where
  "target_additional = PQuoteList [''mapped_lun'', ''connected_sessions'']"

subsection \<open>LUNs and targets\<close>

definition LunList :: "'n env \<Rightarrow> DSM \<Rightarrow> ('n world, err + LunInfo list) prog" where
  "LunList env dsm = iscsi_request env (dec_field ''luns'' (dec_list dec_LunInfo)) dsm
     [(''api'', lun_api), (''method'', PStr ''list''), v1,
      (''types'', PQuoteList [''BLOCK'', ''FILE'', ''THIN'', ''ADV'', ''SINK'', ''CINDER'', ''CINDER_BLUN'',
         ''CINDER_BLUN_THICK'', ''BLUN'', ''BLUN_THICK'', ''BLUN_SINK'', ''BLUN_THICK_SINK'']),
      (''additional'', lun_additional)]"

definition LunCreate :: "'n env \<Rightarrow> DSM \<Rightarrow> LunCreateSpec \<Rightarrow> ('n world, err + string) prog" where
  "LunCreate env dsm spec = iscsi_request env (dec_field ''uuid'' dec_string) dsm
     [(''api'', lun_api), (''method'', PStr ''create''), v1,
      (''name'', PQuote (lc_Name spec)), (''size'', PStr (itoa (sint (lc_Size spec)))),
      (''type'', PStr (lc_Type spec)), (''location'', PStr (lc_Location spec)),
      (''description'', PStr (lc_Description spec)),
      (''dev_attribs'', PJson (JArr (map enc_LunDevAttrib (lc_DevAttribs spec))))]"

definition LunUpdate :: "'n env \<Rightarrow> DSM \<Rightarrow> LunUpdateSpec \<Rightarrow> ('n world, err + unit) prog" where
  "LunUpdate env dsm spec = iscsi_request env dec_unit dsm
     [(''api'', lun_api), (''method'', PStr ''set''), v1, (''uuid'', PQuote (lu_Uuid spec)),
      (''new_size'', PStr (itoa (sint (lu_NewSize spec))))]"

definition LunGet :: "'n env \<Rightarrow> DSM \<Rightarrow> string \<Rightarrow> ('n world, err + LunInfo) prog" where
  "LunGet env dsm uuid = iscsi_request env (dec_field ''lun'' dec_LunInfo) dsm
     [(''api'', lun_api), (''method'', PStr ''get''), v1, (''uuid'', PQuote uuid),
      (''additional'', lun_additional)]"

definition LunClone :: "'n env \<Rightarrow> DSM \<Rightarrow> LunCloneSpec \<Rightarrow> ('n world, err + string) prog" where
  "LunClone env dsm spec = iscsi_request env (dec_field ''dst_lun_uuid'' dec_string) dsm
     [(''api'', lun_api), (''method'', PStr ''clone''), v1,
      (''src_lun_uuid'', PQuote (lcl_SrcLunUuid spec)), (''dst_lun_name'', PQuote (lcl_Name spec)),
      (''dst_location'', PQuote (lcl_Location spec))]"

definition TargetList :: "'n env \<Rightarrow> DSM \<Rightarrow> ('n world, err + TargetInfo list) prog" where
  "TargetList env dsm = iscsi_request env (dec_field ''targets'' (dec_list dec_TargetInfo)) dsm
     [(''api'', target_api), (''method'', PStr ''list''), v1, (''additional'', target_additional)]"

definition TargetGet :: "'n env \<Rightarrow> DSM \<Rightarrow> string \<Rightarrow> ('n world, err + TargetInfo) prog" where
  "TargetGet env dsm targetId = iscsi_request env (dec_field ''target'' dec_TargetInfo) dsm
     [(''api'', target_api), (''method'', PStr ''get''), v1, (''target_id'', PQuote targetId),
      (''additional'', target_additional)]"

definition TargetSet :: "'n env \<Rightarrow> DSM \<Rightarrow> string \<Rightarrow> int \<Rightarrow> ('n world, err + unit) prog" where
  "TargetSet env dsm targetId maxSession = iscsi_request env dec_unit dsm
     [(''api'', target_api), (''method'', PStr ''set''), v1, (''target_id'', PQuote targetId),
      (''max_sessions'', PStr (itoa maxSession))]"

definition TargetCreate :: "'n env \<Rightarrow> DSM \<Rightarrow> TargetCreateSpec \<Rightarrow> ('n world, err + string) prog" where
  "TargetCreate env dsm spec = do {
     r \<leftarrow> iscsi_request env (dec_field ''target_id'' dec_int) dsm
       [(''api'', target_api), (''method'', PStr ''create''), v1, (''name'', PStr (tc_Name spec)),
        (''auth_type'', PStr ''0''), (''iqn'', PStr (tc_Iqn spec))];
     State_Monad.return (map_sum id itoa r) }"

definition LunMapTarget :: "'n env \<Rightarrow> DSM \<Rightarrow> string list \<Rightarrow> string \<Rightarrow> ('n world, err + unit) prog" where
  "LunMapTarget env dsm targetIds lunUuid = iscsi_request env dec_unit dsm
     [(''api'', lun_api), (''method'', PStr ''map_target''), v1, (''uuid'', PQuote lunUuid),
      (''target_ids'', PStr (''['' @ join_with '','' targetIds @ '']''))]"

definition LunDelete :: "'n env \<Rightarrow> DSM \<Rightarrow> string \<Rightarrow> ('n world, err + unit) prog" where
  "LunDelete env dsm lunUuid = iscsi_request env dec_unit dsm
     [(''api'', lun_api), (''method'', PStr ''delete''), v1, (''uuid'', PQuote lunUuid)]"

definition TargetDelete :: "'n env \<Rightarrow> DSM \<Rightarrow> string \<Rightarrow> ('n world, err + unit) prog" where
  "TargetDelete env dsm targetId = iscsi_request env dec_unit dsm
     [(''api'', target_api), (''method'', PStr ''delete''), v1, (''target_id'', PQuote targetId)]"

subsection \<open>LUN snapshots\<close>

definition bool_str :: "bool \<Rightarrow> string" where
  "bool_str b = (if b then ''true'' else ''false'')"

definition SnapshotCreate :: "'n env \<Rightarrow> DSM \<Rightarrow> SnapshotCreateSpec \<Rightarrow> ('n world, err + string) prog" where
  "SnapshotCreate env dsm spec = iscsi_request env (dec_field ''snapshot_uuid'' dec_string) dsm
     [(''api'', lun_api), (''method'', PStr ''take_snapshot''), v1,
      (''src_lun_uuid'', PQuote (sc_SrcUuid spec)), (''snapshot_name'', PQuote (sc_Name spec)),
      (''description'', PQuote (sc_Description spec)), (''taken_by'', PQuote (sc_TakenBy spec)),
      (''is_locked'', PStr (bool_str (sc_IsLocked spec))), (''is_app_consistent'', PStr (bool_str False))]"

definition SnapshotDelete :: "'n env \<Rightarrow> DSM \<Rightarrow> string \<Rightarrow> ('n world, err + unit) prog" where
  "SnapshotDelete env dsm snapshotUuid = iscsi_request env dec_unit dsm
     [(''api'', lun_api), (''method'', PStr ''delete_snapshot''), v1,
      (''snapshot_uuid'', PQuote snapshotUuid)]"

definition SnapshotGet :: "'n env \<Rightarrow> DSM \<Rightarrow> string \<Rightarrow> ('n world, err + SnapshotInfo) prog" where
  "SnapshotGet env dsm snapshotUuid = iscsi_request env (dec_field ''snapshot'' dec_SnapshotInfo) dsm
     [(''api'', lun_api), (''method'', PStr ''get_snapshot''), v1,
      (''snapshot_uuid'', PQuote snapshotUuid)]"

definition SnapshotList :: "'n env \<Rightarrow> DSM \<Rightarrow> string \<Rightarrow> ('n world, err + SnapshotInfo list) prog" where
  "SnapshotList env dsm lunUuid = iscsi_request env (dec_field ''snapshots'' (dec_list dec_SnapshotInfo)) dsm
     [(''api'', lun_api), (''method'', PStr ''list_snapshot''), v1, (''src_lun_uuid'', PQuote lunUuid)]"

definition SnapshotClone :: "'n env \<Rightarrow> DSM \<Rightarrow> SnapshotCloneSpec \<Rightarrow> ('n world, err + string) prog" where
  "SnapshotClone env dsm spec = iscsi_request env (dec_field ''cloned_lun_uuid'' dec_string) dsm
     [(''api'', lun_api), (''method'', PStr ''clone_snapshot''), v1,
      (''src_lun_uuid'', PQuote (scl_SrcUuid spec)), (''snapshot_uuid'', PQuote (scl_SrcSnapshotUuid spec)),
      (''cloned_lun_name'', PQuote (scl_Name spec))]"

subsection \<open>Contracts\<close>

lemmas request_eval = created_simps answers_def not_login_def

lemma iscsi_reads [emits_rules]:
  "only D quiet (LunList env dsm)" "only D quiet (LunGet env dsm u)"
  "only D quiet (TargetList env dsm)" "only D quiet (TargetGet env dsm i)"
  "only D quiet (SnapshotGet env dsm u)" "only D quiet (SnapshotList env dsm u)"
  unfolding LunList_def LunGet_def TargetList_def TargetGet_def SnapshotGet_def SnapshotList_def
  by (rule iscsi.read_only; simp add: reading_def read_methods_def not_login_def)+

lemma iscsi_creates:
  "emits D (LunCreate env dsm lspec) (makes env dsm ResLun)"
  "emits D (LunClone env dsm cspec) (makes env dsm ResLun)"
  "emits D (SnapshotClone env dsm sspec) (makes env dsm ResLun)"
  "emits D (SnapshotCreate env dsm pspec) (makes env dsm ResLunSnap)"
  unfolding LunCreate_def LunClone_def SnapshotClone_def SnapshotCreate_def
  by (rule emits_mono [OF iscsi.send_emits], simp add: request_eval,
      erule sent_makes; (rename_tac c k, case_tac k)?; auto simp: request_eval; fail)+

lemma TargetCreate_emits: "emits D (TargetCreate env dsm spec) (makes env dsm ResTarget)"
proof -
  let ?ps = "[(''api'', target_api), (''method'', PStr ''create''), v1,
    (''name'', PStr (tc_Name spec)), (''auth_type'', PStr ''0''), (''iqn'', PStr (tc_Iqn spec))]"
  have made: "makes env dsm (\<lambda>n. ResTarget (itoa n)) r t"
    if "sent env dsm ?ps (dec_field ''target_id'' dec_int) r t" for r t
    using that
    by (rule sent_makes; (rename_tac c k, case_tac k)?; auto simp: request_eval)
  show ?thesis
    unfolding TargetCreate_def
    by (rule iscsi.finish) (simp_all add: request_eval made makes_map)
qed

lemma iscsi_drops:
  "emits D (LunDelete env dsm u) (\<lambda>_. drops env dsm (ResLun u))"
  "emits D (TargetDelete env dsm i) (\<lambda>_. drops env dsm (ResTarget i))"
  "emits D (SnapshotDelete env dsm u) (\<lambda>_. drops env dsm (ResLunSnap u))"
  unfolding LunDelete_def TargetDelete_def SnapshotDelete_def
  by (rule emits_mono [OF iscsi.send_emits], simp add: request_eval,
      erule sent_drops; (rename_tac c k, case_tac k)?; auto simp: request_eval; fail)+

lemma iscsi_harmless:
  "emits D (LunUpdate env dsm uspec) (\<lambda>_. harmless)"
  "emits D (TargetSet env dsm i n) (\<lambda>_. harmless)"
  "emits D (LunMapTarget env dsm ids u) (\<lambda>_. harmless)"
  unfolding LunUpdate_def TargetSet_def LunMapTarget_def
  by (rule emits_mono [OF iscsi.send_emits], simp add: request_eval,
      erule sent_harmless, rule no_effectI; rename_tac c k, case_tac k; auto simp: request_eval; fail)+
end
