(* ===== verification/Nvmeof.thy ===== *)
theory Nvmeof
  imports Iscsi
begin

text \<open>
  \<^verbatim>\<open>pkg/dsm/webapi/nvmeof.go\<close>: the NVMe namespace, namespace-snapshot and subsystem
  operations. The operations that return only an error map the error code of a success
  as well (\<open>mapped_all\<close>), the others only that of a failure.
\<close>

definition sanErrCodeMapping :: "int \<Rightarrow> err option \<Rightarrow> err option" where
  "sanErrCodeMapping errCode oriErr =
     (if errCode = 28990002 then Some OutOfFreeSpaceError
      else if errCode = 28992055 then Some NoSuchNamespaceError
      else if errCode = 28992056 then Some NoSuchSnapshotError
      else if errCode = 28992064 then Some AlreadyExistError
      else if errCode = 28992067 then Some SanReachMaxCountError
      else if errCode = 28992068 then Some SnapshotReachMaxCountError
      else if errCode = 28993012 then Some FailedToGetSubsystemError
      else if errCode \<ge> 28990000 then Some (SanDefaultError errCode)
      else oriErr)"

interpretation san_map: err_mapping sanErrCodeMapping
  by unfold_locales (auto simp: sanErrCodeMapping_def)

definition san_request :: "'n env \<Rightarrow> 'a decoder \<Rightarrow> DSM \<Rightarrow> params \<Rightarrow> ('n world, err + 'a) prog" where
  "san_request env dec dsm ps = do {
     r \<leftarrow> sendRequest env dsm [] dec ps entry_cgi;
     State_Monad.return (mapped sanErrCodeMapping r) }"

definition san_request_all :: "'n env \<Rightarrow> DSM \<Rightarrow> params \<Rightarrow> ('n world, err + unit) prog" where
  "san_request_all env dsm ps = do {
     r \<leftarrow> sendRequest env dsm [] dec_unit ps entry_cgi;
     State_Monad.return (mapped_all sanErrCodeMapping r) }"

interpretation san: sender env "san_request env dec" dec for env dec
proof
  fix ps :: params and D and dsm
  assume ps: "not_login ps"
  show "emits D (san_request env dec dsm ps) (\<lambda>r t. sent env dsm ps dec r t)"
    unfolding san_request_def
    by (rule emits_bind [OF sendRequest_emits [OF ps]], rule emits_return)
      (simp add: san_map.mapped_sent)
qed

lemma san_all_emits:
  assumes "not_login ps"
  shows "emits D (san_request_all env dsm ps) (\<lambda>r t. \<exists>r'. sent env dsm ps dec_unit r' t)"
  unfolding san_request_all_def
  by (rule emits_bind [OF sendRequest_emits [OF assms]], rule emits_return) auto

abbreviation ns_api :: pval where "ns_api \<equiv> PStr ''SYNO.San.Nvme.Namespace''"
abbreviation ss_api :: pval where "ss_api \<equiv> PStr ''SYNO.San.Nvme.Subsystem''"

subsection \<open>Namespaces\<close>

definition NamespaceCreate :: "'n env \<Rightarrow> DSM \<Rightarrow> NamespaceCreateSpec \<Rightarrow> ('n world, err + string) prog" where
  "NamespaceCreate env dsm spec = san_request env (dec_field ''uuid'' dec_string) dsm
     [(''api'', ns_api), (''method'', PStr ''create''), v1, (''name'', PQuote (nc_Name spec)),
      (''description'', PQuote (nc_Description spec)), (''location'', PStr (nc_Location spec)),
      (''size'', PStr (itoa (sint (nc_Size spec)))),
      (''is_thin_provision'', PStr (bool_str (nc_ThinProvisioning spec))),
      (''support_discard'', PStr (bool_str (nc_Reclaim spec)))]"

definition NamespaceClone :: "'n env \<Rightarrow> DSM \<Rightarrow> NamespaceCloneSpec \<Rightarrow> ('n world, err + string) prog" where
  "NamespaceClone env dsm spec = san_request env (dec_field ''dst_namespace_uuid'' dec_string) dsm
     [(''api'', ns_api), (''method'', PStr ''clone''), v1, (''uuid'', PQuote (ncl_SrcUuid spec)),
      (''dst_namespace_name'', PQuote (ncl_Name spec)), (''dst_location'', PQuote (ncl_Location spec))]"

definition NamespaceSet :: "'n env \<Rightarrow> DSM \<Rightarrow> NamespaceSetSpec \<Rightarrow> ('n world, err + unit) prog" where
  "NamespaceSet env dsm spec = san_request_all env dsm
     ([(''api'', ns_api), (''method'', PStr ''set''), v1, (''uuid'', PQuote (nst_Uuid spec))]
      @ (if nst_NewSize spec > 0 then [(''new_size'', PStr (itoa (sint (nst_NewSize spec))))] else []))"

definition NamespaceDelete :: "'n env \<Rightarrow> DSM \<Rightarrow> string \<Rightarrow> ('n world, err + unit) prog" where
  "NamespaceDelete env dsm uuid = san_request_all env dsm
     [(''api'', ns_api), (''method'', PStr ''delete''), v1, (''uuid'', PQuote uuid),
      (''is_soft_feas_ignored'', PStr (bool_str True))]"

definition NamespaceGet :: "'n env \<Rightarrow> DSM \<Rightarrow> string \<Rightarrow> ('n world, err + NamespaceInfo) prog" where
  "NamespaceGet env dsm uuidOrName = san_request env (dec_field ''namespace'' dec_NamespaceInfo) dsm
     [(''api'', ns_api), (''method'', PStr ''get''), v1, (''uuid'', PQuote uuidOrName)]"

definition NamespaceList :: "'n env \<Rightarrow> DSM \<Rightarrow> ('n world, err + NamespaceInfo list) prog" where
  "NamespaceList env dsm = san_request env (dec_field ''namespaces'' (dec_list dec_NamespaceInfo)) dsm
     [(''api'', ns_api), (''method'', PStr ''list''), v1]"

subsection \<open>Namespace snapshots\<close>

definition NamespaceSnapshotList :: "'n env \<Rightarrow> DSM \<Rightarrow> string \<Rightarrow> ('n world, err + SnapshotInfo list) prog" where
  "NamespaceSnapshotList env dsm srcUuid = san_request env (dec_field ''snapshots'' (dec_list dec_SnapshotInfo)) dsm
     [(''api'', ns_api), (''method'', PStr ''list_snapshot''), v1, (''uuid'', PQuote srcUuid)]"

definition NamespaceSnapshotGet :: "'n env \<Rightarrow> DSM \<Rightarrow> string \<Rightarrow> ('n world, err + SnapshotInfo) prog" where
  "NamespaceSnapshotGet env dsm snapshotUuid = san_request env (dec_field ''snapshot'' dec_SnapshotInfo) dsm
     [(''api'', ns_api), (''method'', PStr ''get_snapshot''), v1, (''snapshot_uuid'', PQuote snapshotUuid)]"

definition NamespaceSnapshotCreate :: "'n env \<Rightarrow> DSM \<Rightarrow> SnapshotCreateSpec \<Rightarrow> ('n world, err + string) prog" where
  "NamespaceSnapshotCreate env dsm spec = san_request env (dec_field ''snapshot_uuid'' dec_string) dsm
     [(''api'', ns_api), (''method'', PStr ''take_snapshot''), v1, (''uuid'', PQuote (sc_SrcUuid spec)),
      (''snapshot_name'', PQuote (sc_Name spec)), (''description'', PQuote (sc_Description spec)),
      (''taken_by'', PQuote (sc_TakenBy spec)), (''is_user_locked'', PStr (bool_str (sc_IsLocked spec))),
      (''is_app_consistent'', PStr (bool_str False))]"

definition NamespaceSnapshotClone :: "'n env \<Rightarrow> DSM \<Rightarrow> SnapshotCloneSpec \<Rightarrow> ('n world, err + string) prog" where
  "NamespaceSnapshotClone env dsm spec = san_request env (dec_field ''cloned_namespace_uuid'' dec_string) dsm
     [(''api'', ns_api), (''method'', PStr ''clone_snapshot''), v1,
      (''snapshot_uuid'', PQuote (scl_SrcSnapshotUuid spec)),
      (''cloned_namespace_name'', PQuote (scl_Name spec))]"

definition NamespaceSnapshotDelete :: "'n env \<Rightarrow> DSM \<Rightarrow> string \<Rightarrow> ('n world, err + unit) prog" where
  "NamespaceSnapshotDelete env dsm snapshotUuid = san_request_all env dsm
     [(''api'', ns_api), (''method'', PStr ''delete_snapshot''), v1,
      (''snapshot_uuid'', PQuote snapshotUuid)]"

subsection \<open>Subsystems\<close>

definition SubsystemCreate :: "'n env \<Rightarrow> DSM \<Rightarrow> SubsystemCreateSpec \<Rightarrow> ('n world, err + string) prog" where
  "SubsystemCreate env dsm spec = san_request env (dec_field ''uuid'' dec_string) dsm
     [(''api'', ss_api), (''method'', PStr ''create''), v1, (''name'', PQuote (ssc_Name spec)),
      (''nqn'', PQuote (ssc_Nqn spec))]"

definition SubsystemGet :: "'n env \<Rightarrow> DSM \<Rightarrow> string \<Rightarrow> ('n world, err + SubsystemInfo) prog" where
  "SubsystemGet env dsm uuid = san_request env (dec_field ''subsystem'' dec_SubsystemInfo) dsm
     [(''api'', ss_api), (''method'', PStr ''get''), v1, (''uuid'', PQuote uuid)]"

definition SubsystemDelete :: "'n env \<Rightarrow> DSM \<Rightarrow> string \<Rightarrow> ('n world, err + unit) prog" where
  "SubsystemDelete env dsm uuid = san_request_all env dsm
     [(''api'', ss_api), (''method'', PStr ''delete''), v1, (''uuid'', PQuote uuid)]"

definition SubsystemSetNamespaces :: "'n env \<Rightarrow> DSM \<Rightarrow> string \<Rightarrow> string list \<Rightarrow> ('n world, err + unit) prog" where
  "SubsystemSetNamespaces env dsm uuid namespaceUuids = san_request_all env dsm
     [(''api'', ss_api), (''method'', PStr ''set_namespaces''), v1, (''uuid'', PQuote uuid),
      (''namespace_uuids'', PJson (JArr (map JStr namespaceUuids)))]"

subsection \<open>Contracts\<close>

lemma nvme_reads [emits_rules]:
  "only D quiet (NamespaceGet env dsm u)" "only D quiet (NamespaceList env dsm)"
  "only D quiet (NamespaceSnapshotList env dsm u)" "only D quiet (NamespaceSnapshotGet env dsm u)"
  "only D quiet (SubsystemGet env dsm u)"
  unfolding NamespaceGet_def NamespaceList_def NamespaceSnapshotList_def NamespaceSnapshotGet_def
    SubsystemGet_def
  by (rule san.read_only; simp add: reading_def read_methods_def not_login_def)+

lemma nvme_creates:
  "emits D (NamespaceCreate env dsm nspec) (makes env dsm ResNs)"
  "emits D (NamespaceClone env dsm cspec) (makes env dsm ResNs)"
  "emits D (NamespaceSnapshotClone env dsm sspec) (makes env dsm ResNs)"
  "emits D (NamespaceSnapshotCreate env dsm pspec) (makes env dsm ResNsSnap)"
  "emits D (SubsystemCreate env dsm uspec) (makes env dsm ResSub)"
  unfolding NamespaceCreate_def NamespaceClone_def NamespaceSnapshotClone_def
    NamespaceSnapshotCreate_def SubsystemCreate_def
  by (rule emits_mono [OF san.send_emits], simp add: request_eval,
      erule sent_makes; (rename_tac c k, case_tac k)?; auto simp: request_eval; fail)+

lemma nvme_drops:
  "emits D (NamespaceDelete env dsm u) (\<lambda>_. drops env dsm (ResNs u))"
  "emits D (SubsystemDelete env dsm u) (\<lambda>_. drops env dsm (ResSub u))"
  "emits D (NamespaceSnapshotDelete env dsm u) (\<lambda>_. drops env dsm (ResNsSnap u))"
  unfolding NamespaceDelete_def SubsystemDelete_def NamespaceSnapshotDelete_def
  by (rule emits_mono [OF san_all_emits], simp add: request_eval,
      erule exE, erule sent_drops; (rename_tac c k, case_tac k)?; auto simp: request_eval; fail)+

lemma nvme_harmless:
  "emits D (NamespaceSet env dsm nspec) (\<lambda>_. harmless)"
  "emits D (SubsystemSetNamespaces env dsm u us) (\<lambda>_. harmless)"
  unfolding NamespaceSet_def SubsystemSetNamespaces_def
  by (rule emits_mono [OF san_all_emits], simp add: request_eval, erule exE,
      erule sent_harmless, rule no_effectI; rename_tac c k, case_tac k; auto simp: request_eval; fail)+

end
