(* ===== verification/Share.thy ===== *)
theory Share
  imports Nvmeof
begin

text \<open>
  \<^verbatim>\<open>pkg/dsm/webapi/share.go\<close>: shares, their snapshots, permissions and NFS export
  rules. Share requests are retried while the storage system reports that its share
  subsystem is busy, NFS privilege requests while it cannot look the share up, and a
  save of export rules until reading them back shows them in effect. The lemmas show
  that both kinds of request keep the contract of a single one, and that a save that
  reports success was confirmed.
\<close>

subsection \<open>Requests with retries\<close>

definition shareErrCodeMapping :: "int \<Rightarrow> err option \<Rightarrow> err option" where
  "shareErrCodeMapping errCode oriErr =
     (if errCode = 402 then Some NoSuchShareError
      else if errCode = 403 then Some BadParametersError
      else if errCode = 3301 then Some AlreadyExistError
      else if errCode = 3309 then Some ShareReachMaxCountError
      else if errCode = 3328 then Some ShareSystemBusyError
      else if errCode \<ge> 3300 then Some (ShareDefaultError errCode)
      else oriErr)"

interpretation share_map: err_mapping shareErrCodeMapping
  by unfold_locales (auto simp: shareErrCodeMapping_def)

definition shareBusyRetryTimeout :: nat where "shareBusyRetryTimeout = 30000"
definition nfsPrivilegeRetryTimeout :: nat where "nfsPrivilegeRetryTimeout = 10000"
definition nfsPrivilegeVerifyTimeout :: nat where "nfsPrivilegeVerifyTimeout = 30000"
definition nfsPrivilegeShareLoadFailErrCode :: int where "nfsPrivilegeShareLoadFailErrCode = 2370"

text \<open>The result of a retried request: its error, or else the data of the last response.\<close>

definition retried :: "(err + 'a) \<times> err option \<Rightarrow> err + 'a" where
  "retried a = (case snd a of Some e \<Rightarrow> Inl e | None \<Rightarrow> fst a)"

definition share_attempt :: "int \<times> (err + 'a) \<Rightarrow> (err + 'a) \<times> (bool \<times> err) option" where
  "share_attempt r = (snd r,
     case shareErrCodeMapping (fst r) (err_of (snd r)) of
       None \<Rightarrow> None
     | Some m \<Rightarrow> if errors_is m ShareSystemBusyError then Some (False, m) else Some (True, m))"

definition shareRequest :: "'n env \<Rightarrow> 'a decoder \<Rightarrow> DSM \<Rightarrow> params \<Rightarrow> ('n world, err + 'a) prog" where
  "shareRequest env dec dsm ps = do {
     a \<leftarrow> backoff_retry env shareBusyRetryTimeout (do {
        r \<leftarrow> sendRequest env dsm [] dec ps entry_cgi;
        State_Monad.return (share_attempt r) });
     State_Monad.return (retried a) }"

definition nfs_attempt :: "int \<times> (err + 'a) \<Rightarrow> (err + 'a) \<times> (bool \<times> err) option" where
  "nfs_attempt r = (snd r,
     case snd r of
       Inr _ \<Rightarrow> None
     | Inl e \<Rightarrow> if fst r = nfsPrivilegeShareLoadFailErrCode then Some (False, e) else Some (True, e))"

definition nfsPrivilegeRequest ::
  "'n env \<Rightarrow> 'a decoder \<Rightarrow> nat \<Rightarrow> DSM \<Rightarrow> params \<Rightarrow> ('n world, err + 'a) prog" where
  "nfsPrivilegeRequest env dec retryTimeout dsm ps = do {
     a \<leftarrow> backoff_retry env retryTimeout (do {
        r \<leftarrow> sendRequest env dsm [] dec ps entry_cgi;
        State_Monad.return (nfs_attempt r) });
     State_Monad.return (retried a) }"

text \<open>
  The interface of the two: an attempt function that reports no error only for a result
  and, for an answer without error code, reports one only without a result. Whatever
  keeps it makes a \<open>sender\<close>, the retries included.
\<close>

locale retrying =
  fixes attempt :: "int \<times> (err + 'a) \<Rightarrow> (err + 'a) \<times> (bool \<times> err) option"
  assumes same_result: "fst (attempt r) = snd r"
    and ok_result: "snd (attempt r) = None \<Longrightarrow> is_ok (snd r)"
    and err_result: "snd (attempt r) \<noteq> None \<Longrightarrow> is_ok (snd r) \<Longrightarrow> fst r \<noteq> 0"
begin

lemma attempt_sent:
  assumes "not_login ps"
  shows "emits D (do { r \<leftarrow> sendRequest env dsm [] dec ps entry_cgi; State_Monad.return (attempt r) })
     (\<lambda>a t. sent env dsm ps dec (case snd a of None \<Rightarrow> fst a | Some pe \<Rightarrow> Inl (snd pe)) t)"
proof (rule emits_bind [OF emits_conj [OF sendRequest_emits [OF assms] sendRequest_code [OF assms]]],
    rule emits_return)
  fix r :: "int \<times> (err + 'a)" and t
  assume "sent env dsm ps dec (snd r) t \<and> clean_code dsm ps dec r t"
  then have s: "sent env dsm ps dec (snd r) t" and c: "clean_code dsm ps dec (fst r, snd r) t"
    by simp_all
  have "sent env dsm ps dec (Inl e) t" if "snd (attempt r) \<noteq> None" for e
  proof (cases "is_ok (snd r)")
    case True
    with sent_failed [OF s c] err_result [OF that] show ?thesis by simp
  next
    case False
    then show ?thesis by (intro sent_result [OF s]) auto
  qed
  with s show "sent env dsm ps dec
      (case snd (attempt r) of None \<Rightarrow> fst (attempt r) | Some pe \<Rightarrow> Inl (snd pe)) (t @ [])"
    by (auto simp: same_result split: option.splits)
qed

lemma request_sent:
  assumes "not_login ps"
  shows "emits D (do {
       a \<leftarrow> backoff_retry env ms (do {
         r \<leftarrow> sendRequest env dsm [] dec ps entry_cgi; State_Monad.return (attempt r) });
       State_Monad.return (retried a) }) (\<lambda>r t. sent env dsm ps dec r t)"
proof (rule emits_bind)
  show "emits D (backoff_retry env ms (do {
         r \<leftarrow> sendRequest env dsm [] dec ps entry_cgi; State_Monad.return (attempt r) }))
     (\<lambda>a t. sent env dsm ps dec (retried a) t)"
  proof (rule backoff_emits [OF attempt_sent [OF assms]])
    fix a :: "(err + 'a) \<times> (bool \<times> err) option" and t
    assume "sent env dsm ps dec (case snd a of None \<Rightarrow> fst a | Some pe \<Rightarrow> Inl (snd pe)) t"
    then show "sent env dsm ps dec (retried (fst a, map_option snd (snd a))) t"
      by (auto simp: retried_def split: option.splits)
  next
    fix r :: "err + 'a" and e t x t'
    assume "sent env dsm ps dec (case snd (r, Some (False, e)) of None \<Rightarrow> fst (r, Some (False, e))
         | Some pe \<Rightarrow> Inl (snd pe)) t"
      and "sent env dsm ps dec (retried x) t'"
    then show "sent env dsm ps dec (retried x) (t @ t')"
      using sent_again by simp
  qed
next
  fix a t
  assume "sent env dsm ps dec (retried a) t"
  then show "emits D (State_Monad.return (retried a)) (\<lambda>y t'. sent env dsm ps dec y (t @ t'))"
    by (intro emits_return) simp
qed

end

interpretation share_retry: retrying share_attempt
proof
  fix r :: "int \<times> (err + 'a)"
  show "fst (share_attempt r) = snd r" by (simp add: share_attempt_def)
  show "is_ok (snd r)" if "snd (share_attempt r) = None"
    using that
    by (cases "snd r") (simp_all add: share_attempt_def share_map.keeps_failure split: option.splits if_splits)
  show "fst r \<noteq> 0" if "snd (share_attempt r) \<noteq> None" "is_ok (snd r)"
    using that share_map.keeps_success
    by (cases "snd r") (auto simp: share_attempt_def split: option.splits if_splits)
qed

interpretation nfs_retry: retrying nfs_attempt
  by unfold_locales (auto simp: nfs_attempt_def split: sum.splits if_splits)

interpretation share: sender env "shareRequest env dec" dec for env dec
  by unfold_locales (simp add: shareRequest_def share_retry.request_sent)

interpretation nfs: sender env "nfsPrivilegeRequest env dec ms" dec for env dec ms
  by unfold_locales (simp add: nfsPrivilegeRequest_def nfs_retry.request_sent)

abbreviation share_api :: pval where "share_api \<equiv> PStr ''SYNO.Core.Share''"
abbreviation snap_api :: pval where "snap_api \<equiv> PStr ''SYNO.Core.Share.Snapshot''"
abbreviation perm_api :: pval where "perm_api \<equiv> PStr ''SYNO.Core.Share.Permission''"
abbreviation priv_api :: pval where "priv_api \<equiv> PStr ''SYNO.Core.FileServ.NFS.SharePrivilege''"
abbreviation nfs_api :: pval where "nfs_api \<equiv> PStr ''SYNO.Core.FileServ.NFS''"

definition share_additional :: pval where
  "share_additional = PQuoteList [''encryption'', ''enable_share_cow'', ''recyclebin'',
     ''support_snapshot'', ''share_quota'']"

subsection \<open>Shares\<close>

definition ShareGet :: "'n env \<Rightarrow> DSM \<Rightarrow> string \<Rightarrow> ('n world, err + ShareInfo) prog" where
  "ShareGet env dsm shareName = shareRequest env dec_ShareInfo dsm
     [(''api'', share_api), (''method'', PStr ''get''), v1, (''additional'', share_additional),
      (''name'', PQuote shareName)]"

definition ShareList :: "'n env \<Rightarrow> DSM \<Rightarrow> ('n world, err + ShareInfo list) prog" where
  "ShareList env dsm = shareRequest env (dec_field ''shares'' (dec_list dec_ShareInfo)) dsm
     [(''api'', share_api), (''method'', PStr ''list''), v1, (''additional'', share_additional)]"

definition ShareCreate :: "'n env \<Rightarrow> DSM \<Rightarrow> ShareCreateSpec \<Rightarrow> ('n world, err + unit) prog" where
  "ShareCreate env dsm spec = shareRequest env dec_unit dsm
     [(''api'', share_api), (''method'', PStr ''create''), v1, (''name'', PQuote (shc_Name spec)),
      (''shareinfo'', PJson (enc_ShareInfo (shc_ShareInfo spec)))]"

definition ShareClone :: "'n env \<Rightarrow> DSM \<Rightarrow> ShareCloneSpec \<Rightarrow> ('n world, err + string) prog" where
  "ShareClone env dsm spec =
     (if sh_NameOrg (shcl_ShareInfo spec) = []
      then State_Monad.return (Inl (FmtError ''Clone failed. The source name can't be empty.''))
      else shareRequest env (dec_field ''name'' dec_string) dsm
        ([(''api'', share_api), (''method'', PStr ''clone''), v1, (''name'', PQuote (shcl_Name spec))]
         @ (if shcl_Snapshot spec \<noteq> [] then [(''snapshot'', PQuote (shcl_Snapshot spec))] else [])
         @ [(''shareinfo'', PJson (enc_ShareInfo (shcl_ShareInfo spec)))]))"

definition ShareDelete :: "'n env \<Rightarrow> DSM \<Rightarrow> string \<Rightarrow> ('n world, err + unit) prog" where
  "ShareDelete env dsm shareName = shareRequest env dec_unit dsm
     [(''api'', share_api), (''method'', PStr ''delete''), v1, (''name'', PQuoteList [shareName])]"

definition ShareSet :: "'n env \<Rightarrow> DSM \<Rightarrow> string \<Rightarrow> ShareUpdateInfo \<Rightarrow> ('n world, err + unit) prog" where
  "ShareSet env dsm shareName updateInfo = shareRequest env dec_unit dsm
     [(''api'', share_api), (''method'', PStr ''set''), v1, (''name'', PQuote shareName),
      (''shareinfo'', PJson (enc_ShareUpdateInfo updateInfo))]"

definition SetShareQuota :: "'n env \<Rightarrow> DSM \<Rightarrow> ShareInfo \<Rightarrow> int64 \<Rightarrow> ('n world, err + unit) prog" where
  "SetShareQuota env dsm shareInfo newSizeInMB = ShareSet env dsm (sh_Name shareInfo)
     \<lparr>su_Name = sh_Name shareInfo, su_VolPath = sh_VolPath shareInfo,
      su_QuotaForCreate = Some newSizeInMB\<rparr>"

subsection \<open>Share snapshots\<close>

definition ShareSnapshotCreate :: "'n env \<Rightarrow> DSM \<Rightarrow> ShareSnapshotCreateSpec \<Rightarrow> ('n world, err + string) prog" where
  "ShareSnapshotCreate env dsm spec = shareRequest env dec_string dsm
     [(''api'', snap_api), (''method'', PStr ''create''), v1, (''name'', PQuote (sscs_ShareName spec)),
      (''snapinfo'', PJson (JObj [(''desc'', JStr (sscs_Desc spec)), (''lock'', JBool (sscs_IsLocked spec))]))]"

definition ShareSnapshotList :: "'n env \<Rightarrow> DSM \<Rightarrow> string \<Rightarrow> ('n world, err + ShareSnapshotInfo list) prog" where
  "ShareSnapshotList env dsm name = shareRequest env
     (dec_obj (\<lambda>ob. do {
        snaps \<leftarrow> dec_list dec_ShareSnapshotInfo (jfield ''snapshots'' ob);
        _ \<leftarrow> dec_int (jfield ''total'' ob);
        Some snaps })) dsm
     [(''api'', snap_api), (''method'', PStr ''list''), (''version'', PStr ''2''), (''name'', PQuote name),
      (''additional'', PQuoteList [''desc'', ''lock'', ''schedule_snapshot'', ''ruuid'', ''snap_size''])]"

definition ShareSnapshotDelete :: "'n env \<Rightarrow> DSM \<Rightarrow> string \<Rightarrow> string \<Rightarrow> ('n world, err + unit) prog" where
  "ShareSnapshotDelete env dsm snapTime shareName = do {
     r \<leftarrow> shareRequest env (dec_list dec_unit) dsm
       [(''api'', snap_api), (''method'', PStr ''delete''), v1, (''name'', PQuote shareName),
        (''snapshots'', PQuoteList [snapTime])];
     State_Monad.return (case r of
       Inl e \<Rightarrow> Inl e
     | Inr objmap \<Rightarrow> if length objmap > 0
         then Inl (FmtError ''Failed to delete snapshot, API common error. snapshot: %s'') else Inr ()) }"

subsection \<open>Permissions\<close>

definition SharePermissionSet :: "'n env \<Rightarrow> DSM \<Rightarrow> SharePermissionSetSpec \<Rightarrow> ('n world, err + unit) prog" where
  "SharePermissionSet env dsm spec = shareRequest env dec_unit dsm
     [(''api'', perm_api), (''method'', PStr ''set''), v1, (''name'', PQuote (sps_Name spec)),
      (''user_group_type'', PQuote (sps_UserGroupType spec)),
      (''permissions'', PJson (JArr (map enc_SharePermission (sps_Permissions spec))))]"

definition SharePermissionList :: "'n env \<Rightarrow> DSM \<Rightarrow> string \<Rightarrow> string \<Rightarrow> ('n world, err + SharePermission list) prog" where
  "SharePermissionList env dsm shareName userGroupType =
     shareRequest env (dec_field ''items'' (dec_list dec_SharePermission)) dsm
     [(''api'', perm_api), (''method'', PStr ''list''), v1, (''name'', PQuote shareName),
      (''user_group_type'', PQuote userGroupType)]"

subsection \<open>NFS export rules\<close>

definition nfs_save_params :: "SharePrivilege \<Rightarrow> params" where
  "nfs_save_params privilege =
     [(''api'', priv_api), (''method'', PStr ''save''), (''share_name'', PQuote (spv_ShareName privilege)),
      v1, (''rule'', PJson (JArr (map enc_PrivilegeRule (spv_Rule privilege))))]"

definition nfs_load_params :: "string \<Rightarrow> params" where
  "nfs_load_params shareName =
     [(''api'', priv_api), (''method'', PStr ''load''), (''share_name'', PQuote shareName), v1]"

definition shareNfsPrivilegeSaveOnce :: "'n env \<Rightarrow> DSM \<Rightarrow> SharePrivilege \<Rightarrow> ('n world, err + unit) prog" where
  "shareNfsPrivilegeSaveOnce env dsm privilege =
     nfsPrivilegeRequest env dec_unit nfsPrivilegeRetryTimeout dsm (nfs_save_params privilege)"

definition ShareNfsPrivilegeLoad :: "'n env \<Rightarrow> DSM \<Rightarrow> string \<Rightarrow> ('n world, err + SharePrivilege) prog" where
  "ShareNfsPrivilegeLoad env dsm shareName =
     nfsPrivilegeRequest env dec_SharePrivilege nfsPrivilegeRetryTimeout dsm (nfs_load_params shareName)"

text \<open>The Go map \<^verbatim>\<open>inEffect\<close>: the last rule of a client wins, an absent client reads as
  the empty string.\<close>

definition inEffect :: "SharePrivilege \<Rightarrow> string \<Rightarrow> string" where
  "inEffect got client =
     (case map_of (rev (map (\<lambda>r. (pr_Client r, pr_Privilege r)) (spv_Rule got))) client of
        None \<Rightarrow> [] | Some p \<Rightarrow> p)"

definition missingPrivilegeRules :: "SharePrivilege \<Rightarrow> SharePrivilege \<Rightarrow> string list" where
  "missingPrivilegeRules got want =
     map pr_Client (filter (\<lambda>rule. inEffect got (pr_Client rule) \<noteq> pr_Privilege rule) (spv_Rule want))"

definition save_attempt :: "'n env \<Rightarrow> DSM \<Rightarrow> SharePrivilege \<Rightarrow> ('n world, unit) attempt" where
  "save_attempt env dsm privilege = do {
     s \<leftarrow> shareNfsPrivilegeSaveOnce env dsm privilege;
     case s of
       Inl e \<Rightarrow> State_Monad.return ((), Some (True, e))
     | Inr _ \<Rightarrow> do {
         l \<leftarrow> ShareNfsPrivilegeLoad env dsm (spv_ShareName privilege);
         case l of
           Inl e \<Rightarrow> State_Monad.return ((), Some (False, e))
         | Inr got \<Rightarrow>
             if missingPrivilegeRules got privilege \<noteq> []
             then State_Monad.return ((), Some (False,
               FmtError ''DSM[%s] did not apply the NFS export rules of share(%s) for %v''))
             else State_Monad.return ((), None) } }"

definition ShareNfsPrivilegeSave :: "'n env \<Rightarrow> DSM \<Rightarrow> SharePrivilege \<Rightarrow> ('n world, err option) prog" where
  "ShareNfsPrivilegeSave env dsm privilege = do {
     a \<leftarrow> backoff_retry env nfsPrivilegeVerifyTimeout (save_attempt env dsm privilege);
     State_Monad.return (snd a) }"

subsection \<open>The NFS service\<close>

definition NfsGet :: "'n env \<Rightarrow> DSM \<Rightarrow> ('n world, err + NfsInfo) prog" where
  "NfsGet env dsm = do {
     r \<leftarrow> sendRequest env dsm [] dec_NfsInfo
       [(''api'', nfs_api), (''method'', PStr ''get''), (''version'', PStr ''2'')] entry_cgi;
     State_Monad.return (snd r) }"

definition NfsSet :: "'n env \<Rightarrow> DSM \<Rightarrow> bool \<Rightarrow> bool \<Rightarrow> int \<Rightarrow> ('n world, err + unit) prog" where
  "NfsSet env dsm enableV3 enableV4 enabledMinorVer = do {
     r \<leftarrow> sendRequest env dsm [] dec_unit
       [(''api'', nfs_api), (''method'', PStr ''set''), (''version'', PStr ''2''),
        (''enable_nfs'', PStr (bool_str enableV3)), (''enable_nfs_v4'', PStr (bool_str enableV4)),
        (''enabled_minor_ver'', PStr (itoa enabledMinorVer))] entry_cgi;
     State_Monad.return (snd r) }"

subsection \<open>Contracts\<close>

lemma share_reads [emits_rules]:
  "only D quiet (ShareGet env dsm n)" "only D quiet (ShareList env dsm)"
  "only D quiet (ShareSnapshotList env dsm n)" "only D quiet (SharePermissionList env dsm n g)"
  unfolding ShareGet_def ShareList_def ShareSnapshotList_def SharePermissionList_def
  by (rule share.read_only; simp add: reading_def read_methods_def not_login_def)+

lemma nfs_reads [emits_rules]:
  "only D quiet (ShareNfsPrivilegeLoad env dsm n)"
  unfolding ShareNfsPrivilegeLoad_def nfs_load_params_def
  by (rule nfs.read_only; simp add: reading_def read_methods_def not_login_def)

lemma NfsGet_reads [emits_rules]: "only D quiet (NfsGet env dsm)"
  unfolding NfsGet_def
  by (rule emits_bind [OF sendRequest_emits], simp add: not_login_def, rule emits_return)
    (auto elim!: sent_quiet simp: reading_def read_methods_def)

lemma NfsSet_harmless: "emits D (NfsSet env dsm b4 b5 n) (\<lambda>_. harmless)"
  unfolding NfsSet_def
  by (rule emits_bind [OF sendRequest_emits], simp add: not_login_def, rule emits_return, simp,
      erule sent_harmless, rule no_effectI; rename_tac c k, case_tac k; auto simp: request_eval)

lemma ShareCreate_emits:
  "emits D (ShareCreate env dsm spec) (makes env dsm (\<lambda>_. ResShare (shc_Name spec)))"
  unfolding ShareCreate_def
  by (rule emits_mono [OF share.send_emits], simp add: request_eval,
      erule sent_makes; (rename_tac c k, case_tac k)?; auto simp: request_eval)

lemma ShareClone_emits:
  "emits D (ShareClone env dsm spec) (makes env dsm (\<lambda>_. ResShare (shcl_Name spec)))"
  unfolding ShareClone_def
  by (rule emits_if, rule emits_return, simp add: makes_def,
      rule emits_mono [OF share.send_emits], simp add: request_eval,
      erule sent_makes; (rename_tac c k, case_tac k)?; auto simp: request_eval)

lemma ShareSnapshotCreate_emits:
  "emits D (ShareSnapshotCreate env dsm spec) (makes env dsm (ResShareSnap (sscs_ShareName spec)))"
  unfolding ShareSnapshotCreate_def
  by (rule emits_mono [OF share.send_emits], simp add: request_eval,
      erule sent_makes; (rename_tac c k, case_tac k)?; auto simp: request_eval)

lemma share_drops:
  "emits D (ShareDelete env dsm n) (\<lambda>_. drops env dsm (ResShare n))"
  "emits D (ShareSnapshotDelete env dsm t n) (\<lambda>_. drops env dsm (ResShareSnap n t))"
  unfolding ShareDelete_def ShareSnapshotDelete_def
   apply (rule emits_mono [OF share.send_emits], simp add: request_eval,
      erule sent_drops; (rename_tac c k, case_tac k)?; auto simp: request_eval)
  apply (rule share.finish, simp add: request_eval,
      erule sent_drops; (rename_tac c k, case_tac k)?; auto simp: request_eval)
  done

lemma share_harmless:
  "emits D (ShareSet env dsm n u) (\<lambda>_. harmless)"
  "emits D (SharePermissionSet env dsm pspec) (\<lambda>_. harmless)"
  unfolding ShareSet_def SharePermissionSet_def
  by (rule emits_mono [OF share.send_emits], simp add: request_eval,
      erule sent_harmless, rule no_effectI; rename_tac c k, case_tac k; auto simp: request_eval; fail)+

lemma SetShareQuota_harmless: "emits D (SetShareQuota env dsm i m) (\<lambda>_. harmless)"
  by (simp add: SetShareQuota_def share_harmless)

subsection \<open>A save that succeeded was confirmed\<close>

lemma missingPrivilegeRules_iff:
  "missingPrivilegeRules got want = [] \<longleftrightarrow>
     (\<forall>rule \<in> set (spv_Rule want). inEffect got (pr_Client rule) = pr_Privilege rule)"
  by (auto simp: missingPrivilegeRules_def filter_empty_conv)

lemma inEffect_snoc:
  "inEffect \<lparr>spv_ShareName = n, spv_Rule = rs @ [r]\<rparr> c =
     (if pr_Client r = c then pr_Privilege r else inEffect \<lparr>spv_ShareName = n, spv_Rule = rs\<rparr> c)"
  by (simp add: inEffect_def)

definition is_save :: "call \<Rightarrow> bool" where
  "is_save c \<longleftrightarrow> calls_api ''SYNO.Core.FileServ.NFS.SharePrivilege'' ''save'' c"

definition read_back :: "DSM \<Rightarrow> SharePrivilege \<Rightarrow> call list \<Rightarrow> bool" where
  "read_back dsm privilege t \<longleftrightarrow> list_ex (\<lambda>c. carries dsm (nfs_load_params (spv_ShareName privilege)) c \<and>
     (case reply_value False dec_SharePrivilege (c_reply c) of
        None \<Rightarrow> False
      | Some got \<Rightarrow> list_all (\<lambda>rule. inEffect got (pr_Client rule) = pr_Privilege rule)
                     (spv_Rule privilege))) t"

lemma sent_load_read_back:
  assumes "sent env dsm (nfs_load_params (spv_ShareName privilege)) dec_SharePrivilege (Inr got) t"
    and "missingPrivilegeRules got privilege = []"
  shows "read_back dsm privilege t \<and> \<not> list_ex is_save t"
proof
  have "list_all (\<lambda>rule. inEffect got (pr_Client rule) = pr_Privilege rule) (spv_Rule privilege)"
    using assms(2) by (simp add: missingPrivilegeRules_iff list_all_iff)
  with assms(1) show "read_back dsm privilege t"
    by (auto simp: sent_def read_back_def list_ex_iff)
  from assms(1) show "\<not> list_ex is_save t"
    by (auto simp: sent_def list_ex_iff list_all_iff is_save_def request_eval carries_def
        nfs_load_params_def is_login_def c_method_def)
qed

definition confirmed :: "DSM \<Rightarrow> SharePrivilege \<Rightarrow> call list \<Rightarrow> bool" where
  "confirmed dsm privilege t \<longleftrightarrow>
     (\<exists>t1 t2. t = t1 @ t2 \<and> read_back dsm privilege t2 \<and> \<not> list_ex is_save t2)"

lemma confirmed_append: "confirmed dsm privilege t \<Longrightarrow> confirmed dsm privilege (s @ t)"
  unfolding confirmed_def by (metis append_assoc)

lemma confirmedI: "read_back dsm privilege t \<and> \<not> list_ex is_save t \<Longrightarrow> confirmed dsm privilege t"
  unfolding confirmed_def by (metis append_Nil)

lemma save_attempt_emits:
  "emits D (save_attempt env dsm privilege) (\<lambda>a t. snd a = None \<longrightarrow> confirmed dsm privilege t)"
  unfolding save_attempt_def shareNfsPrivilegeSaveOnce_def ShareNfsPrivilegeLoad_def
proof (rule emits_bind [OF nfs.send_emits])
  show "not_login (nfs_save_params privilege)" by (simp add: not_login_def nfs_save_params_def)
  fix s :: "err + unit" and t1
  have load: "not_login (nfs_load_params (spv_ShareName privilege))"
    by (simp add: not_login_def nfs_load_params_def)
  show "emits D (case s of Inl e \<Rightarrow> State_Monad.return ((), Some (True, e))
     | Inr _ \<Rightarrow> do {
         l \<leftarrow> nfsPrivilegeRequest env dec_SharePrivilege nfsPrivilegeRetryTimeout dsm
                (nfs_load_params (spv_ShareName privilege));
         case l of Inl e \<Rightarrow> State_Monad.return ((), Some (False, e))
         | Inr got \<Rightarrow> if missingPrivilegeRules got privilege \<noteq> []
             then State_Monad.return ((), Some (False,
               FmtError ''DSM[%s] did not apply the NFS export rules of share(%s) for %v''))
             else State_Monad.return ((), None) })
     (\<lambda>y t'. snd y = None \<longrightarrow> confirmed dsm privilege (t1 @ t'))"
  proof (rule emits_case_sum, rule emits_return, simp, rule emits_bind [OF nfs.send_emits [OF load]],
      rule emits_case_sum, rule emits_return, simp, rule emits_if, rule emits_return, simp,
      rule emits_return)
    fix l :: "err + SharePrivilege" and got t2
    assume "sent env dsm (nfs_load_params (spv_ShareName privilege)) dec_SharePrivilege l t2"
      and "l = Inr got" "\<not> missingPrivilegeRules got privilege \<noteq> []"
    then have "read_back dsm privilege t2 \<and> \<not> list_ex is_save t2"
      using sent_load_read_back by simp
    then show "snd ((), None) = None \<longrightarrow> confirmed dsm privilege (t1 @ t2 @ [])"
      by (simp add: confirmedI confirmed_append)
  qed
qed

lemma ShareNfsPrivilegeSave_saved:
  "emits D (ShareNfsPrivilegeSave env dsm privilege) (\<lambda>r t. r = None \<longrightarrow> confirmed dsm privilege t)"
proof -
  have "emits D (backoff_retry env nfsPrivilegeVerifyTimeout (save_attempt env dsm privilege))
     (\<lambda>a t. snd a = None \<longrightarrow> confirmed dsm privilege t)"
    by (rule backoff_emits [OF save_attempt_emits]) (simp_all add: confirmed_append)
  then show ?thesis
    unfolding ShareNfsPrivilegeSave_def by (rule emits_bind, intro emits_return) simp
qed

text \<open>C9: \<^verbatim>\<open>ShareNfsPrivilegeSave\<close> reports success only after it has read the rules back: the
  log ends with requests none of which is a save, and one of which loads the privilege of
  the share with an answer in which every rule asked for is in effect.\<close>

theorem ShareNfsPrivilegeSave_confirmed:
  "emits D (ShareNfsPrivilegeSave env dsm privilege) (\<lambda>r t. r = None \<longrightarrow>
     (\<exists>t1 t2. t = t1 @ t2 \<and> \<not> list_ex is_save t2 \<and> list_ex (\<lambda>c.
        carries dsm (nfs_load_params (spv_ShareName privilege)) c \<and>
        (\<exists>got. reply_value False dec_SharePrivilege (c_reply c) = Some got \<and>
           (\<forall>rule \<in> set (spv_Rule privilege). inEffect got (pr_Client rule) = pr_Privilege rule))) t2))"
proof -
  have unf: "confirmed dsm privilege t \<Longrightarrow>
     \<exists>t1 t2. t = t1 @ t2 \<and> \<not> list_ex is_save t2 \<and> list_ex (\<lambda>c.
        carries dsm (nfs_load_params (spv_ShareName privilege)) c \<and>
        (\<exists>got. reply_value False dec_SharePrivilege (c_reply c) = Some got \<and>
           (\<forall>rule \<in> set (spv_Rule privilege). inEffect got (pr_Client rule) = pr_Privilege rule))) t2" for t
    unfolding confirmed_def read_back_def list_ex_iff list_all_iff
    by (elim exE conjE bexE, intro exI conjI) (auto split: option.splits)
  show ?thesis by (rule emits_mono [OF ShareNfsPrivilegeSave_saved]) (blast dest: unf)
qed

definition sample_rule :: PrivilegeRule where
  "sample_rule = \<lparr>pr_Async = False, pr_Client = ''10.0.0.7'', pr_Crossmnt = True, pr_Insecure = True,
     pr_Privilege = ''rw'', pr_RootSquash = ''root'', pr_SecurityFlavor =
       \<lparr>sf_Kerbros = False, sf_KerbrosIntegrity = False, sf_KerbrosPrivacy = False, sf_Sys = True\<rparr>\<rparr>"

definition sample_privilege :: SharePrivilege where
  "sample_privilege = \<lparr>spv_ShareName = ''k8s-csi-pvc-1'', spv_Rule = [sample_rule]\<rparr>"

text \<open>The storage system accepts every save; the first reading back shows no rule, the
  later ones the rule.\<close>

definition lossy_env :: "nat env" where
  "lossy_env = script_env (\<lambda>n. if n = 1 then api_ok (JObj [])
     else if n = 3 then api_ok (JObj [(''rule'', JArr [JObj [(''client'', JStr ''10.0.0.7''),
       (''privilege'', JStr ''rw'')]])]) else api_ok JNull)"

theorem ShareNfsPrivilegeSave_confirmed_witness:
  "result_of (ShareNfsPrivilegeSave lossy_env http_dsm sample_privilege) world0 = None \<and>
   length (calls (after (ShareNfsPrivilegeSave lossy_env http_dsm sample_privilege) world0)) = 4 \<and>
   (\<exists>c \<in> set (calls (after (ShareNfsPrivilegeSave lossy_env http_dsm sample_privilege) world0)).
      carries http_dsm (nfs_load_params ''k8s-csi-pvc-1'') c)"
proof -
  have run: "result_of (ShareNfsPrivilegeSave lossy_env http_dsm sample_privilege) world0 = None \<and>
     length (calls (after (ShareNfsPrivilegeSave lossy_env http_dsm sample_privilege) world0)) = 4"
    by (simp add: ShareNfsPrivilegeSave_def backoff_retry_def save_attempt_def numeral_2_eq_2
      shareNfsPrivilegeSaveOnce_def ShareNfsPrivilegeLoad_def nfsPrivilegeRequest_def nfs_attempt_def
      lossy_env_def run_sendRequest_script retried_def missingPrivilegeRules_def inEffect_def
      sample_privilege_def sample_rule_def dec_unit_def dec_SharePrivilege_def dec_PrivilegeRule_def
      dec_SecurityFlavor_def jfield_def)
  with emitsD [OF ShareNfsPrivilegeSave_confirmed [of "dsms world0" lossy_env http_dsm sample_privilege], of world0]
  show ?thesis by (auto simp: list_ex_iff sample_privilege_def)
qed

end
