(* ===== verification/Storage.thy ===== *)
theory Storage
  imports Share
begin

text \<open>
  \<^verbatim>\<open>pkg/dsm/webapi/storage.go\<close>, \<^verbatim>\<open>systeminfo.go\<close> and the test for a unified controller
  of \<^verbatim>\<open>utils.go\<close>: the volumes (storage pools) of a storage system, its description and
  its network interfaces. All of them only read.
\<close>

definition storage_request :: "'n env \<Rightarrow> 'a decoder \<Rightarrow> DSM \<Rightarrow> params \<Rightarrow> ('n world, err + 'a) prog" where
  "storage_request env dec dsm ps = do {
     r \<leftarrow> sendRequest env dsm [] dec ps entry_cgi;
     State_Monad.return (snd r) }"

interpretation storage: sender env "storage_request env dec" dec for env dec
proof
  fix ps :: params and D and dsm
  assume ps: "not_login ps"
  show "emits D (storage_request env dec dsm ps) (\<lambda>r t. sent env dsm ps dec r t)"
    unfolding storage_request_def
    by (rule emits_bind [OF sendRequest_emits [OF ps]], rule emits_return) simp
qed

definition VolumeList :: "'n env \<Rightarrow> DSM \<Rightarrow> ('n world, err + VolInfo list) prog" where
  "VolumeList env dsm = storage_request env (dec_field ''volumes'' (dec_list dec_VolInfo)) dsm
     [(''api'', PStr ''SYNO.Core.Storage.Volume''), (''method'', PStr ''list''), v1,
      (''offset'', PStr ''0''), (''limit'', PStr ''-1''), (''location'', PStr ''all'')]"

definition VolumeGet :: "'n env \<Rightarrow> DSM \<Rightarrow> string \<Rightarrow> ('n world, err + VolInfo) prog" where
  "VolumeGet env dsm name = storage_request env (dec_field ''volume'' dec_VolInfo) dsm
     [(''api'', PStr ''SYNO.Core.Storage.Volume''), (''method'', PStr ''get''), v1,
      (''volume_path'', PQuote name)]"

definition DsmSystemInfoGet :: "'n env \<Rightarrow> DSM \<Rightarrow> string \<Rightarrow> ('n world, err + DsmSysInfo) prog" where
  "DsmSystemInfoGet env dsm infoType = storage_request env dec_DsmSysInfo dsm
     ([(''api'', PStr ''SYNO.Core.System''), (''method'', PStr ''info''), v1]
      @ (if infoType \<noteq> [] then [(''type'', PStr infoType)] else []))"

definition FillSystemInfo :: "'n env \<Rightarrow> DSM \<Rightarrow> ('n world, err + DSM) prog" where
  "FillSystemInfo env dsm = do {
     r1 \<leftarrow> DsmSystemInfoGet env dsm ''define'';
     case r1 of
       Inl e \<Rightarrow> State_Monad.return (Inl e)
     | Inr info1 \<Rightarrow> do {
         let dsm1 = dsm\<lparr>SupportNvmeof := (si_SupportNvmeof info1 = ''yes'')\<rparr>;
         r2 \<leftarrow> DsmSystemInfoGet env dsm1 ''network'';
         case r2 of
           Inl e \<Rightarrow> State_Monad.return (Inl e)
         | Inr info2 \<Rightarrow> do {
             let dsm2 = dsm1\<lparr>Hostname := si_Hostname info2\<rparr>;
             r3 \<leftarrow> DsmSystemInfoGet env dsm2 '''';
             case r3 of
               Inl e \<Rightarrow> State_Monad.return (Inl e)
             | Inr info3 \<Rightarrow> State_Monad.return (Inr (dsm2\<lparr>FirmwareVer := si_FirmwareVer info3\<rparr>)) } } }"

definition NetworkInterfaceList :: "'n env \<Rightarrow> DSM \<Rightarrow> string \<Rightarrow> ('n world, err + NetworkInterface list) prog" where
  "NetworkInterfaceList env dsm relayNode = do {
     r \<leftarrow> storage_request env (dec_list dec_NetworkInterface) dsm
       ([(''api'', PStr ''SYNO.Core.Network.Interface''), (''method'', PStr ''list''), v1]
        @ (if relayNode \<noteq> [] then [(''relay_node'', PStr relayNode)] else []));
     State_Monad.return (map_sum id
       (filter (\<lambda>i. str_contains (ni_Ifname i) ''eth'' \<or> str_contains (ni_Ifname i) ''bond'')) r) }"

definition IsUC :: "DSM \<Rightarrow> bool" where
  "IsUC dsm = str_contains (FirmwareVer dsm) ''DSM UC''"

lemma storage_reads [emits_rules]:
  "only D quiet (VolumeList env dsm)" "only D quiet (VolumeGet env dsm n)"
  "only D quiet (DsmSystemInfoGet env dsm k)"
  unfolding VolumeList_def VolumeGet_def DsmSystemInfoGet_def
  by (rule storage.read_only; simp add: reading_def read_methods_def not_login_def)+

lemma NetworkInterfaceList_reads [emits_rules]: "only D quiet (NetworkInterfaceList env dsm n)"
  unfolding NetworkInterfaceList_def
  by (rule storage.finish) (auto elim!: sent_quiet simp: not_login_def reading_def read_methods_def)

lemma FillSystemInfo_reads [emits_rules]: "only D quiet (FillSystemInfo env dsm)"
  unfolding FillSystemInfo_def Let_def by (intro emits_rules) simp_all

lemma FillSystemInfo_keeps:
  assumes "run_state (FillSystemInfo env dsm) w = (Inr dsm', w')"
  shows "Ip dsm' = Ip dsm \<and> Https dsm' = Https dsm \<and> InsecureSkipVerify dsm' = InsecureSkipVerify dsm"
  using assms by (auto simp: FillSystemInfo_def Let_def case_prod_beta split: sum.splits prod.splits)

end
