(* ===== verification/Models.thy ===== *)
theory Models
  imports Storage "HOL-Library.List_Lexorder" "HOL-Library.Char_ord"
begin

text \<open>
  \<^verbatim>\<open>pkg/models\<close>: the constants and names of the driver, the records that the service
  layer exchanges with the CSI handlers, and the keys lists are sorted by. Go's zero
  values of the web API structs, which a volume description holds for the protocols it
  does not use, are the \<open>zero_\<close> constants. The lemmas bound the generated names.
\<close>

subsection \<open>dsm.go\<close>

definition FsTypeExt4 :: string where "FsTypeExt4 = ''ext4''"
definition FsTypeBtrfs :: string where "FsTypeBtrfs = ''btrfs''"
definition LunTypeFile :: string where "LunTypeFile = ''FILE''"
definition LunTypeAdv :: string where "LunTypeAdv = ''ADV''"
definition LunTypeBlun :: string where "LunTypeBlun = ''BLUN''"
definition LunTypeBlunThick :: string where "LunTypeBlunThick = ''BLUN_THICK''"
definition MaxIqnLen :: nat where "MaxIqnLen = 128"
definition MaxNqnLen :: nat where "MaxNqnLen = 128"
definition MaxShareLen :: nat where "MaxShareLen = 32"
definition TargetPrefix :: string where "TargetPrefix = ''k8s-csi''"
definition SubsystemPrefix :: string where "SubsystemPrefix = TargetPrefix"
definition DevicePrefix :: string where "DevicePrefix = ''k8s-csi''"
definition IqnPrefix :: string where "IqnPrefix = ''iqn.2000-01.com.synology:''"
definition NqnPrefix :: string where "NqnPrefix = ''nqn.2000-01.com.synology:''"
definition SharePrefix :: string where "SharePrefix = ''k8s-csi''"
definition ShareSnapshotDescPrefix :: string where "ShareSnapshotDescPrefix = ''(Do not change)''"

definition GenBackendName :: "string \<Rightarrow> string" where
  "GenBackendName volName = DevicePrefix @ ''-'' @ volName"

definition GenShareName :: "string \<Rightarrow> string" where
  "GenShareName volName =
     (let shareName = SharePrefix @ ''-'' @ volName
      in if length shareName > MaxShareLen then take MaxShareLen shareName else shareName)"

subsection \<open>dsm_req_spec.go\<close>

record CreateK8sVolumeSpec =
  cv_DsmIp :: string
  cv_K8sVolumeName :: string
  cv_BackendName :: string
  cv_Description :: string
  cv_ShareName :: string
  cv_Location :: string
  cv_Size :: int64
  cv_Type :: string
  cv_ThinProvisioning :: bool
  cv_TargetName :: string
  cv_MultipleSession :: bool
  cv_SourceSnapshotId :: string
  cv_SourceVolumeId :: string
  cv_Protocol :: string
  cv_NfsVersion :: string
  cv_DevAttribs :: "(string \<times> bool) list"
  cv_Reclaim :: bool

record K8sVolumeRespSpec =
  kv_DsmIp :: string
  kv_VolumeId :: string
  kv_SizeInBytes :: int64
  kv_Location :: string
  kv_Name :: string
  kv_Source :: string
  kv_Lun :: LunInfo
  kv_Target :: TargetInfo
  kv_Share :: ShareInfo
  kv_Namespace :: NamespaceInfo
  kv_Subsystem :: SubsystemInfo
  kv_Protocol :: string
  kv_BaseDir :: string

record K8sSnapshotRespSpec =
  ks_DsmIp :: string
  ks_Name :: string
  ks_Uuid :: string
  ks_ParentName :: string
  ks_ParentUuid :: string
  ks_Status :: string
  ks_SizeInBytes :: int64
  ks_CreateTime :: int64
  ks_Time :: string
  ks_RootPath :: string
  ks_Protocol :: string

record CreateK8sVolumeSnapshotSpec =
  csn_K8sVolumeId :: string
  csn_SnapshotName :: string
  csn_Description :: string
  csn_TakenBy :: string
  csn_IsLocked :: bool

definition zero_LunInfo :: LunInfo where
  "zero_LunInfo = \<lparr>lun_Name = [], lun_Uuid = [], lun_LunType = 0, lun_Location = [], lun_Size = 0,
     lun_Used = 0, lun_Status = [], lun_FlashcacheStatus = [], lun_IsActionLocked = False,
     lun_DevAttribs = []\<rparr>"

definition zero_TargetInfo :: TargetInfo where
  "zero_TargetInfo = \<lparr>tg_Name = [], tg_Iqn = [], tg_Status = [], tg_MaxSessions = 0,
     tg_MappedLuns = [], tg_ConnectedSessions = [], tg_NetworkPortals = [], tg_TargetId = 0\<rparr>"

definition zero_ShareInfo :: ShareInfo where
  "zero_ShareInfo = \<lparr>sh_Name = [], sh_VolPath = [], sh_Desc = [], sh_EnableShareCow = False,
     sh_EnableRecycleBin = False, sh_RecycleBinAdminOnly = False, sh_Encryption = 0,
     sh_QuotaForCreate = None, sh_QuotaValueInMB = 0, sh_SupportSnapshot = False, sh_Uuid = [],
     sh_NameOrg = []\<rparr>"

definition zero_NamespaceInfo :: NamespaceInfo where
  "zero_NamespaceInfo = \<lparr>ns_Uuid = [], ns_Name = [], ns_Location = [], ns_Size = 0,
     ns_IsThinProvision = False, ns_IsActionLocked = False, ns_BufferedIo = False,
     ns_SupportDiscard = False, ns_SupportFua = False, ns_SubsystemUuid = []\<rparr>"

definition zero_SubsystemInfo :: SubsystemInfo where
  "zero_SubsystemInfo = \<lparr>ss_Uuid = [], ss_Name = [], ss_Nqn = [], ss_Status = [], ss_Ports = []\<rparr>"

text \<open>\<^verbatim>\<open>sort.Sort(ByVolumeId(...))\<close> and \<^verbatim>\<open>sort.Sort(BySnapshotAndParentUuid(...))\<close>; the order of
  elements with equal keys, which Go leaves open, is that of the list.\<close>

definition sort_ByVolumeId :: "K8sVolumeRespSpec list \<Rightarrow> K8sVolumeRespSpec list" where
  "sort_ByVolumeId xs = sort_key kv_VolumeId xs"

definition snapshot_key :: "K8sSnapshotRespSpec \<Rightarrow> string" where
  "snapshot_key s = ks_ParentUuid s @ ''/'' @ ks_Uuid s"

definition sort_BySnapshotAndParentUuid :: "K8sSnapshotRespSpec list \<Rightarrow> K8sSnapshotRespSpec list" where
  "sort_BySnapshotAndParentUuid xs = sort_key snapshot_key xs"

subsection \<open>Names\<close>

lemma GenShareName_take: "GenShareName v = ''k8s-csi-'' @ take 24 v"
  by (simp add: GenShareName_def MaxShareLen_def SharePrefix_def Let_def numeral_eq_Suc)

lemma length_GenShareName: "length (GenShareName v) \<le> 32"
  by (simp add: GenShareName_take)

lemma GenShareName_prefix: "has_prefix (GenShareName v) SharePrefix"
  by (simp add: GenShareName_take SharePrefix_def)

lemma GenBackendName_prefix: "has_prefix (GenBackendName v) DevicePrefix"
  by (simp add: GenBackendName_def)

lemma GenShareName_eq_iff:
  "GenShareName v = GenShareName v' \<longleftrightarrow> take 24 v = take 24 v'"
  by (simp add: GenShareName_take)

lemma GenBackendName_inj: "GenBackendName v = GenBackendName v' \<longleftrightarrow> v = v'"
  by (simp add: GenBackendName_def)

end
