(* ===== verification/Loops.thy ===== *)
theory Loops
  imports Models
begin

text \<open>
  Go's \<^verbatim>\<open>for ... range\<close> loops over a slice: \<open>for_each\<close> threads the variables the body
  assigns (a \<^verbatim>\<open>continue\<close> returns them unchanged), \<open>for_return\<close> is a loop whose body may
  also return from the function. The rules reduce the contract of a loop to the contract
  of its body; \<open>for_each_collect\<close> is the one for the listing loops, which collect what
  they can and remember whether anything was missing.
\<close>

fun for_each :: "('a \<Rightarrow> 's \<Rightarrow> ('w, 's) prog) \<Rightarrow> 'a list \<Rightarrow> 's \<Rightarrow> ('w, 's) prog" where
  "for_each f [] s = State_Monad.return s"
| "for_each f (x # xs) s = do { s' \<leftarrow> f x s; for_each f xs s' }"

fun for_return :: "('a \<Rightarrow> 's \<Rightarrow> ('w, 's + 'r) prog) \<Rightarrow> 'a list \<Rightarrow> 's \<Rightarrow> ('w, 's + 'r) prog" where
  "for_return f [] s = State_Monad.return (Inl s)"
| "for_return f (x # xs) s = do {
     out \<leftarrow> f x s;
     case out of Inl s' \<Rightarrow> for_return f xs s' | Inr r \<Rightarrow> State_Monad.return (Inr r) }"

lemma only_for_each [emits_rules]:
  assumes "\<And>x s. x \<in> set xs \<Longrightarrow> only D R (f x s)"
  shows "only D R (for_each f xs s)"
  using assms by (induction xs arbitrary: s) (auto intro!: emits_return only_bind)

lemma only_for_return [emits_rules]:
  assumes "\<And>x s. x \<in> set xs \<Longrightarrow> only D R (f x s)"
  shows "only D R (for_return f xs s)"
  using assms
  by (induction xs arbitrary: s) (auto intro!: emits_return only_bind emits_case_sum)

lemma for_each_emits:
  assumes "\<And>x s t pre. x \<in> set xs \<Longrightarrow> Inv pre s t \<Longrightarrow>
      emits D (f x s) (\<lambda>s' t'. Inv (pre @ [x]) s' (t @ t'))"
    and "Inv pre s t"
  shows "emits D (for_each f xs s) (\<lambda>s' t'. Inv (pre @ xs) s' (t @ t'))"
  using assms
proof (induction xs arbitrary: pre s t)
  case Nil
  then show ?case by (auto intro: emits_return)
next
  case (Cons x xs)
  have "emits D (for_each f xs s') (\<lambda>s'' t''. Inv (pre @ x # xs) s'' (t @ t' @ t''))"
    if "Inv (pre @ [x]) s' (t @ t')" for s' t'
    using Cons.IH [OF Cons.prems(1) that] by simp
  with Cons.prems show ?case by (simp, intro emits_bind [where P = "\<lambda>s' t'. Inv (pre @ [x]) s' (t @ t')"]) auto
qed

lemma for_return_emits:
  assumes step: "\<And>x s t pre. x \<in> set xs \<Longrightarrow> Inv pre s t \<Longrightarrow>
      emits D (f x s) (\<lambda>out t'. case out of Inl s' \<Rightarrow> Inv (pre @ [x]) s' (t @ t') | Inr r \<Rightarrow> Q r (t @ t'))"
    and "Inv pre s t"
  shows "emits D (for_return f xs s)
     (\<lambda>out t'. case out of Inl s' \<Rightarrow> Inv (pre @ xs) s' (t @ t') | Inr r \<Rightarrow> Q r (t @ t'))"
  using assms
proof (induction xs arbitrary: pre s t)
  case Nil
  then show ?case by (auto intro: emits_return)
next
  case (Cons x xs)
  let ?Q = "\<lambda>out t'. case out of Inl s' \<Rightarrow> Inv (pre @ x # xs) s' (t @ t') | Inr r \<Rightarrow> Q r (t @ t')"
  have "emits D (case out of Inl s' \<Rightarrow> for_return f xs s' | Inr r \<Rightarrow> State_Monad.return (Inr r))
      (\<lambda>out' t''. ?Q out' (t' @ t''))"
    if "case out of Inl s' \<Rightarrow> Inv (pre @ [x]) s' (t @ t') | Inr r \<Rightarrow> Q r (t @ t')" for out t'
  proof (cases out)
    case (Inl s')
    with that Cons.IH [OF Cons.prems(1), of "pre @ [x]" s' "t @ t'"] show ?thesis
      by (simp cong: sum.case_cong)
  next
    case (Inr r)
    with that show ?thesis by (auto intro: emits_return)
  qed
  with Cons.prems show ?case
    by (simp, intro emits_bind [where P = "\<lambda>out t'. case out of
          Inl s' \<Rightarrow> Inv (pre @ [x]) s' (t @ t') | Inr r \<Rightarrow> Q r (t @ t')"]) auto
qed

subsection \<open>Collecting loops\<close>

text \<open>
  The state of a listing loop is the list so far and the error of what could not be
  listed. \<open>collects acc acc' P S t\<close>: the list grew; what it grew by satisfies \<open>S\<close>; and if
  there is no error now, there was none before and \<open>P\<close> holds of the list.
\<close>

type_synonym 'v listing = "'v list \<times> err option"

definition collects :: "'v listing \<Rightarrow> 'v listing \<Rightarrow> ('v list \<Rightarrow> call list \<Rightarrow> bool) \<Rightarrow>
    ('v \<Rightarrow> call list \<Rightarrow> bool) \<Rightarrow> call list \<Rightarrow> bool" where
  "collects acc acc' P S t \<longleftrightarrow>
     (\<exists>new. fst acc' = fst acc @ new \<and> (\<forall>v \<in> set new. S v t)) \<and>
     (snd acc' = None \<longrightarrow> snd acc = None \<and> P (fst acc') t)"

lemma collects_same: "(snd acc = None \<Longrightarrow> P (fst acc) t) \<Longrightarrow> collects acc acc P S t"
  by (simp add: collects_def)

lemma for_each_collect:
  assumes step: "\<And>x acc. x \<in> set xs \<Longrightarrow> emits D (f x acc) (\<lambda>acc' t. collects acc acc' (P x) S t)"
    and P_mono: "\<And>x vs vs' t t'. P x vs t \<Longrightarrow> set vs \<subseteq> set vs' \<Longrightarrow> set t \<subseteq> set t' \<Longrightarrow> P x vs' t'"
    and S_mono: "\<And>v t t'. S v t \<Longrightarrow> set t \<subseteq> set t' \<Longrightarrow> S v t'"
  shows "emits D (for_each f xs acc)
     (\<lambda>acc' t. collects acc acc' (\<lambda>vs t. \<forall>x \<in> set xs. P x vs t) S t)"
proof -
  let ?Inv = "\<lambda>pre acc' t. collects acc acc' (\<lambda>vs t. \<forall>x \<in> set pre. P x vs t) S t"
  have "emits D (for_each f xs acc) (\<lambda>acc' t. ?Inv ([] @ xs) acc' ([] @ t))"
  proof (rule for_each_emits [where Inv = ?Inv])
    show "?Inv [] acc []" by (simp add: collects_same)
    fix x acc1 t1 pre
    assume x: "x \<in> set xs" and inv: "?Inv pre acc1 t1"
    show "emits D (f x acc1) (\<lambda>acc2 t2. ?Inv (pre @ [x]) acc2 (t1 @ t2))"
    proof (rule emits_mono [OF step [OF x]])
      fix acc2 t2
      assume st: "collects acc1 acc2 (P x) S t2"
      from inv obtain n1 where n1: "fst acc1 = fst acc @ n1" "\<forall>v \<in> set n1. S v t1"
        by (auto simp: collects_def)
      from st obtain n2 where n2: "fst acc2 = fst acc1 @ n2" "\<forall>v \<in> set n2. S v t2"
        by (auto simp: collects_def)
      have new: "fst acc2 = fst acc @ (n1 @ n2) \<and> (\<forall>v \<in> set (n1 @ n2). S v (t1 @ t2))"
        using n1 n2 S_mono [of _ t1 "t1 @ t2"] S_mono [of _ t2 "t1 @ t2"] by auto
      have sub: "set (fst acc1) \<subseteq> set (fst acc2)" using n2 by auto
      have "snd acc = None \<and> (\<forall>y \<in> set (pre @ [x]). P y (fst acc2) (t1 @ t2))" if "snd acc2 = None"
        using that inv st sub by (auto simp: collects_def intro: P_mono)
      with new show "?Inv (pre @ [x]) acc2 (t1 @ t2)" by (auto simp: collects_def)
    qed
  qed
  then show ?thesis by simp
qed

lemma collects_trace:
  assumes "collects acc acc' P S t" "\<And>v. S v t \<Longrightarrow> S' v t'" "\<And>vs. P vs t \<Longrightarrow> P' vs t'"
  shows "collects acc acc' P' S' t'"
  using assms by (auto simp: collects_def)

end
