(* ===== verification/Listing.thy ===== *)
theory Listing
  imports Loops
begin

text \<open>
  The listing half of \<^verbatim>\<open>pkg/dsm/service\<close>: how LUNs, namespaces and shares become
  volumes, the three listings (\<^verbatim>\<open>dsm.go\<close>, \<^verbatim>\<open>share_volume.go\<close>, \<^verbatim>\<open>namespace_volume.go\<close>), and
  the lookups \<^verbatim>\<open>findVolume\<close>, \<^verbatim>\<open>GetVolume\<close> and \<^verbatim>\<open>GetVolumeByName\<close> built on them. A listing
  returns what it could enumerate together with an error that says that something is
  missing; the interface \<open>volume_source\<close> is that contract, and \<^verbatim>\<open>findVolume\<close> is its client:
  it answers that a volume does not exist only when every storage system was heard.
\<close>

subsection \<open>Volumes\<close>

definition DsmShareToK8sVolume :: "string \<Rightarrow> ShareInfo \<Rightarrow> string \<Rightarrow> K8sVolumeRespSpec" where
  "DsmShareToK8sVolume dsmIp info protocol =
     \<lparr>kv_DsmIp = dsmIp, kv_VolumeId = sh_Uuid info,
      kv_SizeInBytes = MBToBytes (sh_QuotaValueInMB info),
      kv_Location = sh_VolPath info, kv_Name = sh_Name info,
      kv_Source = (if protocol = ProtocolSmb \<or> protocol = ProtocolNfs
                   then ''//'' @ dsmIp @ ''/'' @ sh_Name info else ''''),
      kv_Lun = zero_LunInfo, kv_Target = zero_TargetInfo, kv_Share = info,
      kv_Namespace = zero_NamespaceInfo, kv_Subsystem = zero_SubsystemInfo,
      kv_Protocol = protocol,
      kv_BaseDir = (if protocol = ProtocolNfs then sh_VolPath info @ ''/'' @ sh_Name info else '''')\<rparr>"

definition DsmLunToK8sVolume :: "string \<Rightarrow> LunInfo \<Rightarrow> TargetInfo \<Rightarrow> K8sVolumeRespSpec" where
  "DsmLunToK8sVolume dsmIp info targetInfo =
     \<lparr>kv_DsmIp = dsmIp, kv_VolumeId = lun_Uuid info, kv_SizeInBytes = lun_Size info,
      kv_Location = lun_Location info, kv_Name = lun_Name info, kv_Source = '''',
      kv_Lun = info, kv_Target = targetInfo, kv_Share = zero_ShareInfo,
      kv_Namespace = zero_NamespaceInfo, kv_Subsystem = zero_SubsystemInfo,
      kv_Protocol = ProtocolIscsi, kv_BaseDir = ''''\<rparr>"

definition DsmNamespaceToK8sVolume :: "string \<Rightarrow> NamespaceInfo \<Rightarrow> SubsystemInfo \<Rightarrow> K8sVolumeRespSpec" where
  "DsmNamespaceToK8sVolume dsmIp info subsystemInfo =
     \<lparr>kv_DsmIp = dsmIp, kv_VolumeId = ns_Uuid info, kv_SizeInBytes = ns_Size info,
      kv_Location = ns_Location info, kv_Name = ns_Name info, kv_Source = '''',
      kv_Lun = zero_LunInfo, kv_Target = zero_TargetInfo, kv_Share = zero_ShareInfo,
      kv_Namespace = info, kv_Subsystem = subsystemInfo,
      kv_Protocol = ProtocolNvme, kv_BaseDir = ''''\<rparr>"

subsection \<open>Listings\<close>

definition add_err :: "'v listing \<Rightarrow> err \<Rightarrow> 'v listing" where
  "add_err acc e = (fst acc, errors_join [snd acc, Some e])"

definition add_vol :: "'v listing \<Rightarrow> 'v \<Rightarrow> 'v listing" where
  "add_vol acc v = (fst acc @ [v], snd acc)"

text \<open>The three nested loops of \<^verbatim>\<open>listISCSIVolumes\<close>, innermost first.\<close>

definition iscsi_mapping :: "'n env \<Rightarrow> DSM \<Rightarrow> TargetInfo \<Rightarrow> MappedLun \<Rightarrow> K8sVolumeRespSpec listing
    \<Rightarrow> ('n world, K8sVolumeRespSpec listing) prog" where
  "iscsi_mapping env dsm target mapping acc = do {
     r \<leftarrow> LunGet env dsm (ml_LunUuid mapping);
     State_Monad.return (case r of
       Inl e \<Rightarrow> add_err acc (Wrapf ''DSM[%s] failed to get LUN(%s): %w'' e)
     | Inr lun \<Rightarrow> if \<not> has_prefix (lun_Name lun) DevicePrefix then acc
                  else add_vol acc (DsmLunToK8sVolume (Ip dsm) lun target)) }"

definition iscsi_dsm :: "'n env \<Rightarrow> string \<Rightarrow> DSM \<Rightarrow> K8sVolumeRespSpec listing
    \<Rightarrow> ('n world, K8sVolumeRespSpec listing) prog" where
  "iscsi_dsm env dsmIp dsm acc =
     (if dsmIp \<noteq> '''' \<and> dsmIp \<noteq> Ip dsm then State_Monad.return acc
      else do {
        r \<leftarrow> TargetList env dsm;
        case r of
          Inl e \<Rightarrow> State_Monad.return (add_err acc (Wrapf ''DSM[%s] failed to list targets: %w'' e))
        | Inr targetInfos \<Rightarrow>
            for_each (\<lambda>target. for_each (iscsi_mapping env dsm target) (tg_MappedLuns target))
              targetInfos acc })"

definition listISCSIVolumes :: "'n env \<Rightarrow> string \<Rightarrow> ('n world, K8sVolumeRespSpec listing) prog" where
  "listISCSIVolumes env dsmIp = do {
     ds \<leftarrow> range_dsms env;
     for_each (iscsi_dsm env dsmIp) ds ([], None) }"

definition nvme_namespace :: "'n env \<Rightarrow> DSM \<Rightarrow> NamespaceInfo \<Rightarrow> K8sVolumeRespSpec listing
    \<Rightarrow> ('n world, K8sVolumeRespSpec listing) prog" where
  "nvme_namespace env dsm ns acc =
     (if \<not> has_prefix (ns_Name ns) DevicePrefix then State_Monad.return acc
      else if ns_SubsystemUuid ns = '''' then State_Monad.return acc
      else do {
        r \<leftarrow> SubsystemGet env dsm (ns_SubsystemUuid ns);
        State_Monad.return (case r of
          Inl e \<Rightarrow> add_err acc (Wrapf ''DSM[%s] failed to get subsystem(%s): %w'' e)
        | Inr subsystemInfo \<Rightarrow> add_vol acc (DsmNamespaceToK8sVolume (Ip dsm) ns subsystemInfo)) })"

definition nvme_dsm :: "'n env \<Rightarrow> string \<Rightarrow> DSM \<Rightarrow> K8sVolumeRespSpec listing
    \<Rightarrow> ('n world, K8sVolumeRespSpec listing) prog" where
  "nvme_dsm env dsmIp dsm acc =
     (if dsmIp \<noteq> '''' \<and> dsmIp \<noteq> Ip dsm then State_Monad.return acc
      else if \<not> SupportNvmeof dsm then State_Monad.return acc
      else do {
        r \<leftarrow> NamespaceList env dsm;
        case r of
          Inl e \<Rightarrow> State_Monad.return (add_err acc (Wrapf ''DSM[%s] failed to list namespaces: %w'' e))
        | Inr namespaceInfos \<Rightarrow> for_each (nvme_namespace env dsm) namespaceInfos acc })"

definition listNVMeVolumes :: "'n env \<Rightarrow> string \<Rightarrow> ('n world, K8sVolumeRespSpec listing) prog" where
  "listNVMeVolumes env dsmIp = do {
     ds \<leftarrow> range_dsms env;
     for_each (nvme_dsm env dsmIp) ds ([], None) }"

definition shareToVolume :: "'n env \<Rightarrow> DSM \<Rightarrow> ShareInfo \<Rightarrow> ('n world, err + K8sVolumeRespSpec) prog" where
  "shareToVolume env dsm share = do {
     r \<leftarrow> ShareNfsPrivilegeLoad env dsm (sh_Name share);
     State_Monad.return (case r of
       Inl e \<Rightarrow> Inl e
     | Inr sharePrivilege \<Rightarrow>
         if length (spv_Rule sharePrivilege) > 0
         then Inr (DsmShareToK8sVolume (Ip dsm) share ProtocolNfs)
         else Inr (DsmShareToK8sVolume (Ip dsm) share ProtocolSmb)) }"

definition share_classified :: "'n env \<Rightarrow> DSM \<Rightarrow> ShareInfo \<Rightarrow> K8sVolumeRespSpec listing
    \<Rightarrow> ('n world, K8sVolumeRespSpec listing) prog" where
  "share_classified env dsm share acc =
     (if \<not> has_prefix (sh_Name share) SharePrefix then State_Monad.return acc
      else do {
        r \<leftarrow> shareToVolume env dsm share;
        State_Monad.return (case r of
          Inl e \<Rightarrow> add_err acc (Wrapf ''DSM[%s] failed to load NFS privilege of share(%s): %w'' e)
        | Inr info \<Rightarrow> add_vol acc info) })"

definition share_dsm :: "'n env \<Rightarrow> string \<Rightarrow> DSM \<Rightarrow> K8sVolumeRespSpec listing
    \<Rightarrow> ('n world, K8sVolumeRespSpec listing) prog" where
  "share_dsm env dsmIp dsm acc =
     (if dsmIp \<noteq> '''' \<and> dsmIp \<noteq> Ip dsm then State_Monad.return acc
      else if IsUC dsm then State_Monad.return acc
      else do {
        r \<leftarrow> ShareList env dsm;
        case r of
          Inl e \<Rightarrow> State_Monad.return (add_err acc (Wrapf ''DSM[%s] failed to list shares: %w'' e))
        | Inr shares \<Rightarrow> for_each (share_classified env dsm) shares acc })"

definition listSMBorNFSVolumes :: "'n env \<Rightarrow> string \<Rightarrow> ('n world, K8sVolumeRespSpec listing) prog" where
  "listSMBorNFSVolumes env dsmIp = do {
     ds \<leftarrow> range_dsms env;
     for_each (share_dsm env dsmIp) ds ([], None) }"

definition ListVolumes :: "'n env \<Rightarrow> ('n world, K8sVolumeRespSpec listing) prog" where
  "ListVolumes env = do {
     i \<leftarrow> listISCSIVolumes env '''';
     s \<leftarrow> listSMBorNFSVolumes env '''';
     n \<leftarrow> listNVMeVolumes env '''';
     State_Monad.return (fst i @ fst s @ fst n, errors_join [snd i, snd s, snd n]) }"

subsection \<open>Lookups\<close>

text \<open>\<^verbatim>\<open>findSMBorNFSVolume\<close> returns a volume, or nil with the error of what it could not list.\<close>

type_synonym lookup = "K8sVolumeRespSpec option \<times> err option"

definition find_share :: "'n env \<Rightarrow> (ShareInfo \<Rightarrow> bool) \<Rightarrow> DSM \<Rightarrow> ShareInfo \<Rightarrow> unit
    \<Rightarrow> ('n world, unit + lookup) prog" where
  "find_share env pred dsm share u =
     (if \<not> has_prefix (sh_Name share) SharePrefix \<or> \<not> pred share then State_Monad.return (Inl ())
      else do {
        r \<leftarrow> shareToVolume env dsm share;
        State_Monad.return (Inr (case r of
          Inl e \<Rightarrow> (None, Some (Wrapf ''DSM[%s] failed to load NFS privilege of share(%s): %w'' e))
        | Inr info \<Rightarrow> (Some info, None))) })"

definition find_share_dsm :: "'n env \<Rightarrow> (ShareInfo \<Rightarrow> bool) \<Rightarrow> DSM \<Rightarrow> err option
    \<Rightarrow> ('n world, err option + lookup) prog" where
  "find_share_dsm env pred dsm listErr =
     (if IsUC dsm then State_Monad.return (Inl listErr)
      else do {
        r \<leftarrow> ShareList env dsm;
        case r of
          Inl e \<Rightarrow> State_Monad.return (Inl (errors_join
             [listErr, Some (Wrapf ''DSM[%s] failed to list shares: %w'' e)]))
        | Inr shares \<Rightarrow> do {
            out \<leftarrow> for_return (find_share env pred dsm) shares ();
            State_Monad.return (case out of Inl _ \<Rightarrow> Inl listErr | Inr res \<Rightarrow> Inr res) } })"

definition findSMBorNFSVolume :: "'n env \<Rightarrow> (ShareInfo \<Rightarrow> bool) \<Rightarrow> ('n world, lookup) prog" where
  "findSMBorNFSVolume env pred = do {
     ds \<leftarrow> range_dsms env;
     out \<leftarrow> for_return (find_share_dsm env pred) ds None;
     State_Monad.return (case out of Inl listErr \<Rightarrow> (None, listErr) | Inr res \<Rightarrow> res) }"

definition findVolume :: "'n env \<Rightarrow> (ShareInfo \<Rightarrow> bool) \<Rightarrow> (K8sVolumeRespSpec \<Rightarrow> bool)
    \<Rightarrow> ('n world, err + K8sVolumeRespSpec option) prog" where
  "findVolume env matchShare matchVolume = do {
     s \<leftarrow> findSMBorNFSVolume env matchShare;
     case fst s of
       Some share \<Rightarrow> State_Monad.return (Inr (Some share))
     | None \<Rightarrow> do {
         i \<leftarrow> listISCSIVolumes env '''';
         case find matchVolume (fst i) of
           Some volume \<Rightarrow> State_Monad.return (Inr (Some volume))
         | None \<Rightarrow> do {
             n \<leftarrow> listNVMeVolumes env '''';
             State_Monad.return (case find matchVolume (fst n) of
               Some volume \<Rightarrow> Inr (Some volume)
             | None \<Rightarrow> (case errors_join [snd s, snd i, snd n] of
                 Some e \<Rightarrow> Inl e
               | None \<Rightarrow> Inr None)) } } }"

definition GetVolume :: "'n env \<Rightarrow> string \<Rightarrow> ('n world, err + K8sVolumeRespSpec option) prog" where
  "GetVolume env volId =
     findVolume env (\<lambda>share. sh_Uuid share = volId) (\<lambda>volume. kv_VolumeId volume = volId)"

definition GetVolumeByName :: "'n env \<Rightarrow> string \<Rightarrow> ('n world, err + K8sVolumeRespSpec option) prog" where
  "GetVolumeByName env volName =
     findVolume env (\<lambda>share. sh_Name share = GenShareName volName)
       (\<lambda>volume. kv_Name volume = GenBackendName volName \<or> kv_Name volume = GenShareName volName)"

subsection \<open>What was heard\<close>

definition heard :: "DSM \<Rightarrow> params \<Rightarrow> 'a decoder \<Rightarrow> 'a \<Rightarrow> call list \<Rightarrow> bool" where
  "heard dsm ps dec x t \<longleftrightarrow>
     (\<exists>c \<in> set t. carries dsm ps c \<and> reply_value False dec (c_reply c) = Some x)"

lemma heard_mono: "heard dsm ps dec x t \<Longrightarrow> set t \<subseteq> set t' \<Longrightarrow> heard dsm ps dec x t'"
  by (auto simp: heard_def)

lemma sent_heard: "sent env dsm ps dec (Inr x) t \<Longrightarrow> heard dsm ps dec x t"
  by (auto simp: sent_def heard_def list_ex_iff)

text \<open>Answers to the requests the listings are made of.\<close>

definition heard_targets :: "DSM \<Rightarrow> TargetInfo list \<Rightarrow> call list \<Rightarrow> bool" where
  "heard_targets dsm = heard dsm
     [(''api'', target_api), (''method'', PStr ''list''), v1, (''additional'', target_additional)]
     (dec_field ''targets'' (dec_list dec_TargetInfo))"

definition heard_lun :: "DSM \<Rightarrow> string \<Rightarrow> LunInfo \<Rightarrow> call list \<Rightarrow> bool" where
  "heard_lun dsm uuid = heard dsm
     [(''api'', lun_api), (''method'', PStr ''get''), v1, (''uuid'', PQuote uuid),
      (''additional'', lun_additional)] (dec_field ''lun'' dec_LunInfo)"

definition heard_namespaces :: "DSM \<Rightarrow> NamespaceInfo list \<Rightarrow> call list \<Rightarrow> bool" where
  "heard_namespaces dsm = heard dsm
     [(''api'', ns_api), (''method'', PStr ''list''), v1]
     (dec_field ''namespaces'' (dec_list dec_NamespaceInfo))"

definition heard_subsystem :: "DSM \<Rightarrow> string \<Rightarrow> SubsystemInfo \<Rightarrow> call list \<Rightarrow> bool" where
  "heard_subsystem dsm uuid = heard dsm
     [(''api'', ss_api), (''method'', PStr ''get''), v1, (''uuid'', PQuote uuid)]
     (dec_field ''subsystem'' dec_SubsystemInfo)"

definition heard_shares :: "DSM \<Rightarrow> ShareInfo list \<Rightarrow> call list \<Rightarrow> bool" where
  "heard_shares dsm = heard dsm
     [(''api'', share_api), (''method'', PStr ''list''), v1, (''additional'', share_additional)]
     (dec_field ''shares'' (dec_list dec_ShareInfo))"

definition heard_rules :: "DSM \<Rightarrow> string \<Rightarrow> SharePrivilege \<Rightarrow> call list \<Rightarrow> bool" where
  "heard_rules dsm name = heard dsm (nfs_load_params name) dec_SharePrivilege"

lemmas heard_defs = heard_targets_def heard_lun_def heard_namespaces_def heard_subsystem_def
  heard_shares_def heard_rules_def

lemma heards_mono:
  "heard_targets dsm ts t \<Longrightarrow> set t \<subseteq> set t' \<Longrightarrow> heard_targets dsm ts t'"
  "heard_lun dsm u l t \<Longrightarrow> set t \<subseteq> set t' \<Longrightarrow> heard_lun dsm u l t'"
  "heard_namespaces dsm ns t \<Longrightarrow> set t \<subseteq> set t' \<Longrightarrow> heard_namespaces dsm ns t'"
  "heard_subsystem dsm u s t \<Longrightarrow> set t \<subseteq> set t' \<Longrightarrow> heard_subsystem dsm u s t'"
  "heard_shares dsm ss t \<Longrightarrow> set t \<subseteq> set t' \<Longrightarrow> heard_shares dsm ss t'"
  "heard_rules dsm n p t \<Longrightarrow> set t \<subseteq> set t' \<Longrightarrow> heard_rules dsm n p t'"
  unfolding heard_defs by (rule heard_mono; assumption)+

lemma heards:
  "emits D (TargetList env dsm) (\<lambda>r t. case r of Inl e \<Rightarrow> True | Inr x \<Rightarrow> heard_targets dsm x t)"
  "emits D (LunGet env dsm u) (\<lambda>r t. case r of Inl e \<Rightarrow> True | Inr l \<Rightarrow> heard_lun dsm u l t)"
  "emits D (NamespaceList env dsm) (\<lambda>r t. case r of Inl e \<Rightarrow> True | Inr n \<Rightarrow> heard_namespaces dsm n t)"
  "emits D (SubsystemGet env dsm u) (\<lambda>r t. case r of Inl e \<Rightarrow> True | Inr s \<Rightarrow> heard_subsystem dsm u s t)"
  "emits D (ShareList env dsm) (\<lambda>r t. case r of Inl e \<Rightarrow> True | Inr z \<Rightarrow> heard_shares dsm z t)"
  "emits D (ShareNfsPrivilegeLoad env dsm n) (\<lambda>r t. case r of Inl e \<Rightarrow> True | Inr p \<Rightarrow> heard_rules dsm n p t)"
  unfolding TargetList_def LunGet_def NamespaceList_def SubsystemGet_def ShareList_def
    ShareNfsPrivilegeLoad_def heard_defs
  by (rule emits_mono [OF iscsi.send_emits] emits_mono [OF san.send_emits]
       emits_mono [OF share.send_emits] emits_mono [OF nfs.send_emits],
      simp add: not_login_def nfs_load_params_def, auto dest: sent_heard split: sum.splits; fail)+

subsection \<open>The listings only read\<close>

lemma listing_reads [emits_rules]:
  "only D quiet (listISCSIVolumes env ip)" "only D quiet (listNVMeVolumes env ip)"
  "only D quiet (listSMBorNFSVolumes env ip)" "only D quiet (shareToVolume env dsm share)"
  unfolding listISCSIVolumes_def iscsi_dsm_def iscsi_mapping_def listNVMeVolumes_def nvme_dsm_def
    nvme_namespace_def listSMBorNFSVolumes_def share_dsm_def share_classified_def shareToVolume_def
  by ((intro emits_rules; simp)+)

lemma lookup_reads [emits_rules]:
  "only D quiet (findSMBorNFSVolume env P)" "only D quiet (findVolume env P Q)"
  "only D quiet (GetVolume env v)" "only D quiet (GetVolumeByName env v)" "only D quiet (ListVolumes env)"
  unfolding GetVolume_def GetVolumeByName_def findVolume_def findSMBorNFSVolume_def find_share_dsm_def
    find_share_def ListVolumes_def
  by ((intro emits_rules; simp)+)

subsection \<open>What a listing without an error has seen\<close>

lemma snd_add_err [simp]: "snd (add_err acc e) \<noteq> None" and fst_add_err [simp]: "fst (add_err acc e) = fst acc"
  by (simp_all add: add_err_def)

lemma add_vol_simps [simp]: "snd (add_vol acc v) = snd acc" "fst (add_vol acc v) = fst acc @ [v]"
  by (simp_all add: add_vol_def)

lemma collects_add_err: "collects acc (add_err acc e) P S t"
  by (simp add: collects_def)

lemma collects_add_vol:
  "S v t \<Longrightarrow> P (fst acc @ [v]) t \<Longrightarrow> collects acc (add_vol acc v) P S t"
  by (simp add: collects_def)

definition mapping_seen :: "DSM \<Rightarrow> TargetInfo \<Rightarrow> MappedLun \<Rightarrow> K8sVolumeRespSpec list \<Rightarrow> call list \<Rightarrow> bool" where
  "mapping_seen dsm tg m vs t \<longleftrightarrow> (\<exists>lun. heard_lun dsm (ml_LunUuid m) lun t \<and>
     (has_prefix (lun_Name lun) DevicePrefix \<longrightarrow> DsmLunToK8sVolume (Ip dsm) lun tg \<in> set vs))"

definition iscsi_seen :: "string \<Rightarrow> DSM \<Rightarrow> K8sVolumeRespSpec list \<Rightarrow> call list \<Rightarrow> bool" where
  "iscsi_seen dsmIp dsm vs t \<longleftrightarrow> (dsmIp = '''' \<or> dsmIp = Ip dsm) \<longrightarrow>
     (\<exists>ts. heard_targets dsm ts t \<and>
       (\<forall>tg \<in> set ts. \<forall>m \<in> set (tg_MappedLuns tg). mapping_seen dsm tg m vs t))"

definition lun_volume :: "(string \<times> DSM) list \<Rightarrow> K8sVolumeRespSpec \<Rightarrow> call list \<Rightarrow> bool" where
  "lun_volume D v t \<longleftrightarrow> (\<exists>dsm \<in> snd ` set D. \<exists>u lun tg. heard_lun dsm u lun t \<and>
     has_prefix (lun_Name lun) DevicePrefix \<and> v = DsmLunToK8sVolume (Ip dsm) lun tg)"

lemma lun_volumeI:
  "dsm \<in> snd ` set D \<Longrightarrow> heard_lun dsm u lun t \<Longrightarrow> has_prefix (lun_Name lun) DevicePrefix \<Longrightarrow>
   lun_volume D (DsmLunToK8sVolume (Ip dsm) lun tg) t"
  unfolding lun_volume_def by blast

lemma seen_mono:
  "mapping_seen dsm tg m vs t \<Longrightarrow> set vs \<subseteq> set vs' \<Longrightarrow> set t \<subseteq> set t' \<Longrightarrow> mapping_seen dsm tg m vs' t'"
  "lun_volume D v t \<Longrightarrow> set t \<subseteq> set t' \<Longrightarrow> lun_volume D v t'"
  unfolding mapping_seen_def lun_volume_def using heards_mono(2) by (blast)+

lemma iscsi_seen_mono:
  "iscsi_seen ip dsm vs t \<Longrightarrow> set vs \<subseteq> set vs' \<Longrightarrow> set t \<subseteq> set t' \<Longrightarrow> iscsi_seen ip dsm vs' t'"
  unfolding iscsi_seen_def by (meson heards_mono(1) seen_mono(1))

lemma iscsi_mapping_collects:
  assumes "dsm \<in> snd ` set D"
  shows "emits D (iscsi_mapping env dsm tg m acc)
     (\<lambda>acc' t. collects acc acc' (mapping_seen dsm tg m) (lun_volume D) t)"
  unfolding iscsi_mapping_def
proof (rule emits_bind [OF heards(2)], rule emits_return)
  fix r :: "err + LunInfo" and t
  assume r: "case r of Inl e \<Rightarrow> True | Inr l \<Rightarrow> heard_lun dsm (ml_LunUuid m) l t"
  show "collects acc (case r of
       Inl e \<Rightarrow> add_err acc (Wrapf ''DSM[%s] failed to get LUN(%s): %w'' e)
     | Inr lun \<Rightarrow> if \<not> has_prefix (lun_Name lun) DevicePrefix then acc
                  else add_vol acc (DsmLunToK8sVolume (Ip dsm) lun tg))
     (mapping_seen dsm tg m) (lun_volume D) (t @ [])"
    using r assms
    by (cases r) (auto simp: mapping_seen_def simp del: image_iff
        intro!: collects_add_err collects_add_vol collects_same lun_volumeI)
qed

lemma iscsi_dsm_collects:
  assumes dsm: "dsm \<in> snd ` set D"
  shows "emits D (iscsi_dsm env ip dsm acc)
     (\<lambda>acc' t. collects acc acc' (iscsi_seen ip dsm) (lun_volume D) t)"
  unfolding iscsi_dsm_def
proof (rule emits_if, rule emits_return, simp add: collects_same iscsi_seen_def,
    rule emits_bind [OF heards(1)], rule emits_case_sum, rule emits_return, rule collects_add_err)
  fix r ts t
  assume "case r of Inl e \<Rightarrow> True | Inr x \<Rightarrow> heard_targets dsm x t" and "r = Inr ts"
  then have ts: "heard_targets dsm ts t" by simp
  have inner: "emits D (for_each (iscsi_mapping env dsm tg) (tg_MappedLuns tg) acc)
      (\<lambda>acc' t. collects acc acc' (\<lambda>vs t. \<forall>m \<in> set (tg_MappedLuns tg). mapping_seen dsm tg m vs t)
         (lun_volume D) t)" for tg acc
    by (rule for_each_collect [OF iscsi_mapping_collects [OF dsm]]) (auto intro: seen_mono)
  have "emits D (for_each (\<lambda>tg. for_each (iscsi_mapping env dsm tg) (tg_MappedLuns tg)) ts acc)
      (\<lambda>acc' t. collects acc acc'
         (\<lambda>vs t. \<forall>tg \<in> set ts. \<forall>m \<in> set (tg_MappedLuns tg). mapping_seen dsm tg m vs t) (lun_volume D) t)"
    by (rule for_each_collect [OF inner]) (blast intro: seen_mono)+
  then show "emits D (for_each (\<lambda>tg. for_each (iscsi_mapping env dsm tg) (tg_MappedLuns tg)) ts acc)
      (\<lambda>acc' t'. collects acc acc' (iscsi_seen ip dsm) (lun_volume D) (t @ t'))"
  proof (rule emits_mono)
    fix acc' t'
    assume "collects acc acc' (\<lambda>vs t. \<forall>tg \<in> set ts. \<forall>m \<in> set (tg_MappedLuns tg). mapping_seen dsm tg m vs t)
       (lun_volume D) t'"
    then show "collects acc acc' (iscsi_seen ip dsm) (lun_volume D) (t @ t')"
    proof (rule collects_trace)
      show "lun_volume D v t' \<Longrightarrow> lun_volume D v (t @ t')" for v
        by (erule seen_mono) auto
      show "\<forall>tg \<in> set ts. \<forall>m \<in> set (tg_MappedLuns tg). mapping_seen dsm tg m vs t' \<Longrightarrow>
          iscsi_seen ip dsm vs (t @ t')" for vs
        using heards_mono(1) [OF ts, of "t @ t'"] seen_mono(1) [of dsm _ _ vs t' vs "t @ t'"]
        unfolding iscsi_seen_def by auto
    qed
  qed
qed

lemma list_dsms_collect:
  assumes "\<And>dsm acc. dsm \<in> snd ` set D \<Longrightarrow> emits D (f dsm acc) (\<lambda>acc' t. collects acc acc' (P dsm) S t)"
    and "\<And>dsm vs vs' t t'. P dsm vs t \<Longrightarrow> set vs \<subseteq> set vs' \<Longrightarrow> set t \<subseteq> set t' \<Longrightarrow> P dsm vs' t'"
    and "\<And>v t t'. S v t \<Longrightarrow> set t \<subseteq> set t' \<Longrightarrow> S v t'"
  shows "emits D (do { ds \<leftarrow> range_dsms env; for_each f ds ([], None) })
     (\<lambda>acc t. collects ([], None) acc (\<lambda>vs t. \<forall>dsm \<in> snd ` set D. P dsm vs t) S t)"
proof (rule emits_bind [OF range_dsms_emits])
  fix ds and t0 :: "call list"
  assume ds: "t0 = [] \<and> set ds = snd ` set D"
  have "emits D (for_each f ds ([], None))
     (\<lambda>acc t. collects ([], None) acc (\<lambda>vs t. \<forall>dsm \<in> set ds. P dsm vs t) S t)"
    by (rule for_each_collect) (use ds in \<open>auto intro: assms\<close>)
  with ds show "emits D (for_each f ds ([], None))
     (\<lambda>acc t. collects ([], None) acc (\<lambda>vs t. \<forall>dsm \<in> snd ` set D. P dsm vs t) S (t0 @ t))"
    by simp
qed

lemma listISCSI_collects:
  "emits D (listISCSIVolumes env ip)
     (\<lambda>acc t. collects ([], None) acc (\<lambda>vs t. \<forall>dsm \<in> snd ` set D. iscsi_seen ip dsm vs t) (lun_volume D) t)"
  unfolding listISCSIVolumes_def
  by (rule list_dsms_collect [OF iscsi_dsm_collects iscsi_seen_mono seen_mono(2)])

definition namespace_seen :: "DSM \<Rightarrow> NamespaceInfo \<Rightarrow> K8sVolumeRespSpec list \<Rightarrow> call list \<Rightarrow> bool" where
  "namespace_seen dsm ns vs t \<longleftrightarrow> has_prefix (ns_Name ns) DevicePrefix \<and> ns_SubsystemUuid ns \<noteq> '''' \<longrightarrow>
     (\<exists>ss. heard_subsystem dsm (ns_SubsystemUuid ns) ss t \<and>
       DsmNamespaceToK8sVolume (Ip dsm) ns ss \<in> set vs)"

definition nvme_seen :: "string \<Rightarrow> DSM \<Rightarrow> K8sVolumeRespSpec list \<Rightarrow> call list \<Rightarrow> bool" where
  "nvme_seen dsmIp dsm vs t \<longleftrightarrow> (dsmIp = '''' \<or> dsmIp = Ip dsm) \<and> SupportNvmeof dsm \<longrightarrow>
     (\<exists>nss. heard_namespaces dsm nss t \<and> (\<forall>ns \<in> set nss. namespace_seen dsm ns vs t))"

definition namespace_volume :: "(string \<times> DSM) list \<Rightarrow> K8sVolumeRespSpec \<Rightarrow> call list \<Rightarrow> bool" where
  "namespace_volume D v t \<longleftrightarrow> (\<exists>dsm \<in> snd ` set D. \<exists>nss ns ss. heard_namespaces dsm nss t \<and>
     ns \<in> set nss \<and> has_prefix (ns_Name ns) DevicePrefix \<and> v = DsmNamespaceToK8sVolume (Ip dsm) ns ss)"

lemma namespace_volumeI:
  "dsm \<in> snd ` set D \<Longrightarrow> heard_namespaces dsm nss t \<Longrightarrow> ns \<in> set nss \<Longrightarrow>
   has_prefix (ns_Name ns) DevicePrefix \<Longrightarrow> namespace_volume D (DsmNamespaceToK8sVolume (Ip dsm) ns ss) t"
  unfolding namespace_volume_def by blast

lemma nvme_mono:
  "namespace_seen dsm ns vs t \<Longrightarrow> set vs \<subseteq> set vs' \<Longrightarrow> set t \<subseteq> set t' \<Longrightarrow> namespace_seen dsm ns vs' t'"
  "namespace_volume D v t \<Longrightarrow> set t \<subseteq> set t' \<Longrightarrow> namespace_volume D v t'"
  unfolding namespace_seen_def namespace_volume_def using heards_mono(3,4) by blast+

lemma nvme_seen_mono:
  "nvme_seen ip dsm vs t \<Longrightarrow> set vs \<subseteq> set vs' \<Longrightarrow> set t \<subseteq> set t' \<Longrightarrow> nvme_seen ip dsm vs' t'"
  unfolding nvme_seen_def by (meson heards_mono(3) nvme_mono(1))

lemma nvme_namespace_collects:
  "emits D (nvme_namespace env dsm ns acc) (\<lambda>acc' t. collects acc acc' (namespace_seen dsm ns)
     (\<lambda>v _. has_prefix (ns_Name ns) DevicePrefix \<and> (\<exists>ss. v = DsmNamespaceToK8sVolume (Ip dsm) ns ss)) t)"
  unfolding nvme_namespace_def
proof (rule emits_if, rule emits_return, simp add: collects_same namespace_seen_def,
    rule emits_if, rule emits_return, simp add: collects_same namespace_seen_def,
    rule emits_bind [OF heards(4)], rule emits_return)
  fix r :: "err + SubsystemInfo" and t
  assume "case r of Inl e \<Rightarrow> True | Inr s \<Rightarrow> heard_subsystem dsm (ns_SubsystemUuid ns) s t"
    and "\<not> \<not> has_prefix (ns_Name ns) DevicePrefix" "ns_SubsystemUuid ns \<noteq> ''''"
  then show "collects acc (case r of
       Inl e \<Rightarrow> add_err acc (Wrapf ''DSM[%s] failed to get subsystem(%s): %w'' e)
     | Inr subsystemInfo \<Rightarrow> add_vol acc (DsmNamespaceToK8sVolume (Ip dsm) ns subsystemInfo))
     (namespace_seen dsm ns)
     (\<lambda>v _. has_prefix (ns_Name ns) DevicePrefix \<and> (\<exists>ss. v = DsmNamespaceToK8sVolume (Ip dsm) ns ss)) (t @ [])"
    by (cases r) (auto simp: namespace_seen_def intro!: collects_add_err collects_add_vol)
qed

lemma nvme_dsm_collects:
  assumes dsm: "dsm \<in> snd ` set D"
  shows "emits D (nvme_dsm env ip dsm acc)
     (\<lambda>acc' t. collects acc acc' (nvme_seen ip dsm) (namespace_volume D) t)"
  unfolding nvme_dsm_def
proof (rule emits_if, rule emits_return, simp add: collects_same nvme_seen_def,
    rule emits_if, rule emits_return, simp add: collects_same nvme_seen_def,
    rule emits_bind [OF heards(3)], rule emits_case_sum, rule emits_return, rule collects_add_err)
  fix r nss t
  assume "case r of Inl e \<Rightarrow> True | Inr x \<Rightarrow> heard_namespaces dsm x t" and "r = Inr nss"
  then have nss: "heard_namespaces dsm nss t" by simp
  let ?S = "\<lambda>v (_ :: call list). \<exists>ns \<in> set nss. has_prefix (ns_Name ns) DevicePrefix \<and>
    (\<exists>ss. v = DsmNamespaceToK8sVolume (Ip dsm) ns ss)"
  have "emits D (for_each (nvme_namespace env dsm) nss acc)
      (\<lambda>acc' t. collects acc acc' (\<lambda>vs t. \<forall>ns \<in> set nss. namespace_seen dsm ns vs t) ?S t)"
    by (rule for_each_collect, rule emits_mono [OF nvme_namespace_collects], erule collects_trace)
      (auto intro: nvme_mono)
  then show "emits D (for_each (nvme_namespace env dsm) nss acc)
      (\<lambda>acc' t'. collects acc acc' (nvme_seen ip dsm) (namespace_volume D) (t @ t'))"
  proof (rule emits_mono)
    fix acc' t'
    assume "collects acc acc' (\<lambda>vs t. \<forall>ns \<in> set nss. namespace_seen dsm ns vs t) ?S t'"
    then show "collects acc acc' (nvme_seen ip dsm) (namespace_volume D) (t @ t')"
    proof (rule collects_trace)
      have nss': "heard_namespaces dsm nss (t @ t')" using nss by (rule heards_mono) auto
      show "?S v t' \<Longrightarrow> namespace_volume D v (t @ t')" for v
        using namespace_volumeI [OF dsm nss'] by blast
      show "\<forall>ns \<in> set nss. namespace_seen dsm ns vs t' \<Longrightarrow> nvme_seen ip dsm vs (t @ t')" for vs
        using nss' nvme_mono(1) [of dsm _ vs t' vs "t @ t'"] unfolding nvme_seen_def by auto
    qed
  qed
qed

lemma listNVMe_collects:
  "emits D (listNVMeVolumes env ip)
     (\<lambda>acc t. collects ([], None) acc (\<lambda>vs t. \<forall>dsm \<in> snd ` set D. nvme_seen ip dsm vs t) (namespace_volume D) t)"
  unfolding listNVMeVolumes_def
  by (rule list_dsms_collect [OF nvme_dsm_collects nvme_seen_mono nvme_mono(2)])

text \<open>Shares: every share of the driver was classified by its export rules.\<close>

definition share_volume :: "DSM \<Rightarrow> ShareInfo \<Rightarrow> K8sVolumeRespSpec \<Rightarrow> call list \<Rightarrow> bool" where
  "share_volume dsm share v t \<longleftrightarrow> has_prefix (sh_Name share) SharePrefix \<and>
     (\<exists>p. heard_rules dsm (sh_Name share) p t \<and>
       v = DsmShareToK8sVolume (Ip dsm) share (if spv_Rule p \<noteq> [] then ProtocolNfs else ProtocolSmb))"

definition shares_seen :: "string \<Rightarrow> DSM \<Rightarrow> K8sVolumeRespSpec list \<Rightarrow> call list \<Rightarrow> bool" where
  "shares_seen dsmIp dsm vs t \<longleftrightarrow> (dsmIp = '''' \<or> dsmIp = Ip dsm) \<and> \<not> IsUC dsm \<longrightarrow>
     (\<exists>shs. heard_shares dsm shs t \<and> (\<forall>share \<in> set shs. has_prefix (sh_Name share) SharePrefix \<longrightarrow>
        (\<exists>v \<in> set vs. share_volume dsm share v t)))"

definition any_share_volume :: "(string \<times> DSM) list \<Rightarrow> K8sVolumeRespSpec \<Rightarrow> call list \<Rightarrow> bool" where
  "any_share_volume D v t \<longleftrightarrow> (\<exists>dsm \<in> snd ` set D. \<exists>shs share. heard_shares dsm shs t \<and>
     share \<in> set shs \<and> share_volume dsm share v t)"

lemma share_mono:
  "share_volume dsm share v t \<Longrightarrow> set t \<subseteq> set t' \<Longrightarrow> share_volume dsm share v t'"
  unfolding share_volume_def using heards_mono(6) by blast

lemma any_share_mono: "any_share_volume D v t \<Longrightarrow> set t \<subseteq> set t' \<Longrightarrow> any_share_volume D v t'"
  unfolding any_share_volume_def by (meson heards_mono(5) share_mono)

lemma shares_seen_mono:
  "shares_seen ip dsm vs t \<Longrightarrow> set vs \<subseteq> set vs' \<Longrightarrow> set t \<subseteq> set t' \<Longrightarrow> shares_seen ip dsm vs' t'"
  unfolding shares_seen_def by (meson heards_mono(5) share_mono subsetD)

lemma shareToVolume_emits:
  assumes "has_prefix (sh_Name share) SharePrefix"
  shows "emits D (shareToVolume env dsm share)
     (\<lambda>r t. case r of Inl e \<Rightarrow> True | Inr v \<Rightarrow> share_volume dsm share v t)"
  unfolding shareToVolume_def
  by (rule emits_bind [OF heards(6)], rule emits_return)
    (auto simp: share_volume_def assms split: sum.splits)

lemma share_classified_collects:
  "emits D (share_classified env dsm share acc) (\<lambda>acc' t. collects acc acc'
     (\<lambda>vs t. has_prefix (sh_Name share) SharePrefix \<longrightarrow> (\<exists>v \<in> set vs. share_volume dsm share v t))
     (share_volume dsm share) t)"
  unfolding share_classified_def
proof (rule emits_if, rule emits_return, simp add: collects_same,
    rule emits_bind [OF shareToVolume_emits], simp, rule emits_return)
  fix r :: "err + K8sVolumeRespSpec" and t
  assume "case r of Inl e \<Rightarrow> True | Inr v \<Rightarrow> share_volume dsm share v t"
  then show "collects acc (case r of
       Inl e \<Rightarrow> add_err acc (Wrapf ''DSM[%s] failed to load NFS privilege of share(%s): %w'' e)
     | Inr info \<Rightarrow> add_vol acc info)
     (\<lambda>vs t. has_prefix (sh_Name share) SharePrefix \<longrightarrow> (\<exists>v \<in> set vs. share_volume dsm share v t))
     (share_volume dsm share) (t @ [])"
    by (cases r) (auto intro!: collects_add_err collects_add_vol)
qed

lemma share_dsm_collects:
  assumes dsm: "dsm \<in> snd ` set D"
  shows "emits D (share_dsm env ip dsm acc)
     (\<lambda>acc' t. collects acc acc' (shares_seen ip dsm) (any_share_volume D) t)"
  unfolding share_dsm_def
proof (rule emits_if, rule emits_return, simp add: collects_same shares_seen_def,
    rule emits_if, rule emits_return, simp add: collects_same shares_seen_def,
    rule emits_bind [OF heards(5)], rule emits_case_sum, rule emits_return, rule collects_add_err)
  fix r shs t
  assume "case r of Inl e \<Rightarrow> True | Inr x \<Rightarrow> heard_shares dsm x t" and "r = Inr shs"
  then have shs: "heard_shares dsm shs t" by simp
  let ?P = "\<lambda>vs t. \<forall>share \<in> set shs. has_prefix (sh_Name share) SharePrefix \<longrightarrow>
    (\<exists>v \<in> set vs. share_volume dsm share v t)"
  let ?S = "\<lambda>v t. \<exists>share \<in> set shs. share_volume dsm share v t"
  have "emits D (for_each (share_classified env dsm) shs acc) (\<lambda>acc' t. collects acc acc' ?P ?S t)"
    by (rule for_each_collect, rule emits_mono [OF share_classified_collects], erule collects_trace)
      (blast intro: share_mono)+
  then show "emits D (for_each (share_classified env dsm) shs acc)
      (\<lambda>acc' t'. collects acc acc' (shares_seen ip dsm) (any_share_volume D) (t @ t'))"
  proof (rule emits_mono)
    fix acc' t'
    assume "collects acc acc' ?P ?S t'"
    then show "collects acc acc' (shares_seen ip dsm) (any_share_volume D) (t @ t')"
    proof (rule collects_trace)
      have shs': "heard_shares dsm shs (t @ t')" using shs by (rule heards_mono) auto
      have m: "share_volume dsm share v t' \<Longrightarrow> share_volume dsm share v (t @ t')" for share v
        by (erule share_mono) auto
      show "?S v t' \<Longrightarrow> any_share_volume D v (t @ t')" for v
        using dsm shs' m unfolding any_share_volume_def by blast
      show "?P vs t' \<Longrightarrow> shares_seen ip dsm vs (t @ t')" for vs
        using shs' m unfolding shares_seen_def by blast
    qed
  qed
qed

lemma listShares_collects:
  "emits D (listSMBorNFSVolumes env ip)
     (\<lambda>acc t. collects ([], None) acc (\<lambda>vs t. \<forall>dsm \<in> snd ` set D. shares_seen ip dsm vs t) (any_share_volume D) t)"
  unfolding listSMBorNFSVolumes_def
  by (rule list_dsms_collect [OF share_dsm_collects shares_seen_mono any_share_mono])

subsection \<open>The interface of a listing, and the lookup\<close>

text \<open>
  A source of volumes only reads; what it returns is \<open>sound\<close>, and when it reports no error
  it is \<open>complete\<close>. The client lemma is the step of \<^verbatim>\<open>findVolume\<close>: a match is sound, and no
  match means that the volume is absent or that the source said something is missing.
\<close>

locale volume_source =
  fixes D :: "(string \<times> DSM) list"
    and src :: "('n world, K8sVolumeRespSpec listing) prog"
    and complete :: "K8sVolumeRespSpec list \<Rightarrow> call list \<Rightarrow> bool"
    and sound :: "K8sVolumeRespSpec \<Rightarrow> call list \<Rightarrow> bool"
  assumes src_reads: "only D quiet src"
    and src_collects: "emits D src (\<lambda>acc t. collects ([], None) acc complete sound t)"
begin

lemma first_match:
  "emits D src (\<lambda>acc t. list_all quiet t \<and>
     (case find P (fst acc) of
        Some v \<Rightarrow> P v \<and> sound v t
      | None \<Rightarrow> snd acc = None \<longrightarrow> (\<exists>vs. complete vs t \<and> (\<forall>v \<in> set vs. \<not> P v))))"
proof (rule emits_mono [OF emits_conj [OF src_reads src_collects]])
  fix acc t
  assume *: "list_all quiet t \<and> collects ([], None) acc complete sound t"
  show "list_all quiet t \<and> (case find P (fst acc) of
        Some v \<Rightarrow> P v \<and> sound v t
      | None \<Rightarrow> snd acc = None \<longrightarrow> (\<exists>vs. complete vs t \<and> (\<forall>v \<in> set vs. \<not> P v)))"
  proof (cases "find P (fst acc)")
    case None
    then have "\<forall>v \<in> set (fst acc). \<not> P v" by (simp add: find_None_iff)
    with None * show ?thesis by (auto simp: collects_def)
  next
    case (Some v)
    then have "P v \<and> v \<in> set (fst acc)" by (auto simp: find_Some_iff)
    with Some * show ?thesis by (auto simp: collects_def)
  qed
qed

end

interpretation luns: volume_source D "listISCSIVolumes env ip"
    "\<lambda>vs t. \<forall>dsm \<in> snd ` set D. iscsi_seen ip dsm vs t" "lun_volume D" for D env ip
  by unfold_locales (rule listing_reads(1), rule listISCSI_collects)

interpretation namespaces: volume_source D "listNVMeVolumes env ip"
    "\<lambda>vs t. \<forall>dsm \<in> snd ` set D. nvme_seen ip dsm vs t" "namespace_volume D" for D env ip
  by unfold_locales (rule listing_reads(2), rule listNVMe_collects)

interpretation shares: volume_source D "listSMBorNFSVolumes env ip"
    "\<lambda>vs t. \<forall>dsm \<in> snd ` set D. shares_seen ip dsm vs t" "any_share_volume D" for D env ip
  by unfold_locales (rule listing_reads(3), rule listShares_collects)

definition share_absent :: "(ShareInfo \<Rightarrow> bool) \<Rightarrow> DSM \<Rightarrow> call list \<Rightarrow> bool" where
  "share_absent pred dsm t \<longleftrightarrow> \<not> IsUC dsm \<longrightarrow>
     (\<exists>shs. heard_shares dsm shs t \<and>
       (\<forall>share \<in> set shs. has_prefix (sh_Name share) SharePrefix \<longrightarrow> \<not> pred share))"

definition share_found :: "(string \<times> DSM) list \<Rightarrow> (ShareInfo \<Rightarrow> bool) \<Rightarrow> K8sVolumeRespSpec \<Rightarrow> call list \<Rightarrow> bool" where
  "share_found D pred v t \<longleftrightarrow> (\<exists>dsm \<in> snd ` set D. \<exists>shs share. heard_shares dsm shs t \<and>
     share \<in> set shs \<and> pred share \<and> share_volume dsm share v t)"

lemma share_found_mono: "share_found D pred v t \<Longrightarrow> set t \<subseteq> set t' \<Longrightarrow> share_found D pred v t'"
  unfolding share_found_def by (meson heards_mono(5) share_mono)

lemma share_absent_mono: "share_absent pred dsm t \<Longrightarrow> set t \<subseteq> set t' \<Longrightarrow> share_absent pred dsm t'"
  unfolding share_absent_def using heards_mono(5) by blast

lemma find_share_emits:
  "emits D (for_return (find_share env pred dsm) shs ())
     (\<lambda>out t. case out of
        Inl _ \<Rightarrow> \<forall>share \<in> set shs. has_prefix (sh_Name share) SharePrefix \<longrightarrow> \<not> pred share
      | Inr (v, e) \<Rightarrow> (case v of None \<Rightarrow> e \<noteq> None
          | Some v \<Rightarrow> \<exists>share \<in> set shs. pred share \<and> share_volume dsm share v t))"
proof -
  let ?Inv = "\<lambda>pre (_ :: unit) (_ :: call list).
    \<forall>share \<in> set pre. has_prefix (sh_Name share) SharePrefix \<longrightarrow> \<not> pred share"
  let ?Q = "\<lambda>(v, e) t. case v of None \<Rightarrow> e \<noteq> None
    | Some v \<Rightarrow> \<exists>share \<in> set shs. pred share \<and> share_volume dsm share v t"
  have "emits D (for_return (find_share env pred dsm) shs ())
     (\<lambda>out t. case out of Inl s \<Rightarrow> ?Inv ([] @ shs) s ([] @ t) | Inr r \<Rightarrow> ?Q r ([] @ t))"
  proof (rule for_return_emits [where Inv = ?Inv and Q = ?Q])
    fix share t pre and u :: unit
    assume share: "share \<in> set shs" and inv: "?Inv pre u t"
    show "emits D (find_share env pred dsm share u)
       (\<lambda>out t'. case out of Inl s' \<Rightarrow> ?Inv (pre @ [share]) s' (t @ t') | Inr r \<Rightarrow> ?Q r (t @ t'))"
      unfolding find_share_def
    proof (rule emits_if)
      assume "\<not> has_prefix (sh_Name share) SharePrefix \<or> \<not> pred share"
      with inv show "emits D (State_Monad.return (Inl ()))
         (\<lambda>out t'. case out of Inl s' \<Rightarrow> ?Inv (pre @ [share]) s' (t @ t') | Inr r \<Rightarrow> ?Q r (t @ t'))"
        by (intro emits_return) auto
    next
      assume m: "\<not> (\<not> has_prefix (sh_Name share) SharePrefix \<or> \<not> pred share)"
      then have p: "has_prefix (sh_Name share) SharePrefix" by simp
      have grow: "share_volume dsm share v t' \<Longrightarrow> share_volume dsm share v (t @ t')" for v t'
        by (erule share_mono) auto
      show "emits D (do {
          r \<leftarrow> shareToVolume env dsm share;
          State_Monad.return (Inr (case r of
            Inl e \<Rightarrow> (None, Some (Wrapf ''DSM[%s] failed to load NFS privilege of share(%s): %w'' e))
          | Inr info \<Rightarrow> (Some info, None))) })
         (\<lambda>out t'. case out of Inl s' \<Rightarrow> ?Inv (pre @ [share]) s' (t @ t') | Inr r \<Rightarrow> ?Q r (t @ t'))"
        by (rule emits_bind [OF shareToVolume_emits [OF p]], rule emits_return)
          (use m share grow in \<open>auto split: sum.splits\<close>)
    qed
  qed simp
  then show ?thesis by (rule emits_mono) (auto split: sum.splits)
qed

lemma findSMBorNFS_emits:
  "emits D (findSMBorNFSVolume env pred) (\<lambda>r t. case fst r of
      Some v \<Rightarrow> share_found D pred v t
    | None \<Rightarrow> snd r = None \<longrightarrow> (\<forall>dsm \<in> snd ` set D. share_absent pred dsm t))"
  unfolding findSMBorNFSVolume_def
proof (rule emits_bind [OF range_dsms_emits])
  fix ds and t0 :: "call list"
  assume ds: "t0 = [] \<and> set ds = snd ` set D"
  let ?Inv = "\<lambda>pre listErr t. listErr = None \<longrightarrow> (\<forall>dsm \<in> set pre. share_absent pred dsm t)"
  let ?Q = "\<lambda>(v, e) t. case v of None \<Rightarrow> e \<noteq> None | Some v \<Rightarrow> share_found D pred v t"
  have loop: "emits D (for_return (find_share_dsm env pred) ds None)
     (\<lambda>out t. case out of Inl s \<Rightarrow> ?Inv ([] @ ds) s ([] @ t) | Inr r \<Rightarrow> ?Q r ([] @ t))"
  proof (rule for_return_emits [where Inv = ?Inv and Q = ?Q])
    fix dsm t pre and s :: "err option"
    assume dsm: "dsm \<in> set ds" and inv: "?Inv pre s t"
    let ?R = "\<lambda>out t'. case out of Inl s' \<Rightarrow> ?Inv (pre @ [dsm]) s' (t @ t') | Inr r \<Rightarrow> ?Q r (t @ t')"
    have keep: "?Inv pre s (t @ t')" for t'
      using inv by (auto elim!: share_absent_mono)
    show "emits D (find_share_dsm env pred dsm s) ?R"
      unfolding find_share_dsm_def
    proof (rule emits_if)
      assume "IsUC dsm"
      then have "share_absent pred dsm (t @ [])" by (simp add: share_absent_def)
      with keep [of "[]"] show "emits D (State_Monad.return (Inl s)) ?R"
        by (intro emits_return) auto
    next
      assume uc: "\<not> IsUC dsm"
      show "emits D (do {
          r \<leftarrow> ShareList env dsm;
          case r of
            Inl e \<Rightarrow> State_Monad.return (Inl (errors_join
               [s, Some (Wrapf ''DSM[%s] failed to list shares: %w'' e)]))
          | Inr shares \<Rightarrow> do {
              out \<leftarrow> for_return (find_share env pred dsm) shares ();
              State_Monad.return (case out of Inl _ \<Rightarrow> Inl s | Inr res \<Rightarrow> Inr res) } }) ?R"
      proof (rule emits_bind [OF heards(5)], rule emits_case_sum, rule emits_return, simp,
          rule emits_bind [OF find_share_emits], rule emits_return)
        fix r shs t1 t2 and out :: "unit + lookup"
        assume "case r of Inl e \<Rightarrow> True | Inr z \<Rightarrow> heard_shares dsm z t1" "r = Inr shs"
        then have shs: "heard_shares dsm shs (t @ t1 @ t2 @ [])" by (auto elim!: heards_mono)
        assume out: "case out of
            Inl _ \<Rightarrow> \<forall>share \<in> set shs. has_prefix (sh_Name share) SharePrefix \<longrightarrow> \<not> pred share
          | Inr (v, e) \<Rightarrow> (case v of None \<Rightarrow> e \<noteq> None
              | Some v \<Rightarrow> \<exists>share \<in> set shs. pred share \<and> share_volume dsm share v t2)"
        have grow: "share_volume dsm share v t2 \<Longrightarrow> share_volume dsm share v (t @ t1 @ t2 @ [])" for share v
          by (erule share_mono) auto
        show "?R (case out of Inl _ \<Rightarrow> Inl s | Inr res \<Rightarrow> Inr res) (t1 @ t2 @ [])"
        proof (cases out)
          case (Inl u)
          with out shs have "share_absent pred dsm (t @ t1 @ t2 @ [])"
            by (auto simp: share_absent_def)
          with Inl keep [of "t1 @ t2 @ []"] show ?thesis by auto
        next
          case (Inr ve)
          obtain v e where ve: "ve = (v, e)" by (cases ve)
          show ?thesis
          proof (cases v)
            case None
            with Inr ve out show ?thesis by simp
          next
            case (Some v')
            with Inr ve out obtain share where "share \<in> set shs" "pred share" "share_volume dsm share v' t2"
              by auto
            with shs grow dsm ds have "share_found D pred v' (t @ t1 @ t2 @ [])"
              unfolding share_found_def by blast
            with Inr ve Some show ?thesis by simp
          qed
        qed
      qed
    qed
  qed simp
  show "emits D (do {
      out \<leftarrow> for_return (find_share_dsm env pred) ds None;
      State_Monad.return (case out of Inl listErr \<Rightarrow> (None, listErr) | Inr res \<Rightarrow> res) })
     (\<lambda>r t. case fst r of
        Some v \<Rightarrow> share_found D pred v (t0 @ t)
      | None \<Rightarrow> snd r = None \<longrightarrow> (\<forall>dsm \<in> snd ` set D. share_absent pred dsm (t0 @ t)))"
    by (rule emits_bind [OF loop], rule emits_return)
      (use ds in \<open>auto split: sum.splits option.splits\<close>)
qed

definition shares_absent :: "(string \<times> DSM) list \<Rightarrow> (ShareInfo \<Rightarrow> bool) \<Rightarrow> call list \<Rightarrow> bool" where
  "shares_absent D ms t \<longleftrightarrow> (\<forall>dsm \<in> snd ` set D. share_absent ms dsm t)"

definition luns_absent :: "(string \<times> DSM) list \<Rightarrow> (K8sVolumeRespSpec \<Rightarrow> bool) \<Rightarrow> call list \<Rightarrow> bool" where
  "luns_absent D mv t \<longleftrightarrow>
     (\<exists>vs. (\<forall>dsm \<in> snd ` set D. iscsi_seen '''' dsm vs t) \<and> (\<forall>v \<in> set vs. \<not> mv v))"

definition nss_absent :: "(string \<times> DSM) list \<Rightarrow> (K8sVolumeRespSpec \<Rightarrow> bool) \<Rightarrow> call list \<Rightarrow> bool" where
  "nss_absent D mv t \<longleftrightarrow>
     (\<exists>vs. (\<forall>dsm \<in> snd ` set D. nvme_seen '''' dsm vs t) \<and> (\<forall>v \<in> set vs. \<not> mv v))"

lemma absent_mono:
  "shares_absent D ms t \<Longrightarrow> set t \<subseteq> set t' \<Longrightarrow> shares_absent D ms t'"
  "luns_absent D mv t \<Longrightarrow> set t \<subseteq> set t' \<Longrightarrow> luns_absent D mv t'"
  "nss_absent D mv t \<Longrightarrow> set t \<subseteq> set t' \<Longrightarrow> nss_absent D mv t'"
  unfolding shares_absent_def luns_absent_def nss_absent_def
  by (meson share_absent_mono iscsi_seen_mono nvme_seen_mono subset_refl)+

lemmas luns_first = luns.first_match [where ip = "''''", folded luns_absent_def]
lemmas nss_first = namespaces.first_match [where ip = "''''", folded nss_absent_def]
lemmas shares_first = findSMBorNFS_emits [folded shares_absent_def]

definition volume_absent :: "(string \<times> DSM) list \<Rightarrow> (ShareInfo \<Rightarrow> bool) \<Rightarrow> (K8sVolumeRespSpec \<Rightarrow> bool) \<Rightarrow> call list \<Rightarrow> bool" where
  "volume_absent D ms mv t \<longleftrightarrow> shares_absent D ms t \<and> luns_absent D mv t \<and> nss_absent D mv t"

definition volume_found :: "(string \<times> DSM) list \<Rightarrow> (ShareInfo \<Rightarrow> bool) \<Rightarrow> (K8sVolumeRespSpec \<Rightarrow> bool) \<Rightarrow> K8sVolumeRespSpec \<Rightarrow> call list \<Rightarrow> bool" where
  "volume_found D ms mv v t \<longleftrightarrow>
     share_found D ms v t \<or> mv v \<and> (lun_volume D v t \<or> namespace_volume D v t)"

lemma findVolume_knows_absent:
  "emits D (findVolume env matchShare matchVolume) (\<lambda>r t. r = Inr None \<longrightarrow>
      shares_absent D matchShare t \<and> luns_absent D matchVolume t \<and> nss_absent D matchVolume t)"
  unfolding findVolume_def
proof (rule emits_bind [OF shares_first], rule emits_case_option, rule emits_bind [OF luns_first],
    rule emits_case_option, rule emits_bind [OF nss_first], rule emits_return)
  fix s :: lookup and i n :: "K8sVolumeRespSpec listing" and t1 t2 t3
  assume s: "fst s = None" "case fst s of Some v \<Rightarrow> share_found D matchShare v t1
      | None \<Rightarrow> snd s = None \<longrightarrow> shares_absent D matchShare t1"
    and i: "find matchVolume (fst i) = None" "list_all quiet t2 \<and> (case find matchVolume (fst i) of
        Some v \<Rightarrow> matchVolume v \<and> lun_volume D v t2 | None \<Rightarrow> snd i = None \<longrightarrow> luns_absent D matchVolume t2)"
    and n: "list_all quiet t3 \<and> (case find matchVolume (fst n) of
        Some v \<Rightarrow> matchVolume v \<and> namespace_volume D v t3 | None \<Rightarrow> snd n = None \<longrightarrow> nss_absent D matchVolume t3)"
  show "(case find matchVolume (fst n) of Some volume \<Rightarrow> Inr (Some volume)
       | None \<Rightarrow> (case errors_join [snd s, snd i, snd n] of Some e \<Rightarrow> Inl e | None \<Rightarrow> Inr None)) = Inr None \<longrightarrow>
     shares_absent D matchShare (t1 @ t2 @ t3 @ []) \<and> luns_absent D matchVolume (t1 @ t2 @ t3 @ []) \<and>
     nss_absent D matchVolume (t1 @ t2 @ t3 @ [])"
  proof
    assume r: "(case find matchVolume (fst n) of Some volume \<Rightarrow> Inr (Some volume)
       | None \<Rightarrow> (case errors_join [snd s, snd i, snd n] of Some e \<Rightarrow> Inl e | None \<Rightarrow> Inr None)) = Inr None"
    then have f: "find matchVolume (fst n) = None" by (simp split: option.splits)
    with r have "errors_join [snd s, snd i, snd n] = None" by (simp split: option.splits)
    then have "snd s = None" "snd i = None" "snd n = None" by simp_all
    with s i n f have "shares_absent D matchShare t1" "luns_absent D matchVolume t2"
        "nss_absent D matchVolume t3"
      by simp_all
    then show "shares_absent D matchShare (t1 @ t2 @ t3 @ []) \<and>
        luns_absent D matchVolume (t1 @ t2 @ t3 @ []) \<and> nss_absent D matchVolume (t1 @ t2 @ t3 @ [])"
      by (auto elim!: absent_mono)
  qed
qed (rule emits_return, simp)+

lemma findVolume_finds:
  "emits D (findVolume env matchShare matchVolume) (\<lambda>r t. list_all quiet t \<and>
     (case r of Inr (Some v) \<Rightarrow> share_found D matchShare v t \<or>
          matchVolume v \<and> (lun_volume D v t \<or> namespace_volume D v t)
      | _ \<Rightarrow> True))"
proof (rule emits_conj [OF lookup_reads(2)])
  show "emits D (findVolume env matchShare matchVolume) (\<lambda>r t.
     case r of Inr (Some v) \<Rightarrow> share_found D matchShare v t \<or>
          matchVolume v \<and> (lun_volume D v t \<or> namespace_volume D v t)
      | _ \<Rightarrow> True)"
    unfolding findVolume_def
  proof (rule emits_bind [OF shares_first], rule emits_case_option, rule emits_bind [OF luns_first],
      rule emits_case_option, rule emits_bind [OF nss_first]; rule emits_return)
    fix n :: "K8sVolumeRespSpec listing" and t1 t2 t3 and s :: lookup and i :: "K8sVolumeRespSpec listing"
    assume "list_all quiet t3 \<and> (case find matchVolume (fst n) of
        Some v \<Rightarrow> matchVolume v \<and> namespace_volume D v t3 | None \<Rightarrow> snd n = None \<longrightarrow> nss_absent D matchVolume t3)"
    then have "matchVolume v \<and> namespace_volume D v (t1 @ t2 @ t3 @ [])"
      if "find matchVolume (fst n) = Some v" for v
      using that by (auto elim!: nvme_mono)
    then show "case (case find matchVolume (fst n) of Some volume \<Rightarrow> Inr (Some volume)
         | None \<Rightarrow> (case errors_join [snd s, snd i, snd n] of Some e \<Rightarrow> Inl e | None \<Rightarrow> Inr None)) of
       Inr (Some v) \<Rightarrow> share_found D matchShare v (t1 @ t2 @ t3 @ []) \<or>
          matchVolume v \<and> (lun_volume D v (t1 @ t2 @ t3 @ []) \<or> namespace_volume D v (t1 @ t2 @ t3 @ []))
      | _ \<Rightarrow> True"
      by (simp split: option.split)
  next
    fix i :: "K8sVolumeRespSpec listing" and t1 t2 v
    assume "list_all quiet t2 \<and> (case find matchVolume (fst i) of
          Some v \<Rightarrow> matchVolume v \<and> lun_volume D v t2 | None \<Rightarrow> snd i = None \<longrightarrow> luns_absent D matchVolume t2)"
      and "find matchVolume (fst i) = Some v"
    then show "case Inr (Some v) of Inr (Some v) \<Rightarrow> share_found D matchShare v (t1 @ t2 @ []) \<or>
          matchVolume v \<and> (lun_volume D v (t1 @ t2 @ []) \<or> namespace_volume D v (t1 @ t2 @ []))
      | _ \<Rightarrow> True"
      by (auto elim!: seen_mono)
  qed simp
qed

lemma findVolume_contract:
  "emits D (findVolume env ms mv) (\<lambda>r t. list_all quiet t \<and>
     (case r of Inl e \<Rightarrow> True | Inr None \<Rightarrow> volume_absent D ms mv t | Inr (Some v) \<Rightarrow> volume_found D ms mv v t))"
  by (rule emits_mono [OF emits_conj [OF findVolume_knows_absent findVolume_finds]])
    (auto simp: volume_absent_def volume_found_def split: sum.splits option.splits)

text \<open>C7: \<^verbatim>\<open>findVolume\<close> answers that a volume does not exist only when every storage system
  answered every listing, and nothing in the answers matches: no share of the driver
  satisfies the share predicate, no LUN that a target maps and no namespace with a
  subsystem gives a volume that satisfies the volume predicate. A storage system that did
  not answer can never be mistaken for a volume that is gone.\<close>

theorem findVolume_absent:
  "emits D (findVolume env matchShare matchVolume) (\<lambda>r t. r = Inr None \<longrightarrow> (\<forall>dsm \<in> snd ` set D.
     (IsUC dsm \<or> (\<exists>shs. heard_shares dsm shs t \<and> (\<forall>share \<in> set shs.
        \<not> (has_prefix (sh_Name share) SharePrefix \<and> matchShare share)))) \<and>
     (\<exists>ts. heard_targets dsm ts t \<and> (\<forall>tg \<in> set ts. \<forall>m \<in> set (tg_MappedLuns tg).
        \<exists>lun. heard_lun dsm (ml_LunUuid m) lun t \<and> \<not> (has_prefix (lun_Name lun) DevicePrefix \<and>
          matchVolume (DsmLunToK8sVolume (Ip dsm) lun tg)))) \<and>
     (\<not> SupportNvmeof dsm \<or> (\<exists>nss. heard_namespaces dsm nss t \<and> (\<forall>ns \<in> set nss.
        has_prefix (ns_Name ns) DevicePrefix \<and> ns_SubsystemUuid ns \<noteq> '''' \<longrightarrow>
          (\<exists>ss. heard_subsystem dsm (ns_SubsystemUuid ns) ss t \<and>
            \<not> matchVolume (DsmNamespaceToK8sVolume (Ip dsm) ns ss)))))))"
proof (rule emits_mono [OF findVolume_knows_absent], intro impI ballI)
  fix r t dsm
  assume "r = Inr None \<longrightarrow>
      shares_absent D matchShare t \<and> luns_absent D matchVolume t \<and> nss_absent D matchVolume t"
    and "r = Inr None" and dsm: "dsm \<in> snd ` set D"
  then obtain vs us where "share_absent matchShare dsm t"
    and vs: "iscsi_seen '''' dsm vs t" "\<forall>v \<in> set vs. \<not> matchVolume v"
    and us: "nvme_seen '''' dsm us t" "\<forall>v \<in> set us. \<not> matchVolume v"
    unfolding shares_absent_def luns_absent_def nss_absent_def by blast
  then show "(IsUC dsm \<or> (\<exists>shs. heard_shares dsm shs t \<and> (\<forall>share \<in> set shs.
      \<not> (has_prefix (sh_Name share) SharePrefix \<and> matchShare share)))) \<and>
   (\<exists>ts. heard_targets dsm ts t \<and> (\<forall>tg \<in> set ts. \<forall>m \<in> set (tg_MappedLuns tg).
      \<exists>lun. heard_lun dsm (ml_LunUuid m) lun t \<and> \<not> (has_prefix (lun_Name lun) DevicePrefix \<and>
        matchVolume (DsmLunToK8sVolume (Ip dsm) lun tg)))) \<and>
   (\<not> SupportNvmeof dsm \<or> (\<exists>nss. heard_namespaces dsm nss t \<and> (\<forall>ns \<in> set nss.
      has_prefix (ns_Name ns) DevicePrefix \<and> ns_SubsystemUuid ns \<noteq> '''' \<longrightarrow>
        (\<exists>ss. heard_subsystem dsm (ns_SubsystemUuid ns) ss t \<and>
          \<not> matchVolume (DsmNamespaceToK8sVolume (Ip dsm) ns ss)))))"
  proof (intro conjI)
    assume "share_absent matchShare dsm t"
    then show "IsUC dsm \<or> (\<exists>shs. heard_shares dsm shs t \<and> (\<forall>share \<in> set shs.
        \<not> (has_prefix (sh_Name share) SharePrefix \<and> matchShare share)))"
      unfolding share_absent_def by blast
    from vs show "\<exists>ts. heard_targets dsm ts t \<and> (\<forall>tg \<in> set ts. \<forall>m \<in> set (tg_MappedLuns tg).
        \<exists>lun. heard_lun dsm (ml_LunUuid m) lun t \<and> \<not> (has_prefix (lun_Name lun) DevicePrefix \<and>
          matchVolume (DsmLunToK8sVolume (Ip dsm) lun tg)))"
      unfolding iscsi_seen_def mapping_seen_def by (simp, meson)
    from us show "\<not> SupportNvmeof dsm \<or> (\<exists>nss. heard_namespaces dsm nss t \<and> (\<forall>ns \<in> set nss.
        has_prefix (ns_Name ns) DevicePrefix \<and> ns_SubsystemUuid ns \<noteq> '''' \<longrightarrow>
          (\<exists>ss. heard_subsystem dsm (ns_SubsystemUuid ns) ss t \<and>
            \<not> matchVolume (DsmNamespaceToK8sVolume (Ip dsm) ns ss))))"
      unfolding nvme_seen_def namespace_seen_def by (simp, meson)
  qed
qed

text \<open>A volume that \<^verbatim>\<open>findVolume\<close> returns is one that a storage system of the table
  reported: a share of the driver that satisfies the share predicate, classified by its
  export rules, or a LUN or namespace of the driver that satisfies the volume predicate.
  The lookup sends nothing that changes the storage systems.\<close>

theorem findVolume_found:
  "emits D (findVolume env matchShare matchVolume) (\<lambda>r t. list_all quiet t \<and>
     (case r of Inr (Some v) \<Rightarrow> share_found D matchShare v t \<or>
          matchVolume v \<and> (lun_volume D v t \<or> namespace_volume D v t)
      | _ \<Rightarrow> True))"
  by (rule emits_mono [OF findVolume_contract]) (auto simp: volume_found_def split: sum.splits option.splits)

text \<open>A storage system that answers every listing with nothing.\<close>

definition empty_env :: "nat env" where
  "empty_env = script_env (\<lambda>_. api_ok JNull)"

lemma empty_env_request [simp]:
  assumes "\<not> Https dsm"
  shows "run_state (sendRequest empty_env dsm [] dec ps path) w =
     (interpret_reply dec (api_ok JNull), w\<lparr>nas := nas w + 1, calls := calls w @
        [\<lparr>c_host = Ip dsm, c_path = path, c_query = ps, c_cookie = cookie_of (sids w (Ip dsm)),
          c_reply = api_ok JNull\<rparr>]\<rparr>)"
  unfolding empty_env_def
  by (rule run_sendRequest_script) (use assms in \<open>simp_all split: option.split\<close>)

lemma empty_env_simps [simp]:
  "env_retries empty_env ms n = 2" "env_map_order empty_env n = ([], n)"
  by (simp_all add: empty_env_def)

lemmas request_run = iscsi_request_def san_request_def san_request_all_def shareRequest_def
  nfsPrivilegeRequest_def storage_request_def share_attempt_def nfs_attempt_def retried_def
  backoff_retry_def mapped_def mapped_all_def share_map.keeps_success san_map.keeps_success

lemma run_empty_world: "run_state (findVolume empty_env ms mv) world0 =
    (Inr None, after (findVolume empty_env ms mv) world0)"
  by (simp add: findVolume_def findSMBorNFSVolume_def range_dsms_def find_share_dsm_def IsUC_def
      ShareList_def listISCSIVolumes_def iscsi_dsm_def TargetList_def listNVMeVolumes_def nvme_dsm_def
      NamespaceList_def request_run numeral_2_eq_2 dec_field_def errors_join_def)

theorem findVolume_absent_witness:
  "\<exists>r t. run_state (findVolume empty_env (\<lambda>_. True) (\<lambda>_. True)) world0 = (r, t) \<and> r = Inr None \<and>
     (\<exists>ts. heard_targets http_dsm ts (calls t))"
proof -
  let ?m = "findVolume empty_env (\<lambda>_. True) (\<lambda>_. True)"
  have r: "result_of ?m world0 = Inr None" by (subst run_empty_world) simp
  with emitsD [OF findVolume_absent [of "dsms world0" empty_env "\<lambda>_. True" "\<lambda>_. True"], of world0]
  obtain ts where "heard_targets http_dsm ts (calls (after ?m world0))" by auto
  with r show ?thesis by (metis prod.collapse)
qed

end
