(* ===== verification/Creation.thy ===== *)
theory Creation
  imports Listing
begin

text \<open>
  The creating half of \<^verbatim>\<open>pkg/dsm/service\<close>: \<^verbatim>\<open>rollback.go\<close>, and the functions of \<^verbatim>\<open>dsm.go\<close>,
  \<^verbatim>\<open>share_volume.go\<close> and \<^verbatim>\<open>namespace_volume.go\<close> that create a volume on one storage
  system, from nothing, from a snapshot, or by cloning another volume. A function that
  assigns to a field of the specification it was given a pointer to returns the
  specification as it left it.
\<close>

subsection \<open>rollback.go\<close>

type_synonym 'n rollbackStep = "string \<times> ('n world, err + unit) prog"
type_synonym 'n createRollback = "'n rollbackStep list"

definition rollback_add :: "'n createRollback \<Rightarrow> string \<Rightarrow> ('n world, err + unit) prog \<Rightarrow> 'n createRollback" where
  "rollback_add rb describe undo = rb @ [(describe, undo)]"

definition rollback_run :: "'n createRollback \<Rightarrow> ('n world, unit) prog" where
  "rollback_run rb = for_each (\<lambda>step u. do { _ \<leftarrow> snd step; State_Monad.return u }) (rev rb) ()"

text \<open>A function body with \<^verbatim>\<open>defer func() { if retErr != nil { rollback.run(dsm.Ip) } }()\<close>.\<close>

definition with_rollback :: "('n world, 'n createRollback \<times> (err + 'a)) prog \<Rightarrow> ('n world, err + 'a) prog" where
  "with_rollback body = do {
     out \<leftarrow> body;
     case snd out of
       Inl e \<Rightarrow> do { _ \<leftarrow> rollback_run (fst out); State_Monad.return (Inl e) }
     | Inr x \<Rightarrow> State_Monad.return (Inr x) }"

text \<open>
  After a creating call: an error other than \<^verbatim>\<open>AlreadyExistError\<close> is returned, an existing
  resource is left to whoever made it, a new one is registered for the rollback.
\<close>

definition after_create :: "string \<Rightarrow> ('n world, err + unit) prog \<Rightarrow> (err + 'b) \<Rightarrow>
    ('n createRollback \<Rightarrow> ('n world, 'n createRollback \<times> (err + 'a)) prog) \<Rightarrow>
    ('n world, 'n createRollback \<times> (err + 'a)) prog" where
  "after_create describe undo r k = (case r of
     Inl e \<Rightarrow> if \<not> errors_is e AlreadyExistError then State_Monad.return ([], Inl (Status Internal)) else k []
   | Inr _ \<Rightarrow> k (rollback_add [] describe undo))"

definition undo_lun :: "'n env \<Rightarrow> DSM \<Rightarrow> string \<Rightarrow> ('n world, err + unit) prog" where
  "undo_lun env dsm backendName = do {
     r \<leftarrow> LunGet env dsm backendName;
     case r of Inl e \<Rightarrow> State_Monad.return (Inl e) | Inr lun \<Rightarrow> LunDelete env dsm (lun_Uuid lun) }"

definition undo_namespace :: "'n env \<Rightarrow> DSM \<Rightarrow> string \<Rightarrow> ('n world, err + unit) prog" where
  "undo_namespace env dsm backendName = do {
     r \<leftarrow> NamespaceGet env dsm backendName;
     case r of Inl e \<Rightarrow> State_Monad.return (Inl e) | Inr ns \<Rightarrow> NamespaceDelete env dsm (ns_Uuid ns) }"

subsection \<open>Where and how to create\<close>

fun first_available :: "VolInfo list \<Rightarrow> int64 \<Rightarrow> string \<Rightarrow> err + VolInfo" where
  "first_available [] sizeInBytes protocol = Inl (FmtError ''Cannot find any available volume'')"
| "first_available (volInfo # volInfos) sizeInBytes protocol =
     (case parse_int 64 (vi_Free volInfo) of
        None \<Rightarrow> Inl (FmtError ''strconv.ParseInt'')
      | Some free \<Rightarrow>
          if free < sint UNIT_GB then first_available volInfos sizeInBytes protocol
          else if vi_Status volInfo = ''crashed'' \<or> vi_Status volInfo = ''read_only'' \<or>
                  vi_Status volInfo = ''deleting'' \<or> free \<le> sint sizeInBytes
          then first_available volInfos sizeInBytes protocol
          else if vi_Container volInfo = ''external'' \<and> vi_Location volInfo = ''sata''
          then first_available volInfos sizeInBytes protocol
          else if vi_FsType volInfo = FsTypeExt4 \<and> (protocol = ProtocolSmb \<or> protocol = ProtocolNfs)
          then first_available volInfos sizeInBytes protocol
          else Inr volInfo)"

definition getFirstAvailableVolume :: "'n env \<Rightarrow> DSM \<Rightarrow> int64 \<Rightarrow> string \<Rightarrow> ('n world, err + VolInfo) prog" where
  "getFirstAvailableVolume env dsm sizeInBytes protocol = do {
     r \<leftarrow> VolumeList env dsm;
     State_Monad.return (case r of
       Inl e \<Rightarrow> Inl e
     | Inr volInfos \<Rightarrow> first_available volInfos sizeInBytes protocol) }"

definition getLunTypeByInputParams :: "string \<Rightarrow> bool \<Rightarrow> string \<Rightarrow> err + string" where
  "getLunTypeByInputParams lunType isThin locationFsType =
     (if lunType \<noteq> '''' then Inr lunType
      else if locationFsType = FsTypeExt4 then (if isThin then Inr LunTypeAdv else Inr LunTypeFile)
      else if locationFsType = FsTypeBtrfs then (if isThin then Inr LunTypeBlun else Inr LunTypeBlunThick)
      else Inl (FmtError ''Unknown volume fs type: %s''))"

text \<open>A restored size of zero takes the source's size; any other may not be below it.\<close>

definition checkRestoreSize :: "int64 \<Rightarrow> int64 \<Rightarrow> err option" where
  "checkRestoreSize requested source =
     (if requested \<noteq> 0 \<and> sint requested < sint source then Some (Status OutOfRange) else None)"

definition needsExpandTo :: "int64 \<Rightarrow> int64 \<Rightarrow> int64" where
  "needsExpandTo requested actual = (if sint requested > sint actual then requested else 0)"

definition locked_attempt :: "(err + bool) \<Rightarrow> unit \<times> (bool \<times> err) option" where
  "locked_attempt r = ((), case r of
     Inl e \<Rightarrow> Some (True, FmtError ''Failed to get existed LUN with name: %s, err: %v'')
   | Inr locked \<Rightarrow> if locked then Some (False, FmtError ''Clone not yet completed. Lun: %s'') else None)"

definition cloneTimeout :: nat where "cloneTimeout = 20000"

definition checkFinished :: "'n env \<Rightarrow> DSM \<Rightarrow> string \<Rightarrow> string \<Rightarrow> ('n world, unit) attempt" where
  "checkFinished env dsm name protocol =
     (if protocol = ProtocolIscsi then do {
        r \<leftarrow> LunGet env dsm name;
        State_Monad.return (locked_attempt (map_sum id lun_IsActionLocked r)) }
      else if protocol = ProtocolNvme then do {
        r \<leftarrow> NamespaceGet env dsm name;
        State_Monad.return (locked_attempt (map_sum id ns_IsActionLocked r)) }
      else State_Monad.return ((), None))"

definition waitCloneFinished :: "'n env \<Rightarrow> DSM \<Rightarrow> string \<Rightarrow> string \<Rightarrow> ('n world, err option) prog" where
  "waitCloneFinished env dsm name protocol = do {
     a \<leftarrow> backoff_retry env cloneTimeout (checkFinished env dsm name protocol);
     State_Monad.return (snd a) }"

definition choose_location :: "'n env \<Rightarrow> DSM \<Rightarrow> CreateK8sVolumeSpec \<Rightarrow> ('n world, err + CreateK8sVolumeSpec) prog" where
  "choose_location env dsm spec =
     (if cv_Location spec = '''' then do {
        v \<leftarrow> getFirstAvailableVolume env dsm (cv_Size spec) (cv_Protocol spec);
        State_Monad.return (case v of
          Inl e \<Rightarrow> Inl (Status Internal)
        | Inr vol \<Rightarrow> Inr (spec\<lparr>cv_Location := vi_Path vol\<rparr>)) }
      else State_Monad.return (Inr spec))"

text \<open>Go's iteration over the map of device attributes.\<close>

definition range_attribs :: "'n env \<Rightarrow> (string \<times> bool) list \<Rightarrow> ('n world, LunDevAttrib list) prog" where
  "range_attribs env attribs = do {
     w \<leftarrow> State_Monad.get;
     let (picks, n) = env_map_order env (nas w);
     _ \<leftarrow> State_Monad.set (w\<lparr>nas := n\<rparr>);
     State_Monad.return (map (\<lambda>(key, value). \<lparr>da_DevAttrib = key, da_Enable = BoolToInt value\<rparr>)
       (permute_by picks attribs)) }"

subsection \<open>Targets and subsystems\<close>

definition gen_qualified :: "string \<Rightarrow> nat \<Rightarrow> DSM \<Rightarrow> CreateK8sVolumeSpec \<Rightarrow> string" where
  "gen_qualified prefix maxLen dsm spec =
     (let qn = prefix @ Hostname dsm @ ''.'' @ cv_K8sVolumeName spec;
          qn' = replace_all qn ''_'' ''-'';
          qn'' = replace_all qn' ''+'' ''p''
      in if length qn'' > maxLen then take maxLen qn'' else qn'')"

definition genTargetIqn :: "DSM \<Rightarrow> CreateK8sVolumeSpec \<Rightarrow> string" where
  "genTargetIqn = gen_qualified IqnPrefix MaxIqnLen"

definition genNqn :: "DSM \<Rightarrow> CreateK8sVolumeSpec \<Rightarrow> string" where
  "genNqn = gen_qualified NqnPrefix MaxNqnLen"

definition createMappingTarget :: "'n env \<Rightarrow> DSM \<Rightarrow> CreateK8sVolumeSpec \<Rightarrow> string \<Rightarrow> ('n world, err + TargetInfo) prog" where
  "createMappingTarget env dsm spec lunUuid = with_rollback (do {
     let targetSpec = \<lparr>tc_Name = cv_TargetName spec, tc_Iqn = genTargetIqn dsm spec\<rparr>;
     created \<leftarrow> TargetCreate env dsm targetSpec;
     after_create ''target(%s)''
       (case created of Inr createdTargetId \<Rightarrow> TargetDelete env dsm createdTargetId
                      | Inl e \<Rightarrow> State_Monad.return (Inl e))
       created (\<lambda>rb. do {
         r \<leftarrow> TargetGet env dsm (tc_Name targetSpec);
         case r of
           Inl e \<Rightarrow> State_Monad.return (rb, Inl (Status Internal))
         | Inr targetInfo \<Rightarrow> do {
             let targetId = itoa (tg_TargetId targetInfo);
             s \<leftarrow> (if cv_MultipleSession spec then TargetSet env dsm targetId 0
                   else State_Monad.return (Inr ()));
             case s of
               Inl e \<Rightarrow> State_Monad.return (rb, Inl (Status Internal))
             | Inr _ \<Rightarrow> do {
                 m \<leftarrow> LunMapTarget env dsm [targetId] lunUuid;
                 case m of
                   Inl e \<Rightarrow> State_Monad.return (rb, Inl (Status Internal))
                 | Inr _ \<Rightarrow> State_Monad.return (rb, Inr targetInfo) } } }) })"

text \<open>The uuid that \<^verbatim>\<open>SubsystemCreate\<close> returns with an error is the empty string, and it is
  that uuid the next two calls use when the subsystem existed already.\<close>

definition createMappingSubsystem :: "'n env \<Rightarrow> DSM \<Rightarrow> CreateK8sVolumeSpec \<Rightarrow> string \<Rightarrow> ('n world, err + SubsystemInfo) prog" where
  "createMappingSubsystem env dsm spec namespaceUuid = with_rollback (do {
     let subsystemSpec = \<lparr>ssc_Name = SubsystemPrefix @ ''-'' @ cv_K8sVolumeName spec,
                          ssc_Nqn = genNqn dsm spec\<rparr>;
     created \<leftarrow> SubsystemCreate env dsm subsystemSpec;
     let subsystemUuid = (case created of Inr u \<Rightarrow> u | Inl e \<Rightarrow> '''');
     after_create ''subsystem(%s)'' (SubsystemDelete env dsm subsystemUuid) created (\<lambda>rb. do {
         r \<leftarrow> SubsystemGet env dsm subsystemUuid;
         case r of
           Inl e \<Rightarrow> State_Monad.return (rb, Inl (Status Internal))
         | Inr subsystemInfo \<Rightarrow> do {
             s \<leftarrow> SubsystemSetNamespaces env dsm subsystemUuid [namespaceUuid];
             case s of
               Inl e \<Rightarrow> State_Monad.return (rb, Inl (Status Internal))
             | Inr _ \<Rightarrow> State_Monad.return (rb, Inr subsystemInfo) } }) })"

subsection \<open>LUN volumes\<close>

text \<open>The end of the three functions: the LUN by name, grown when it is too small, and mapped.\<close>

definition map_lun :: "'n env \<Rightarrow> DSM \<Rightarrow> CreateK8sVolumeSpec \<Rightarrow> LunInfo \<Rightarrow> 'n createRollback \<Rightarrow>
    ('n world, 'n createRollback \<times> (err + K8sVolumeRespSpec)) prog" where
  "map_lun env dsm spec lunInfo rb = do {
     t \<leftarrow> createMappingTarget env dsm spec (lun_Uuid lunInfo);
     State_Monad.return (rb, case t of
       Inl e \<Rightarrow> Inl (Status Internal)
     | Inr targetInfo \<Rightarrow> Inr (DsmLunToK8sVolume (Ip dsm) lunInfo targetInfo)) }"

definition finish_lun_clone :: "'n env \<Rightarrow> DSM \<Rightarrow> CreateK8sVolumeSpec \<Rightarrow> 'n createRollback \<Rightarrow>
    ('n world, 'n createRollback \<times> (err + K8sVolumeRespSpec)) prog" where
  "finish_lun_clone env dsm spec rb = do {
     f \<leftarrow> waitCloneFinished env dsm (cv_BackendName spec) (cv_Protocol spec);
     case f of
       Some e \<Rightarrow> State_Monad.return (rb, Inl (Status Internal))
     | None \<Rightarrow> do {
         r \<leftarrow> LunGet env dsm (cv_BackendName spec);
         case r of
           Inl e \<Rightarrow> State_Monad.return (rb, Inl (Status Internal))
         | Inr lunInfo \<Rightarrow> do {
             let newSize = needsExpandTo (cv_Size spec) (lun_Size lunInfo);
             if sint newSize > 0 then do {
               u \<leftarrow> LunUpdate env dsm \<lparr>lu_Uuid = lun_Uuid lunInfo, lu_NewSize = newSize\<rparr>;
               case u of
                 Inl e \<Rightarrow> State_Monad.return (rb, Inl (Status Internal))
               | Inr _ \<Rightarrow> map_lun env dsm spec (lunInfo\<lparr>lun_Size := newSize\<rparr>) rb }
             else map_lun env dsm spec lunInfo rb } } }"

definition createVolumeByDsm :: "'n env \<Rightarrow> DSM \<Rightarrow> CreateK8sVolumeSpec \<Rightarrow>
    ('n world, CreateK8sVolumeSpec \<times> (err + K8sVolumeRespSpec)) prog" where
  "createVolumeByDsm env dsm spec0 = do {
     l \<leftarrow> choose_location env dsm spec0;
     case l of
       Inl e \<Rightarrow> State_Monad.return (spec0, Inl e)
     | Inr spec \<Rightarrow> do {
         res \<leftarrow> with_rollback (do {
           v \<leftarrow> VolumeGet env dsm (cv_Location spec);
           case v of
             Inl e \<Rightarrow> State_Monad.return ([], Inl (Status InvalidArgument))
           | Inr dsmVolInfo \<Rightarrow> (case getLunTypeByInputParams (cv_Type spec) (cv_ThinProvisioning spec)
                   (vi_FsType dsmVolInfo) of
               Inl e \<Rightarrow> State_Monad.return ([], Inl (Status InvalidArgument))
             | Inr lunType \<Rightarrow> do {
                 devAttribs \<leftarrow> range_attribs env (cv_DevAttribs spec);
                 created \<leftarrow> LunCreate env dsm \<lparr>lc_Name = cv_BackendName spec,
                   lc_Description = cv_Description spec, lc_Location = cv_Location spec,
                   lc_Size = cv_Size spec, lc_Type = lunType, lc_DevAttribs = devAttribs\<rparr>;
                 after_create ''LUN(%s)'' (undo_lun env dsm (cv_BackendName spec)) created (\<lambda>rb. do {
                   r \<leftarrow> LunGet env dsm (cv_BackendName spec);
                   case r of
                     Inl e \<Rightarrow> State_Monad.return (rb, Inl (Status Internal))
                   | Inr lunInfo \<Rightarrow> map_lun env dsm spec lunInfo rb }) }) });
         State_Monad.return (spec, res) } }"

definition createVolumeBySnapshot :: "'n env \<Rightarrow> DSM \<Rightarrow> CreateK8sVolumeSpec \<Rightarrow> K8sSnapshotRespSpec \<Rightarrow>
    ('n world, err + K8sVolumeRespSpec) prog" where
  "createVolumeBySnapshot env dsm spec srcSnapshot = with_rollback (
     case checkRestoreSize (cv_Size spec) (ks_SizeInBytes srcSnapshot) of
       Some e \<Rightarrow> State_Monad.return ([], Inl e)
     | None \<Rightarrow> do {
         created \<leftarrow> SnapshotClone env dsm \<lparr>scl_Name = cv_BackendName spec,
           scl_SrcUuid = ks_ParentUuid srcSnapshot, scl_SrcSnapshotUuid = ks_Uuid srcSnapshot\<rparr>;
         after_create ''LUN(%s)'' (undo_lun env dsm (cv_BackendName spec)) created
           (finish_lun_clone env dsm spec) })"

definition at_source :: "string \<Rightarrow> CreateK8sVolumeSpec \<Rightarrow> CreateK8sVolumeSpec" where
  "at_source location spec = (if cv_Location spec = '''' then spec\<lparr>cv_Location := location\<rparr> else spec)"

definition createVolumeByVolume :: "'n env \<Rightarrow> DSM \<Rightarrow> CreateK8sVolumeSpec \<Rightarrow> LunInfo \<Rightarrow>
    ('n world, err + K8sVolumeRespSpec) prog" where
  "createVolumeByVolume env dsm spec0 srcLunInfo = with_rollback (
     case checkRestoreSize (cv_Size spec0) (lun_Size srcLunInfo) of
       Some e \<Rightarrow> State_Monad.return ([], Inl e)
     | None \<Rightarrow> do {
         let spec = at_source (lun_Location srcLunInfo) spec0;
         created \<leftarrow> LunClone env dsm \<lparr>lcl_Name = cv_BackendName spec,
           lcl_SrcLunUuid = lun_Uuid srcLunInfo, lcl_Location = cv_Location spec\<rparr>;
         after_create ''LUN(%s)'' (undo_lun env dsm (cv_BackendName spec)) created
           (finish_lun_clone env dsm spec) })"

subsection \<open>Namespace volumes\<close>

definition map_namespace :: "'n env \<Rightarrow> DSM \<Rightarrow> CreateK8sVolumeSpec \<Rightarrow> NamespaceInfo \<Rightarrow> 'n createRollback \<Rightarrow>
    ('n world, 'n createRollback \<times> (err + K8sVolumeRespSpec)) prog" where
  "map_namespace env dsm spec namespaceInfo rb = do {
     s \<leftarrow> createMappingSubsystem env dsm spec (ns_Uuid namespaceInfo);
     State_Monad.return (rb, case s of
       Inl e \<Rightarrow> Inl (Status Internal)
     | Inr subsystemInfo \<Rightarrow> Inr (DsmNamespaceToK8sVolume (Ip dsm)
         (namespaceInfo\<lparr>ns_SubsystemUuid := ss_Uuid subsystemInfo\<rparr>) subsystemInfo)) }"

definition finish_namespace_clone :: "'n env \<Rightarrow> DSM \<Rightarrow> CreateK8sVolumeSpec \<Rightarrow> 'n createRollback \<Rightarrow>
    ('n world, 'n createRollback \<times> (err + K8sVolumeRespSpec)) prog" where
  "finish_namespace_clone env dsm spec rb = do {
     f \<leftarrow> waitCloneFinished env dsm (cv_BackendName spec) (cv_Protocol spec);
     case f of
       Some e \<Rightarrow> State_Monad.return (rb, Inl (Status Internal))
     | None \<Rightarrow> do {
         r \<leftarrow> NamespaceGet env dsm (cv_BackendName spec);
         case r of
           Inl e \<Rightarrow> State_Monad.return (rb, Inl (Status Internal))
         | Inr namespaceInfo \<Rightarrow> do {
             let newSize = needsExpandTo (cv_Size spec) (ns_Size namespaceInfo);
             if sint newSize > 0 then do {
               u \<leftarrow> NamespaceSet env dsm \<lparr>nst_Uuid = ns_Uuid namespaceInfo, nst_NewSize = newSize\<rparr>;
               case u of
                 Inl e \<Rightarrow> State_Monad.return (rb, Inl (Status Internal))
               | Inr _ \<Rightarrow> map_namespace env dsm spec (namespaceInfo\<lparr>ns_Size := newSize\<rparr>) rb }
             else map_namespace env dsm spec namespaceInfo rb } } }"

definition createNVMeVolumeByDsm :: "'n env \<Rightarrow> DSM \<Rightarrow> CreateK8sVolumeSpec \<Rightarrow>
    ('n world, CreateK8sVolumeSpec \<times> (err + K8sVolumeRespSpec)) prog" where
  "createNVMeVolumeByDsm env dsm spec0 = do {
     l \<leftarrow> choose_location env dsm spec0;
     case l of
       Inl e \<Rightarrow> State_Monad.return (spec0, Inl e)
     | Inr spec \<Rightarrow> do {
         res \<leftarrow> with_rollback (do {
           v \<leftarrow> VolumeGet env dsm (cv_Location spec);
           case v of
             Inl e \<Rightarrow> State_Monad.return ([], Inl (Status InvalidArgument))
           | Inr _ \<Rightarrow> do {
               created \<leftarrow> NamespaceCreate env dsm \<lparr>nc_Name = cv_BackendName spec,
                 nc_Location = cv_Location spec, nc_Description = cv_Description spec,
                 nc_Size = cv_Size spec, nc_ThinProvisioning = cv_ThinProvisioning spec,
                 nc_Reclaim = cv_Reclaim spec\<rparr>;
               after_create ''namespace(%s)'' (undo_namespace env dsm (cv_BackendName spec)) created (\<lambda>rb. do {
                 r \<leftarrow> NamespaceGet env dsm (cv_BackendName spec);
                 case r of
                   Inl e \<Rightarrow> State_Monad.return (rb, Inl (Status Internal))
                 | Inr namespaceInfo \<Rightarrow> map_namespace env dsm spec namespaceInfo rb }) } });
         State_Monad.return (spec, res) } }"

definition createNVMeVolumeBySnapshot :: "'n env \<Rightarrow> DSM \<Rightarrow> CreateK8sVolumeSpec \<Rightarrow> K8sSnapshotRespSpec \<Rightarrow>
    ('n world, err + K8sVolumeRespSpec) prog" where
  "createNVMeVolumeBySnapshot env dsm spec srcSnapshot = with_rollback (
     case checkRestoreSize (cv_Size spec) (ks_SizeInBytes srcSnapshot) of
       Some e \<Rightarrow> State_Monad.return ([], Inl e)
     | None \<Rightarrow>
         if \<not> SupportNvmeof dsm then State_Monad.return ([], Inl (Status Internal))
         else do {
           created \<leftarrow> NamespaceSnapshotClone env dsm \<lparr>scl_Name = cv_BackendName spec,
             scl_SrcUuid = '''', scl_SrcSnapshotUuid = ks_Uuid srcSnapshot\<rparr>;
           after_create ''namespace(%s)'' (undo_namespace env dsm (cv_BackendName spec)) created
             (finish_namespace_clone env dsm spec) })"

definition createNVMeVolumeByVolume :: "'n env \<Rightarrow> DSM \<Rightarrow> CreateK8sVolumeSpec \<Rightarrow> NamespaceInfo \<Rightarrow>
    ('n world, err + K8sVolumeRespSpec) prog" where
  "createNVMeVolumeByVolume env dsm spec0 srcNamespaceInfo = with_rollback (
     case checkRestoreSize (cv_Size spec0) (ns_Size srcNamespaceInfo) of
       Some e \<Rightarrow> State_Monad.return ([], Inl e)
     | None \<Rightarrow>
         if \<not> SupportNvmeof dsm then State_Monad.return ([], Inl (Status Internal))
         else do {
           let spec = at_source (ns_Location srcNamespaceInfo) spec0;
           created \<leftarrow> NamespaceClone env dsm \<lparr>ncl_Name = cv_BackendName spec,
             ncl_SrcUuid = ns_Uuid srcNamespaceInfo, ncl_Location = cv_Location spec\<rparr>;
           after_create ''namespace(%s)'' (undo_namespace env dsm (cv_BackendName spec)) created
             (finish_namespace_clone env dsm spec) })"

subsection \<open>Share volumes\<close>

definition clone_info :: "string \<Rightarrow> string \<Rightarrow> string \<Rightarrow> ShareInfo \<Rightarrow> string \<Rightarrow> ShareInfo" where
  "clone_info name path from src org = zero_ShareInfo\<lparr>sh_Name := name, sh_VolPath := path,
     sh_Desc := ''Cloned from ['' @ from @ ''] by csi driver'',
     sh_EnableRecycleBin := sh_EnableRecycleBin src,
     sh_RecycleBinAdminOnly := sh_RecycleBinAdminOnly src, sh_NameOrg := org\<rparr>"

definition createSMBorNFSVolumeBySnapshot :: "'n env \<Rightarrow> DSM \<Rightarrow> CreateK8sVolumeSpec \<Rightarrow> K8sSnapshotRespSpec \<Rightarrow>
    ('n world, err + K8sVolumeRespSpec) prog" where
  "createSMBorNFSVolumeBySnapshot env dsm spec srcSnapshot = with_rollback (do {
     s \<leftarrow> ShareGet env dsm (ks_ParentName srcSnapshot);
     case s of
       Inl e \<Rightarrow> State_Monad.return ([], Inl (Status Internal))
     | Inr srcShareInfo \<Rightarrow> do {
         created \<leftarrow> ShareClone env dsm \<lparr>shcl_Name = cv_ShareName spec, shcl_Snapshot = ks_Time srcSnapshot,
           shcl_ShareInfo = clone_info (cv_ShareName spec) (ks_RootPath srcSnapshot)
             (ks_Time srcSnapshot) srcShareInfo (ks_ParentName srcSnapshot)\<rparr>;
         after_create ''share(%s)'' (ShareDelete env dsm (cv_ShareName spec)) created (\<lambda>rb. do {
           r \<leftarrow> ShareGet env dsm (cv_ShareName spec);
           case r of
             Inl e \<Rightarrow> State_Monad.return (rb, Inl (Status Internal))
           | Inr shareInfo0 \<Rightarrow> do {
               let newSizeInMB = BytesToMBCeil (cv_Size spec);
               q \<leftarrow> (if sh_QuotaValueInMB shareInfo0 = 0 then SetShareQuota env dsm shareInfo0 newSizeInMB
                     else State_Monad.return (Inr ()));
               case q of
                 Inl e \<Rightarrow> State_Monad.return (rb, Inl (Status Internal))
               | Inr _ \<Rightarrow> do {
                   let shareInfo = (if sh_QuotaValueInMB shareInfo0 = 0
                     then shareInfo0\<lparr>sh_QuotaValueInMB := newSizeInMB\<rparr> else shareInfo0);
                   case checkRestoreSize newSizeInMB (sh_QuotaValueInMB shareInfo) of
                     Some e \<Rightarrow> State_Monad.return (rb, Inl e)
                   | None \<Rightarrow>
                       if sint newSizeInMB > sint (sh_QuotaValueInMB shareInfo) then do {
                         u \<leftarrow> SetShareQuota env dsm shareInfo newSizeInMB;
                         State_Monad.return (rb, case u of
                           Inl e \<Rightarrow> Inl (Status Internal)
                         | Inr _ \<Rightarrow> Inr (DsmShareToK8sVolume (Ip dsm)
                             (shareInfo\<lparr>sh_QuotaValueInMB := newSizeInMB\<rparr>) (cv_Protocol spec))) }
                       else State_Monad.return (rb,
                         Inr (DsmShareToK8sVolume (Ip dsm) shareInfo (cv_Protocol spec))) } } }) } })"

definition createSMBorNFSVolumeByVolume :: "'n env \<Rightarrow> DSM \<Rightarrow> CreateK8sVolumeSpec \<Rightarrow> ShareInfo \<Rightarrow>
    ('n world, err + K8sVolumeRespSpec) prog" where
  "createSMBorNFSVolumeByVolume env dsm spec srcShareInfo = with_rollback (do {
     let newSizeInMB = BytesToMBCeil (cv_Size spec);
     case (if cv_Size spec \<noteq> 0 then checkRestoreSize newSizeInMB (sh_QuotaValueInMB srcShareInfo) else None) of
       Some e \<Rightarrow> State_Monad.return ([], Inl e)
     | None \<Rightarrow> do {
         created \<leftarrow> ShareClone env dsm \<lparr>shcl_Name = cv_ShareName spec, shcl_Snapshot = '''',
           shcl_ShareInfo = clone_info (cv_ShareName spec) (sh_VolPath srcShareInfo)
             (sh_Name srcShareInfo) srcShareInfo (sh_Name srcShareInfo)\<rparr>;
         after_create ''share(%s)'' (ShareDelete env dsm (cv_ShareName spec)) created (\<lambda>rb. do {
           r \<leftarrow> ShareGet env dsm (cv_ShareName spec);
           case r of
             Inl e \<Rightarrow> State_Monad.return (rb, Inl (Status Internal))
           | Inr shareInfo \<Rightarrow>
               if sh_QuotaValueInMB shareInfo = 0 \<or> sint newSizeInMB > sint (sh_QuotaValueInMB shareInfo) then do {
                 u \<leftarrow> SetShareQuota env dsm shareInfo newSizeInMB;
                 State_Monad.return (rb, case u of
                   Inl e \<Rightarrow> Inl (Status Internal)
                 | Inr _ \<Rightarrow> Inr (DsmShareToK8sVolume (Ip dsm)
                     (shareInfo\<lparr>sh_QuotaValueInMB := newSizeInMB\<rparr>) (cv_Protocol spec))) }
               else State_Monad.return (rb,
                 Inr (DsmShareToK8sVolume (Ip dsm) shareInfo (cv_Protocol spec))) }) } })"

definition createSMBorNFSVolumeByDsm :: "'n env \<Rightarrow> DSM \<Rightarrow> CreateK8sVolumeSpec \<Rightarrow>
    ('n world, CreateK8sVolumeSpec \<times> (err + K8sVolumeRespSpec)) prog" where
  "createSMBorNFSVolumeByDsm env dsm spec0 = do {
     l \<leftarrow> choose_location env dsm spec0;
     case l of
       Inl e \<Rightarrow> State_Monad.return (spec0, Inl e)
     | Inr spec \<Rightarrow> do {
         res \<leftarrow> with_rollback (do {
           v \<leftarrow> VolumeGet env dsm (cv_Location spec);
           case v of
             Inl e \<Rightarrow> State_Monad.return ([], Inl (Status InvalidArgument))
           | Inr dsmVolInfo \<Rightarrow>
               if vi_FsType dsmVolInfo = FsTypeExt4
               then State_Monad.return ([], Inl (Status InvalidArgument))
               else do {
                 created \<leftarrow> ShareCreate env dsm \<lparr>shc_Name = cv_ShareName spec,
                   shc_ShareInfo = zero_ShareInfo\<lparr>sh_Name := cv_ShareName spec,
                     sh_VolPath := cv_Location spec, sh_Desc := ''Created by Synology K8s CSI'',
                     sh_EnableShareCow := False, sh_EnableRecycleBin := True,
                     sh_RecycleBinAdminOnly := True, sh_Encryption := 0,
                     sh_QuotaForCreate := Some (BytesToMBCeil (cv_Size spec))\<rparr>\<rparr>;
                 after_create ''share(%s)'' (ShareDelete env dsm (cv_ShareName spec)) created (\<lambda>rb. do {
                   r \<leftarrow> ShareGet env dsm (cv_ShareName spec);
                   State_Monad.return (rb, case r of
                     Inl e \<Rightarrow> Inl (Status Internal)
                   | Inr shareInfo \<Rightarrow> Inr (DsmShareToK8sVolume (Ip dsm) shareInfo (cv_Protocol spec))) }) } });
         State_Monad.return (spec, res) } }"

end
