(* ===== verification/Rollback.thy ===== *)
theory Rollback
  imports Creation
begin

text \<open>
  What the nine creating functions leave behind. \<open>tidy\<close> is the contract of the mapping
  step (a target or a subsystem): on success nothing was deleted, on failure everything
  it made was deleted and it deleted nothing else. \<open>armed\<close> is the state in which a body
  ends: either it made nothing that needs undoing, or the undo step is registered.
  Running the rollback turns \<open>armed\<close> into \<open>rolled_back\<close>, from which the properties of each
  function follow.
\<close>

subsection \<open>Running a rollback\<close>

lemma rollback_run_simps:
  "rollback_run [] = State_Monad.return ()"
  "rollback_run [(d, u)] = do { _ \<leftarrow> u; State_Monad.return () }"
  by (simp_all add: rollback_run_def)

lemma rollback_run_newest_first:
  "rollback_run (rollback_add rb d u) = do { _ \<leftarrow> u; rollback_run rb }"
  by (simp add: rollback_run_def rollback_add_def)

lemma with_rollback_emits:
  fixes body :: "('n world, 'n createRollback \<times> (err + 'a)) prog"
  assumes "emits D body (\<lambda>out t. P (fst out) (snd out) t)"
    and "\<And>rb e t. P rb (Inl e) t \<Longrightarrow> emits D (rollback_run rb) (\<lambda>_ t'. Q (Inl e) (t @ t'))"
    and "\<And>rb x t. P rb (Inr x) t \<Longrightarrow> Q (Inr x) t"
  shows "emits D (with_rollback body) Q"
  unfolding with_rollback_def
proof (rule emits_bind [OF assms(1)])
  fix out t
  assume P: "P (fst out) (snd out) t"
  show "emits D (case snd out of
       Inl e \<Rightarrow> do { _ \<leftarrow> rollback_run (fst out); State_Monad.return (Inl e) }
     | Inr x \<Rightarrow> State_Monad.return (Inr x)) (\<lambda>y t'. Q y (t @ t'))"
  proof (cases "snd out")
    case (Inl e)
    with P have "emits D (rollback_run (fst out)) (\<lambda>_ t'. Q (Inl e) (t @ t'))"
      by (intro assms(2)) simp
    with Inl show ?thesis
      by (auto intro!: emits_bind emits_return)
  next
    case (Inr x)
    with P assms(3) show ?thesis by (auto intro: emits_return)
  qed
qed

subsection \<open>The contracts\<close>

fun is_mapping :: "res \<Rightarrow> bool" where
  "is_mapping (ResTarget i) = True"
| "is_mapping (ResSub u) = True"
| "is_mapping _ = False"

definition tidy :: "(err + 'a) \<Rightarrow> call list \<Rightarrow> bool" where
  "tidy r t \<longleftrightarrow> (\<forall>hk \<in> made False t \<union> deleted t. is_mapping (snd hk)) \<and>
     (if isl r then made True t \<subseteq> deleted t \<and> deleted t \<subseteq> made False t else deleted t = {})"

definition fresh :: "'n env \<Rightarrow> DSM \<Rightarrow> ('b \<Rightarrow> res) \<Rightarrow> bool \<Rightarrow> call list \<Rightarrow> bool" where
  "fresh env dsm f new t \<longleftrightarrow> deleted t = {} \<and>
     (\<forall>hk \<in> made False t. fst hk = Ip dsm \<and> snd hk \<in> range f) \<and>
     (if new then reach env dsm \<and> (\<exists>x. made True t \<subseteq> {(Ip dsm, f x)} \<and> (Ip dsm, f x) \<in> made False t)
      else made True t = {})"

definition armed :: "'n env \<Rightarrow> DSM \<Rightarrow> ('b \<Rightarrow> res) \<Rightarrow> ('n world, err + unit) prog \<Rightarrow>
    'n createRollback \<Rightarrow> (err + 'a) \<Rightarrow> call list \<Rightarrow> bool" where
  "armed env dsm f u rb r t \<longleftrightarrow> (\<exists>t1 t2 new. t = t1 @ t2 \<and> fresh env dsm f new t1 \<and> tidy r t2 \<and>
     (if new then \<exists>d. rb = [(d, u)] else rb = []))"

definition rolled_back :: "'n env \<Rightarrow> DSM \<Rightarrow> ('b \<Rightarrow> res) \<Rightarrow> (call list \<Rightarrow> bool) \<Rightarrow> (err + 'a) \<Rightarrow> call list \<Rightarrow> bool" where
  "rolled_back env dsm f U r t \<longleftrightarrow> (\<exists>t1 t2 t3 new. t = t1 @ t2 @ t3 \<and> fresh env dsm f new t1 \<and> tidy r t2 \<and>
     (if new \<and> isl r then U t3 else t3 = []))"

lemma harmless_tidy: "harmless t \<Longrightarrow> tidy r t"
  by (auto simp: tidy_def harmless_def dest: subsetD [OF made_clean])

lemma tidy_append: "harmless s \<Longrightarrow> tidy r t \<Longrightarrow> tidy r (s @ t)"
  using made_clean [of s] by (auto simp: tidy_def harmless_def)

lemma tidy_result: "tidy r t \<Longrightarrow> isl r = isl r' \<Longrightarrow> tidy r' t"
  by (simp add: tidy_def)

lemma fresh_append: "harmless s \<Longrightarrow> fresh env dsm f new t \<Longrightarrow> fresh env dsm f new (s @ t)"
  using made_clean [of s] by (simp add: fresh_def harmless_def)

lemma armed_append: "harmless s \<Longrightarrow> armed env dsm f u rb r t \<Longrightarrow> armed env dsm f u rb r (s @ t)"
  unfolding armed_def by (metis append_assoc fresh_append)

lemma armed_early: "harmless t \<Longrightarrow> armed env dsm f u [] (Inl e) t"
  unfolding armed_def
  by (rule exI [of _ t], rule exI [of _ "[]"], rule exI [of _ False])
    (auto simp: fresh_def harmless_def tidy_def dest: subsetD [OF made_clean])

lemma with_rollback_armed:
  fixes body :: "('n world, 'n createRollback \<times> (err + 'a)) prog"
  assumes body: "emits D body (\<lambda>out t. armed env dsm f u (fst out) (snd out) t)"
    and undo: "emits D u (\<lambda>_ t. U t)"
  shows "emits D (with_rollback body) (rolled_back env dsm f U)"
proof (rule with_rollback_emits [OF body])
  fix rb :: "'n createRollback" and e and t :: "call list"
  assume "armed env dsm f u rb (Inl e :: err + 'a) t"
  then obtain t1 t2 new where t: "t = t1 @ t2" "fresh env dsm f new t1" "tidy (Inl e :: err + 'a) t2"
      "if new then \<exists>d. rb = [(d, u)] else rb = []"
    unfolding armed_def by blast
  show "emits D (rollback_run rb) (\<lambda>_ t'. rolled_back env dsm f U (Inl e :: err + 'a) (t @ t'))"
  proof (cases new)
    case True
    with t obtain d where rb: "rb = [(d, u)]" by auto
    have "rolled_back env dsm f U (Inl e :: err + 'a) (t @ t3)" if "U t3" for t3
      unfolding rolled_back_def using t that True
      by (intro exI [of _ t1] exI [of _ t2] exI [of _ t3] exI [of _ True]) simp
    then show ?thesis
      unfolding rb rollback_run_simps
      by (intro emits_bind [OF undo] emits_return) simp
  next
    case False
    with t have rb: "rb = []" by simp
    have "rolled_back env dsm f U (Inl e :: err + 'a) (t @ [])"
      unfolding rolled_back_def using t False
      by (intro exI [of _ t1] exI [of _ t2] exI [of _ "[]"] exI [of _ False]) simp
    then show ?thesis unfolding rb rollback_run_simps by (intro emits_return)
  qed
next
  fix rb :: "'n createRollback" and x :: 'a and t
  assume "armed env dsm f u rb (Inr x :: err + 'a) t"
  then obtain t1 t2 new where t: "t = t1 @ t2" "fresh env dsm f new t1" "tidy (Inr x :: err + 'a) t2"
    unfolding armed_def by blast
  then show "rolled_back env dsm f U (Inr x) t"
    unfolding rolled_back_def
    by (intro exI [of _ t1] exI [of _ t2] exI [of _ "[]"] exI [of _ new]) simp
qed

text \<open>Creating, then going on with a step that is \<open>tidy\<close> and leaves the rollback alone.\<close>

lemma after_create_armed:
  assumes create: "makes env dsm f r t0"
    and k: "\<And>rb. emits D (k rb) (\<lambda>out t. fst out = rb \<and> tidy (snd out) t)"
  shows "emits D (after_create d u r k) (\<lambda>out t. armed env dsm f u (fst out) (snd out) (t0 @ t))"
proof (cases r)
  case (Inl e)
  with create have fresh: "fresh env dsm f False t0"
    by (auto simp: makes_def fresh_def)
  have arm: "armed env dsm f u [] res (t0 @ t)" if "tidy res t" for res and t :: "call list"
    unfolding armed_def using fresh that
    by (intro exI [of _ t0] exI [of _ t] exI [of _ False]) simp
  have go: "emits D (k []) (\<lambda>out t. armed env dsm f u (fst out) (snd out) (t0 @ t))"
    by (rule emits_mono [OF k]) (use arm in auto)
  have stop: "armed env dsm f u [] (Inl (Status Internal)) (t0 @ [])"
    unfolding armed_def using fresh
    by (intro exI [of _ t0] exI [of _ "[]"] exI [of _ False]) (simp add: tidy_def)
  show ?thesis unfolding after_create_def Inl
    by (simp, intro conjI impI) (use stop go in \<open>auto intro!: emits_return\<close>)
next
  case (Inr x)
  with create have fresh: "fresh env dsm f True t0"
    by (auto simp: makes_def fresh_def)
  have arm: "armed env dsm f u (rollback_add [] d u) res (t0 @ t)" if "tidy res t" for res t
    unfolding armed_def using fresh that
    by (intro exI [of _ t0] exI [of _ t] exI [of _ True]) (simp add: rollback_add_def)
  have "emits D (k (rollback_add [] d u)) (\<lambda>out t. armed env dsm f u (fst out) (snd out) (t0 @ t))"
    by (rule emits_mono [OF k]) (use arm in auto)
  then show ?thesis unfolding after_create_def Inr by simp
qed

text \<open>An undo step that deletes exactly what was made.\<close>

lemma rolled_back_exact:
  assumes "rolled_back env dsm f (drops env dsm (f x)) r t"
    and "\<And>y. f y = f x" "\<not> is_mapping (f x)"
  shows "if isl r then made True t \<subseteq> deleted t \<and> deleted t \<subseteq> made False t else deleted t = {}"
proof -
  from assms(1) obtain t1 t2 t3 new where t: "t = t1 @ t2 @ t3" "fresh env dsm f new t1" "tidy r t2"
      "if new \<and> isl r then drops env dsm (f x) t3 else t3 = []"
    unfolding rolled_back_def by blast
  have fx: "made True t1 \<subseteq> {(Ip dsm, f x)} \<and> (Ip dsm, f x) \<in> made False t1 \<and> reach env dsm" if new
  proof -
    from t(2) that obtain y where "made True t1 \<subseteq> {(Ip dsm, f y)} \<and> (Ip dsm, f y) \<in> made False t1"
      by (auto simp: fresh_def)
    with assms(2) [of y] t(2) that show ?thesis by (simp add: fresh_def)
  qed
  from t fx show ?thesis
    using made_clean [of t3]
    by (cases new; cases "isl r") (auto simp: fresh_def tidy_def drops_def)
qed

subsection \<open>The mapping step\<close>

lemma makes_then_harmless:
  assumes "makes env dsm f r t0" "harmless t"
  shows "made True (t0 @ t) = made True t0" "made False (t0 @ t) = made False t0" "deleted (t0 @ t) = {}"
  using assms made_clean [of t] by (auto simp: makes_def harmless_def)

lemma mapping_rollback:
  fixes c :: "('n world, err + 'b) prog"
    and k :: "'n createRollback \<Rightarrow> ('n world, 'n createRollback \<times> (err + 'a)) prog"
  assumes create: "emits D c (makes env dsm f)"
    and undo: "\<And>x. emits D (u (Inr x)) (\<lambda>_. drops env dsm (f x))"
    and mapping: "\<And>x. is_mapping (f x)"
    and k: "\<And>rb r. emits D (k' r rb) (\<lambda>out t. fst out = rb \<and> harmless t)"
  shows "emits D (with_rollback (do { r \<leftarrow> c; after_create d (u r) r (k' r) })) (tidy :: err + 'a \<Rightarrow> _)"
proof -
  let ?P = "\<lambda>rb (r :: err + 'a) t. deleted t = {} \<and> (\<forall>hk \<in> made False t. is_mapping (snd hk)) \<and>
    (rb = [] \<and> made True t = {} \<or> (\<exists>x. rb = [(d, u (Inr x))] \<and> reach env dsm \<and>
       made True t \<subseteq> {(Ip dsm, f x)} \<and> (Ip dsm, f x) \<in> made False t))"
  have body: "emits D (do { r \<leftarrow> c; after_create d (u r) r (k' r) }) (\<lambda>out t. ?P (fst out) (snd out) t)"
  proof (rule emits_bind [OF create])
    fix r t0
    assume m: "makes env dsm f r t0"
    have mf: "\<forall>hk \<in> made False t0. is_mapping (snd hk)"
      using m mapping by (auto simp: makes_def)
    note mh = makes_then_harmless [OF m]
    show "emits D (after_create d (u r) r (k' r)) (\<lambda>out t. ?P (fst out) (snd out) (t0 @ t))"
    proof (cases r)
      case (Inl e)
      with m have "made True t0 = {}" by (auto simp: makes_def)
      then have P0: "?P [] res (t0 @ t)" if "harmless t" for res t
        using mh [OF that] mf by blast
      have go: "emits D (k' r []) (\<lambda>out t. ?P (fst out) (snd out) (t0 @ t))"
        by (rule emits_mono [OF k]) (use P0 in blast)
      have stop: "emits D (State_Monad.return ([], Inl (Status Internal)) ::
            ('n world, 'n createRollback \<times> (err + 'a)) prog) (\<lambda>out t. ?P (fst out) (snd out) (t0 @ t))"
        by (rule emits_return) (use P0 [of "[]"] in simp)
      show ?thesis
        using go stop unfolding after_create_def Inl by simp
    next
      case (Inr x)
      with m have "made True t0 \<subseteq> {(Ip dsm, f x)}" "(Ip dsm, f x) \<in> made False t0" "reach env dsm"
        by (auto simp: makes_def)
      then have "?P [(d, u (Inr x))] res (t0 @ t)" if "harmless t" for res t
        using mh [OF that] mf by blast
      then show ?thesis
        unfolding after_create_def Inr rollback_add_def
        by (auto intro!: emits_mono [OF k])
    qed
  qed
  show ?thesis
  proof (rule with_rollback_emits [OF body])
    fix rb and e t
    assume P: "?P rb (Inl e) t"
    then show "emits D (rollback_run rb) (\<lambda>_ t'. tidy (Inl e :: err + 'a) (t @ t'))"
    proof (elim conjE disjE exE)
      assume "deleted t = {}" "\<forall>hk \<in> made False t. is_mapping (snd hk)" "rb = []" "made True t = {}"
      then show ?thesis by (auto simp: rollback_run_simps tidy_def intro!: emits_return)
    next
      fix x
      assume "deleted t = {}" "\<forall>hk \<in> made False t. is_mapping (snd hk)" "rb = [(d, u (Inr x))]"
        "reach env dsm" "made True t \<subseteq> {(Ip dsm, f x)}" "(Ip dsm, f x) \<in> made False t"
      then have "tidy (Inl e :: err + 'a) (t @ t')" if "drops env dsm (f x) t'" for t'
        using that made_clean [of t'] mapping [of x] by (auto simp: tidy_def drops_def)
      with \<open>rb = [(d, u (Inr x))]\<close> show ?thesis
        by (simp add: rollback_run_simps) (auto intro!: emits_bind [OF undo] emits_return)
    qed
  next
    fix rb and x :: 'a and t
    assume "?P rb (Inr x) t"
    then show "tidy (Inr x) t" by (auto simp: tidy_def)
  qed
qed

lemmas harmless_ops = iscsi_harmless nvme_harmless share_harmless SetShareQuota_harmless NfsSet_harmless

lemma harmless_read:
  assumes "only D quiet m" "\<And>x. emits D (f x) (\<lambda>out t. Q out \<and> harmless t)"
  shows "emits D (State_Monad.bind m f) (\<lambda>out t. Q out \<and> harmless t)"
  by (rule emits_bind [OF emits_quiet_harmless [OF assms(1)]], rule emits_mono [OF assms(2)]) simp

lemma harmless_then:
  assumes "emits D m (\<lambda>_. harmless)" "\<And>x. emits D (f x) (\<lambda>out t. Q out \<and> harmless t)"
  shows "emits D (State_Monad.bind m f) (\<lambda>out t. Q out \<and> harmless t)"
  by (rule emits_bind [OF assms(1)], rule emits_mono [OF assms(2)]) simp

theorem createMappingTarget_tidy: "emits D (createMappingTarget env dsm spec lunUuid) tidy"
  unfolding createMappingTarget_def Let_def
proof (rule mapping_rollback [OF TargetCreate_emits])
  show "emits D (case Inr x of Inr createdTargetId \<Rightarrow> TargetDelete env dsm createdTargetId
      | Inl e \<Rightarrow> State_Monad.return (Inl e)) (\<lambda>_. drops env dsm (ResTarget x))" for x
    by (simp add: iscsi_drops)
  show "is_mapping (ResTarget x)" for x by simp
  show "emits D (do {
         r \<leftarrow> TargetGet env dsm (tc_Name \<lparr>tc_Name = cv_TargetName spec, tc_Iqn = genTargetIqn dsm spec\<rparr>);
         case r of
           Inl e \<Rightarrow> State_Monad.return (rb, Inl (Status Internal))
         | Inr targetInfo \<Rightarrow> do {
             s \<leftarrow> (if cv_MultipleSession spec then TargetSet env dsm (itoa (tg_TargetId targetInfo)) 0
                   else State_Monad.return (Inr ()));
             case s of
               Inl e \<Rightarrow> State_Monad.return (rb, Inl (Status Internal))
             | Inr _ \<Rightarrow> do {
                 m \<leftarrow> LunMapTarget env dsm [itoa (tg_TargetId targetInfo)] lunUuid;
                 case m of
                   Inl e \<Rightarrow> State_Monad.return (rb, Inl (Status Internal))
                 | Inr _ \<Rightarrow> State_Monad.return (rb, Inr targetInfo) } } })
       (\<lambda>out t. fst out = rb \<and> harmless t)" for rb
    by (intro harmless_read iscsi_reads emits_case_sum harmless_then harmless_ops emits_if emits_return)
      simp_all
qed

theorem createMappingSubsystem_tidy: "emits D (createMappingSubsystem env dsm spec nsUuid) tidy"
  unfolding createMappingSubsystem_def Let_def
proof (rule mapping_rollback [OF nvme_creates(5)])
  show "emits D (SubsystemDelete env dsm (case Inr x of Inr u \<Rightarrow> u | Inl e \<Rightarrow> ''''))
      (\<lambda>_. drops env dsm (ResSub x))" for x
    by (simp add: nvme_drops)
  show "is_mapping (ResSub x)" for x by simp
  show "emits D (do {
         g \<leftarrow> SubsystemGet env dsm (case r of Inr u \<Rightarrow> u | Inl e \<Rightarrow> '''');
         case g of
           Inl e \<Rightarrow> State_Monad.return (rb, Inl (Status Internal))
         | Inr subsystemInfo \<Rightarrow> do {
             s \<leftarrow> SubsystemSetNamespaces env dsm (case r of Inr u \<Rightarrow> u | Inl e \<Rightarrow> '''') [nsUuid];
             case s of
               Inl e \<Rightarrow> State_Monad.return (rb, Inl (Status Internal))
             | Inr _ \<Rightarrow> State_Monad.return (rb, Inr subsystemInfo) } })
       (\<lambda>out t. fst out = rb \<and> harmless t)" for rb and r :: "err + string"
    by (intro harmless_read nvme_reads emits_case_sum harmless_then harmless_ops emits_return)
      simp_all
qed

subsection \<open>Undoing by name\<close>

text \<open>
  A LUN or namespace is undone by its name: the undo step looks the name up and deletes
  what it finds. \<open>undone\<close> says that the name was looked up, that whatever a clean answer
  named was asked to be deleted, and that nothing else was.
\<close>

definition undone :: "'n env \<Rightarrow> DSM \<Rightarrow> params \<Rightarrow> 'a decoder \<Rightarrow> ('a \<Rightarrow> res) \<Rightarrow> call list \<Rightarrow> bool" where
  "undone env dsm get_ps dec f t \<longleftrightarrow>
     (reach env dsm \<longrightarrow> list_ex (carries dsm get_ps) t) \<and> made False t = {} \<and>
     (\<forall>c \<in> set t. carries dsm get_ps c \<longrightarrow> (case reply_value True dec (c_reply c) of
        None \<Rightarrow> True | Some x \<Rightarrow> (Ip dsm, f x) \<in> deleted t)) \<and>
     (\<forall>hk \<in> deleted t. \<exists>x. heard dsm get_ps dec x t \<and> hk = (Ip dsm, f x))"

lemma undone_by_name:
  assumes get: "emits D get (\<lambda>r t. sent env dsm get_ps dec r t)"
    and del: "\<And>x. emits D (del x) (\<lambda>_ t. drops env dsm (f x) t \<and>
        (\<forall>c \<in> set t. \<not> carries dsm get_ps c))"
    and read: "reading get_ps"
  shows "emits D (do { r \<leftarrow> get; case r of Inl e \<Rightarrow> State_Monad.return (Inl e) | Inr x \<Rightarrow> del x })
     (\<lambda>_ t. undone env dsm get_ps dec f t)"
proof (rule emits_bind [OF get])
  fix r t1
  assume s: "sent env dsm get_ps dec r t1"
  have q: "made cl t1 = {}" "deleted t1 = {}" for cl
    using quiet_trace [OF sent_quiet [OF s read]] by auto
  have carried: "reach env dsm \<longrightarrow> list_ex (carries dsm get_ps) t1"
    using s by (auto simp: sent_def)
  show "emits D (case r of Inl e \<Rightarrow> State_Monad.return (Inl e) | Inr x \<Rightarrow> del x)
      (\<lambda>_ t. undone env dsm get_ps dec f (t1 @ t))"
  proof (cases r)
    case (Inl e)
    with s have "\<forall>c \<in> set t1. carries dsm get_ps c \<longrightarrow> reply_value True dec (c_reply c) = None"
      by (auto simp: sent_def list_all_iff split: option.splits)
    with q carried have "undone env dsm get_ps dec f t1" by (auto simp: undone_def)
    with Inl show ?thesis by (auto intro!: emits_return)
  next
    case (Inr x)
    with s have all: "\<forall>c \<in> set t1. carries dsm get_ps c \<longrightarrow>
        (\<forall>y. reply_value True dec (c_reply c) = Some y \<longrightarrow> x = y)"
      by (auto simp: sent_def list_all_iff split: option.splits)
    from s Inr have reach: "reach env dsm" by (auto simp: sent_def split: if_splits)
    have h: "heard dsm get_ps dec x (t1 @ t)" for t
      using sent_heard [OF s [unfolded Inr]] by (rule heard_mono) auto
    have "undone env dsm get_ps dec f (t1 @ t)"
      if "drops env dsm (f x) t \<and> (\<forall>c \<in> set t. \<not> carries dsm get_ps c)" for t
      using that q carried all reach h [of t]
      by (auto simp: undone_def drops_def split: option.splits)
    with Inr show ?thesis by (auto intro: emits_mono [OF del])
  qed
qed

definition lun_get_ps :: "string \<Rightarrow> params" where
  "lun_get_ps name = [(''api'', lun_api), (''method'', PStr ''get''), v1, (''uuid'', PQuote name),
     (''additional'', lun_additional)]"

definition ns_get_ps :: "string \<Rightarrow> params" where
  "ns_get_ps name = [(''api'', ns_api), (''method'', PStr ''get''), v1, (''uuid'', PQuote name)]"

abbreviation dec_lun :: "LunInfo decoder" where "dec_lun \<equiv> dec_field ''lun'' dec_LunInfo"
abbreviation dec_ns :: "NamespaceInfo decoder" where "dec_ns \<equiv> dec_field ''namespace'' dec_NamespaceInfo"

definition lun_undone :: "'n env \<Rightarrow> DSM \<Rightarrow> string \<Rightarrow> call list \<Rightarrow> bool" where
  "lun_undone env dsm name = undone env dsm (lun_get_ps name) dec_lun (\<lambda>lun. ResLun (lun_Uuid lun))"

definition ns_undone :: "'n env \<Rightarrow> DSM \<Rightarrow> string \<Rightarrow> call list \<Rightarrow> bool" where
  "ns_undone env dsm name = undone env dsm (ns_get_ps name) dec_ns (\<lambda>ns. ResNs (ns_Uuid ns))"

lemma sent_not_carries:
  assumes "sent env dsm ps dec r t" "ps' \<noteq> ps" "not_login ps'" "c \<in> set t"
  shows "\<not> carries dsm ps' c"
  using assms not_login_carries [OF assms(3)] by (auto simp: sent_def list_all_iff carries_def)

lemma undo_lun_emits: "emits D (undo_lun env dsm name) (\<lambda>_. lun_undone env dsm name)"
  unfolding undo_lun_def lun_undone_def
proof (rule undone_by_name)
  show "emits D (LunGet env dsm name) (\<lambda>r t. sent env dsm (lun_get_ps name) dec_lun r t)"
    unfolding LunGet_def lun_get_ps_def by (rule iscsi.send_emits) (simp add: not_login_def)
  have "emits D (LunDelete env dsm u) (\<lambda>_ t. \<forall>c \<in> set t. \<not> carries dsm (lun_get_ps name) c)" for u
    unfolding LunDelete_def
    by (rule emits_mono [OF iscsi.send_emits], simp add: not_login_def)
      (auto dest!: sent_not_carries [where ps' = "lun_get_ps name"] simp: lun_get_ps_def not_login_def)
  then show "emits D (LunDelete env dsm (lun_Uuid lun)) (\<lambda>_ t. drops env dsm (ResLun (lun_Uuid lun)) t \<and>
      (\<forall>c \<in> set t. \<not> carries dsm (lun_get_ps name) c))" for lun
    by (rule emits_conj [OF iscsi_drops(1)])
  show "reading (lun_get_ps name)" by (simp add: reading_def read_methods_def lun_get_ps_def)
qed

lemma undo_namespace_emits: "emits D (undo_namespace env dsm name) (\<lambda>_. ns_undone env dsm name)"
  unfolding undo_namespace_def ns_undone_def
proof (rule undone_by_name)
  show "emits D (NamespaceGet env dsm name) (\<lambda>r t. sent env dsm (ns_get_ps name) dec_ns r t)"
    unfolding NamespaceGet_def ns_get_ps_def by (rule san.send_emits) (simp add: not_login_def)
  have "emits D (NamespaceDelete env dsm u) (\<lambda>_ t. \<forall>c \<in> set t. \<not> carries dsm (ns_get_ps name) c)" for u
    unfolding NamespaceDelete_def
    by (rule emits_mono [OF san_all_emits], simp add: not_login_def)
      (auto dest!: sent_not_carries [where ps' = "ns_get_ps name"] simp: ns_get_ps_def not_login_def)
  then show "emits D (NamespaceDelete env dsm (ns_Uuid ns)) (\<lambda>_ t. drops env dsm (ResNs (ns_Uuid ns)) t \<and>
      (\<forall>c \<in> set t. \<not> carries dsm (ns_get_ps name) c))" for ns
    by (rule emits_conj [OF nvme_drops(1)])
  show "reading (ns_get_ps name)" by (simp add: reading_def read_methods_def ns_get_ps_def)
qed

subsection \<open>The bodies\<close>

lemma creation_reads [emits_rules]:
  "only D quiet (getFirstAvailableVolume env dsm sz p)" "only D quiet (choose_location env dsm spec)"
  "only D quiet (waitCloneFinished env dsm name p)"
  unfolding getFirstAvailableVolume_def choose_location_def waitCloneFinished_def checkFinished_def
  by ((intro emits_rules; simp)+)

lemma range_attribs_reads [emits_rules]: "only D R (range_attribs env xs)"
  by (simp add: range_attribs_def emits_def Let_def case_prod_beta)

lemma tidy_read:
  assumes "only D quiet m" "\<And>x. emits D (f x) (\<lambda>out t. fst out = rb \<and> tidy (snd out) t)"
  shows "emits D (State_Monad.bind m f) (\<lambda>out t. fst out = rb \<and> tidy (snd out) t)"
  by (rule emits_bind [OF emits_quiet_harmless [OF assms(1)]], rule emits_mono [OF assms(2)])
    (simp add: tidy_append)

lemma tidy_then:
  assumes "emits D m (\<lambda>_. harmless)" "\<And>x. emits D (f x) (\<lambda>out t. fst out = rb \<and> tidy (snd out) t)"
  shows "emits D (State_Monad.bind m f) (\<lambda>out t. fst out = rb \<and> tidy (snd out) t)"
  by (rule emits_bind [OF assms(1)], rule emits_mono [OF assms(2)]) (simp add: tidy_append)

lemma tidy_return: "emits D (State_Monad.return (rb, r)) (\<lambda>out t. fst out = rb \<and> tidy (snd out) t)"
  by (rule emits_return) (simp add: harmless_tidy)

lemma map_lun_tidy: "emits D (map_lun env dsm spec lun rb) (\<lambda>out t. fst out = rb \<and> tidy (snd out) t)"
  unfolding map_lun_def
  by (rule emits_bind [OF createMappingTarget_tidy], rule emits_return)
    (auto elim!: tidy_result split: sum.splits)

lemma map_namespace_tidy:
  "emits D (map_namespace env dsm spec ns rb) (\<lambda>out t. fst out = rb \<and> tidy (snd out) t)"
  unfolding map_namespace_def
  by (rule emits_bind [OF createMappingSubsystem_tidy], rule emits_return)
    (auto elim!: tidy_result split: sum.splits)

lemma harmless_return: "emits D (State_Monad.return x) (\<lambda>_. harmless)"
  by (rule emits_return) simp

lemmas harmless_reads = creation_reads [THEN emits_quiet_harmless] iscsi_reads [THEN emits_quiet_harmless]
  nvme_reads [THEN emits_quiet_harmless] share_reads [THEN emits_quiet_harmless]

lemmas tidy_rules = tidy_return harmless_return map_lun_tidy map_namespace_tidy harmless_ops harmless_reads
  tidy_then emits_case_sum emits_case_option emits_if emits_let

lemma finish_lun_clone_tidy:
  "emits D (finish_lun_clone env dsm spec rb) (\<lambda>out t. fst out = rb \<and> tidy (snd out) t)"
  unfolding finish_lun_clone_def by (intro tidy_rules)

lemma finish_namespace_clone_tidy:
  "emits D (finish_namespace_clone env dsm spec rb) (\<lambda>out t. fst out = rb \<and> tidy (snd out) t)"
  unfolding finish_namespace_clone_def by (intro tidy_rules)

lemma armed_read:
  assumes "only D quiet m" "\<And>x. emits D (f x) (\<lambda>out t. armed env dsm g u (fst out) (snd out) t)"
  shows "emits D (State_Monad.bind m f) (\<lambda>out t. armed env dsm g u (fst out) (snd out) t)"
  by (rule emits_bind [OF emits_quiet_harmless [OF assms(1)]], rule emits_mono [OF assms(2)])
    (simp add: armed_append)

lemma armed_return: "emits D (State_Monad.return ([], Inl e)) (\<lambda>out t. armed env dsm g u (fst out) (snd out) t)"
  by (rule emits_return) (simp add: armed_early)

lemma armed_create:
  assumes "emits D c (makes env dsm g)"
    and "\<And>rb. emits D (k rb) (\<lambda>out t. fst out = rb \<and> tidy (snd out) t)" and "u' = u"
  shows "emits D (do { r \<leftarrow> c; after_create d u' r k }) (\<lambda>out t. armed env dsm g u (fst out) (snd out) t)"
  unfolding \<open>u' = u\<close> by (rule emits_bind [OF assms(1)], rule after_create_armed [OF _ assms(2)])

lemmas armed_rules = armed_create armed_return armed_read creation_reads iscsi_reads nvme_reads
  share_reads storage_reads range_attribs_reads iscsi_creates nvme_creates ShareCreate_emits
  ShareClone_emits emits_case_sum emits_case_option emits_if emits_let

subsection \<open>The nine functions\<close>

lemma choose_location_emits:
  "emits D (choose_location env dsm spec) (\<lambda>r t. harmless t \<and>
     (case r of Inl e \<Rightarrow> True | Inr s \<Rightarrow> \<exists>l. s = spec\<lparr>cv_Location := l\<rparr>))"
proof (rule emits_conj [OF emits_quiet_harmless [OF creation_reads(2)], THEN emits_mono])
  have same: "\<exists>l. spec = spec\<lparr>cv_Location := l\<rparr>"
    by (rule exI [of _ "cv_Location spec"]) simp
  show "emits D (choose_location env dsm spec)
      (\<lambda>r _. case r of Inl e \<Rightarrow> True | Inr s \<Rightarrow> \<exists>l. s = spec\<lparr>cv_Location := l\<rparr>)"
    unfolding choose_location_def
    by (rule emits_if, rule emits_bind [OF creation_reads(1)], rule emits_return)
      (use same in \<open>auto intro!: emits_return split: sum.splits\<close>)
qed simp

lemma with_spec_emits:
  assumes "\<And>l. emits D (with_rollback (body (spec0\<lparr>cv_Location := l\<rparr>))) Q"
    and "\<And>e t. harmless t \<Longrightarrow> Q (Inl e) t"
    and "\<And>r s t. harmless s \<Longrightarrow> Q r t \<Longrightarrow> Q r (s @ t)"
  shows "emits D (do {
     l \<leftarrow> choose_location env dsm spec0;
     case l of
       Inl e \<Rightarrow> State_Monad.return (spec0, Inl e)
     | Inr spec \<Rightarrow> do { res \<leftarrow> with_rollback (body spec); State_Monad.return (spec, res) } })
     (\<lambda>out. Q (snd out))"
proof (rule emits_bind [OF choose_location_emits], rule emits_case_sum, rule emits_return)
  fix r e t
  assume "harmless t \<and> (case r of Inl e \<Rightarrow> True | Inr s \<Rightarrow> \<exists>l. s = spec0\<lparr>cv_Location := l\<rparr>)"
  then show "Q (snd (spec0, Inl e)) (t @ [])" by (simp add: assms(2))
next
  fix r spec t
  assume *: "harmless t \<and> (case r of Inl e \<Rightarrow> True | Inr s \<Rightarrow> \<exists>l. s = spec0\<lparr>cv_Location := l\<rparr>)"
    and "r = Inr spec"
  then obtain l where "spec = spec0\<lparr>cv_Location := l\<rparr>" by auto
  then have body: "emits D (with_rollback (body spec)) Q" by (simp add: assms(1))
  show "emits D (do { res \<leftarrow> with_rollback (body spec); State_Monad.return (spec, res) })
      (\<lambda>out t'. Q (snd out) (t @ t'))"
    by (rule emits_bind [OF body], rule emits_return) (use * in \<open>simp add: assms(3)\<close>)
qed

lemma rolled_back_append:
  "harmless s \<Longrightarrow> rolled_back env dsm f U r t \<Longrightarrow> rolled_back env dsm f U r (s @ t)"
  unfolding rolled_back_def by (metis append_assoc fresh_append)

lemma rolled_back_early: "harmless t \<Longrightarrow> rolled_back env dsm f U (Inl e) t"
  unfolding rolled_back_def
  by (rule exI [of _ t], rule exI [of _ "[]"], rule exI [of _ "[]"], rule exI [of _ False])
    (auto simp: fresh_def harmless_def tidy_def dest: subsetD [OF made_clean])

lemma lun_functions_rolled_back:
  "emits D (createVolumeByDsm env dsm spec)
     (\<lambda>out. rolled_back env dsm ResLun (lun_undone env dsm (cv_BackendName spec)) (snd out))"
  "emits D (createVolumeBySnapshot env dsm spec snap)
     (rolled_back env dsm ResLun (lun_undone env dsm (cv_BackendName spec)))"
  "emits D (createVolumeByVolume env dsm spec src)
     (rolled_back env dsm ResLun (lun_undone env dsm (cv_BackendName spec)))"
proof -
  show "emits D (createVolumeByDsm env dsm spec)
     (\<lambda>out. rolled_back env dsm ResLun (lun_undone env dsm (cv_BackendName spec)) (snd out))"
    unfolding createVolumeByDsm_def
    by (rule with_spec_emits [OF with_rollback_armed [OF _ undo_lun_emits]],
        (rule armed_rules tidy_rules | simp; fail)+, auto intro: rolled_back_early rolled_back_append)
  show "emits D (createVolumeBySnapshot env dsm spec snap)
     (rolled_back env dsm ResLun (lun_undone env dsm (cv_BackendName spec)))"
    unfolding createVolumeBySnapshot_def
    by (rule with_rollback_armed [OF _ undo_lun_emits], (rule armed_rules finish_lun_clone_tidy | simp; fail)+)
  have name: "cv_BackendName (at_source l spec) = cv_BackendName spec" for l
    by (simp add: at_source_def)
  show "emits D (createVolumeByVolume env dsm spec src)
     (rolled_back env dsm ResLun (lun_undone env dsm (cv_BackendName spec)))"
    unfolding createVolumeByVolume_def
    by (rule with_rollback_armed [OF _ undo_lun_emits], (rule armed_rules finish_lun_clone_tidy | simp add: name; fail)+)
qed

lemma namespace_functions_rolled_back:
  "emits D (createNVMeVolumeByDsm env dsm spec)
     (\<lambda>out. rolled_back env dsm ResNs (ns_undone env dsm (cv_BackendName spec)) (snd out))"
  "emits D (createNVMeVolumeBySnapshot env dsm spec snap)
     (rolled_back env dsm ResNs (ns_undone env dsm (cv_BackendName spec)))"
  "emits D (createNVMeVolumeByVolume env dsm spec nsrc)
     (rolled_back env dsm ResNs (ns_undone env dsm (cv_BackendName spec)))"
proof -
  show "emits D (createNVMeVolumeByDsm env dsm spec)
     (\<lambda>out. rolled_back env dsm ResNs (ns_undone env dsm (cv_BackendName spec)) (snd out))"
    unfolding createNVMeVolumeByDsm_def
    by (rule with_spec_emits [OF with_rollback_armed [OF _ undo_namespace_emits]],
        (rule armed_rules tidy_rules | simp; fail)+, auto intro: rolled_back_early rolled_back_append)
  show "emits D (createNVMeVolumeBySnapshot env dsm spec snap)
     (rolled_back env dsm ResNs (ns_undone env dsm (cv_BackendName spec)))"
    unfolding createNVMeVolumeBySnapshot_def
    by (rule with_rollback_armed [OF _ undo_namespace_emits], (rule armed_rules finish_namespace_clone_tidy | simp; fail)+)
  have name: "cv_BackendName (at_source l spec) = cv_BackendName spec" for l
    by (simp add: at_source_def)
  show "emits D (createNVMeVolumeByVolume env dsm spec nsrc)
     (rolled_back env dsm ResNs (ns_undone env dsm (cv_BackendName spec)))"
    unfolding createNVMeVolumeByVolume_def
    by (rule with_rollback_armed [OF _ undo_namespace_emits], (rule armed_rules finish_namespace_clone_tidy | simp add: name; fail)+)
qed

lemma share_functions_rolled_back:
  "emits D (createSMBorNFSVolumeByDsm env dsm spec)
     (\<lambda>out. rolled_back env dsm (\<lambda>_ :: unit. ResShare (cv_ShareName spec))
        (drops env dsm (ResShare (cv_ShareName spec))) (snd out))"
  "emits D (createSMBorNFSVolumeBySnapshot env dsm spec snap)
     (rolled_back env dsm (\<lambda>_ :: string. ResShare (cv_ShareName spec))
        (drops env dsm (ResShare (cv_ShareName spec))))"
  "emits D (createSMBorNFSVolumeByVolume env dsm spec ssrc)
     (rolled_back env dsm (\<lambda>_ :: string. ResShare (cv_ShareName spec))
        (drops env dsm (ResShare (cv_ShareName spec))))"
proof -
  have create: "shc_Name s = n \<Longrightarrow> emits D (ShareCreate env dsm s) (makes env dsm (\<lambda>_. ResShare n))"
    and clone: "shcl_Name s' = n \<Longrightarrow> emits D (ShareClone env dsm s') (makes env dsm (\<lambda>_. ResShare n))"
    for s s' n
    using ShareCreate_emits ShareClone_emits by blast+
  show "emits D (createSMBorNFSVolumeByDsm env dsm spec)
     (\<lambda>out. rolled_back env dsm (\<lambda>_ :: unit. ResShare (cv_ShareName spec))
        (drops env dsm (ResShare (cv_ShareName spec))) (snd out))"
    unfolding createSMBorNFSVolumeByDsm_def
    by (rule with_spec_emits [OF with_rollback_armed [OF _ share_drops(1)]],
        (rule armed_rules create tidy_rules | simp; fail)+, auto intro: rolled_back_early rolled_back_append)
  show "emits D (createSMBorNFSVolumeBySnapshot env dsm spec snap)
     (rolled_back env dsm (\<lambda>_ :: string. ResShare (cv_ShareName spec))
        (drops env dsm (ResShare (cv_ShareName spec))))"
    unfolding createSMBorNFSVolumeBySnapshot_def
    by (rule with_rollback_armed [OF _ share_drops(1)], (rule armed_rules clone tidy_rules | simp; fail)+)
  show "emits D (createSMBorNFSVolumeByVolume env dsm spec ssrc)
     (rolled_back env dsm (\<lambda>_ :: string. ResShare (cv_ShareName spec))
        (drops env dsm (ResShare (cv_ShareName spec))))"
    unfolding createSMBorNFSVolumeByVolume_def
    by (rule with_rollback_armed [OF _ share_drops(1)], (rule armed_rules clone tidy_rules | simp; fail)+)
qed

subsection \<open>The rollback properties\<close>

lemma rolled_back_block:
  assumes "rolled_back env dsm f U r t" "\<And>x. \<not> is_mapping (f x)"
    and "\<And>t. U t \<Longrightarrow> made False t = {} \<and> (\<forall>hk \<in> deleted t. hk \<in> {Ip dsm} \<times> range f)"
  shows "if isl r then
      (\<forall>hk \<in> made True t. is_mapping (snd hk) \<longrightarrow> hk \<in> deleted t) \<and>
      (\<forall>hk \<in> deleted t. is_mapping (snd hk) \<longrightarrow> hk \<in> made False t) \<and>
      ((\<exists>x. (Ip dsm, f x) \<in> made True t) \<longrightarrow> (\<exists>t1 t2. t = t1 @ t2 \<and> U t2)) \<and>
      ((\<exists>hk \<in> deleted t. \<not> is_mapping (snd hk)) \<longrightarrow> (\<exists>x. (Ip dsm, f x) \<in> made False t))
    else deleted t = {}"
proof -
  from assms(1) obtain t1 t2 t3 new where t: "t = t1 @ t2 @ t3" "fresh env dsm f new t1" "tidy r t2"
      "if new \<and> isl r then U t3 else t3 = []"
    unfolding rolled_back_def by blast
  show ?thesis
  proof (cases "isl r")
    case False
    with t show ?thesis by (auto simp: fresh_def tidy_def)
  next
    case True
    have t3: "made False t3 = {} \<and> made True t3 = {} \<and> (\<forall>hk \<in> deleted t3. \<not> is_mapping (snd hk))"
    proof (cases "t3 = []")
      case False
      with t(4) have "U t3" by (simp split: if_splits)
      from assms(3) [OF this] assms(2) made_clean [of t3] show ?thesis by fastforce
    qed simp
    have t1: "deleted t1 = {}" "\<forall>hk \<in> made False t1. \<not> is_mapping (snd hk)"
      using t(2) assms(2) by (auto simp: fresh_def)
    have t2: "\<forall>hk \<in> made False t2 \<union> deleted t2. is_mapping (snd hk)"
        "made True t2 \<subseteq> deleted t2" "deleted t2 \<subseteq> made False t2"
      using t(3) True by (auto simp: tidy_def)
    have "new" if "(Ip dsm, f x) \<in> made True t" for x
    proof (rule ccontr)
      assume "\<not> new"
      with t(2) have "made True t1 = {}" by (simp add: fresh_def)
      with that t(1) t3 have "(Ip dsm, f x) \<in> made False t2" using made_clean [of t2] by auto
      with bspec [OF t2(1), of "(Ip dsm, f x)"] assms(2) [of x] show False by simp
    qed
    moreover have "\<exists>x. (Ip dsm, f x) \<in> made False t" if "hk \<in> deleted t" "\<not> is_mapping (snd hk)" for hk
    proof -
      from that t(1) t1 t2 have "hk \<in> deleted t3" by auto
      with t(4) have new by (auto split: if_splits)
      with t(1,2) show ?thesis by (auto simp: fresh_def)
    qed
    moreover have "\<exists>t1 t2. t = t1 @ t2 \<and> U t2" if new
      using t(1,4) that True by (intro exI [of _ "t1 @ t2"] exI [of _ t3]) simp
    ultimately show ?thesis
      using True t(1) t1 t2 t3 made_clean [of t1] by auto
  qed
qed


text \<open>When creating a share volume fails, exactly the share that this call made is asked
  to be deleted: all that was certainly made is deleted, and a share that existed before,
  or whose creation was refused, is left alone. When it succeeds nothing is deleted.\<close>

theorem createShareByDsm_rollback:
  "emits D (createSMBorNFSVolumeByDsm env dsm spec) (\<lambda>out t.
     if isl (snd out) then made True t \<subseteq> deleted t \<and> deleted t \<subseteq> made False t else deleted t = {})"
  by (rule emits_mono [OF share_functions_rolled_back(1)])
    (auto dest!: rolled_back_exact split: if_splits)

text \<open>The same for a share restored from a snapshot and for a cloned share.\<close>

theorem createShareFromSource_rollback:
  "emits D (createSMBorNFSVolumeBySnapshot env dsm spec snap) (\<lambda>r t.
     if isl r then made True t \<subseteq> deleted t \<and> deleted t \<subseteq> made False t else deleted t = {}) \<and>
   emits D (createSMBorNFSVolumeByVolume env dsm spec src) (\<lambda>r t.
     if isl r then made True t \<subseteq> deleted t \<and> deleted t \<subseteq> made False t else deleted t = {})"
  by (intro conjI emits_mono [OF share_functions_rolled_back(2)] emits_mono [OF share_functions_rolled_back(3)])
    (auto dest!: rolled_back_exact split: if_splits)

subsection \<open>A failed creation, run\<close>

definition sample_spec :: CreateK8sVolumeSpec where
  "sample_spec = \<lparr>cv_DsmIp = '''', cv_K8sVolumeName = ''pvc-1'', cv_BackendName = ''k8s-csi-pvc-1'',
     cv_Description = '''', cv_ShareName = ''k8s-csi-pvc-1'', cv_Location = ''/volume1'',
     cv_Size = 1073741824, cv_Type = ''BLUN'', cv_ThinProvisioning = True, cv_TargetName = ''k8s-csi-pvc-1'',
     cv_MultipleSession = False, cv_SourceSnapshotId = '''', cv_SourceVolumeId = '''',
     cv_Protocol = ''iscsi'', cv_NfsVersion = '''', cv_DevAttribs = [], cv_Reclaim = False\<rparr>"

text \<open>The LUN and the target are created, then reading the target back fails.\<close>

definition failing_replies :: "nat \<Rightarrow> reply" where
  "failing_replies n =
     (if n = 1 then api_ok (JObj [(''uuid'', JStr ''u1'')])
      else if n = 2 \<or> n = 6 then api_ok (JObj [(''lun'', JObj [(''uuid'', JStr ''u1'')])])
      else if n = 3 then api_ok (JObj [(''target_id'', JNum 7)])
      else if n = 4 then api_error 18990710 else api_ok JNull)"

lemmas creation_run = createVolumeByDsm_def choose_location_def with_rollback_def after_create_def
  rollback_add_def rollback_run_def undo_lun_def map_lun_def createMappingTarget_def range_attribs_def
  getLunTypeByInputParams_def VolumeGet_def LunCreate_def LunGet_def TargetCreate_def TargetGet_def
  TargetDelete_def LunDelete_def request_run

definition failing_env :: "nat env" where
  "failing_env = script_env failing_replies"

lemma failing_run:
  "isl (snd (result_of (createVolumeByDsm failing_env http_dsm sample_spec) world0)) \<and>
   (''10.0.0.1'', ResLun ''u1'') \<in> made True (calls (after (createVolumeByDsm failing_env http_dsm sample_spec) world0)) \<and>
   (''10.0.0.1'', ResTarget (itoa 7)) \<in> made True (calls (after (createVolumeByDsm failing_env http_dsm sample_spec) world0))"
  by (simp add: creation_run failing_env_def run_sendRequest_script failing_replies_def sample_spec_def
      dec_field_def dec_VolInfo_def dec_LunInfo_def dec_unit_def jfield_def Let_def errCodeMapping_def
      made_def request_eval reply_value_def)


end
