(* ===== verification/Clock.thy ===== *)
theory Clock
  imports GoStd "HOL-Library.Monad_Syntax"
begin

text \<open>
  \<^verbatim>\<open>GMTToUnixSecond\<close> of \<^verbatim>\<open>pkg/dsm/service/share_volume.go\<close>: the creation time of a share
  snapshot, which the storage system writes as in \<^verbatim>\<open>GMT+08-2024.03.05-09.30.00\<close>, as
  seconds since 1970. The parsing is that of \<^verbatim>\<open>time.Parse\<close> for the layout of the code:
  the literal parts, a signed two-digit zone offset, a four-digit year, two digits for
  month, day, minute and second, one or two for the hour, and a fraction of a second,
  which is accepted after the seconds though the layout has none, and ignored here since
  \<^verbatim>\<open>Unix\<close> drops it.
\<close>

subsection \<open>Calendar\<close>

definition is_leap :: "nat \<Rightarrow> bool" where
  "is_leap y \<longleftrightarrow> y mod 4 = 0 \<and> (y mod 100 \<noteq> 0 \<or> y mod 400 = 0)"

definition days_in :: "nat \<Rightarrow> nat \<Rightarrow> nat" where
  "days_in m y = (if m = 2 then (if is_leap y then 29 else 28)
     else if m \<in> {4, 6, 9, 11} then 30 else 31)"

definition days_before :: "nat \<Rightarrow> nat \<Rightarrow> nat" where
  "days_before m y = sum_list (map (\<lambda>k. days_in k y) [1..<m])"

text \<open>Days from the start of the year 0 to the start of the year \<open>y\<close>.\<close>

definition days_to_year :: "nat \<Rightarrow> nat" where
  "days_to_year y = 365 * y + (y + 3) div 4 - (y + 99) div 100 + (y + 399) div 400"

definition day_number :: "nat \<Rightarrow> nat \<Rightarrow> nat \<Rightarrow> int" where
  "day_number y m d = int (days_to_year y + days_before m y + d) - 719529"

definition unix_time :: "int \<Rightarrow> nat \<Rightarrow> nat \<Rightarrow> nat \<Rightarrow> nat \<Rightarrow> nat \<Rightarrow> nat \<Rightarrow> int" where
  "unix_time zone y m d h mi s =
     day_number y m d * 86400 + int h * 3600 + int mi * 60 + int s - zone * 3600"

subsection \<open>Parsing\<close>

type_synonym 'a chunk = "string \<Rightarrow> ('a \<times> string) option"

definition is_digit :: "char \<Rightarrow> bool" where
  "is_digit c \<longleftrightarrow> digit_of 10 c \<noteq> None"

definition skip_literal :: "string \<Rightarrow> string \<Rightarrow> string option" where
  "skip_literal p s = (if has_prefix s p then Some (drop (length p) s) else None)"

text \<open>\<^verbatim>\<open>getnum\<close>: two digits, or one when two are not required.\<close>

fun getnum :: "bool \<Rightarrow> nat chunk" where
  "getnum fixed [] = None"
| "getnum fixed (a # s) = (case digit_of 10 a of
     None \<Rightarrow> None
   | Some x \<Rightarrow> (case s of
       [] \<Rightarrow> if fixed then None else Some (x, s)
     | b # s' \<Rightarrow> (case digit_of 10 b of
         None \<Rightarrow> if fixed then None else Some (x, s)
       | Some y \<Rightarrow> Some (10 * x + y, s'))))"

definition get_within :: "bool \<Rightarrow> nat \<Rightarrow> nat \<Rightarrow> nat chunk" where
  "get_within fixed lo hi s = (case getnum fixed s of
     Some (n, s') \<Rightarrow> if lo \<le> n \<and> n \<le> hi then Some (n, s') else None
   | None \<Rightarrow> None)"

definition get_year :: "nat chunk" where
  "get_year s = (if length s < 4 then None else
     (case parse_digits 10 (take 4 s) 0 of None \<Rightarrow> None | Some y \<Rightarrow> Some (y, drop 4 s)))"

definition get_zone :: "int chunk" where
  "get_zone s = (case s of
     [] \<Rightarrow> None
   | c # s' \<Rightarrow> (case get_within True 0 24 s' of
       None \<Rightarrow> None
     | Some (n, s'') \<Rightarrow> if c = CHR ''+'' then Some (int n, s'')
         else if c = CHR ''-'' then Some (- int n, s'') else None))"

definition skip_fraction :: "string \<Rightarrow> string" where
  "skip_fraction s = (case s of
     c # d # s' \<Rightarrow> if (c = CHR ''.'' \<or> c = CHR '','') \<and> is_digit d then dropWhile is_digit s' else s
   | _ \<Rightarrow> s)"

definition parse_gmt :: "string \<Rightarrow> int option" where
  "parse_gmt str = do {
     s0 \<leftarrow> skip_literal ''GMT'' str;
     (zone, s1) \<leftarrow> get_zone s0;
     s2 \<leftarrow> skip_literal ''-'' s1;
     (y, s3) \<leftarrow> get_year s2;
     s4 \<leftarrow> skip_literal ''.'' s3;
     (m, s5) \<leftarrow> get_within True 1 12 s4;
     s6 \<leftarrow> skip_literal ''.'' s5;
     (d, s7) \<leftarrow> getnum True s6;
     s8 \<leftarrow> skip_literal ''-'' s7;
     (h, s9) \<leftarrow> get_within False 0 23 s8;
     s10 \<leftarrow> skip_literal ''.'' s9;
     (mi, s11) \<leftarrow> get_within True 0 59 s10;
     s12 \<leftarrow> skip_literal ''.'' s11;
     (s, s13) \<leftarrow> get_within True 0 59 s12;
     if skip_fraction s13 \<noteq> [] then None
     else if d < 1 \<or> days_in m y < d then None
     else Some (unix_time zone y m d h mi s) }"

definition GMTToUnixSecond :: "string \<Rightarrow> int64" where
  "GMTToUnixSecond timeStr = (case parse_gmt timeStr of None \<Rightarrow> -1 | Some t \<Rightarrow> word_of_int t)"

subsection \<open>The calendar is one: each day is the one after the day before\<close>

lemma days_before_Suc: "1 \<le> m \<Longrightarrow> days_before (Suc m) y = days_before m y + days_in m y"
  by (simp add: days_before_def)

lemma days_before_13: "days_before 13 y = (if is_leap y then 366 else 365)"
proof -
  have "[1..<13] = [1, 2, 3, 4, 5, 6, 7, 8, 9, 10, 11, 12 :: nat]"
    by (simp add: upt_rec)
  then show ?thesis by (simp add: days_before_def days_in_def)
qed

lemma div_round_up:
  assumes "0 < k"
  shows "(n + (k - 1)) div k = n div k + (if n mod k = 0 then 0 else (1 :: nat))"
proof -
  have "(n + (k - 1)) div k = n div k + (n mod k + (k - 1)) div k"
  proof -
    have "n + (k - 1) = (n mod k + (k - 1)) + k * (n div k)" by (simp add: mult.commute)
    then show ?thesis using assms by (simp only: div_mult_self2)
  qed
  moreover have "(n mod k + (k - 1)) div k = (if n mod k = 0 then 0 else 1)"
  proof (cases "n mod k = 0")
    case False
    have "n mod k < k" using assms by simp
    with False assms have "k * 1 \<le> n mod k + (k - 1)" "n mod k + (k - 1) < k + k"
      by linarith+
    then have "(n mod k + (k - 1)) div k = 1"
      by (intro div_nat_eqI) (simp_all add: mult.commute)
    with False show ?thesis by simp
  qed (use assms in simp)
  ultimately show ?thesis by simp
qed

lemma div_step:
  assumes "0 < k"
  shows "(Suc n + (k - 1)) div k = (n + (k - 1)) div k + (if n mod k = 0 then 1 else (0 :: nat))"
proof -
  have "Suc n + (k - 1) = n + k" using assms by simp
  then show ?thesis using assms div_round_up [OF assms, of n] by (simp add: div_add_self2)
qed

lemma days_to_year_Suc: "days_to_year (Suc y) = days_to_year y + days_before 13 y"
proof -
  have le: "(y + 99) div 100 \<le> 365 * y + (y + 3) div 4" for y :: nat
  proof (cases y)
    case (Suc n)
    have "(n + 100) div 100 \<le> Suc n" using div_le_dividend [of n 100] by simp
    with Suc show ?thesis by simp
  qed simp
  have 4: "(Suc y + 3) div 4 = (y + 3) div 4 + (if y mod 4 = 0 then 1 else 0)"
    using div_step [of 4 y] by simp
  have 100: "(Suc y + 99) div 100 = (y + 99) div 100 + (if y mod 100 = 0 then 1 else 0)"
    using div_step [of 100 y] by simp
  have 400: "(Suc y + 399) div 400 = (y + 399) div 400 + (if y mod 400 = 0 then 1 else 0)"
    using div_step [of 400 y] by simp
  have m: "y mod 400 = 0 \<Longrightarrow> y mod 100 = 0" "y mod 100 = 0 \<Longrightarrow> y mod 4 = 0"
    using dvd_trans [of 100 400 y] dvd_trans [of 4 100 y] by (simp_all add: dvd_eq_mod_eq_0)
  have sum: "365 * Suc y + (a + (if p then 1 else 0)) - (b + (if q then 1 else 0)) + (c + (if r then 1 else 0)) =
      365 * y + a - b + c + (if p \<and> (\<not> q \<or> r) then 366 else 365)"
    if "b \<le> 365 * y + a" "r \<Longrightarrow> q" "q \<Longrightarrow> p" for a b c :: nat and p q r
    by (cases p; cases q; cases r) (use that in simp_all)
  show ?thesis
    unfolding days_to_year_def days_before_13 is_leap_def 4 100 400
    by (rule sum [OF le m])
qed

text \<open>The number of the day goes up by one from each day to the next, over the ends of months
  and years and leap days.\<close>

lemma day_number_next:
  "day_number y m (Suc d) = day_number y m d + 1"
  "1 \<le> m \<Longrightarrow> day_number y (Suc m) 1 = day_number y m (days_in m y) + 1"
  "day_number (Suc y) 1 1 = day_number y 12 31 + 1"
proof -
  show "day_number y m (Suc d) = day_number y m d + 1"
    by (simp add: day_number_def)
  show "1 \<le> m \<Longrightarrow> day_number y (Suc m) 1 = day_number y m (days_in m y) + 1"
    by (simp add: day_number_def days_before_Suc)
  have "days_before 13 y = days_before 12 y + 31"
    using days_before_Suc [of 12 y] by (simp add: days_in_def)
  then show "day_number (Suc y) 1 1 = day_number y 12 31 + 1"
    by (simp add: day_number_def days_to_year_Suc days_before_def [of "Suc 0"])
qed

subsection \<open>Round trip\<close>

definition two_digits :: "nat \<Rightarrow> string" where
  "two_digits n = [char_of (48 + n div 10), char_of (48 + n mod 10)]"

definition gmt_string :: "int \<Rightarrow> nat \<Rightarrow> nat \<Rightarrow> nat \<Rightarrow> nat \<Rightarrow> nat \<Rightarrow> nat \<Rightarrow> string" where
  "gmt_string zone y m d h mi s =
     ''GMT'' @ (if zone < 0 then ''-'' else ''+'') @ two_digits (nat \<bar>zone\<bar>) @ ''-'' @
     two_digits (y div 100) @ two_digits (y mod 100) @ ''.'' @ two_digits m @ ''.'' @ two_digits d @
     ''-'' @ two_digits h @ ''.'' @ two_digits mi @ ''.'' @ two_digits s"

lemma digit_pair:
  "n < 100 \<Longrightarrow> digit_of 10 (char_of (48 + n div 10)) = Some (n div 10)"
  "digit_of 10 (char_of (48 + n mod 10)) = Some (n mod 10)"
  by (rule digit_of_char; simp)+

lemma getnum_two_digits: "n < 100 \<Longrightarrow> getnum fixed (two_digits n @ s) = Some (n, s)"
  by (simp add: two_digits_def digit_pair)

lemma get_within_two_digits:
  "lo \<le> n \<Longrightarrow> n \<le> hi \<Longrightarrow> hi < 100 \<Longrightarrow> get_within fixed lo hi (two_digits n @ s) = Some (n, s)"
  by (simp add: get_within_def getnum_two_digits)

lemma get_year_four_digits:
  assumes "y < 10000"
  shows "get_year (two_digits (y div 100) @ two_digits (y mod 100) @ s) = Some (y, s)"
proof -
  have "y div 100 < 100" "y mod 100 < 100" using assms by auto
  moreover have "10 * (10 * (10 * (y div 100 div 10) + y div 100 mod 10) + y mod 100 div 10) + y mod 100 mod 10 = y"
  proof -
    have gen: "10 * (10 * (10 * a + b) + c) + d = n" if "100 * p + q = n" "10 * a + b = p" "10 * c + d = q"
      for a b c d p q n :: nat
      using that by (auto simp: algebra_simps)
    show ?thesis by (rule gen [OF mult_div_mod_eq mult_div_mod_eq mult_div_mod_eq])
  qed
  ultimately show ?thesis
    by (simp add: get_year_def two_digits_def digit_pair del: mod_mod_cancel div_mult2_eq)
qed

lemma get_zone_two_digits:
  assumes "\<bar>zone\<bar> \<le> 24"
  shows "get_zone ((if zone < 0 then ''-'' else ''+'') @ two_digits (nat \<bar>zone\<bar>) @ s) = Some (zone, s)"
  using assms by (auto simp: get_zone_def get_within_two_digits)

text \<open>A creation time that the storage system writes is read back as the number of
  seconds since 1970 that it stands for, the zone offset taken off, for every valid date
  of the years 0 to 9999 and every zone of at most a day.\<close>

theorem GMTToUnixSecond_roundtrip:
  assumes "\<bar>zone\<bar> \<le> 24" "y < 10000" "1 \<le> m" "m \<le> 12" "1 \<le> d" "d \<le> days_in m y"
    "h < 24" "mi < 60" "s < 60"
  shows "GMTToUnixSecond (gmt_string zone y m d h mi s) = word_of_int (unix_time zone y m d h mi s)"
proof -
  have d: "d < 100" using assms(6) by (simp add: days_in_def split: if_splits)

  have tail: "get_within True 0 59 (two_digits s) = Some (s, '''')"
    using get_within_two_digits [of 0 s 59 True "''''"] assms(9) by simp
  have "parse_gmt (gmt_string zone y m d h mi s) = Some (unix_time zone y m d h mi s)"
    unfolding parse_gmt_def gmt_string_def
    using assms d
    by (simp add: skip_literal_def get_zone_two_digits get_year_four_digits get_within_two_digits
        getnum_two_digits tail skip_fraction_def)
  then show ?thesis by (simp add: GMTToUnixSecond_def)
qed

theorem GMTToUnixSecond_roundtrip_witness:
  "GMTToUnixSecond (gmt_string 8 2024 3 5 9 30 0) = 1709602200"
  using GMTToUnixSecond_roundtrip [of 8 2024 3 5 9 30 0]
  by (simp add: days_in_def unix_time_def day_number_def days_to_year_def days_before_def is_leap_def upt_rec)

end
