(* ===== verification/Snapshots.thy ===== *)
theory Snapshots
  imports Rollback Clock
begin

text \<open>
  The snapshots of \<^verbatim>\<open>pkg/dsm/service\<close> (\<^verbatim>\<open>dsm.go\<close>, \<^verbatim>\<open>share_volume.go\<close>, \<^verbatim>\<open>namespace_volume.go\<close>):
  how the snapshots of LUNs, namespaces and shares become snapshots of the driver, the
  listings per storage system and over all of them, the lookups by uuid and by name, and
  \<^verbatim>\<open>ListSnapshots\<close> of one volume. Unlike the volume listings these are best effort: what
  could not be listed is logged and left out. Also \<^verbatim>\<open>GetDsm\<close>, the lookup in the table of
  storage systems.
\<close>

subsection \<open>Conversions\<close>

definition DsmShareSnapshotToK8sSnapshot ::
    "string \<Rightarrow> ShareSnapshotInfo \<Rightarrow> ShareInfo \<Rightarrow> string \<Rightarrow> K8sSnapshotRespSpec" where
  "DsmShareSnapshotToK8sSnapshot dsmIp info shareInfo protocol =
     \<lparr>ks_DsmIp = dsmIp, ks_Name = replace_all (ssn_Desc info) ShareSnapshotDescPrefix '''',
      ks_Uuid = ssn_Uuid info, ks_ParentName = sh_Name shareInfo, ks_ParentUuid = sh_Uuid shareInfo,
      ks_Status = ''Healthy'', ks_SizeInBytes = MBToBytes (sh_QuotaValueInMB shareInfo),
      ks_CreateTime = GMTToUnixSecond (ssn_Time info), ks_Time = ssn_Time info,
      ks_RootPath = sh_VolPath shareInfo, ks_Protocol = protocol\<rparr>"

definition DsmSanSnapshotToK8sSnapshot :: "string \<Rightarrow> SnapshotInfo \<Rightarrow> string \<Rightarrow> K8sSnapshotRespSpec" where
  "DsmSanSnapshotToK8sSnapshot dsmIp info protocol =
     \<lparr>ks_DsmIp = dsmIp, ks_Name = sn_Name info, ks_Uuid = sn_Uuid info, ks_ParentName = '''',
      ks_ParentUuid = sn_ParentUuid info, ks_Status = sn_Status info,
      ks_SizeInBytes = sn_TotalSize info, ks_CreateTime = sn_CreateTime info, ks_Time = '''',
      ks_RootPath = sn_RootPath info, ks_Protocol = protocol\<rparr>"

subsection \<open>Listings\<close>

text \<open>The loop of the three listings: the snapshots of each volume, skipping a volume whose
  snapshots cannot be listed.\<close>

definition list_each :: "('v \<Rightarrow> ('n world, err + 's list) prog) \<Rightarrow> ('v \<Rightarrow> 's \<Rightarrow> 'k) \<Rightarrow> 'v list
    \<Rightarrow> ('n world, 'k list) prog" where
  "list_each request convert volumes =
     for_each (\<lambda>volume infos. do {
       r \<leftarrow> request volume;
       State_Monad.return (case r of
         Inl e \<Rightarrow> infos
       | Inr snaps \<Rightarrow> infos @ map (convert volume) snaps) }) volumes []"

definition listISCSISnapshotsByDsm :: "'n env \<Rightarrow> DSM \<Rightarrow> ('n world, K8sSnapshotRespSpec list) prog" where
  "listISCSISnapshotsByDsm env dsm = do {
     vs \<leftarrow> listISCSIVolumes env (Ip dsm);
     list_each (\<lambda>volume. SnapshotList env dsm (lun_Uuid (kv_Lun volume)))
       (\<lambda>_ info. DsmSanSnapshotToK8sSnapshot (Ip dsm) info ProtocolIscsi) (fst vs) }"

definition listSMBorNFSSnapshotsByDsm :: "'n env \<Rightarrow> DSM \<Rightarrow> ('n world, K8sSnapshotRespSpec list) prog" where
  "listSMBorNFSSnapshotsByDsm env dsm = do {
     vs \<leftarrow> listSMBorNFSVolumes env (Ip dsm);
     list_each (\<lambda>volume. ShareSnapshotList env dsm (sh_Name (kv_Share volume)))
       (\<lambda>volume info. DsmShareSnapshotToK8sSnapshot (Ip dsm) info (kv_Share volume) (kv_Protocol volume))
       (fst vs) }"

definition listNVMeSnapshotsByDsm :: "'n env \<Rightarrow> DSM \<Rightarrow> ('n world, K8sSnapshotRespSpec list) prog" where
  "listNVMeSnapshotsByDsm env dsm =
     (if \<not> SupportNvmeof dsm then State_Monad.return []
      else do {
        vs \<leftarrow> listNVMeVolumes env (Ip dsm);
        list_each (\<lambda>volume. NamespaceSnapshotList env dsm (ns_Uuid (kv_Namespace volume)))
          (\<lambda>_ info. DsmSanSnapshotToK8sSnapshot (Ip dsm) info ProtocolNvme) (fst vs) })"

definition ListAllSnapshots :: "'n env \<Rightarrow> ('n world, K8sSnapshotRespSpec list) prog" where
  "ListAllSnapshots env = do {
     ds \<leftarrow> range_dsms env;
     for_each (\<lambda>dsm allInfos. do {
       i \<leftarrow> listISCSISnapshotsByDsm env dsm;
       s \<leftarrow> listSMBorNFSSnapshotsByDsm env dsm;
       n \<leftarrow> listNVMeSnapshotsByDsm env dsm;
       State_Monad.return (allInfos @ i @ s @ n) }) ds [] }"

subsection \<open>Lookups\<close>

definition GetDsm :: "string \<Rightarrow> ('n world, err + DSM) prog" where
  "GetDsm ip = do {
     w \<leftarrow> State_Monad.get;
     State_Monad.return (case map_of (dsms w) ip of
       None \<Rightarrow> Inl (FmtError ''Requested dsm [%s] does not exist'')
     | Some dsm \<Rightarrow> Inr dsm) }"

definition GetSnapshotByName :: "'n env \<Rightarrow> string \<Rightarrow> ('n world, K8sSnapshotRespSpec option) prog" where
  "GetSnapshotByName env snapshotName = do {
     snaps \<leftarrow> ListAllSnapshots env;
     State_Monad.return (find (\<lambda>snap. ks_Name snap = snapshotName) snaps) }"

definition GetSnapshotByUuid :: "'n env \<Rightarrow> string \<Rightarrow> ('n world, K8sSnapshotRespSpec option) prog" where
  "GetSnapshotByUuid env snapshotUuid = do {
     snaps \<leftarrow> ListAllSnapshots env;
     State_Monad.return (find (\<lambda>snap. ks_Uuid snap = snapshotUuid) snaps) }"

text \<open>\<^verbatim>\<open>getISCSISnapshot\<close> and \<^verbatim>\<open>getSMBorNFSSnapshot\<close> stop at the first storage system that has it.\<close>

definition find_in_dsms :: "'n env \<Rightarrow> (DSM \<Rightarrow> ('n world, K8sSnapshotRespSpec list) prog) \<Rightarrow> string
    \<Rightarrow> ('n world, K8sSnapshotRespSpec option) prog" where
  "find_in_dsms env list_by_dsm snapshotUuid = do {
     ds \<leftarrow> range_dsms env;
     out \<leftarrow> for_return (\<lambda>dsm u. do {
       snapshots \<leftarrow> list_by_dsm dsm;
       State_Monad.return (case find (\<lambda>snap. ks_Uuid snap = snapshotUuid) snapshots of
         None \<Rightarrow> Inl ()
       | Some snap \<Rightarrow> Inr snap) }) ds ();
     State_Monad.return (case out of Inl _ \<Rightarrow> None | Inr snap \<Rightarrow> Some snap) }"

definition getISCSISnapshot :: "'n env \<Rightarrow> string \<Rightarrow> ('n world, K8sSnapshotRespSpec option) prog" where
  "getISCSISnapshot env = find_in_dsms env (listISCSISnapshotsByDsm env)"

definition getSMBorNFSSnapshot :: "'n env \<Rightarrow> string \<Rightarrow> ('n world, K8sSnapshotRespSpec option) prog" where
  "getSMBorNFSSnapshot env = find_in_dsms env (listSMBorNFSSnapshotsByDsm env)"

text \<open>The snapshots of one volume; \<^verbatim>\<open>nil\<close> is the empty list.\<close>

definition ListSnapshots :: "'n env \<Rightarrow> string \<Rightarrow> ('n world, K8sSnapshotRespSpec list) prog" where
  "ListSnapshots env volId = do {
     g \<leftarrow> GetVolume env volId;
     case g of
       Inl e \<Rightarrow> State_Monad.return []
     | Inr None \<Rightarrow> State_Monad.return []
     | Inr (Some k8sVolume) \<Rightarrow> do {
         d \<leftarrow> GetDsm (kv_DsmIp k8sVolume);
         case d of
           Inl e \<Rightarrow> State_Monad.return []
         | Inr dsm \<Rightarrow>
             if kv_Protocol k8sVolume = ProtocolIscsi then do {
               r \<leftarrow> SnapshotList env dsm volId;
               State_Monad.return (case r of Inl e \<Rightarrow> []
               | Inr infos \<Rightarrow> map (\<lambda>info. DsmSanSnapshotToK8sSnapshot (Ip dsm) info (kv_Protocol k8sVolume)) infos) }
             else if SupportNvmeof dsm \<and> kv_Protocol k8sVolume = ProtocolNvme then do {
               r \<leftarrow> NamespaceSnapshotList env dsm volId;
               State_Monad.return (case r of Inl e \<Rightarrow> []
               | Inr infos \<Rightarrow> map (\<lambda>info. DsmSanSnapshotToK8sSnapshot (Ip dsm) info (kv_Protocol k8sVolume)) infos) }
             else do {
               r \<leftarrow> ShareSnapshotList env dsm (sh_Name (kv_Share k8sVolume));
               State_Monad.return (case r of Inl e \<Rightarrow> []
               | Inr infos \<Rightarrow> map (\<lambda>info. DsmShareSnapshotToK8sSnapshot (Ip dsm) info
                     (kv_Share k8sVolume) (kv_Protocol k8sVolume)) infos) } } }"

subsection \<open>What the listings report\<close>

text \<open>Where a snapshot comes from: an answer to the request that lists the snapshots of a LUN,
  a namespace or a share of one of the storage systems.\<close>

definition heard_share_snapshots :: "DSM \<Rightarrow> string \<Rightarrow> ShareSnapshotInfo list \<Rightarrow> call list \<Rightarrow> bool" where
  "heard_share_snapshots dsm name = heard dsm
     [(''api'', snap_api), (''method'', PStr ''list''), (''version'', PStr ''2''), (''name'', PQuote name),
      (''additional'', PQuoteList [''desc'', ''lock'', ''schedule_snapshot'', ''ruuid'', ''snap_size''])]
     (dec_obj (\<lambda>ob. do {
        snaps \<leftarrow> dec_list dec_ShareSnapshotInfo (jfield ''snapshots'' ob);
        _ \<leftarrow> dec_int (jfield ''total'' ob);
        Some snaps }))"

definition lun_snapshot :: "DSM \<Rightarrow> K8sSnapshotRespSpec \<Rightarrow> call list \<Rightarrow> bool" where
  "lun_snapshot dsm s t \<longleftrightarrow> (\<exists>u infos. heard dsm
     [(''api'', lun_api), (''method'', PStr ''list_snapshot''), v1, (''src_lun_uuid'', PQuote u)]
     (dec_field ''snapshots'' (dec_list dec_SnapshotInfo)) infos t \<and>
     (\<exists>info \<in> set infos. s = DsmSanSnapshotToK8sSnapshot (Ip dsm) info ProtocolIscsi))"

definition namespace_snapshot :: "DSM \<Rightarrow> K8sSnapshotRespSpec \<Rightarrow> call list \<Rightarrow> bool" where
  "namespace_snapshot dsm s t \<longleftrightarrow> SupportNvmeof dsm \<and> (\<exists>u infos. heard dsm
     [(''api'', ns_api), (''method'', PStr ''list_snapshot''), v1, (''uuid'', PQuote u)]
     (dec_field ''snapshots'' (dec_list dec_SnapshotInfo)) infos t \<and>
     (\<exists>info \<in> set infos. s = DsmSanSnapshotToK8sSnapshot (Ip dsm) info ProtocolNvme))"

definition share_snapshot :: "DSM \<Rightarrow> K8sSnapshotRespSpec \<Rightarrow> call list \<Rightarrow> bool" where
  "share_snapshot dsm s t \<longleftrightarrow> (\<exists>share infos p. heard_share_snapshots dsm (sh_Name share) infos t \<and>
     p \<in> {ProtocolSmb, ProtocolNfs} \<and>
     (\<exists>info \<in> set infos. s = DsmShareSnapshotToK8sSnapshot (Ip dsm) info share p))"

lemma snapshot_mono:
  "lun_snapshot dsm s t \<Longrightarrow> set t \<subseteq> set t' \<Longrightarrow> lun_snapshot dsm s t'"
  "namespace_snapshot dsm s t \<Longrightarrow> set t \<subseteq> set t' \<Longrightarrow> namespace_snapshot dsm s t'"
  "share_snapshot dsm s t \<Longrightarrow> set t \<subseteq> set t' \<Longrightarrow> share_snapshot dsm s t'"
  unfolding lun_snapshot_def namespace_snapshot_def share_snapshot_def heard_share_snapshots_def
  by (meson heard_mono)+

definition known_snapshot :: "(string \<times> DSM) list \<Rightarrow> K8sSnapshotRespSpec \<Rightarrow> call list \<Rightarrow> bool" where
  "known_snapshot D s t \<longleftrightarrow> (\<exists>dsm \<in> snd ` set D.
     lun_snapshot dsm s t \<or> namespace_snapshot dsm s t \<or> share_snapshot dsm s t)"

lemma known_snapshot_mono: "known_snapshot D s t \<Longrightarrow> set t \<subseteq> set t' \<Longrightarrow> known_snapshot D s t'"
  unfolding known_snapshot_def by (meson snapshot_mono)

text \<open>The loop of the listings: what a request is answered with is sound for its volume.\<close>

lemma list_each_emits:
  assumes "\<And>v. v \<in> set vs \<Longrightarrow> emits D (request v) (\<lambda>r t. case r of Inl e \<Rightarrow> True
      | Inr snaps \<Rightarrow> \<forall>x \<in> set snaps. S (conv v x) t)"
    and mono: "\<And>s t t'. S s t \<Longrightarrow> set t \<subseteq> set t' \<Longrightarrow> S s t'"
  shows "emits D (list_each request conv vs) (\<lambda>infos t. \<forall>s \<in> set infos. S s t)"
proof -
  let ?Inv = "\<lambda>_ infos t. \<forall>s \<in> set infos. S s t"
  have "emits D (list_each request conv vs) (\<lambda>infos t. ?Inv ([] @ vs) infos ([] @ t))"
    unfolding list_each_def
  proof (rule for_each_emits [where Inv = ?Inv])
    fix v infos t pre
    assume v: "v \<in> set vs" and inv: "?Inv pre infos t"
    show "emits D (do { r \<leftarrow> request v; State_Monad.return (case r of Inl e \<Rightarrow> infos
        | Inr snaps \<Rightarrow> infos @ map (conv v) snaps) }) (\<lambda>infos' t'. ?Inv (pre @ [v]) infos' (t @ t'))"
    proof (rule emits_bind [OF assms(1) [OF v]], rule emits_return)
      fix r t'
      assume r: "case r of Inl e \<Rightarrow> True | Inr snaps \<Rightarrow> \<forall>x \<in> set snaps. S (conv v x) t'"
      have "S s (t @ t' @ [])" if "S s t \<or> S s t'" for s
        using that mono [of s t "t @ t' @ []"] mono [of s t' "t @ t' @ []"] by auto
      then show "?Inv (pre @ [v]) (case r of Inl e \<Rightarrow> infos | Inr snaps \<Rightarrow> infos @ map (conv v) snaps)
          (t @ t' @ [])"
        using inv r by (cases r) auto
    qed
  qed simp
  then show ?thesis by simp
qed

text \<open>
  A source of snapshots: a program that only reads, and returns snapshots that are known.
  The client lemmas are the two ways the lookups use one: the loop over the storage
  systems that collects, and the loop that stops at the first match.
\<close>

locale snapshot_source =
  fixes D :: "(string \<times> DSM) list"
    and src :: "DSM \<Rightarrow> ('n world, K8sSnapshotRespSpec list) prog"
  assumes src_reads: "only D quiet (src dsm)"
    and src_known: "dsm \<in> snd ` set D \<Longrightarrow> emits D (src dsm) (\<lambda>infos t. \<forall>s \<in> set infos. known_snapshot D s t)"
begin

lemma found_first:
  "emits D (find_in_dsms env src uuid) (\<lambda>r t. list_all quiet t \<and>
     (case r of None \<Rightarrow> True | Some s \<Rightarrow> ks_Uuid s = uuid \<and> known_snapshot D s t))"
proof (rule emits_conj)
  show "only D quiet (find_in_dsms env src uuid)"
    unfolding find_in_dsms_def by (intro emits_rules src_reads) simp_all
  let ?ok = "\<lambda>s t. ks_Uuid s = uuid \<and> known_snapshot D s t"
  show "emits D (find_in_dsms env src uuid) (\<lambda>r t. case r of None \<Rightarrow> True | Some s \<Rightarrow> ?ok s t)"
    unfolding find_in_dsms_def
  proof (rule emits_bind [OF range_dsms_emits])
    fix ds and t0 :: "call list"
    assume ds: "t0 = [] \<and> set ds = snd ` set D"
    let ?body = "\<lambda>dsm (u :: unit). do {
       snapshots \<leftarrow> src dsm;
       State_Monad.return (case find (\<lambda>snap. ks_Uuid snap = uuid) snapshots of
         None \<Rightarrow> Inl () | Some snap \<Rightarrow> Inr snap) }"
    have "emits D (for_return ?body ds ()) (\<lambda>out t. case out of Inl s \<Rightarrow> True | Inr s \<Rightarrow> ?ok s ([] @ t))"
    proof (rule for_return_emits [where Inv = "\<lambda>_ _ _. True"])
      fix dsm t and pre :: "DSM list" and u :: unit
      assume "dsm \<in> set ds"
      then have "dsm \<in> snd ` set D" using ds by simp
      from src_known [OF this]
      show "emits D (?body dsm u) (\<lambda>out t'. case out of Inl s' \<Rightarrow> True | Inr s \<Rightarrow> ?ok s (t @ t'))"
      proof (rule emits_bind, intro emits_return)
        fix xs t'
        assume xs: "\<forall>s \<in> set xs. known_snapshot D s t'"
        show "case (case find (\<lambda>snap. ks_Uuid snap = uuid) xs of None \<Rightarrow> Inl () | Some snap \<Rightarrow> Inr snap) of
            Inl s' \<Rightarrow> True | Inr s \<Rightarrow> ?ok s (t @ t' @ [])"
          using xs by (auto split: option.split simp: find_Some_iff
              intro: known_snapshot_mono [of D _ t' "t @ t'"])
      qed
    qed simp
    then show "emits D (do {
        out \<leftarrow> for_return ?body ds ();
        State_Monad.return (case out of Inl _ \<Rightarrow> None | Inr snap \<Rightarrow> Some snap) })
        (\<lambda>r t. case r of None \<Rightarrow> True | Some s \<Rightarrow> ?ok s (t0 @ t))"
      by (rule emits_bind, intro emits_return) (use ds in \<open>auto split: sum.splits\<close>)
  qed
qed

end

lemma snapshot_lists:
  "emits D (SnapshotList env dsm u) (\<lambda>r t. case r of Inl e \<Rightarrow> True
     | Inr infos \<Rightarrow> \<forall>info \<in> set infos. lun_snapshot dsm (DsmSanSnapshotToK8sSnapshot (Ip dsm) info ProtocolIscsi) t)"
  "SupportNvmeof dsm \<Longrightarrow> emits D (NamespaceSnapshotList env dsm u) (\<lambda>r t. case r of Inl e \<Rightarrow> True
     | Inr infos \<Rightarrow> \<forall>info \<in> set infos. namespace_snapshot dsm (DsmSanSnapshotToK8sSnapshot (Ip dsm) info ProtocolNvme) t)"
  "emits D (ShareSnapshotList env dsm n) (\<lambda>r t. case r of Inl e \<Rightarrow> True
     | Inr infos \<Rightarrow> heard_share_snapshots dsm n infos t)"
proof -
  show "emits D (SnapshotList env dsm u) (\<lambda>r t. case r of Inl e \<Rightarrow> True
     | Inr infos \<Rightarrow> \<forall>info \<in> set infos. lun_snapshot dsm (DsmSanSnapshotToK8sSnapshot (Ip dsm) info ProtocolIscsi) t)"
    unfolding SnapshotList_def lun_snapshot_def
    by (rule emits_mono [OF iscsi.send_emits], simp add: not_login_def)
      (fastforce dest: sent_heard split: sum.splits)
  show "emits D (NamespaceSnapshotList env dsm u) (\<lambda>r t. case r of Inl e \<Rightarrow> True
     | Inr infos \<Rightarrow> \<forall>info \<in> set infos. namespace_snapshot dsm (DsmSanSnapshotToK8sSnapshot (Ip dsm) info ProtocolNvme) t)"
    if "SupportNvmeof dsm"
    unfolding NamespaceSnapshotList_def namespace_snapshot_def
    by (rule emits_mono [OF san.send_emits], simp add: not_login_def)
      (use that in \<open>fastforce dest: sent_heard split: sum.splits\<close>)
  show "emits D (ShareSnapshotList env dsm n) (\<lambda>r t. case r of Inl e \<Rightarrow> True
     | Inr infos \<Rightarrow> heard_share_snapshots dsm n infos t)"
    unfolding ShareSnapshotList_def heard_share_snapshots_def
    by (rule emits_mono [OF share.send_emits], simp add: not_login_def)
      (auto dest: sent_heard split: sum.splits)
qed

lemma only_list_each [emits_rules]:
  assumes "\<And>v. only D R (request v)"
  shows "only D R (list_each request conv vs)"
  unfolding list_each_def by (intro emits_rules assms) simp_all

lemma snapshot_listing_reads [emits_rules]:
  "only D quiet (listISCSISnapshotsByDsm env dsm)" "only D quiet (listNVMeSnapshotsByDsm env dsm)"
  "only D quiet (listSMBorNFSSnapshotsByDsm env dsm)" "only D quiet (ListAllSnapshots env)"
  unfolding listISCSISnapshotsByDsm_def listNVMeSnapshotsByDsm_def listSMBorNFSSnapshotsByDsm_def
    ListAllSnapshots_def
  by ((intro emits_rules; simp)+)

lemma known_snapshotI:
  "dsm \<in> snd ` set D \<Longrightarrow> lun_snapshot dsm s t \<Longrightarrow> known_snapshot D s t"
  "dsm \<in> snd ` set D \<Longrightarrow> namespace_snapshot dsm s t \<Longrightarrow> known_snapshot D s t"
  "dsm \<in> snd ` set D \<Longrightarrow> share_snapshot dsm s t \<Longrightarrow> known_snapshot D s t"
  by (auto simp: known_snapshot_def)

lemma listISCSISnapshots_known:
  assumes "dsm \<in> snd ` set D"
  shows "emits D (listISCSISnapshotsByDsm env dsm) (\<lambda>infos t. \<forall>s \<in> set infos. known_snapshot D s t)"
  unfolding listISCSISnapshotsByDsm_def
proof (rule emits_bind [OF listing_reads(1)], rule emits_mono, rule list_each_emits)
  show "emits D (SnapshotList env dsm (lun_Uuid (kv_Lun v))) (\<lambda>r t. case r of Inl e \<Rightarrow> True
      | Inr snaps \<Rightarrow> \<forall>x \<in> set snaps. known_snapshot D (DsmSanSnapshotToK8sSnapshot (Ip dsm) x ProtocolIscsi) t)" for v
    by (rule emits_mono [OF snapshot_lists(1)])
      (use known_snapshotI(1) [OF assms] in \<open>auto split: sum.splits\<close>)
  show "known_snapshot D s t \<Longrightarrow> set t \<subseteq> set t' \<Longrightarrow> known_snapshot D s t'" for s t t'
    by (rule known_snapshot_mono)
qed (auto elim!: known_snapshot_mono)

lemma listNVMeSnapshots_known:
  assumes "dsm \<in> snd ` set D"
  shows "emits D (listNVMeSnapshotsByDsm env dsm) (\<lambda>infos t. \<forall>s \<in> set infos. known_snapshot D s t)"
  unfolding listNVMeSnapshotsByDsm_def
proof (rule emits_if, rule emits_return, simp, rule emits_bind [OF listing_reads(2)], rule emits_mono,
    rule list_each_emits)
  assume "\<not> \<not> SupportNvmeof dsm"
  then show "emits D (NamespaceSnapshotList env dsm (ns_Uuid (kv_Namespace v))) (\<lambda>r t. case r of Inl e \<Rightarrow> True
      | Inr snaps \<Rightarrow> \<forall>x \<in> set snaps. known_snapshot D (DsmSanSnapshotToK8sSnapshot (Ip dsm) x ProtocolNvme) t)" for v
    by (intro emits_mono [OF snapshot_lists(2)])
      (use known_snapshotI(2) [OF assms] in \<open>auto split: sum.splits\<close>)
  show "known_snapshot D s t \<Longrightarrow> set t \<subseteq> set t' \<Longrightarrow> known_snapshot D s t'" for s t t'
    by (rule known_snapshot_mono)
qed (auto elim!: known_snapshot_mono)

lemma any_share_volume_protocol:
  "any_share_volume D v t \<Longrightarrow> kv_Protocol v \<in> {ProtocolSmb, ProtocolNfs}"
  by (auto simp: any_share_volume_def share_volume_def DsmShareToK8sVolume_def)

lemma listShareSnapshots_known:
  assumes "dsm \<in> snd ` set D"
  shows "emits D (listSMBorNFSSnapshotsByDsm env dsm) (\<lambda>infos t. \<forall>s \<in> set infos. known_snapshot D s t)"
  unfolding listSMBorNFSSnapshotsByDsm_def
proof (rule emits_bind [OF listShares_collects], rule emits_mono, rule list_each_emits)
  fix vs t v
  assume c: "collects ([], None) vs (\<lambda>vs t. \<forall>dsm' \<in> snd ` set D. shares_seen (Ip dsm) dsm' vs t) (any_share_volume D) t"
    and "v \<in> set (fst vs)"
  then have p: "kv_Protocol v \<in> {ProtocolSmb, ProtocolNfs}"
    by (auto simp: collects_def dest!: any_share_volume_protocol)
  show "emits D (ShareSnapshotList env dsm (sh_Name (kv_Share v))) (\<lambda>r t. case r of Inl e \<Rightarrow> True
      | Inr snaps \<Rightarrow> \<forall>x \<in> set snaps. known_snapshot D
          (DsmShareSnapshotToK8sSnapshot (Ip dsm) x (kv_Share v) (kv_Protocol v)) t)"
  proof (rule emits_mono [OF snapshot_lists(3)])
    fix r t
    assume r: "case r of Inl e \<Rightarrow> True | Inr infos \<Rightarrow> heard_share_snapshots dsm (sh_Name (kv_Share v)) infos t"
    have "share_snapshot dsm (DsmShareSnapshotToK8sSnapshot (Ip dsm) x (kv_Share v) (kv_Protocol v)) t"
      if "r = Inr snaps" "x \<in> set snaps" for snaps x
      using r that p unfolding share_snapshot_def by auto
    then show "case r of Inl e \<Rightarrow> True | Inr snaps \<Rightarrow> \<forall>x \<in> set snaps. known_snapshot D
        (DsmShareSnapshotToK8sSnapshot (Ip dsm) x (kv_Share v) (kv_Protocol v)) t"
      by (auto split: sum.splits intro: known_snapshotI(3) [OF assms])
  qed
next
  show "known_snapshot D s t \<Longrightarrow> set t \<subseteq> set t' \<Longrightarrow> known_snapshot D s t'" for s t t'
    by (rule known_snapshot_mono)
qed (auto elim!: known_snapshot_mono)

interpretation lun_snaps: snapshot_source D "listISCSISnapshotsByDsm env" for D env
  by unfold_locales (rule snapshot_listing_reads, rule listISCSISnapshots_known)

interpretation namespace_snaps: snapshot_source D "listNVMeSnapshotsByDsm env" for D env
  by unfold_locales (rule snapshot_listing_reads, rule listNVMeSnapshots_known)

interpretation share_snaps: snapshot_source D "listSMBorNFSSnapshotsByDsm env" for D env
  by unfold_locales (rule snapshot_listing_reads, rule listShareSnapshots_known)

lemma ListAllSnapshots_known:
  "emits D (ListAllSnapshots env) (\<lambda>infos t. \<forall>s \<in> set infos. known_snapshot D s t)"
  unfolding ListAllSnapshots_def
proof (rule emits_bind [OF range_dsms_emits])
  fix ds and t0 :: "call list"
  assume ds: "t0 = [] \<and> set ds = snd ` set D"
  let ?body = "\<lambda>dsm allInfos. do {
       i \<leftarrow> listISCSISnapshotsByDsm env dsm;
       s \<leftarrow> listSMBorNFSSnapshotsByDsm env dsm;
       n \<leftarrow> listNVMeSnapshotsByDsm env dsm;
       State_Monad.return (allInfos @ i @ s @ n) }"
  let ?Inv = "\<lambda>_ infos t. \<forall>s \<in> set infos. known_snapshot D s t"
  have "emits D (for_each ?body ds []) (\<lambda>infos t. ?Inv ([] @ ds) infos ([] @ t))"
  proof (rule for_each_emits [where Inv = ?Inv])
    fix dsm infos t and pre :: "DSM list"
    assume "dsm \<in> set ds" and inv: "?Inv pre infos t"
    then have dsm: "dsm \<in> snd ` set D" using ds by simp
    show "emits D (?body dsm infos) (\<lambda>infos' t'. ?Inv (pre @ [dsm]) infos' (t @ t'))"
    proof (rule emits_bind [OF lun_snaps.src_known [OF dsm]], rule emits_bind [OF share_snaps.src_known [OF dsm]],
        rule emits_bind [OF namespace_snaps.src_known [OF dsm]], rule emits_return)
      fix i s n t1 t2 t3
      assume new: "\<forall>x \<in> set i. known_snapshot D x t1" "\<forall>x \<in> set s. known_snapshot D x t2"
        "\<forall>x \<in> set n. known_snapshot D x t3"
      have "known_snapshot D x (t @ t1 @ t2 @ t3 @ [])"
        if "known_snapshot D x t \<or> known_snapshot D x t1 \<or> known_snapshot D x t2 \<or> known_snapshot D x t3" for x
        using that by (elim disjE) (erule known_snapshot_mono; auto)+
      with new inv show "?Inv (pre @ [dsm]) (infos @ i @ s @ n) (t @ t1 @ t2 @ t3 @ [])" by auto
    qed
  qed simp
  with ds show "emits D (for_each ?body ds []) (\<lambda>infos t. \<forall>s \<in> set infos. known_snapshot D s (t0 @ t))"
    by simp
qed

lemma GetSnapshotByUuid_known:
  "emits D (GetSnapshotByUuid env uuid) (\<lambda>r t. list_all quiet t \<and>
     (case r of None \<Rightarrow> True | Some s \<Rightarrow> ks_Uuid s = uuid \<and> known_snapshot D s t))"
  unfolding GetSnapshotByUuid_def
  by (rule emits_bind [OF emits_conj [OF snapshot_listing_reads(4) ListAllSnapshots_known]], rule emits_return)
    (auto split: option.split simp: find_Some_iff)

lemma GetSnapshotByName_known:
  "emits D (GetSnapshotByName env name) (\<lambda>r t. list_all quiet t \<and>
     (case r of None \<Rightarrow> True | Some s \<Rightarrow> ks_Name s = name \<and> known_snapshot D s t))"
  unfolding GetSnapshotByName_def
  by (rule emits_bind [OF emits_conj [OF snapshot_listing_reads(4) ListAllSnapshots_known]], rule emits_return)
    (auto split: option.split simp: find_Some_iff)

lemma GetDsm_emits:
  "emits D (GetDsm ip) (\<lambda>r t. t = [] \<and> (case r of
     Inl e \<Rightarrow> map_of D ip = None \<and> e = FmtError ''Requested dsm [%s] does not exist''
   | Inr dsm \<Rightarrow> map_of D ip = Some dsm))"
  by (simp add: emits_def GetDsm_def split: option.split)

subsection \<open>The name of a share snapshot\<close>

lemma replace_all_none: "\<not> str_contains s old \<Longrightarrow> replace_all s old new = s"
  by (induction s old new rule: replace_all.induct) auto

text \<open>A share snapshot has no name of its own: the driver keeps the name in the
  description, behind a fixed prefix, and takes the prefix off when it lists. The name
  comes back as it was given when it does not contain the prefix itself.\<close>

theorem share_snapshot_name_roundtrip:
  assumes "\<not> str_contains name ShareSnapshotDescPrefix"
  shows "ks_Name (DsmShareSnapshotToK8sSnapshot ip
     (info\<lparr>ssn_Desc := ShareSnapshotDescPrefix @ name\<rparr>) share protocol) = name"
proof -
  have "replace_all (ShareSnapshotDescPrefix @ name) ShareSnapshotDescPrefix '''' =
      replace_all name ShareSnapshotDescPrefix ''''"
    by (simp add: ShareSnapshotDescPrefix_def)
  with assms show ?thesis by (simp add: DsmShareSnapshotToK8sSnapshot_def replace_all_none)
qed

theorem share_snapshot_name_roundtrip_witness:
  "ks_Name (DsmShareSnapshotToK8sSnapshot ''10.0.0.1''
     (\<lparr>ssn_Uuid = ''u'', ssn_Time = '''', ssn_Desc = '''', ssn_SnapSize = '''', ssn_Lock = False,
       ssn_ScheduleSnapshot = False\<rparr>\<lparr>ssn_Desc := ShareSnapshotDescPrefix @ ''snapshot-1''\<rparr>)
     zero_ShareInfo ''smb'') = ''snapshot-1''"
  by (rule share_snapshot_name_roundtrip) (simp add: ShareSnapshotDescPrefix_def)

lemma GetDsm_reads [emits_rules]: "only D R (GetDsm ip)"
  by (rule emits_mono [OF GetDsm_emits]) simp

lemma snapshot_lookup_reads [emits_rules]:
  "only D quiet (GetSnapshotByUuid env u)" "only D quiet (GetSnapshotByName env n)"
  "only D quiet (getISCSISnapshot env u)" "only D quiet (getSMBorNFSSnapshot env u)"
  "only D quiet (ListSnapshots env v)"
  unfolding GetSnapshotByUuid_def GetSnapshotByName_def getISCSISnapshot_def getSMBorNFSSnapshot_def
    find_in_dsms_def ListSnapshots_def
  by ((intro emits_rules; simp)+)

end
