(* ===== verification/Service.thy ===== *)
theory Service
  imports Snapshots
begin

text \<open>
  The operations that \<^verbatim>\<open>DsmService\<close> of \<^verbatim>\<open>pkg/dsm/service/dsm.go\<close> offers to the driver: the
  table of storage systems (\<^verbatim>\<open>AddDsm\<close>, \<^verbatim>\<open>RemoveAllDsms\<close>), the choice of a storage system in
  \<^verbatim>\<open>CreateVolume\<close>, and \<^verbatim>\<open>DeleteVolume\<close>, \<^verbatim>\<open>ExpandVolume\<close>, \<^verbatim>\<open>CreateSnapshot\<close>, \<^verbatim>\<open>DeleteSnapshot\<close>.
  A Go pointer that may be nil is an option.
\<close>

subsection \<open>The table of storage systems\<close>

record ClientInfo =
  cl_Host :: string
  cl_Port :: int
  cl_Https :: bool
  cl_Username :: string
  cl_Password :: string
  cl_TLSCACert :: string
  cl_TLSServerName :: string
  cl_InsecureSkipVerify :: bool

definition new_DSM :: "ClientInfo \<Rightarrow> DSM" where
  "new_DSM client = \<lparr>Ip = cl_Host client, Port = cl_Port client, Username = cl_Username client,
     Password = cl_Password client, Https = cl_Https client, Controller = '''',
     TLSCACert = cl_TLSCACert client, TLSServerName = cl_TLSServerName client,
     InsecureSkipVerify = cl_InsecureSkipVerify client, Hostname = '''', SupportNvmeof = False,
     FirmwareVer = ''''\<rparr>"

text \<open>A new \<^verbatim>\<open>webapi.DSM\<close> has no session id; the entry is made only when all of it succeeded.\<close>

definition AddDsm :: "'n env \<Rightarrow> ClientInfo \<Rightarrow> ('n world, err option) prog" where
  "AddDsm env client = do {
     w \<leftarrow> State_Monad.get;
     if map_of (dsms w) (cl_Host client) \<noteq> None then State_Monad.return None
     else do {
       let dsm = new_DSM client;
       _ \<leftarrow> set_sid dsm [];
       l \<leftarrow> Login env dsm;
       case l of
         Some e \<Rightarrow> State_Monad.return (Some (FmtError ''Failed to login to DSM: [%s]. err: %v''))
       | None \<Rightarrow> do {
           f \<leftarrow> FillSystemInfo env dsm;
           case f of
             Inl e \<Rightarrow> State_Monad.return (Some (FmtError ''Failed to get system info of DSM: [%s]. err: %v''))
           | Inr dsm' \<Rightarrow> do {
               w' \<leftarrow> State_Monad.get;
               _ \<leftarrow> State_Monad.set (w'\<lparr>dsms := dsms w' @ [(Ip dsm', dsm')]\<rparr>);
               State_Monad.return None } } } }"

fun logout_tries :: "nat \<Rightarrow> 'n env \<Rightarrow> DSM \<Rightarrow> ('n world, unit) prog" where
  "logout_tries 0 env dsm = State_Monad.return ()"
| "logout_tries (Suc n) env dsm = do {
     e \<leftarrow> Logout env dsm;
     if e = None then State_Monad.return () else logout_tries n env dsm }"

definition RemoveAllDsms :: "'n env \<Rightarrow> ('n world, unit) prog" where
  "RemoveAllDsms env = do {
     ds \<leftarrow> range_dsms env;
     for_each (\<lambda>dsm u. logout_tries 3 env dsm) ds () }"

definition GetDsmsCount :: "('n world, nat) prog" where
  "GetDsmsCount = do { w \<leftarrow> State_Monad.get; State_Monad.return (length (dsms w)) }"

definition ListDsmVolumes :: "'n env \<Rightarrow> string \<Rightarrow> ('n world, VolInfo list) prog" where
  "ListDsmVolumes env ip = do {
     ds \<leftarrow> range_dsms env;
     for_each (\<lambda>dsm allVolInfos.
       if ip \<noteq> '''' \<and> Ip dsm \<noteq> ip then State_Monad.return allVolInfos
       else do {
         r \<leftarrow> VolumeList env dsm;
         State_Monad.return (case r of Inl e \<Rightarrow> allVolInfos | Inr volInfos \<Rightarrow> allVolInfos @ volInfos) }) ds [] }"

subsection \<open>NFS versions\<close>

text \<open>The major and minor version asked for, none when it is not one the driver knows.\<close>

definition nfs_version :: "NfsInfo \<Rightarrow> string \<Rightarrow> (int \<times> int) option" where
  "nfs_version info nfsVersion =
     (if nfsVersion = '''' then Some (nfs_SupportMajorVer info, nfs_SupportMinorVer info)
      else if nfsVersion = ''3'' then Some (3, 0)
      else if nfsVersion = ''4'' \<or> nfsVersion = ''4.0'' \<or> nfsVersion = ''4.1''
      then Some (4, if nfsVersion = ''4.1'' then 1 else 0)
      else None)"

definition isNfsVersionSupport :: "'n env \<Rightarrow> DSM \<Rightarrow> string \<Rightarrow> ('n world, bool) prog" where
  "isNfsVersionSupport env dsm nfsVersion = do {
     r \<leftarrow> NfsGet env dsm;
     case r of
       Inl e \<Rightarrow> State_Monad.return False
     | Inr info \<Rightarrow> (case nfs_version info nfsVersion of
         None \<Rightarrow> State_Monad.return False
       | Some (major, minor) \<Rightarrow>
           if major > nfs_SupportMajorVer info \<or>
              major = nfs_SupportMajorVer info \<and> minor > nfs_SupportMinorVer info
           then State_Monad.return False
           else do {
             s \<leftarrow> NfsSet env dsm True (nfs_SupportMajorVer info = 4) (nfs_SupportMinorVer info);
             State_Monad.return (case s of Inl e \<Rightarrow> False | Inr _ \<Rightarrow> True) }) }"

subsection \<open>CreateVolume\<close>

definition create_by_volume :: "'n env \<Rightarrow> CreateK8sVolumeSpec \<Rightarrow> ('n world, err + K8sVolumeRespSpec option) prog" where
  "create_by_volume env spec = do {
     g \<leftarrow> GetVolume env (cv_SourceVolumeId spec);
     case g of
       Inl e \<Rightarrow> State_Monad.return (Inl (Status Unavailable))
     | Inr None \<Rightarrow> State_Monad.return (Inl (Status NotFound))
     | Inr (Some k8sVolume) \<Rightarrow> do {
         d \<leftarrow> GetDsm (kv_DsmIp k8sVolume);
         case d of
           Inl e \<Rightarrow> State_Monad.return (Inl (Status Internal))
         | Inr dsm \<Rightarrow>
             if cv_Protocol spec = ProtocolIscsi then do {
               r \<leftarrow> createVolumeByVolume env dsm spec (kv_Lun k8sVolume);
               State_Monad.return (map_sum id Some r) }
             else if cv_Protocol spec = ProtocolNvme then do {
               r \<leftarrow> createNVMeVolumeByVolume env dsm spec (kv_Namespace k8sVolume);
               State_Monad.return (map_sum id Some r) }
             else if cv_Protocol spec = ProtocolSmb \<or> cv_Protocol spec = ProtocolNfs then do {
               r \<leftarrow> createSMBorNFSVolumeByVolume env dsm spec (kv_Share k8sVolume);
               State_Monad.return (map_sum id Some r) }
             else State_Monad.return (Inl (Status InvalidArgument)) } }"

text \<open>The checks of \<^verbatim>\<open>CreateVolume\<close> on the snapshot it found; the protocols are compared only
  when one of them is \<^verbatim>\<open>iscsi\<close>.\<close>

definition snapshot_refused :: "CreateK8sVolumeSpec \<Rightarrow> K8sSnapshotRespSpec \<Rightarrow> bool" where
  "snapshot_refused spec snapshot \<longleftrightarrow>
     cv_DsmIp spec \<noteq> '''' \<and> cv_DsmIp spec \<noteq> ks_DsmIp snapshot \<or>
     cv_Location spec \<noteq> '''' \<and> cv_Location spec \<noteq> ks_RootPath snapshot \<or>
     (cv_Protocol spec = ProtocolIscsi \<or> ks_Protocol snapshot = ProtocolIscsi) \<and>
       cv_Protocol spec \<noteq> ks_Protocol snapshot"

definition create_by_snapshot :: "'n env \<Rightarrow> CreateK8sVolumeSpec \<Rightarrow> ('n world, err + K8sVolumeRespSpec option) prog" where
  "create_by_snapshot env spec = do {
     g \<leftarrow> GetSnapshotByUuid env (cv_SourceSnapshotId spec);
     case g of
       None \<Rightarrow> State_Monad.return (Inl (Status NotFound))
     | Some snapshot \<Rightarrow>
         if snapshot_refused spec snapshot then State_Monad.return (Inl (Status InvalidArgument))
         else do {
           d \<leftarrow> GetDsm (ks_DsmIp snapshot);
           case d of
             Inl e \<Rightarrow> State_Monad.return (Inl (Status Internal))
           | Inr dsm \<Rightarrow>
               if cv_Protocol spec = ProtocolIscsi then do {
                 r \<leftarrow> createVolumeBySnapshot env dsm spec snapshot;
                 State_Monad.return (map_sum id Some r) }
               else if cv_Protocol spec = ProtocolNvme then do {
                 r \<leftarrow> createNVMeVolumeBySnapshot env dsm spec snapshot;
                 State_Monad.return (map_sum id Some r) }
               else if cv_Protocol spec = ProtocolSmb \<or> cv_Protocol spec = ProtocolNfs then do {
                 r \<leftarrow> createSMBorNFSVolumeBySnapshot env dsm spec snapshot;
                 State_Monad.return (map_sum id Some r) }
               else State_Monad.return (Inl (Status InvalidArgument)) } }"

text \<open>
  One storage system: the specification as the creation leaves it, and what it returned,
  \<open>None\<close> when the storage system is passed over. A protocol that is none of the four
  creates nothing and gives no error.
\<close>

definition create_on_dsm :: "'n env \<Rightarrow> DSM \<Rightarrow> CreateK8sVolumeSpec \<Rightarrow>
    ('n world, CreateK8sVolumeSpec \<times> (err + K8sVolumeRespSpec option) option) prog" where
  "create_on_dsm env dsm spec =
     (if cv_Protocol spec = ProtocolIscsi then do {
        out \<leftarrow> createVolumeByDsm env dsm spec;
        State_Monad.return (fst out, Some (map_sum id Some (snd out))) }
      else if cv_Protocol spec = ProtocolNvme then
        (if \<not> SupportNvmeof dsm then State_Monad.return (spec, None)
         else do {
           out \<leftarrow> createNVMeVolumeByDsm env dsm spec;
           State_Monad.return (fst out, Some (map_sum id Some (snd out))) })
      else if cv_Protocol spec = ProtocolSmb then do {
        out \<leftarrow> createSMBorNFSVolumeByDsm env dsm spec;
        State_Monad.return (fst out, Some (map_sum id Some (snd out))) }
      else if cv_Protocol spec = ProtocolNfs then do {
        ok \<leftarrow> isNfsVersionSupport env dsm (cv_NfsVersion spec);
        if \<not> ok then State_Monad.return (spec, None)
        else do {
          out \<leftarrow> createSMBorNFSVolumeByDsm env dsm spec;
          State_Monad.return (fst out, Some (map_sum id Some (snd out))) } }
      else State_Monad.return (spec, Some (Inr None)))"

text \<open>The loop over the storage systems: the next one gets the specification of the last.\<close>

definition try_dsm :: "'n env \<Rightarrow> DSM \<Rightarrow> CreateK8sVolumeSpec \<Rightarrow>
    ('n world, CreateK8sVolumeSpec + K8sVolumeRespSpec option) prog" where
  "try_dsm env dsm spec =
     (if cv_DsmIp spec \<noteq> '''' \<and> cv_DsmIp spec \<noteq> Ip dsm then State_Monad.return (Inl spec)
      else do {
        out \<leftarrow> create_on_dsm env dsm spec;
        State_Monad.return (case snd out of
          Some (Inr k8sVolume) \<Rightarrow> Inr k8sVolume
        | _ \<Rightarrow> Inl (fst out)) })"

definition CreateVolume :: "'n env \<Rightarrow> CreateK8sVolumeSpec \<Rightarrow> ('n world, err + K8sVolumeRespSpec option) prog" where
  "CreateVolume env spec =
     (if cv_SourceVolumeId spec \<noteq> '''' then create_by_volume env spec
      else if cv_SourceSnapshotId spec \<noteq> '''' then create_by_snapshot env spec
      else do {
        ds \<leftarrow> range_dsms env;
        out \<leftarrow> for_return (try_dsm env) ds spec;
        State_Monad.return (case out of
          Inl _ \<Rightarrow> Inl (Status Internal)
        | Inr k8sVolume \<Rightarrow> Inr k8sVolume) })"

subsection \<open>DeleteVolume\<close>

text \<open>
  A deletion that failed counts as done when asking for the object fails in the way \<open>gone\<close>
  describes; the function returns there, without what comes after the deletion.
\<close>

definition delete_or_gone :: "('w, err + unit) prog \<Rightarrow> ('w, err + 'a) prog \<Rightarrow> (err \<Rightarrow> bool) \<Rightarrow>
    ('w, err option) prog \<Rightarrow> ('w, err option) prog" where
  "delete_or_gone del get gone rest = do {
     r \<leftarrow> del;
     case r of
       Inl e \<Rightarrow> do {
         g \<leftarrow> get;
         State_Monad.return (case g of Inl e' \<Rightarrow> if gone e' then None else Some e | Inr _ \<Rightarrow> Some e) }
     | Inr _ \<Rightarrow> rest }"

definition delete_lun :: "'n env \<Rightarrow> DSM \<Rightarrow> LunInfo \<Rightarrow> TargetInfo \<Rightarrow> ('n world, err option) prog" where
  "delete_lun env dsm lun target =
     delete_or_gone (LunDelete env dsm (lun_Uuid lun)) (LunGet env dsm (lun_Uuid lun))
       (\<lambda>e. errors_is e NoSuchLunError)
       (if length (tg_MappedLuns target) \<noteq> 1 then State_Monad.return None
        else delete_or_gone (TargetDelete env dsm (itoa (tg_TargetId target)))
               (TargetGet env dsm (itoa (tg_TargetId target))) (\<lambda>e. True) (State_Monad.return None))"

definition delete_namespace :: "'n env \<Rightarrow> DSM \<Rightarrow> NamespaceInfo \<Rightarrow> SubsystemInfo \<Rightarrow> ('n world, err option) prog" where
  "delete_namespace env dsm namespace subsystem =
     delete_or_gone (NamespaceDelete env dsm (ns_Uuid namespace)) (NamespaceGet env dsm (ns_Uuid namespace))
       (\<lambda>e. errors_is e NoSuchNamespaceError)
       (delete_or_gone (SubsystemDelete env dsm (ss_Uuid subsystem)) (SubsystemGet env dsm (ss_Uuid subsystem))
         (\<lambda>e. errors_is e FailedToGetSubsystemError) (State_Monad.return None))"

definition delete_found :: "'n env \<Rightarrow> DSM \<Rightarrow> K8sVolumeRespSpec \<Rightarrow> ('n world, err option) prog" where
  "delete_found env dsm k8sVolume =
     (if kv_Protocol k8sVolume = ProtocolSmb \<or> kv_Protocol k8sVolume = ProtocolNfs then do {
        r \<leftarrow> ShareDelete env dsm (sh_Name (kv_Share k8sVolume));
        State_Monad.return (case r of Inl e \<Rightarrow> Some e | Inr _ \<Rightarrow> None) }
      else if kv_Protocol k8sVolume = ProtocolNvme then
        (if \<not> SupportNvmeof dsm then State_Monad.return (Some (Status Internal))
         else delete_namespace env dsm (kv_Namespace k8sVolume) (kv_Subsystem k8sVolume))
      else delete_lun env dsm (kv_Lun k8sVolume) (kv_Target k8sVolume))"

definition DeleteVolume :: "'n env \<Rightarrow> string \<Rightarrow> ('n world, err option) prog" where
  "DeleteVolume env volId = do {
     g \<leftarrow> GetVolume env volId;
     case g of
       Inl e \<Rightarrow> State_Monad.return (Some (Status Unavailable))
     | Inr None \<Rightarrow> State_Monad.return None
     | Inr (Some k8sVolume) \<Rightarrow> do {
         d \<leftarrow> GetDsm (kv_DsmIp k8sVolume);
         case d of
           Inl e \<Rightarrow> State_Monad.return (Some (Status Internal))
         | Inr dsm \<Rightarrow> delete_found env dsm k8sVolume } }"

subsection \<open>ExpandVolume\<close>

definition expand_found :: "'n env \<Rightarrow> DSM \<Rightarrow> string \<Rightarrow> int64 \<Rightarrow> K8sVolumeRespSpec \<Rightarrow>
    ('n world, err + K8sVolumeRespSpec) prog" where
  "expand_found env dsm volId newSize k8sVolume =
     (if kv_Protocol k8sVolume = ProtocolSmb \<or> kv_Protocol k8sVolume = ProtocolNfs then do {
        let newSizeInMB = BytesToMBCeil newSize;
        r \<leftarrow> SetShareQuota env dsm (kv_Share k8sVolume) newSizeInMB;
        State_Monad.return (case r of
          Inl e \<Rightarrow> Inl (Status Internal)
        | Inr _ \<Rightarrow> Inr (k8sVolume\<lparr>kv_SizeInBytes := MBToBytes newSizeInMB\<rparr>)) }
      else if kv_Protocol k8sVolume = ProtocolNvme then
        (if \<not> SupportNvmeof dsm then State_Monad.return (Inl (Status Internal))
         else do {
           r \<leftarrow> NamespaceSet env dsm \<lparr>nst_Uuid = volId, nst_NewSize = newSize\<rparr>;
           State_Monad.return (case r of
             Inl e \<Rightarrow> Inl (Status Internal)
           | Inr _ \<Rightarrow> Inr (k8sVolume\<lparr>kv_SizeInBytes := newSize\<rparr>)) })
      else do {
        r \<leftarrow> LunUpdate env dsm \<lparr>lu_Uuid = volId, lu_NewSize = newSize\<rparr>;
        State_Monad.return (case r of
          Inl e \<Rightarrow> Inl (Status Internal)
        | Inr _ \<Rightarrow> Inr (k8sVolume\<lparr>kv_SizeInBytes := newSize\<rparr>)) })"

definition ExpandVolume :: "'n env \<Rightarrow> string \<Rightarrow> int64 \<Rightarrow> ('n world, err + K8sVolumeRespSpec) prog" where
  "ExpandVolume env volId newSize = do {
     g \<leftarrow> GetVolume env volId;
     case g of
       Inl e \<Rightarrow> State_Monad.return (Inl (Status Unavailable))
     | Inr None \<Rightarrow> State_Monad.return (Inl (Status InvalidArgument))
     | Inr (Some k8sVolume) \<Rightarrow>
         if sint (kv_SizeInBytes k8sVolume) > sint newSize
         then State_Monad.return (Inl (Status InvalidArgument))
         else do {
           d \<leftarrow> GetDsm (kv_DsmIp k8sVolume);
           case d of
             Inl e \<Rightarrow> State_Monad.return (Inl (Status Internal))
           | Inr dsm \<Rightarrow> expand_found env dsm volId newSize k8sVolume } }"

subsection \<open>CreateSnapshot and DeleteSnapshot\<close>

definition snapshot_error :: "err \<Rightarrow> err" where
  "snapshot_error e = (if e = OutOfFreeSpaceError \<or> e = SnapshotReachMaxCountError
     then Status ResourceExhausted else Status Internal)"

definition san_snapshot_spec :: "CreateK8sVolumeSnapshotSpec \<Rightarrow> SnapshotCreateSpec" where
  "san_snapshot_spec spec = \<lparr>sc_Name = csn_SnapshotName spec, sc_SrcUuid = csn_K8sVolumeId spec,
     sc_Description = csn_Description spec, sc_TakenBy = csn_TakenBy spec, sc_IsLocked = csn_IsLocked spec\<rparr>"

definition snapshot_lun :: "'n env \<Rightarrow> DSM \<Rightarrow> CreateK8sVolumeSnapshotSpec \<Rightarrow> ('n world, err + K8sSnapshotRespSpec) prog" where
  "snapshot_lun env dsm spec = do {
     r \<leftarrow> SnapshotCreate env dsm (san_snapshot_spec spec);
     case r of
       Inl e \<Rightarrow> State_Monad.return (Inl (snapshot_error e))
     | Inr snapshotUuid \<Rightarrow> do {
         s \<leftarrow> getISCSISnapshot env snapshotUuid;
         State_Monad.return (case s of Some snapshot \<Rightarrow> Inr snapshot | None \<Rightarrow> Inl (Status NotFound)) } }"

definition snapshot_share :: "'n env \<Rightarrow> DSM \<Rightarrow> CreateK8sVolumeSnapshotSpec \<Rightarrow> K8sVolumeRespSpec \<Rightarrow>
    ('n world, err + K8sSnapshotRespSpec) prog" where
  "snapshot_share env dsm spec k8sVolume = do {
     r \<leftarrow> ShareSnapshotCreate env dsm \<lparr>sscs_ShareName = sh_Name (kv_Share k8sVolume),
            sscs_Desc = ShareSnapshotDescPrefix @ csn_SnapshotName spec, sscs_IsLocked = csn_IsLocked spec\<rparr>;
     case r of
       Inl e \<Rightarrow> State_Monad.return (Inl (Status Internal))
     | Inr snapshotTime \<Rightarrow> do {
         snapshots \<leftarrow> listSMBorNFSSnapshotsByDsm env dsm;
         State_Monad.return (case find (\<lambda>snapshot. ks_Time snapshot = snapshotTime \<and>
             ks_ParentUuid snapshot = csn_K8sVolumeId spec) snapshots of
           Some snapshot \<Rightarrow> Inr snapshot
         | None \<Rightarrow> Inl (Status NotFound)) } }"

definition snapshot_namespace :: "'n env \<Rightarrow> DSM \<Rightarrow> CreateK8sVolumeSnapshotSpec \<Rightarrow> ('n world, err + K8sSnapshotRespSpec) prog" where
  "snapshot_namespace env dsm spec =
     (if \<not> SupportNvmeof dsm then State_Monad.return (Inl (Status Internal))
      else do {
        r \<leftarrow> NamespaceSnapshotCreate env dsm (san_snapshot_spec spec);
        case r of
          Inl e \<Rightarrow> State_Monad.return (Inl (snapshot_error e))
        | Inr snapshotUuid \<Rightarrow> do {
            g \<leftarrow> NamespaceSnapshotGet env dsm snapshotUuid;
            State_Monad.return (case g of
              Inl e \<Rightarrow> Inl (Status NotFound)
            | Inr snapshotInfo \<Rightarrow> Inr (DsmSanSnapshotToK8sSnapshot (Ip dsm) snapshotInfo ProtocolNvme)) } })"

definition CreateSnapshot :: "'n env \<Rightarrow> CreateK8sVolumeSnapshotSpec \<Rightarrow> ('n world, err + K8sSnapshotRespSpec) prog" where
  "CreateSnapshot env spec = do {
     g \<leftarrow> GetVolume env (csn_K8sVolumeId spec);
     case g of
       Inl e \<Rightarrow> State_Monad.return (Inl (Status Unavailable))
     | Inr None \<Rightarrow> State_Monad.return (Inl (Status NotFound))
     | Inr (Some k8sVolume) \<Rightarrow> do {
         d \<leftarrow> GetDsm (kv_DsmIp k8sVolume);
         case d of
           Inl e \<Rightarrow> State_Monad.return (Inl (Status InvalidArgument))
         | Inr dsm \<Rightarrow>
             if kv_Protocol k8sVolume = ProtocolIscsi then snapshot_lun env dsm spec
             else if kv_Protocol k8sVolume = ProtocolSmb \<or> kv_Protocol k8sVolume = ProtocolNfs
             then snapshot_share env dsm spec k8sVolume
             else if kv_Protocol k8sVolume = ProtocolNvme then snapshot_namespace env dsm spec
             else State_Monad.return (Inl (Status InvalidArgument)) } }"

definition delete_found_snapshot :: "'n env \<Rightarrow> DSM \<Rightarrow> string \<Rightarrow> K8sSnapshotRespSpec \<Rightarrow> ('n world, err option) prog" where
  "delete_found_snapshot env dsm snapshotUuid snapshot =
     (if ks_Protocol snapshot = ProtocolSmb \<or> ks_Protocol snapshot = ProtocolNfs then do {
        r \<leftarrow> ShareSnapshotDelete env dsm (ks_Time snapshot) (ks_ParentName snapshot);
        case r of
          Inl e \<Rightarrow> do {
            s \<leftarrow> getSMBorNFSSnapshot env snapshotUuid;
            State_Monad.return (if s = None then None else Some e) }
        | Inr _ \<Rightarrow> State_Monad.return None }
      else if ks_Protocol snapshot = ProtocolIscsi then
        delete_or_gone (SnapshotDelete env dsm snapshotUuid) (SnapshotGet env dsm snapshotUuid)
          (\<lambda>e. errors_is e NoSuchSnapshotError) (State_Monad.return None)
      else if ks_Protocol snapshot = ProtocolNvme then
        (if \<not> SupportNvmeof dsm then State_Monad.return (Some (Status Internal))
         else delete_or_gone (NamespaceSnapshotDelete env dsm snapshotUuid)
                (NamespaceSnapshotGet env dsm snapshotUuid)
                (\<lambda>e. errors_is e NoSuchSnapshotError) (State_Monad.return None))
      else State_Monad.return None)"

definition DeleteSnapshot :: "'n env \<Rightarrow> string \<Rightarrow> ('n world, err option) prog" where
  "DeleteSnapshot env snapshotUuid = do {
     g \<leftarrow> GetSnapshotByUuid env snapshotUuid;
     case g of
       None \<Rightarrow> State_Monad.return None
     | Some snapshot \<Rightarrow> do {
         d \<leftarrow> GetDsm (ks_DsmIp snapshot);
         case d of
           Inl e \<Rightarrow> State_Monad.return (Some e)
         | Inr dsm \<Rightarrow> delete_found_snapshot env dsm snapshotUuid snapshot } }"

end
