(* ===== verification/Driver.thy ===== *)
theory Driver
  imports Service
begin

text \<open>
  \<^verbatim>\<open>pkg/driver/driver.go\<close>, \<^verbatim>\<open>identityserver.go\<close> and the helpers of \<^verbatim>\<open>utils.go\<close> and
  \<^verbatim>\<open>nfs_utils.go\<close>: the driver with its capabilities, the checks of protocols and NFS
  versions, and the endpoint the server listens on. The enumerations of the CSI package are
  datatypes with the values the driver names; a volume capability is what the getters of
  the CSI package return for it.
\<close>

subsection \<open>The data of CSI requests\<close>

datatype AccessMode = SINGLE_NODE_WRITER | MULTI_NODE_MULTI_WRITER | OtherAccessMode int

datatype AccessType = NoAccessType | BlockVolume | MountVolume string "string list" string

record VolumeCapability =
  cap_AccessMode :: AccessMode
  cap_AccessType :: AccessType

text \<open>\<^verbatim>\<open>cap.GetBlock() != nil\<close>, and \<^verbatim>\<open>cap.GetMount()\<close> with its getters, which give the empty
  value for a capability that is not a mount.\<close>

fun is_block :: "AccessType \<Rightarrow> bool" where
  "is_block BlockVolume = True"
| "is_block _ = False"

fun mount_fs_type :: "AccessType \<Rightarrow> string" where
  "mount_fs_type (MountVolume fsType flags grp) = fsType"
| "mount_fs_type _ = ''''"

fun mount_flags :: "AccessType \<Rightarrow> string list" where
  "mount_flags (MountVolume fsType flags grp) = flags"
| "mount_flags _ = []"

fun mount_group :: "AccessType \<Rightarrow> string" where
  "mount_group (MountVolume fsType flags grp) = grp"
| "mount_group _ = ''''"

fun is_mount :: "AccessType \<Rightarrow> bool" where
  "is_mount (MountVolume fsType flags grp) = True"
| "is_mount _ = False"

datatype ControllerCapability = RPC_CREATE_DELETE_VOLUME | RPC_LIST_VOLUMES | RPC_EXPAND_VOLUME
  | RPC_CREATE_DELETE_SNAPSHOT | RPC_LIST_SNAPSHOTS | RPC_CLONE_VOLUME | RPC_GET_CAPACITY

datatype NodeCapability = RPC_STAGE_UNSTAGE_VOLUME | RPC_NODE_EXPAND_VOLUME | RPC_GET_VOLUME_STATS

text \<open>The messages that wrap a capability; the one of an access mode has no other field than its
  mode, which stands for it.\<close>

datatype ControllerServiceCapability = ControllerServiceCapability_Rpc ControllerCapability
datatype NodeServiceCapability = NodeServiceCapability_Rpc NodeCapability
datatype PluginCapability = PluginCapability_Service PluginService
and PluginService = UNKNOWN_SERVICE | CONTROLLER_SERVICE

subsection \<open>driver.go\<close>

definition DriverName :: string where "DriverName = ''csi.san.synology.com''"
definition DriverVersion :: string where "DriverVersion = ''1.4.0''"

definition supportedProtocolList :: "string list" where
  "supportedProtocolList = [ProtocolIscsi, ProtocolSmb, ProtocolNfs, ProtocolNvme]"

definition allowedNfsVersionList :: "string list" where
  "allowedNfsVersionList = [''3'', ''4'', ''4.0'', ''4.1'']"

record Driver =
  dr_name :: string
  dr_nodeID :: string
  dr_version :: string
  dr_endpoint :: string
  dr_csCap :: "ControllerServiceCapability list"
  dr_vCap :: "AccessMode list"
  dr_nsCap :: "NodeServiceCapability list"

definition addControllerServiceCapabilities :: "ControllerCapability list \<Rightarrow> Driver \<Rightarrow> Driver" where
  "addControllerServiceCapabilities cl d =
     d\<lparr>dr_csCap := fold (\<lambda>c csc. csc @ [ControllerServiceCapability_Rpc c]) cl []\<rparr>"

definition addVolumeCapabilityAccessModes :: "AccessMode list \<Rightarrow> Driver \<Rightarrow> Driver" where
  "addVolumeCapabilityAccessModes vc d = d\<lparr>dr_vCap := fold (\<lambda>c vca. vca @ [c]) vc []\<rparr>"

definition addNodeServiceCapabilities :: "NodeCapability list \<Rightarrow> Driver \<Rightarrow> Driver" where
  "addNodeServiceCapabilities nsc d =
     d\<lparr>dr_nsCap := fold (\<lambda>c nca. nca @ [NodeServiceCapability_Rpc c]) nsc []\<rparr>"

definition NewControllerAndNodeDriver :: "string \<Rightarrow> string \<Rightarrow> Driver" where
  "NewControllerAndNodeDriver nodeID endpoint =
     (let d = \<lparr>dr_name = DriverName, dr_nodeID = nodeID, dr_version = DriverVersion, dr_endpoint = endpoint,
        dr_csCap = [], dr_vCap = [], dr_nsCap = []\<rparr>;
      d = addControllerServiceCapabilities [RPC_CREATE_DELETE_VOLUME, RPC_LIST_VOLUMES, RPC_EXPAND_VOLUME,
        RPC_CREATE_DELETE_SNAPSHOT, RPC_LIST_SNAPSHOTS, RPC_CLONE_VOLUME, RPC_GET_CAPACITY] d;
      d = addVolumeCapabilityAccessModes [SINGLE_NODE_WRITER, MULTI_NODE_MULTI_WRITER] d
      in addNodeServiceCapabilities [RPC_STAGE_UNSTAGE_VOLUME, RPC_NODE_EXPAND_VOLUME, RPC_GET_VOLUME_STATS] d)"

lemma fold_append_map: "fold (\<lambda>c cs. cs @ [f c]) xs ys = ys @ map f xs"
  by (induction xs arbitrary: ys) simp_all

lemma NewDriver_sel [simp]:
  "dr_name (NewControllerAndNodeDriver n e) = DriverName"
  "dr_version (NewControllerAndNodeDriver n e) = DriverVersion"
  "dr_nodeID (NewControllerAndNodeDriver n e) = n" "dr_endpoint (NewControllerAndNodeDriver n e) = e"
  "dr_vCap (NewControllerAndNodeDriver n e) = [SINGLE_NODE_WRITER, MULTI_NODE_MULTI_WRITER]"
  by (simp_all add: NewControllerAndNodeDriver_def Let_def addControllerServiceCapabilities_def
      addVolumeCapabilityAccessModes_def addNodeServiceCapabilities_def)

definition isProtocolSupport :: "string \<Rightarrow> bool" where
  "isProtocolSupport protocol = SliceContains supportedProtocolList protocol"

definition isNfsVersionAllowed :: "string \<Rightarrow> bool" where
  "isNfsVersionAllowed ver = SliceContains allowedNfsVersionList ver"

lemma isProtocolSupport_cases:
  "isProtocolSupport p \<longleftrightarrow> p = ProtocolIscsi \<or> p = ProtocolSmb \<or> p = ProtocolNfs \<or> p = ProtocolNvme"
  by (simp add: isProtocolSupport_def supportedProtocolList_def)

subsection \<open>identityserver.go\<close>

definition GetPluginInfo :: "Driver \<Rightarrow> err + string \<times> string" where
  "GetPluginInfo d =
     (if dr_name d = '''' then Inl (Status Unavailable)
      else if dr_version d = '''' then Inl (Status Unavailable)
      else Inr (dr_name d, dr_version d))"

definition Probe :: "unit \<Rightarrow> err + unit" where
  "Probe req = Inr ()"

definition GetPluginCapabilities :: "unit \<Rightarrow> err + PluginCapability list" where
  "GetPluginCapabilities req = Inr [PluginCapability_Service CONTROLLER_SERVICE]"

subsection \<open>utils.go\<close>

text \<open>\<^verbatim>\<open>strings.SplitN(s, "://", 2)\<close>: what is before the first separator and what is after.\<close>

fun cut_at :: "string \<Rightarrow> string \<Rightarrow> (string \<times> string) option" where
  "cut_at sep [] = (if sep = [] then Some ([], []) else None)"
| "cut_at sep (c # s) =
     (if has_prefix (c # s) sep then Some ([], drop (length sep) (c # s))
      else map_option (\<lambda>(a, b). (c # a, b)) (cut_at sep s))"

text \<open>\<^verbatim>\<open>s[1]\<close> is there because the prefix holds a separator; without one it would panic.\<close>

definition ParseEndpoint :: "string \<Rightarrow> err + string \<times> string" where
  "ParseEndpoint ep =
     (if has_prefix (to_lower ep) ''unix://'' \<or> has_prefix (to_lower ep) ''tcp://''
      then (case cut_at ''://'' ep of
          None \<Rightarrow> Inl (Panicked ''index out of range'')
        | Some (proto, addr) \<Rightarrow>
            if addr \<noteq> '''' then Inr (proto, addr) else Inl (FmtError ''Invalid endpoint: %v''))
      else Inl (FmtError ''Invalid endpoint: %v''))"

end
