(* ===== verification/Interface.thy ===== *)
theory Interface
  imports Service
begin

text \<open>
  \<^verbatim>\<open>pkg/interfaces/IDsmService.go\<close>: the operations the CSI driver calls, as a record of programs
  over a state of any type, and the service of \<^verbatim>\<open>pkg/dsm/service\<close> as one such record. What the
  interface promises is the locale \<open>dsm_service\<close>, which says it without naming a storage
  system: a caller is told that a volume does not exist, or that a listing is complete, only
  when that is known. The handlers of the driver are proved against the locale, and the
  service is an instance of it.
\<close>

subsection \<open>The interface\<close>

text \<open>A pointer that may be nil is an option, beside the error where there is one.\<close>

record 'w IDsmService =
  svc_AddDsm :: "ClientInfo \<Rightarrow> ('w, err option) prog"
  svc_RemoveAllDsms :: "('w, unit) prog"
  svc_GetDsm :: "string \<Rightarrow> ('w, err + DSM) prog"
  svc_GetDsmsCount :: "('w, nat) prog"
  svc_ListDsmVolumes :: "string \<Rightarrow> ('w, err + VolInfo list) prog"
  svc_CreateVolume :: "CreateK8sVolumeSpec \<Rightarrow> ('w, err + K8sVolumeRespSpec option) prog"
  svc_DeleteVolume :: "string \<Rightarrow> ('w, err option) prog"
  svc_ListVolumes :: "('w, K8sVolumeRespSpec list \<times> err option) prog"
  svc_GetVolume :: "string \<Rightarrow> ('w, err + K8sVolumeRespSpec option) prog"
  svc_ExpandVolume :: "string \<Rightarrow> int64 \<Rightarrow> ('w, err + K8sVolumeRespSpec option) prog"
  svc_CreateSnapshot :: "CreateK8sVolumeSnapshotSpec \<Rightarrow> ('w, err + K8sSnapshotRespSpec option) prog"
  svc_DeleteSnapshot :: "string \<Rightarrow> ('w, err option) prog"
  svc_ListAllSnapshots :: "('w, K8sSnapshotRespSpec list) prog"
  svc_ListSnapshots :: "string \<Rightarrow> ('w, K8sSnapshotRespSpec list) prog"
  svc_GetVolumeByName :: "string \<Rightarrow> ('w, err + K8sVolumeRespSpec option) prog"
  svc_GetSnapshotByName :: "string \<Rightarrow> ('w, K8sSnapshotRespSpec option) prog"

text \<open>The service of \<^verbatim>\<open>pkg/dsm/service\<close>. Its \<^verbatim>\<open>ListDsmVolumes\<close> has no error to return, and its
  \<^verbatim>\<open>ExpandVolume\<close> and \<^verbatim>\<open>CreateSnapshot\<close> return a pointer to a value whenever they return no error.\<close>

definition no_error :: "('w, 'a) prog \<Rightarrow> ('w, err + 'a) prog" where
  "no_error m = do { x \<leftarrow> m; State_Monad.return (Inr x) }"

definition not_nil :: "('w, err + 'a) prog \<Rightarrow> ('w, err + 'a option) prog" where
  "not_nil m = do { r \<leftarrow> m; State_Monad.return (map_sum id Some r) }"

definition DsmService :: "'n env \<Rightarrow> 'n world IDsmService" where
  "DsmService env = \<lparr>
     svc_AddDsm = AddDsm env, svc_RemoveAllDsms = RemoveAllDsms env, svc_GetDsm = GetDsm,
     svc_GetDsmsCount = GetDsmsCount, svc_ListDsmVolumes = \<lambda>ip. no_error (ListDsmVolumes env ip),
     svc_CreateVolume = CreateVolume env, svc_DeleteVolume = DeleteVolume env,
     svc_ListVolumes = ListVolumes env, svc_GetVolume = GetVolume env,
     svc_ExpandVolume = \<lambda>volId newSize. not_nil (ExpandVolume env volId newSize),
     svc_CreateSnapshot = \<lambda>spec. not_nil (CreateSnapshot env spec),
     svc_DeleteSnapshot = DeleteSnapshot env, svc_ListAllSnapshots = ListAllSnapshots env,
     svc_ListSnapshots = ListSnapshots env, svc_GetVolumeByName = GetVolumeByName env,
     svc_GetSnapshotByName = GetSnapshotByName env\<rparr>"

lemma DsmService_sel [simp]:
  "svc_CreateVolume (DsmService env) = CreateVolume env" "svc_DeleteVolume (DsmService env) = DeleteVolume env"
  "svc_ListVolumes (DsmService env) = ListVolumes env" "svc_GetVolume (DsmService env) = GetVolume env"
  "svc_ExpandVolume (DsmService env) u n = not_nil (ExpandVolume env u n)"
  "svc_CreateSnapshot (DsmService env) spec = not_nil (CreateSnapshot env spec)"
  "svc_DeleteSnapshot (DsmService env) = DeleteSnapshot env"
  "svc_ListAllSnapshots (DsmService env) = ListAllSnapshots env"
  "svc_ListSnapshots (DsmService env) = ListSnapshots env"
  "svc_GetVolumeByName (DsmService env) = GetVolumeByName env"
  "svc_GetSnapshotByName (DsmService env) = GetSnapshotByName env"
  "svc_ListDsmVolumes (DsmService env) u = no_error (ListDsmVolumes env u)"
  by (simp_all add: DsmService_def)

subsection \<open>What an operation does to the state\<close>

text \<open>From a state with \<open>I\<close>, the operation keeps \<open>I\<close> and relates its result to the states before and
  after it.\<close>

definition meets :: "('w \<Rightarrow> bool) \<Rightarrow> ('w, 'a) prog \<Rightarrow> ('a \<Rightarrow> 'w \<Rightarrow> 'w \<Rightarrow> bool) \<Rightarrow> bool" where
  "meets I m Q \<longleftrightarrow> (\<forall>w. I w \<longrightarrow> I (after m w) \<and> Q (result_of m w) w (after m w))"

lemma meets_return: "(\<And>w. I w \<Longrightarrow> Q x w w) \<Longrightarrow> meets I (State_Monad.return x) Q"
  by (simp add: meets_def)

lemma meets_mono: "meets I m P \<Longrightarrow> (\<And>x w w'. P x w w' \<Longrightarrow> Q x w w') \<Longrightarrow> meets I m Q"
  by (simp add: meets_def)

lemma meets_bind:
  assumes "meets I m P" "\<And>x. meets I (f x) (\<lambda>y w1 w'. \<forall>w. P x w w1 \<longrightarrow> Q y w w')"
  shows "meets I (State_Monad.bind m f) Q"
  using assms by (simp add: meets_def case_prod_beta)

lemma meets_answer:
  assumes "meets I m P" "\<And>x w w'. P x w w' \<Longrightarrow> Q (f x) w w'"
  shows "meets I (do { x \<leftarrow> m; State_Monad.return (f x) }) Q"
  using assms by (simp add: meets_def case_prod_beta)

lemma meets_if: "meets I m Q \<Longrightarrow> meets I m' Q \<Longrightarrow> meets I (if b then m else m') Q"
  by simp

lemma meets_case_option:
  "(x = None \<Longrightarrow> meets I m Q) \<Longrightarrow> (\<And>y. x = Some y \<Longrightarrow> meets I (f y) Q) \<Longrightarrow>
   meets I (case x of None \<Rightarrow> m | Some y \<Rightarrow> f y) Q"
  by (cases x) simp_all

lemma meets_case_sum:
  "(\<And>e. x = Inl e \<Longrightarrow> meets I (f e) Q) \<Longrightarrow> (\<And>y. x = Inr y \<Longrightarrow> meets I (g y) Q) \<Longrightarrow>
   meets I (case x of Inl e \<Rightarrow> f e | Inr y \<Rightarrow> g y) Q"
  by (cases x) simp_all

lemmas meets_split = meets_if meets_case_option meets_case_sum

subsection \<open>The contract\<close>

text \<open>
  The laws are those of the comments of the interface, over relations between the states before
  and after a call: \<open>reads\<close> (storage systems were asked, none was told to change anything),
  \<open>known\<close> and \<open>absent\<close> (a volume with an id is there, or is not), \<open>unnamed\<close> (no volume has the
  name), \<open>complete\<close> (a list leaves no volume out) and \<open>removed\<close> (the deletion of the volume was
  asked for). An error or a nil volume can mean anything that they do not exclude.
\<close>

locale dsm_service =
  fixes svc :: "'w IDsmService"
    and valid :: "'w \<Rightarrow> bool"
    and later :: "'w \<Rightarrow> 'w \<Rightarrow> bool"
    and reads :: "'w \<Rightarrow> 'w \<Rightarrow> bool"
    and known :: "string \<Rightarrow> K8sVolumeRespSpec \<Rightarrow> 'w \<Rightarrow> 'w \<Rightarrow> bool"
    and absent :: "string \<Rightarrow> 'w \<Rightarrow> 'w \<Rightarrow> bool"
    and unnamed :: "string \<Rightarrow> 'w \<Rightarrow> 'w \<Rightarrow> bool"
    and complete :: "K8sVolumeRespSpec list \<Rightarrow> 'w \<Rightarrow> 'w \<Rightarrow> bool"
    and removed :: "string \<Rightarrow> 'w \<Rightarrow> 'w \<Rightarrow> bool"
  assumes reads_refl: "reads w w"
    and CreateVolume_law: "meets valid (svc_CreateVolume svc spec) (\<lambda>_. later)"
    and DeleteVolume_law: "meets valid (svc_DeleteVolume svc volId)
      (\<lambda>r w w'. r = None \<longrightarrow> absent volId w w' \<or> removed volId w w')"
    and ListVolumes_law: "meets valid (svc_ListVolumes svc)
      (\<lambda>r w w'. reads w w' \<and> (snd r = None \<longrightarrow> complete (fst r) w w'))"
    and GetVolume_law: "meets valid (svc_GetVolume svc volId)
      (\<lambda>r w w'. reads w w' \<and> (\<forall>v. r = Inr (Some v) \<longrightarrow> known volId v w w') \<and>
         (r = Inr None \<longrightarrow> absent volId w w'))"
    and GetVolumeByName_law: "meets valid (svc_GetVolumeByName svc volName)
      (\<lambda>r w w'. reads w w' \<and> (r = Inr None \<longrightarrow> unnamed volName w w'))"
    and snapshots_law: "meets valid (svc_ListAllSnapshots svc) (\<lambda>_. reads)"
      "meets valid (svc_ListSnapshots svc volId) (\<lambda>_. reads)"
      "meets valid (svc_GetSnapshotByName svc snapName) (\<lambda>_. reads)"
    and ListDsmVolumes_law: "meets valid (svc_ListDsmVolumes svc ip) (\<lambda>_. reads)"

end
