(* ===== verification/Controller.thy ===== *)
theory Controller
  imports Driver Interface
begin

text \<open>
  \<^verbatim>\<open>pkg/driver/controllerserver.go\<close>: the handlers of the CSI controller service. A request
  is a record of what its getters return; a slice or message that the handler compares with
  nil is an option. The handlers are methods of \<open>controllerServer\<close>, over any implementation of
  the interface of the service; the handlers of the server that runs, on the service of
  \<^verbatim>\<open>pkg/dsm/service\<close>, follow at the end, with the prefix \<open>cs_\<close> where the service layer has the
  name already. The text of a status error is not kept, only its code.
\<close>

subsection \<open>The server\<close>

text \<open>The driver, whose fields the handlers read, and the service they call; the field for the
  initiator of the node server is neither set nor read.\<close>

record 'w controllerServer =
  srv_Driver :: Driver
  srv_dsmService :: "'w IDsmService"

definition NewControllerServer :: "Driver \<Rightarrow> 'w IDsmService \<Rightarrow> 'w controllerServer" where
  "NewControllerServer d svc = \<lparr>srv_Driver = d, srv_dsmService = svc\<rparr>"

lemma NewControllerServer_sel [simp]:
  "srv_Driver (NewControllerServer d svc) = d" "srv_dsmService (NewControllerServer d svc) = svc"
  by (simp_all add: NewControllerServer_def)

subsection \<open>Requests\<close>

record CapacityRange =
  cr_RequiredBytes :: int64
  cr_LimitBytes :: int64

datatype ContentSource = SnapshotSource string | VolumeSource string | UnknownSource

record CreateVolumeRequest =
  cvr_Name :: string
  cvr_CapacityRange :: "CapacityRange option"
  cvr_VolumeCapabilities :: "VolumeCapability list option"
  cvr_Parameters :: "string \<rightharpoonup> string"
  cvr_VolumeContentSource :: "ContentSource option"

record CsiVolume =
  csi_VolumeId :: string
  csi_CapacityBytes :: int64
  csi_ContentSource :: "ContentSource option"
  csi_VolumeContext :: "string \<rightharpoonup> string"

text \<open>\<^verbatim>\<open>params[key]\<close> of a Go map: the empty string when the key is missing.\<close>

definition get_param :: "(string \<rightharpoonup> string) \<Rightarrow> string \<Rightarrow> string" where
  "get_param m k = (case m k of None \<Rightarrow> '''' | Some v \<Rightarrow> v)"

subsection \<open>Checking a request\<close>

definition getSizeByCapacityRange :: "CapacityRange option \<Rightarrow> err + int64" where
  "getSizeByCapacityRange capRange = (case capRange of
     None \<Rightarrow> Inr (1 * UNIT_GB)
   | Some c \<Rightarrow>
       let minSize = cr_RequiredBytes c; maxSize = cr_LimitBytes c in
       if 0 < sint maxSize \<and> sint maxSize < sint minSize then Inl (Status InvalidArgument)
       else if sint minSize < sint UNIT_GB then Inl (Status InvalidArgument)
       else Inr minSize)"

definition isShareProtocol :: "string \<Rightarrow> bool" where
  "isShareProtocol protocol \<longleftrightarrow> protocol = ProtocolNfs \<or> protocol = ProtocolSmb"

definition isVolumeAccessModeSupport :: "Driver \<Rightarrow> AccessMode \<Rightarrow> bool" where
  "isVolumeAccessModeSupport d m \<longleftrightarrow> list_ex (\<lambda>accessMode. m = accessMode) (dr_vCap d)"

fun parseNfsVesrion :: "string list \<Rightarrow> string" where
  "parseNfsVesrion [] = ''''"
| "parseNfsVesrion (op # ops) =
     (if has_prefix op ''nfsvers'' then
        (let kvpair = split_on CHR ''='' op in
         if length kvpair = 2 then kvpair ! 1 else parseNfsVesrion ops)
      else parseNfsVesrion ops)"

definition parseDevAttribs :: "(string \<rightharpoonup> string) \<Rightarrow> (string \<times> bool) list" where
  "parseDevAttribs params =
     (if get_param params ''enableSpaceReclamation'' \<noteq> ''''
      then [(''emulate_tpu'', StringToBoolean (get_param params ''enableSpaceReclamation''))] else []) @
     (if get_param params ''enableFuaSyncCache'' \<noteq> ''''
      then (let enabled = StringToBoolean (get_param params ''enableFuaSyncCache'')
            in [(''emulate_fua_write'', enabled), (''emulate_sync_cache'', enabled)]) else [])"

text \<open>The loop over the capabilities: it ends with an error, or with whether several sessions
  are wanted and the mount options, each as the last capability that says something says.\<close>

fun check_capabilities :: "Driver \<Rightarrow> string \<Rightarrow> VolumeCapability list \<Rightarrow> bool \<times> string list \<Rightarrow>
    err + bool \<times> string list" where
  "check_capabilities d protocol [] (multiSession, mountOptions) = Inr (multiSession, mountOptions)"
| "check_capabilities d protocol (c # cs) (multiSession, mountOptions) =
     (if \<not> isVolumeAccessModeSupport d (cap_AccessMode c) then Inl (Status InvalidArgument)
      else if is_block (cap_AccessType c) \<and> isShareProtocol protocol then Inl (Status InvalidArgument)
      else check_capabilities d protocol cs
        (if cap_AccessMode c = SINGLE_NODE_WRITER then False
         else if cap_AccessMode c = MULTI_NODE_MULTI_WRITER then True else multiSession,
         case cap_AccessType c of MountVolume fsType flags grp \<Rightarrow> flags | _ \<Rightarrow> mountOptions))"

text \<open>The protocol of a request: lower case, \<^verbatim>\<open>iscsi\<close> by default.\<close>

definition request_protocol :: "(string \<rightharpoonup> string) \<Rightarrow> err + string" where
  "request_protocol params =
     (let protocol = to_lower (get_param params ''protocol'') in
      if protocol = '''' then Inr ProtocolDefault
      else if \<not> isProtocolSupport protocol then Inl (Status InvalidArgument)
      else Inr protocol)"

text \<open>The ids of the source snapshot and of the source volume.\<close>

definition content_source :: "ContentSource option \<Rightarrow> err + string \<times> string" where
  "content_source src = (case src of
     None \<Rightarrow> Inr ('''', '''')
   | Some (SnapshotSource i) \<Rightarrow> Inr (i, '''')
   | Some (VolumeSource i) \<Rightarrow> Inr ('''', i)
   | Some UnknownSource \<Rightarrow> Inl (Status InvalidArgument))"

definition thin_provisioning :: "(string \<rightharpoonup> string) \<Rightarrow> bool" where
  "thin_provisioning params =
     (if get_param params ''thin_provisioning'' \<noteq> ''''
      then StringToBoolean (get_param params ''thin_provisioning'') else True)"

definition volume_description :: "(string \<rightharpoonup> string) \<Rightarrow> string" where
  "volume_description params =
     (if params ''csi.storage.k8s.io/pvc/name'' \<noteq> None
      then get_param params ''csi.storage.k8s.io/pvc/namespace'' @ ''/'' @
           get_param params ''csi.storage.k8s.io/pvc/name''
      else '''')"

text \<open>The checks of \<^verbatim>\<open>CreateVolume\<close> up to the specification it builds; all of them are made
  before anything is sent.\<close>

definition volume_spec :: "string \<Rightarrow> (string \<rightharpoonup> string) \<Rightarrow> int64 \<Rightarrow> string \<Rightarrow> bool \<Rightarrow> string \<times> string \<Rightarrow>
    string \<Rightarrow> CreateK8sVolumeSpec" where
  "volume_spec volName params sizeInByte protocol multiSession src nfsVer =
     \<lparr>cv_DsmIp = get_param params ''dsm'', cv_K8sVolumeName = volName,
      cv_BackendName = GenBackendName volName, cv_Description = volume_description params,
      cv_ShareName = GenShareName volName, cv_Location = get_param params ''location'',
      cv_Size = sizeInByte, cv_Type = get_param params ''type'',
      cv_ThinProvisioning = thin_provisioning params,
      cv_TargetName = TargetPrefix @ ''-'' @ volName, cv_MultipleSession = multiSession,
      cv_SourceSnapshotId = fst src, cv_SourceVolumeId = snd src, cv_Protocol = protocol,
      cv_NfsVersion = nfsVer, cv_DevAttribs = parseDevAttribs params,
      cv_Reclaim = StringToBoolean (get_param params ''enableSpaceReclamation'')\<rparr>"

definition check_request :: "Driver \<Rightarrow> CreateVolumeRequest \<Rightarrow> err + CreateK8sVolumeSpec" where
  "check_request d req = (case getSizeByCapacityRange (cvr_CapacityRange req) of
     Inl e \<Rightarrow> Inl e
   | Inr sizeInByte \<Rightarrow>
       if cvr_Name req = '''' then Inl (Status InvalidArgument)
       else (case cvr_VolumeCapabilities req of
         None \<Rightarrow> Inl (Status InvalidArgument)
       | Some volCap \<Rightarrow>
           let params = cvr_Parameters req in
           (case request_protocol params of
             Inl e \<Rightarrow> Inl e
           | Inr protocol \<Rightarrow>
               (case check_capabilities d protocol volCap (False, []) of
                 Inl e \<Rightarrow> Inl e
               | Inr (multiSession, mountOptions) \<Rightarrow>
                   (case content_source (cvr_VolumeContentSource req) of
                     Inl e \<Rightarrow> Inl e
                   | Inr src \<Rightarrow>
                       if get_param params ''mountPermissions'' \<noteq> '''' \<and>
                          parse_octal32 (get_param params ''mountPermissions'') = None
                       then Inl (Status InvalidArgument)
                       else if map_of (parseDevAttribs params) ''emulate_tpu'' = Some True \<and>
                               \<not> thin_provisioning params
                       then Inl (Status InvalidArgument)
                       else let nfsVer = parseNfsVesrion mountOptions in
                         if nfsVer \<noteq> '''' \<and> \<not> isNfsVersionAllowed nfsVer
                         then Inl (Status InvalidArgument)
                         else Inr (volume_spec (cvr_Name req) params sizeInByte protocol
                                multiSession src nfsVer))))))"

subsection \<open>CreateVolume and DeleteVolume\<close>

text \<open>The volume that was made, or that was there already, has another size than asked for.\<close>

definition size_differs :: "K8sVolumeRespSpec \<Rightarrow> int64 \<Rightarrow> bool" where
  "size_differs v sizeInByte \<longleftrightarrow>
     kv_Protocol v = ProtocolIscsi \<and> kv_SizeInBytes v \<noteq> sizeInByte \<or>
     kv_Protocol v = ProtocolNvme \<and> kv_SizeInBytes v \<noteq> sizeInByte \<or>
     kv_Protocol v = ProtocolSmb \<and> BytesToMB (kv_SizeInBytes v) \<noteq> BytesToMBCeil sizeInByte \<or>
     kv_Protocol v = ProtocolNfs \<and> BytesToMB (kv_SizeInBytes v) \<noteq> BytesToMBCeil sizeInByte"

definition volume_response :: "CreateVolumeRequest \<Rightarrow> K8sVolumeRespSpec \<Rightarrow> CsiVolume" where
  "volume_response req v =
     \<lparr>csi_VolumeId = kv_VolumeId v, csi_CapacityBytes = kv_SizeInBytes v,
      csi_ContentSource = cvr_VolumeContentSource req,
      csi_VolumeContext = [''dsm'' \<mapsto> kv_DsmIp v, ''protocol'' \<mapsto> kv_Protocol v, ''source'' \<mapsto> kv_Source v,
        ''formatOptions'' \<mapsto> get_param (cvr_Parameters req) ''formatOptions'',
        ''mountPermissions'' \<mapsto> get_param (cvr_Parameters req) ''mountPermissions'',
        ''baseDir'' \<mapsto> kv_BaseDir v]\<rparr>"

text \<open>The service may return neither a volume nor an error; reading the protocol of that nil
  volume would panic.\<close>

definition answer_volume :: "CreateVolumeRequest \<Rightarrow> int64 \<Rightarrow> K8sVolumeRespSpec option \<Rightarrow> err + CsiVolume" where
  "answer_volume req sizeInByte k8sVolume = (case k8sVolume of
     None \<Rightarrow> Inl (Panicked ''nil pointer dereference'')
   | Some v \<Rightarrow>
       if size_differs v sizeInByte then Inl (Status AlreadyExists) else Inr (volume_response req v))"

definition controllerServer_CreateVolume :: "'w controllerServer \<Rightarrow> CreateVolumeRequest \<Rightarrow>
    ('w, err + CsiVolume) prog" where
  "controllerServer_CreateVolume cs req = (case check_request (srv_Driver cs) req of
     Inl e \<Rightarrow> State_Monad.return (Inl e)
   | Inr spec \<Rightarrow> do {
       g \<leftarrow> svc_GetVolumeByName (srv_dsmService cs) (cvr_Name req);
       case g of
         Inl e \<Rightarrow> State_Monad.return (Inl (Status Unavailable))
       | Inr None \<Rightarrow> do {
           r \<leftarrow> svc_CreateVolume (srv_dsmService cs) spec;
           State_Monad.return (case r of
             Inl e \<Rightarrow> Inl e
           | Inr k8sVolume \<Rightarrow> answer_volume req (cv_Size spec) k8sVolume) }
       | Inr (Some v) \<Rightarrow> State_Monad.return (answer_volume req (cv_Size spec) (Some v)) })"

definition controllerServer_DeleteVolume :: "'w controllerServer \<Rightarrow> string \<Rightarrow> ('w, err option) prog" where
  "controllerServer_DeleteVolume cs volumeId =
     (if volumeId = '''' then State_Monad.return (Some (Status InvalidArgument))
      else do {
        r \<leftarrow> svc_DeleteVolume (srv_dsmService cs) volumeId;
        State_Monad.return (case r of Some e \<Rightarrow> Some (Status Internal) | None \<Rightarrow> None) })"

subsection \<open>ValidateVolumeCapabilities\<close>

definition upper_char :: "char \<Rightarrow> char" where
  "upper_char c = (let n = of_char c :: nat in if 97 \<le> n \<and> n \<le> 122 then char_of (n - 32) else c)"

text \<open>The response: confirmed with the capabilities asked about, or a message why not.\<close>

datatype Validation = Confirmed "VolumeCapability list" | NotConfirmed string

definition controllerServer_ValidateVolumeCapabilities :: "'w controllerServer \<Rightarrow> string \<Rightarrow>
    VolumeCapability list option \<Rightarrow> ('w, err + Validation) prog" where
  "controllerServer_ValidateVolumeCapabilities cs volumeId volCap =
     (if volumeId = '''' then State_Monad.return (Inl (Status InvalidArgument))
      else (case volCap of
        None \<Rightarrow> State_Monad.return (Inl (Status InvalidArgument))
      | Some caps \<Rightarrow> do {
          g \<leftarrow> svc_GetVolume (srv_dsmService cs) volumeId;
          State_Monad.return (case g of
            Inl e \<Rightarrow> Inl (Status Unavailable)
          | Inr None \<Rightarrow> Inl (Status NotFound)
          | Inr (Some v) \<Rightarrow>
              if list_ex (\<lambda>c. \<not> isVolumeAccessModeSupport (srv_Driver cs) (cap_AccessMode c)) caps
              then Inl (Status NotFound)
              else if list_ex (\<lambda>c. is_block (cap_AccessType c) \<and> isShareProtocol (kv_Protocol v)) caps
              then Inr (NotConfirmed (map upper_char (kv_Protocol v) @
                 '' protocol does not support volumeMode: Block; use volumeMode: Filesystem instead''))
              else Inr (Confirmed caps)) }))"

subsection \<open>Paging\<close>

text \<open>
  The loops of \<^verbatim>\<open>ListVolumes\<close> and \<^verbatim>\<open>ListSnapshots\<close>: \<open>skip\<close> until the entry that the token names,
  pass over the entries not asked for, stop at \<open>max\<close> entries with the next one as the token.
  The result tells whether the token was never found. The counter of the code is an
  \<^verbatim>\<open>int32\<close> that is compared only while it is below \<open>max\<close>.
\<close>

fun page_loop :: "('v \<Rightarrow> string) \<Rightarrow> ('v \<Rightarrow> bool) \<Rightarrow> int \<Rightarrow> string \<Rightarrow> bool \<Rightarrow> int \<Rightarrow> 'v list \<Rightarrow>
    bool \<times> 'v list \<times> string" where
  "page_loop key wanted maxEntries token skip count [] = (skip, [], '''')"
| "page_loop key wanted maxEntries token skip count (info # infos) =
     (let skip' = (skip \<and> key info \<noteq> token) in
      if skip' then page_loop key wanted maxEntries token skip' count infos
      else if \<not> wanted info then page_loop key wanted maxEntries token skip' count infos
      else if maxEntries > 0 \<and> count \<ge> maxEntries then (skip', [], key info)
      else (let (s, entries, nextToken) = page_loop key wanted maxEntries token skip' (count + 1) infos
            in (s, info # entries, nextToken)))"

definition page_of :: "('v \<Rightarrow> string) \<Rightarrow> ('v \<Rightarrow> bool) \<Rightarrow> int \<Rightarrow> string \<Rightarrow> 'v list \<Rightarrow> err + 'v list \<times> string" where
  "page_of key wanted maxEntries token infos =
     (let (skip, entries, nextToken) = page_loop key wanted maxEntries token (token \<noteq> '''') 0 infos
      in if skip then Inl (Status Aborted) else Inr (entries, nextToken))"

definition volume_entry :: "K8sVolumeRespSpec \<Rightarrow> CsiVolume" where
  "volume_entry info =
     \<lparr>csi_VolumeId = kv_VolumeId info, csi_CapacityBytes = kv_SizeInBytes info, csi_ContentSource = None,
      csi_VolumeContext = [''dsm'' \<mapsto> kv_DsmIp info, ''lunName'' \<mapsto> lun_Name (kv_Lun info),
        ''targetIqn'' \<mapsto> tg_Iqn (kv_Target info), ''shareName'' \<mapsto> sh_Name (kv_Share info),
        ''namespaceName'' \<mapsto> ns_Name (kv_Namespace info), ''subsystemNqn'' \<mapsto> ss_Nqn (kv_Subsystem info),
        ''protocol'' \<mapsto> kv_Protocol info]\<rparr>"

definition volume_page :: "int \<Rightarrow> string \<Rightarrow> K8sVolumeRespSpec list \<Rightarrow> err + K8sVolumeRespSpec list \<times> string" where
  "volume_page maxEntries startingToken infos =
     page_of kv_VolumeId (\<lambda>_. True) maxEntries startingToken (sort_ByVolumeId infos)"

definition controllerServer_ListVolumes :: "'w controllerServer \<Rightarrow> int \<Rightarrow> string \<Rightarrow>
    ('w, err + CsiVolume list \<times> string) prog" where
  "controllerServer_ListVolumes cs maxEntries startingToken =
     (if 0 > maxEntries then State_Monad.return (Inl (Status InvalidArgument))
      else do {
        l \<leftarrow> svc_ListVolumes (srv_dsmService cs);
        State_Monad.return (case l of
          (infos, Some e) \<Rightarrow> Inl (Status Unavailable)
        | (infos, None) \<Rightarrow>
            map_sum id (\<lambda>(entries, nextToken). (map volume_entry entries, nextToken))
              (volume_page maxEntries startingToken infos)) })"

subsection \<open>GetCapacity\<close>

fun sum_free :: "string \<Rightarrow> VolInfo list \<Rightarrow> int64 \<Rightarrow> int64" where
  "sum_free location [] availableCapacity = availableCapacity"
| "sum_free location (info # infos) availableCapacity =
     (if location \<noteq> '''' \<and> vi_Path info \<noteq> location then sum_free location infos availableCapacity
      else (case parse_int 64 (vi_Free info) of
          None \<Rightarrow> sum_free location infos availableCapacity
        | Some freeSize \<Rightarrow> sum_free location infos (availableCapacity + word_of_int freeSize)))"

definition controllerServer_GetCapacity :: "'w controllerServer \<Rightarrow> (string \<rightharpoonup> string) \<Rightarrow> ('w, err + int64) prog" where
  "controllerServer_GetCapacity cs params = do {
     r \<leftarrow> svc_ListDsmVolumes (srv_dsmService cs) (get_param params ''dsm'');
     State_Monad.return (case r of
       Inl e \<Rightarrow> Inl (Status InvalidArgument)
     | Inr volInfos \<Rightarrow> Inr (sum_free (get_param params ''location'') volInfos 0)) }"

text \<open>The handlers the driver does not have.\<close>

definition ControllerPublishVolume :: "unit \<Rightarrow> err + unit" where
  "ControllerPublishVolume req = Inl (Status Unimplemented)"

definition ControllerUnpublishVolume :: "unit \<Rightarrow> err + unit" where
  "ControllerUnpublishVolume req = Inl (Status Unimplemented)"

definition ControllerGetVolume :: "unit \<Rightarrow> err + unit" where
  "ControllerGetVolume req = Inl (Status Unimplemented)"

definition ControllerGetCapabilities :: "Driver \<Rightarrow> ControllerServiceCapability list" where
  "ControllerGetCapabilities d = dr_csCap d"

subsection \<open>Snapshots\<close>

record CsiSnapshot =
  css_SizeBytes :: int64
  css_SnapshotId :: string
  css_SourceVolumeId :: string
  css_CreationTime :: int64
  css_ReadyToUse :: bool

definition snapshot_entry :: "K8sSnapshotRespSpec \<Rightarrow> CsiSnapshot" where
  "snapshot_entry snapshot =
     \<lparr>css_SizeBytes = ks_SizeInBytes snapshot, css_SnapshotId = ks_Uuid snapshot,
      css_SourceVolumeId = ks_ParentUuid snapshot, css_CreationTime = ks_CreateTime snapshot,
      css_ReadyToUse = (ks_Status snapshot = ''Healthy'')\<rparr>"

text \<open>A service that returned neither a snapshot nor an error would make the handler panic.\<close>

definition answer_snapshot :: "K8sSnapshotRespSpec option \<Rightarrow> err + CsiSnapshot" where
  "answer_snapshot snapshot = (case snapshot of
     None \<Rightarrow> Inl (Panicked ''nil pointer dereference'')
   | Some s \<Rightarrow> Inr (snapshot_entry s))"

definition controllerServer_CreateSnapshot :: "'w controllerServer \<Rightarrow> string \<Rightarrow> string \<Rightarrow> (string \<rightharpoonup> string) \<Rightarrow>
    ('w, err + CsiSnapshot) prog" where
  "controllerServer_CreateSnapshot cs srcVolId snapshotName params =
     (if srcVolId = '''' then State_Monad.return (Inl (Status InvalidArgument))
      else if snapshotName = '''' then State_Monad.return (Inl (Status InvalidArgument))
      else do {
        g \<leftarrow> svc_GetSnapshotByName (srv_dsmService cs) snapshotName;
        case g of
          Some orgSnap \<Rightarrow> State_Monad.return (
            if ks_ParentUuid orgSnap \<noteq> srcVolId then Inl (Status AlreadyExists)
            else if sint (ks_CreateTime orgSnap) < 0 then Inl (Status Internal)
            else Inr (snapshot_entry orgSnap))
        | None \<Rightarrow> do {
            r \<leftarrow> svc_CreateSnapshot (srv_dsmService cs) \<lparr>csn_K8sVolumeId = srcVolId, csn_SnapshotName = snapshotName,
                   csn_Description = get_param params ''description'', csn_TakenBy = ''Kubernetes CSI'',
                   csn_IsLocked = StringToBoolean (get_param params ''is_locked'')\<rparr>;
            State_Monad.return (case r of Inl e \<Rightarrow> Inl e | Inr snapshot \<Rightarrow> answer_snapshot snapshot) } })"

definition controllerServer_DeleteSnapshot :: "'w controllerServer \<Rightarrow> string \<Rightarrow> ('w, err option) prog" where
  "controllerServer_DeleteSnapshot cs snapshotId =
     (if snapshotId = '''' then State_Monad.return (Some (Status InvalidArgument))
      else do {
        r \<leftarrow> svc_DeleteSnapshot (srv_dsmService cs) snapshotId;
        State_Monad.return (case r of Some e \<Rightarrow> Some (Status Internal) | None \<Rightarrow> None) })"

definition snapshot_page :: "int \<Rightarrow> string \<Rightarrow> string \<Rightarrow> K8sSnapshotRespSpec list \<Rightarrow>
    err + K8sSnapshotRespSpec list \<times> string" where
  "snapshot_page maxEntries startingToken snapshotId snapshots =
     page_of ks_Uuid (\<lambda>snapshot. snapshotId = '''' \<or> ks_Uuid snapshot = snapshotId) maxEntries
       startingToken (sort_BySnapshotAndParentUuid snapshots)"

definition controllerServer_ListSnapshots :: "'w controllerServer \<Rightarrow> string \<Rightarrow> string \<Rightarrow> int \<Rightarrow> string \<Rightarrow>
    ('w, err + CsiSnapshot list \<times> string) prog" where
  "controllerServer_ListSnapshots cs srcVolId snapshotId maxEntries startingToken =
     (if 0 > maxEntries then State_Monad.return (Inl (Status InvalidArgument))
      else do {
        snapshots \<leftarrow> (if srcVolId \<noteq> '''' then svc_ListSnapshots (srv_dsmService cs) srcVolId
          else svc_ListAllSnapshots (srv_dsmService cs));
        State_Monad.return (map_sum id (\<lambda>(entries, nextToken). (map snapshot_entry entries, nextToken))
          (snapshot_page maxEntries startingToken snapshotId snapshots)) })"

subsection \<open>ControllerExpandVolume\<close>

definition answer_expanded :: "K8sVolumeRespSpec option \<Rightarrow> err + int64 \<times> bool" where
  "answer_expanded k8sVolume = (case k8sVolume of
     None \<Rightarrow> Inl (Panicked ''nil pointer dereference'')
   | Some v \<Rightarrow> Inr (kv_SizeInBytes v, kv_Protocol v = ProtocolIscsi \<or> kv_Protocol v = ProtocolNvme))"

definition controllerServer_ControllerExpandVolume :: "'w controllerServer \<Rightarrow> string \<Rightarrow> CapacityRange option \<Rightarrow>
    ('w, err + int64 \<times> bool) prog" where
  "controllerServer_ControllerExpandVolume cs volumeId capRange =
     (if volumeId = '''' \<or> capRange = None then State_Monad.return (Inl (Status InvalidArgument))
      else (case getSizeByCapacityRange capRange of
        Inl e \<Rightarrow> State_Monad.return (Inl (Status InvalidArgument))
      | Inr sizeInByte \<Rightarrow> do {
          r \<leftarrow> svc_ExpandVolume (srv_dsmService cs) volumeId sizeInByte;
          State_Monad.return (case r of Inl e \<Rightarrow> Inl e | Inr k8sVolume \<Rightarrow> answer_expanded k8sVolume) }))"

subsection \<open>The server that runs\<close>

text \<open>The controller server of a driver, on the service that talks to the storage systems of
  \<open>env\<close>, and its handlers.\<close>

definition controller :: "'n env \<Rightarrow> Driver \<Rightarrow> 'n world controllerServer" where
  "controller env d = NewControllerServer d (DsmService env)"

lemma controller_sel [simp]:
  "srv_Driver (controller env d) = d" "srv_dsmService (controller env d) = DsmService env"
  by (simp_all add: controller_def)

definition cs_CreateVolume :: "'n env \<Rightarrow> Driver \<Rightarrow> CreateVolumeRequest \<Rightarrow> ('n world, err + CsiVolume) prog" where
  "cs_CreateVolume env d = controllerServer_CreateVolume (controller env d)"

definition cs_DeleteVolume :: "'n env \<Rightarrow> Driver \<Rightarrow> string \<Rightarrow> ('n world, err option) prog" where
  "cs_DeleteVolume env d = controllerServer_DeleteVolume (controller env d)"

definition ValidateVolumeCapabilities :: "'n env \<Rightarrow> Driver \<Rightarrow> string \<Rightarrow> VolumeCapability list option \<Rightarrow>
    ('n world, err + Validation) prog" where
  "ValidateVolumeCapabilities env d = controllerServer_ValidateVolumeCapabilities (controller env d)"

definition cs_ListVolumes :: "'n env \<Rightarrow> Driver \<Rightarrow> int \<Rightarrow> string \<Rightarrow> ('n world, err + CsiVolume list \<times> string) prog" where
  "cs_ListVolumes env d = controllerServer_ListVolumes (controller env d)"

definition GetCapacity :: "'n env \<Rightarrow> Driver \<Rightarrow> (string \<rightharpoonup> string) \<Rightarrow> ('n world, err + int64) prog" where
  "GetCapacity env d = controllerServer_GetCapacity (controller env d)"

definition cs_CreateSnapshot :: "'n env \<Rightarrow> Driver \<Rightarrow> string \<Rightarrow> string \<Rightarrow> (string \<rightharpoonup> string) \<Rightarrow>
    ('n world, err + CsiSnapshot) prog" where
  "cs_CreateSnapshot env d = controllerServer_CreateSnapshot (controller env d)"

definition cs_DeleteSnapshot :: "'n env \<Rightarrow> Driver \<Rightarrow> string \<Rightarrow> ('n world, err option) prog" where
  "cs_DeleteSnapshot env d = controllerServer_DeleteSnapshot (controller env d)"

definition cs_ListSnapshots :: "'n env \<Rightarrow> Driver \<Rightarrow> string \<Rightarrow> string \<Rightarrow> int \<Rightarrow> string \<Rightarrow>
    ('n world, err + CsiSnapshot list \<times> string) prog" where
  "cs_ListSnapshots env d = controllerServer_ListSnapshots (controller env d)"

definition ControllerExpandVolume :: "'n env \<Rightarrow> Driver \<Rightarrow> string \<Rightarrow> CapacityRange option \<Rightarrow>
    ('n world, err + int64 \<times> bool) prog" where
  "ControllerExpandVolume env d = controllerServer_ControllerExpandVolume (controller env d)"

lemmas cs_defs = cs_CreateVolume_def controllerServer_CreateVolume_def
  cs_DeleteVolume_def controllerServer_DeleteVolume_def
  ValidateVolumeCapabilities_def controllerServer_ValidateVolumeCapabilities_def
  cs_ListVolumes_def controllerServer_ListVolumes_def
  GetCapacity_def controllerServer_GetCapacity_def
  cs_CreateSnapshot_def controllerServer_CreateSnapshot_def
  cs_DeleteSnapshot_def controllerServer_DeleteSnapshot_def
  cs_ListSnapshots_def controllerServer_ListSnapshots_def
  ControllerExpandVolume_def controllerServer_ControllerExpandVolume_def

lemma cs_CreateVolume_run:
  "cs_CreateVolume env d req = (case check_request d req of
     Inl e \<Rightarrow> State_Monad.return (Inl e)
   | Inr spec \<Rightarrow> do {
       g \<leftarrow> GetVolumeByName env (cvr_Name req);
       case g of
         Inl e \<Rightarrow> State_Monad.return (Inl (Status Unavailable))
       | Inr None \<Rightarrow> do {
           r \<leftarrow> CreateVolume env spec;
           State_Monad.return (case r of
             Inl e \<Rightarrow> Inl e
           | Inr k8sVolume \<Rightarrow> answer_volume req (cv_Size spec) k8sVolume) }
       | Inr (Some v) \<Rightarrow> State_Monad.return (answer_volume req (cv_Size spec) (Some v)) })"
  unfolding cs_CreateVolume_def controllerServer_CreateVolume_def controller_sel DsmService_sel ..

end
