(* ===== verification/Lifecycle.thy ===== *)
theory Lifecycle
  imports Service
begin

text \<open>
  What the operations on an existing volume or snapshot do to the storage systems:
  \<^verbatim>\<open>DeleteVolume\<close> and \<^verbatim>\<open>DeleteSnapshot\<close> delete what was looked up and nothing else, a success
  of \<^verbatim>\<open>DeleteVolume\<close> means that the volume is known to be absent or was asked to be deleted,
  \<^verbatim>\<open>ExpandVolume\<close> grows one volume and never shrinks it. Requests that cannot leave the
  driver (\<open>reach\<close>) fail with an error that no operation takes for the answer that the
  object is gone.
\<close>

subsection \<open>Results and traces together\<close>

lemma emits_yields: "emits D m Q \<Longrightarrow> yields m P \<Longrightarrow> emits D m (\<lambda>x t. Q x t \<and> P x)"
  by (auto simp: emits_def yields_def)

lemma yields_conj: "yields m P \<Longrightarrow> yields m Q \<Longrightarrow> yields m (\<lambda>x. P x \<and> Q x)"
  by (simp add: yields_def)

subsection \<open>Requests that cannot leave\<close>

definition local_error :: "err \<Rightarrow> bool" where
  "local_error e \<longleftrightarrow> (\<exists>m. e = FmtError m \<or> e = HttpError m)"

lemma unreachable_once:
  assumes "\<not> reach env dsm"
  shows "yields (sendRequestWithoutConnectionCheck env dsm data dec ps entry_cgi)
     (\<lambda>r. fst r = 0 \<and> (\<exists>e. snd r = Inl e \<and> local_error e))"
proof (cases "newHTTPClient env dsm")
  case (Inl e)
  then have "local_error e" by (auto simp: newHTTPClient_def local_error_def split: if_splits)
  with Inl show ?thesis
    by (simp add: sendRequestWithoutConnectionCheck_def yields_return)
next
  case (Inr c)
  with assms show ?thesis
    by (simp add: sendRequestWithoutConnectionCheck_def reach_def yields_return local_error_def)
qed

lemma unreachable_send:
  assumes "\<not> reach env dsm"
  shows "yields (sendRequest env dsm data dec ps entry_cgi)
     (\<lambda>r. fst r = 0 \<and> (\<exists>e. snd r = Inl e \<and> local_error e))"
  unfolding sendRequest_def
  by (rule yields_after [OF unreachable_once [OF assms]])
    (auto simp: needs_login_def intro: yields_return)

lemma unreachable_iscsi:
  assumes "\<not> reach env dsm"
  shows "yields (iscsi_request env dec dsm ps) (\<lambda>r. \<exists>e. r = Inl e \<and> local_error e)"
  unfolding iscsi_request_def
  by (rule yields_after [OF unreachable_send [OF assms]])
    (auto simp: mapped_def errCodeMapping_def intro!: yields_return)

lemma unreachable_san:
  assumes "\<not> reach env dsm"
  shows "yields (san_request env dec dsm ps) (\<lambda>r. \<exists>e. r = Inl e \<and> local_error e)"
    "yields (san_request_all env dsm ps) (\<lambda>r. \<exists>e. r = Inl e \<and> local_error e)"
  unfolding san_request_def san_request_all_def
  by (rule yields_after [OF unreachable_send [OF assms]];
      auto simp: mapped_def mapped_all_def sanErrCodeMapping_def intro!: yields_return)+

lemmas unreachable = unreachable_iscsi unreachable_san

subsection \<open>Deleting\<close>

lemma delete_or_gone_emits:
  assumes del: "emits D del (\<lambda>_. drops env dsm k)" and get: "only D quiet get"
    and no_del: "\<not> reach env dsm \<Longrightarrow> yields del isl"
    and no_get: "\<not> reach env dsm \<Longrightarrow> yields get (\<lambda>g. \<forall>e. g = Inl e \<longrightarrow> \<not> gone e)"
    and rest: "emits D rest (\<lambda>_ t. made False t = {} \<and> deleted t \<subseteq> K)"
  shows "emits D (delete_or_gone del get gone rest) (\<lambda>r t. made False t = {} \<and>
     deleted t \<subseteq> insert (Ip dsm, k) K \<and> (r = None \<longrightarrow> (Ip dsm, k) \<in> deleted t))"
proof -
  have del': "emits D del (\<lambda>r t. drops env dsm k t \<and> (reach env dsm \<or> isl r))"
    using emits_yields [OF del no_del] del by (cases "reach env dsm") simp_all
  have get': "emits D get (\<lambda>g t. list_all quiet t \<and> (reach env dsm \<or> (\<forall>e. g = Inl e \<longrightarrow> \<not> gone e)))"
    using emits_yields [OF get no_get] get by (cases "reach env dsm") simp_all
  show ?thesis
    unfolding delete_or_gone_def
  proof (rule emits_bind [OF del'], rule emits_case_sum)
    fix r e t
    assume d: "drops env dsm k t \<and> (reach env dsm \<or> isl r)" and "r = Inl e"
    show "emits D (do { g \<leftarrow> get; State_Monad.return
        (case g of Inl e' \<Rightarrow> if gone e' then None else Some e | Inr _ \<Rightarrow> Some e) })
      (\<lambda>r t'. made False (t @ t') = {} \<and> deleted (t @ t') \<subseteq> insert (Ip dsm, k) K \<and>
         (r = None \<longrightarrow> (Ip dsm, k) \<in> deleted (t @ t')))"
      by (rule emits_bind [OF get'], rule emits_return)
        (use d in \<open>auto simp: drops_def quiet_trace split: sum.splits if_splits\<close>)
  next
    fix r x t
    assume d: "drops env dsm k t \<and> (reach env dsm \<or> isl r)" and r: "r = Inr x"
    show "emits D rest (\<lambda>r t'. made False (t @ t') = {} \<and> deleted (t @ t') \<subseteq> insert (Ip dsm, k) K \<and>
         (r = None \<longrightarrow> (Ip dsm, k) \<in> deleted (t @ t')))"
      by (rule emits_mono [OF rest]) (use d r in \<open>auto simp: drops_def\<close>)
  qed
qed

lemma delete_or_gone_bound:
  assumes del: "emits D del (\<lambda>_. drops env dsm k)" and get: "only D quiet get"
    and rest: "emits D rest (\<lambda>_ t. made False t = {} \<and> deleted t \<subseteq> K)"
  shows "emits D (delete_or_gone del get gone rest) (\<lambda>_ t. made False t = {} \<and>
     deleted t \<subseteq> insert (Ip dsm, k) K)"
  unfolding delete_or_gone_def
proof (rule emits_bind [OF del], rule emits_case_sum)
  fix r e t
  assume d: "drops env dsm k t" and "r = Inl e"
  show "emits D (do { g \<leftarrow> get; State_Monad.return
      (case g of Inl e' \<Rightarrow> if gone e' then None else Some e | Inr _ \<Rightarrow> Some e) })
    (\<lambda>_ t'. made False (t @ t') = {} \<and> deleted (t @ t') \<subseteq> insert (Ip dsm, k) K)"
    by (rule emits_bind [OF get], rule emits_return)
      (use d in \<open>auto simp: drops_def quiet_trace split: if_splits\<close>)
next
  fix r and x :: unit and t
  assume d: "drops env dsm k t"
  show "emits D rest (\<lambda>_ t'. made False (t @ t') = {} \<and> deleted (t @ t') \<subseteq> insert (Ip dsm, k) K)"
    by (rule emits_mono [OF rest]) (use d in \<open>auto simp: drops_def split: if_splits\<close>)
qed

lemma nothing_more: "emits D (State_Monad.return x) (\<lambda>_ t. made False t = {} \<and> deleted t \<subseteq> K)"
  by (rule emits_return) simp

text \<open>What a volume consists of: the resource that holds its data, and all of them. A target
  belongs to the volume only when the volume's LUN is the one it maps.\<close>

definition main_resource :: "K8sVolumeRespSpec \<Rightarrow> res" where
  "main_resource v = (if kv_Protocol v = ProtocolSmb \<or> kv_Protocol v = ProtocolNfs then ResShare (sh_Name (kv_Share v))
     else if kv_Protocol v = ProtocolNvme then ResNs (ns_Uuid (kv_Namespace v))
     else ResLun (lun_Uuid (kv_Lun v)))"

definition volume_resources :: "K8sVolumeRespSpec \<Rightarrow> res set" where
  "volume_resources v = insert (main_resource v)
     (if kv_Protocol v = ProtocolSmb \<or> kv_Protocol v = ProtocolNfs then {}
      else if kv_Protocol v = ProtocolNvme then {ResSub (ss_Uuid (kv_Subsystem v))}
      else if length (tg_MappedLuns (kv_Target v)) = 1 then {ResTarget (itoa (tg_TargetId (kv_Target v)))}
      else {})"

lemma not_gone:
  "yields m (\<lambda>r. \<exists>e. r = Inl e \<and> local_error e) \<Longrightarrow> yields m isl"
  "yields m (\<lambda>r. \<exists>e. r = Inl e \<and> local_error e) \<Longrightarrow>
     (\<And>e. local_error e \<Longrightarrow> \<not> gone e) \<Longrightarrow> yields m (\<lambda>g. \<forall>e. g = Inl e \<longrightarrow> \<not> gone e)"
  by (erule yields_mono; auto)+

lemma local_error_not:
  "local_error e \<Longrightarrow> \<not> errors_is e NoSuchLunError"
  "local_error e \<Longrightarrow> \<not> errors_is e NoSuchNamespaceError"
  "local_error e \<Longrightarrow> \<not> errors_is e NoSuchSnapshotError"
  "local_error e \<Longrightarrow> \<not> errors_is e FailedToGetSubsystemError"
  by (auto simp: local_error_def)

lemma sent_reach: "sent env dsm ps dec (Inr x) t \<Longrightarrow> reach env dsm"
  by (auto simp: sent_def split: if_splits)

lemma ShareDelete_emits:
  "emits D (ShareDelete env dsm n) (\<lambda>r t. drops env dsm (ResShare n) t \<and> (is_ok r \<longrightarrow> reach env dsm))"
proof (rule emits_conj [OF share_drops(1)])
  show "emits D (ShareDelete env dsm n) (\<lambda>r t. is_ok r \<longrightarrow> reach env dsm)"
    unfolding ShareDelete_def
    by (rule emits_mono [OF share.send_emits], simp add: not_login_def)
      (auto dest: sent_reach elim: sum.exhaust_sel simp: isl_def split: sum.splits; metis sent_reach sum.exhaust)
qed

lemma delete_lun_emits:
  "emits D (delete_lun env dsm lun target) (\<lambda>r t. made False t = {} \<and>
     deleted t \<subseteq> insert (Ip dsm, ResLun (lun_Uuid lun))
       (if length (tg_MappedLuns target) = 1 then {(Ip dsm, ResTarget (itoa (tg_TargetId target)))} else {}) \<and>
     (r = None \<longrightarrow> (Ip dsm, ResLun (lun_Uuid lun)) \<in> deleted t))"
  unfolding delete_lun_def
proof (rule delete_or_gone_emits [OF iscsi_drops(1) iscsi_reads(2)])
  assume "\<not> reach env dsm"
  note u = unreachable_iscsi [OF this]
  show "yields (LunDelete env dsm (lun_Uuid lun)) isl"
    unfolding LunDelete_def by (rule not_gone(1) [OF u])
  show "yields (LunGet env dsm (lun_Uuid lun)) (\<lambda>g. \<forall>e. g = Inl e \<longrightarrow> \<not> errors_is e NoSuchLunError)"
    unfolding LunGet_def by (rule not_gone(2) [OF u local_error_not(1)])
next
  show "emits D (if length (tg_MappedLuns target) \<noteq> 1 then State_Monad.return None
      else delete_or_gone (TargetDelete env dsm (itoa (tg_TargetId target)))
        (TargetGet env dsm (itoa (tg_TargetId target))) (\<lambda>e. True) (State_Monad.return None))
    (\<lambda>_ t. made False t = {} \<and> deleted t \<subseteq>
      (if length (tg_MappedLuns target) = 1 then {(Ip dsm, ResTarget (itoa (tg_TargetId target)))} else {}))"
  proof (cases "length (tg_MappedLuns target) = 1")
    case True
    then show ?thesis
      by (simp only: simp_thms if_True if_False)
        (rule delete_or_gone_bound [OF iscsi_drops(2) iscsi_reads(4) nothing_more])
  next
    case False
    then show ?thesis by (simp only: simp_thms if_True if_False) (rule nothing_more)
  qed
qed

lemma delete_namespace_emits:
  "emits D (delete_namespace env dsm namespace subsystem) (\<lambda>r t. made False t = {} \<and>
     deleted t \<subseteq> insert (Ip dsm, ResNs (ns_Uuid namespace)) {(Ip dsm, ResSub (ss_Uuid subsystem))} \<and>
     (r = None \<longrightarrow> (Ip dsm, ResNs (ns_Uuid namespace)) \<in> deleted t))"
  unfolding delete_namespace_def
proof (rule delete_or_gone_emits [OF nvme_drops(1) nvme_reads(1)])
  assume "\<not> reach env dsm"
  note u = unreachable_san [OF this]
  show "yields (NamespaceDelete env dsm (ns_Uuid namespace)) isl"
    unfolding NamespaceDelete_def by (rule not_gone(1) [OF u(2)])
  show "yields (NamespaceGet env dsm (ns_Uuid namespace)) (\<lambda>g. \<forall>e. g = Inl e \<longrightarrow> \<not> errors_is e NoSuchNamespaceError)"
    unfolding NamespaceGet_def by (rule not_gone(2) [OF u(1) local_error_not(2)])
next
  show "emits D (delete_or_gone (SubsystemDelete env dsm (ss_Uuid subsystem))
      (SubsystemGet env dsm (ss_Uuid subsystem)) (\<lambda>e. errors_is e FailedToGetSubsystemError)
      (State_Monad.return None))
    (\<lambda>_ t. made False t = {} \<and> deleted t \<subseteq> {(Ip dsm, ResSub (ss_Uuid subsystem))})"
    by (rule delete_or_gone_bound [OF nvme_drops(2) nvme_reads(5) nothing_more])
qed

lemma delete_found_emits:
  "emits D (delete_found env dsm v) (\<lambda>r t. made False t = {} \<and>
     deleted t \<subseteq> {Ip dsm} \<times> volume_resources v \<and>
     (r = None \<longrightarrow> (Ip dsm, main_resource v) \<in> deleted t))"
  unfolding delete_found_def
proof (rule emits_if, rule emits_bind [OF ShareDelete_emits], rule emits_return)
  fix r :: "err + unit" and t
  assume "kv_Protocol v = ProtocolSmb \<or> kv_Protocol v = ProtocolNfs"
    and "drops env dsm (ResShare (sh_Name (kv_Share v))) t \<and> (is_ok r \<longrightarrow> reach env dsm)"
  then show "made False (t @ []) = {} \<and> deleted (t @ []) \<subseteq> {Ip dsm} \<times> volume_resources v \<and>
      ((case r of Inl e \<Rightarrow> Some e | Inr _ \<Rightarrow> None) = None \<longrightarrow> (Ip dsm, main_resource v) \<in> deleted (t @ []))"
    by (auto simp: drops_def main_resource_def volume_resources_def split: if_splits sum.splits)
next
  assume share: "\<not> (kv_Protocol v = ProtocolSmb \<or> kv_Protocol v = ProtocolNfs)"
  show "emits D (if kv_Protocol v = ProtocolNvme then
        if \<not> SupportNvmeof dsm then State_Monad.return (Some (Status Internal))
        else delete_namespace env dsm (kv_Namespace v) (kv_Subsystem v)
      else delete_lun env dsm (kv_Lun v) (kv_Target v))
    (\<lambda>r t. made False t = {} \<and> deleted t \<subseteq> {Ip dsm} \<times> volume_resources v \<and>
       (r = None \<longrightarrow> (Ip dsm, main_resource v) \<in> deleted t))"
    by (rule emits_if, rule emits_if, rule emits_return, simp, rule emits_mono [OF delete_namespace_emits],
        use share in \<open>force simp: main_resource_def volume_resources_def\<close>,
        rule emits_mono [OF delete_lun_emits])
      (use share in \<open>force simp: main_resource_def volume_resources_def split: if_splits\<close>)
qed

subsection \<open>DeleteVolume\<close>

text \<open>A volume with the id that some storage system reported, and the proof that there is none.\<close>

definition known_volume :: "(string \<times> DSM) list \<Rightarrow> string \<Rightarrow> K8sVolumeRespSpec \<Rightarrow> call list \<Rightarrow> bool" where
  "known_volume D volId v t \<longleftrightarrow> kv_VolumeId v = volId \<and>
     volume_found D (\<lambda>share. sh_Uuid share = volId) (\<lambda>volume. kv_VolumeId volume = volId) v t"

definition no_volume :: "(string \<times> DSM) list \<Rightarrow> string \<Rightarrow> call list \<Rightarrow> bool" where
  "no_volume D volId t \<longleftrightarrow>
     volume_absent D (\<lambda>share. sh_Uuid share = volId) (\<lambda>volume. kv_VolumeId volume = volId) t"

lemma share_found_id: "share_found D (\<lambda>share. sh_Uuid share = volId) v t \<Longrightarrow> kv_VolumeId v = volId"
  by (auto simp: share_found_def share_volume_def DsmShareToK8sVolume_def)

lemma GetVolume_contract:
  "emits D (GetVolume env volId) (\<lambda>r t. list_all quiet t \<and>
     (case r of Inl e \<Rightarrow> True | Inr None \<Rightarrow> no_volume D volId t | Inr (Some v) \<Rightarrow> known_volume D volId v t))"
  unfolding GetVolume_def
  by (rule emits_mono [OF findVolume_contract])
    (auto simp: known_volume_def no_volume_def volume_found_def dest: share_found_id
      split: sum.splits option.splits)

lemma volume_found_mono: "volume_found D ms mv v t \<Longrightarrow> set t \<subseteq> set t' \<Longrightarrow> volume_found D ms mv v t'"
  unfolding volume_found_def by (meson share_found_mono seen_mono(2) nvme_mono)

lemma known_volume_mono: "known_volume D i v t \<Longrightarrow> set t \<subseteq> set t' \<Longrightarrow> known_volume D i v t'"
  unfolding known_volume_def using volume_found_mono by blast

lemma no_volume_mono: "no_volume D i t \<Longrightarrow> set t \<subseteq> set t' \<Longrightarrow> no_volume D i t'"
  unfolding no_volume_def volume_absent_def by (meson absent_mono)

lemma DeleteVolume_contract:
  "emits D (DeleteVolume env volId) (\<lambda>r t. made False t = {} \<and>
     (deleted t = {} \<and> (r = None \<longrightarrow> no_volume D volId t) \<or>
      (\<exists>v dsm. known_volume D volId v t \<and> map_of D (kv_DsmIp v) = Some dsm \<and>
         deleted t \<subseteq> {Ip dsm} \<times> volume_resources v \<and>
         (r = None \<longrightarrow> (Ip dsm, main_resource v) \<in> deleted t))))"
    (is "emits D _ ?Q")
  unfolding DeleteVolume_def
proof (rule emits_bind [OF GetVolume_contract], rule emits_case_sum)
  fix r e t
  assume t: "list_all quiet t \<and> (case r of Inl e \<Rightarrow> True | Inr None \<Rightarrow> no_volume D volId t
      | Inr (Some v) \<Rightarrow> known_volume D volId v t)" and "r = Inl e"
  then show "emits D (State_Monad.return (Some (Status Unavailable))) (\<lambda>r t'. ?Q r (t @ t'))"
    by (auto intro!: emits_return simp: quiet_trace)
next
  fix r x t
  assume t: "list_all quiet t \<and> (case r of Inl e \<Rightarrow> True | Inr None \<Rightarrow> no_volume D volId t
      | Inr (Some v) \<Rightarrow> known_volume D volId v t)" and r: "r = Inr x"
  then have q: "made False t = {}" "deleted t = {}" by (simp_all add: quiet_trace)
  show "emits D (case x of None \<Rightarrow> State_Monad.return None
      | Some k8sVolume \<Rightarrow> do {
          d \<leftarrow> GetDsm (kv_DsmIp k8sVolume);
          case d of
            Inl e \<Rightarrow> State_Monad.return (Some (Status Internal))
          | Inr dsm \<Rightarrow> delete_found env dsm k8sVolume }) (\<lambda>r t'. ?Q r (t @ t'))"
  proof (cases x)
    case None
    with t r q show ?thesis by (auto intro!: emits_return)
  next
    case (Some v)
    with t r have v: "known_volume D volId v (t @ t')" for t' by (auto elim!: known_volume_mono)
    have "emits D (do {
          d \<leftarrow> GetDsm (kv_DsmIp v);
          case d of
            Inl e \<Rightarrow> State_Monad.return (Some (Status Internal))
          | Inr dsm \<Rightarrow> delete_found env dsm v }) (\<lambda>r t'. ?Q r (t @ t'))"
    proof (rule emits_bind [OF GetDsm_emits], rule emits_case_sum, rule emits_return, use q in force)
      fix d :: "err + DSM" and dsm and t1 :: "call list"
      assume d: "t1 = [] \<and> (case d of Inl e \<Rightarrow> map_of D (kv_DsmIp v) = None \<and>
            e = FmtError ''Requested dsm [%s] does not exist''
          | Inr dsm \<Rightarrow> map_of D (kv_DsmIp v) = Some dsm)" "d = Inr dsm"
      show "emits D (delete_found env dsm v) (\<lambda>r t'. ?Q r (t @ t1 @ t'))"
        by (rule emits_mono [OF delete_found_emits]) (use d q v in auto)
    qed
    with Some show ?thesis by simp
  qed
qed


text \<open>C3: when \<^verbatim>\<open>DeleteVolume\<close> reports success, either every storage system was heard and none
  has the volume, or the deletion of the volume's share, namespace or LUN was requested.
  In particular a storage system that did not answer never leads to a success.\<close>

theorem DeleteVolume_success:
  "emits D (DeleteVolume env volId) (\<lambda>r t. r = None \<longrightarrow> no_volume D volId t \<or>
     (\<exists>v dsm. known_volume D volId v t \<and> map_of D (kv_DsmIp v) = Some dsm \<and>
        (Ip dsm, main_resource v) \<in> deleted t))"
  by (rule emits_mono [OF DeleteVolume_contract]) blast

subsection \<open>DeleteSnapshot\<close>

definition snapshot_resource :: "K8sSnapshotRespSpec \<Rightarrow> res" where
  "snapshot_resource s = (if ks_Protocol s = ProtocolSmb \<or> ks_Protocol s = ProtocolNfs
     then ResShareSnap (ks_ParentName s) (ks_Time s)
     else if ks_Protocol s = ProtocolIscsi then ResLunSnap (ks_Uuid s) else ResNsSnap (ks_Uuid s))"

lemma delete_found_snapshot_emits:
  assumes "ks_Uuid s = uuid"
  shows "emits D (delete_found_snapshot env dsm uuid s)
     (\<lambda>_ t. made False t = {} \<and> deleted t \<subseteq> {(Ip dsm, snapshot_resource s)})"
proof -
  have gone: "emits D (delete_or_gone (SnapshotDelete env dsm u) (SnapshotGet env dsm u) gone
        (State_Monad.return None)) (\<lambda>_ t. made False t = {} \<and> deleted t \<subseteq> {(Ip dsm, ResLunSnap u)})"
    "emits D (delete_or_gone (NamespaceSnapshotDelete env dsm u) (NamespaceSnapshotGet env dsm u) gone
        (State_Monad.return None)) (\<lambda>_ t. made False t = {} \<and> deleted t \<subseteq> {(Ip dsm, ResNsSnap u)})"
    for u gone
    by (rule delete_or_gone_bound [OF iscsi_drops(3) iscsi_reads(5) nothing_more]
        delete_or_gone_bound [OF nvme_drops(3) nvme_reads(4) nothing_more])+
  have share: "emits D (do {
       r \<leftarrow> ShareSnapshotDelete env dsm (ks_Time s) (ks_ParentName s);
       case r of
         Inl e \<Rightarrow> do {
           s' \<leftarrow> getSMBorNFSSnapshot env (ks_Uuid s);
           State_Monad.return (if s' = None then None else Some e) }
       | Inr _ \<Rightarrow> State_Monad.return None })
     (\<lambda>_ t. made False t = {} \<and> deleted t \<subseteq> {(Ip dsm, ResShareSnap (ks_ParentName s) (ks_Time s))})"
    by (rule emits_bind [OF share_drops(2)], rule emits_case_sum,
        rule emits_bind [OF snapshot_lookup_reads(4)]; rule emits_return)
      (auto simp: drops_def quiet_trace split: if_splits)
  show ?thesis
    unfolding delete_found_snapshot_def assms [symmetric]
    by (rule emits_if, rule emits_mono [OF share], simp add: snapshot_resource_def,
        rule emits_if, rule emits_mono [OF gone(1)], simp add: snapshot_resource_def,
        rule emits_if, rule emits_if, rule nothing_more, rule emits_mono [OF gone(2)],
        simp add: snapshot_resource_def, rule nothing_more)
qed

text \<open>C24: \<^verbatim>\<open>DeleteSnapshot\<close> creates nothing, and deletes at most the one snapshot with the given
  uuid that a storage system reported during this call, on the storage system of the
  table that the report names, through the API of its protocol.\<close>

theorem DeleteSnapshot_deletes_only:
  "emits D (DeleteSnapshot env uuid) (\<lambda>r t. made False t = {} \<and>
     (deleted t = {} \<or> (\<exists>s dsm. ks_Uuid s = uuid \<and> known_snapshot D s t \<and>
        map_of D (ks_DsmIp s) = Some dsm \<and> deleted t \<subseteq> {(Ip dsm, snapshot_resource s)})))"
    (is "emits D _ (\<lambda>_. ?Q)")
  unfolding DeleteSnapshot_def
proof (rule emits_bind [OF GetSnapshotByUuid_known], rule emits_case_option)
  fix g :: "K8sSnapshotRespSpec option" and t
  assume "list_all quiet t \<and> (case g of None \<Rightarrow> True | Some s \<Rightarrow> ks_Uuid s = uuid \<and> known_snapshot D s t)"
  then show "emits D (State_Monad.return None) (\<lambda>_ t'. ?Q (t @ t'))"
    by (auto intro!: emits_return simp: quiet_trace)
next
  fix g s t
  assume *: "list_all quiet t \<and> (case g of None \<Rightarrow> True | Some s \<Rightarrow> ks_Uuid s = uuid \<and> known_snapshot D s t)"
    and "g = Some s"
  then have q: "made False t = {}" "deleted t = {}" and s: "ks_Uuid s = uuid"
      and known: "known_snapshot D s (t @ t')" for t'
    by (auto simp: quiet_trace elim: known_snapshot_mono)
  show "emits D (do {
         d \<leftarrow> GetDsm (ks_DsmIp s);
         case d of
           Inl e \<Rightarrow> State_Monad.return (Some e)
         | Inr dsm \<Rightarrow> delete_found_snapshot env dsm uuid s }) (\<lambda>_ t'. ?Q (t @ t'))"
  proof (rule emits_bind [OF GetDsm_emits], rule emits_case_sum, rule emits_return, use q in force)
    fix d :: "err + DSM" and dsm and t1 :: "call list"
    assume d: "t1 = [] \<and> (case d of Inl e \<Rightarrow> map_of D (ks_DsmIp s) = None \<and>
          e = FmtError ''Requested dsm [%s] does not exist''
        | Inr dsm \<Rightarrow> map_of D (ks_DsmIp s) = Some dsm)" "d = Inr dsm"
    show "emits D (delete_found_snapshot env dsm uuid s) (\<lambda>_ t'. ?Q (t @ t1 @ t'))"
      by (rule emits_mono [OF delete_found_snapshot_emits [OF s]]) (use d q s known in auto)
  qed
qed

subsection \<open>ExpandVolume\<close>

text \<open>The one request that changes something: the new size in the parameters of the volume's protocol.\<close>

definition expand_params :: "K8sVolumeRespSpec \<Rightarrow> string \<Rightarrow> int64 \<Rightarrow> params" where
  "expand_params v volId newSize =
     (if kv_Protocol v = ProtocolSmb \<or> kv_Protocol v = ProtocolNfs then
        [(''api'', share_api), (''method'', PStr ''set''), v1, (''name'', PQuote (sh_Name (kv_Share v))),
         (''shareinfo'', PJson (enc_ShareUpdateInfo \<lparr>su_Name = sh_Name (kv_Share v),
            su_VolPath = sh_VolPath (kv_Share v), su_QuotaForCreate = Some (BytesToMBCeil newSize)\<rparr>))]
      else if kv_Protocol v = ProtocolNvme then
        [(''api'', ns_api), (''method'', PStr ''set''), v1, (''uuid'', PQuote volId)]
        @ (if newSize > 0 then [(''new_size'', PStr (itoa (sint newSize)))] else [])
      else [(''api'', lun_api), (''method'', PStr ''set''), v1, (''uuid'', PQuote volId),
            (''new_size'', PStr (itoa (sint newSize)))])"

definition expanded_size :: "K8sVolumeRespSpec \<Rightarrow> int64 \<Rightarrow> int64" where
  "expanded_size v newSize = (if kv_Protocol v = ProtocolSmb \<or> kv_Protocol v = ProtocolNfs
     then MBToBytes (BytesToMBCeil newSize) else newSize)"

definition asks_only :: "DSM \<Rightarrow> params \<Rightarrow> call list \<Rightarrow> bool" where
  "asks_only dsm ps t \<longleftrightarrow> list_all (\<lambda>c. carries dsm ps c \<or> c_host c = Ip dsm \<and> is_login c) t"

lemma sent_asks_only: "sent env dsm ps dec r t \<Longrightarrow> asks_only dsm ps t"
  by (simp add: sent_def asks_only_def)

lemma expand_found_emits:
  "emits D (expand_found env dsm volId newSize v) (\<lambda>r t. asks_only dsm (expand_params v volId newSize) t \<and>
     (\<forall>v'. r = Inr v' \<longrightarrow> v' = v\<lparr>kv_SizeInBytes := expanded_size v newSize\<rparr>))"
  unfolding expand_found_def Let_def
proof (rule emits_if)
  assume p: "kv_Protocol v = ProtocolSmb \<or> kv_Protocol v = ProtocolNfs"
  show "emits D (do {
        r \<leftarrow> SetShareQuota env dsm (kv_Share v) (BytesToMBCeil newSize);
        State_Monad.return (case r of
          Inl e \<Rightarrow> Inl (Status Internal)
        | Inr _ \<Rightarrow> Inr (v\<lparr>kv_SizeInBytes := MBToBytes (BytesToMBCeil newSize)\<rparr>)) })
     (\<lambda>r t. asks_only dsm (expand_params v volId newSize) t \<and>
       (\<forall>v'. r = Inr v' \<longrightarrow> v' = v\<lparr>kv_SizeInBytes := expanded_size v newSize\<rparr>))"
    unfolding SetShareQuota_def ShareSet_def
    by (rule share.finish)
      (use p in \<open>auto simp: not_login_def expand_params_def expanded_size_def dest: sent_asks_only split: sum.splits\<close>)
next
  assume p: "\<not> (kv_Protocol v = ProtocolSmb \<or> kv_Protocol v = ProtocolNfs)"
  show "emits D (if kv_Protocol v = ProtocolNvme then
        (if \<not> SupportNvmeof dsm then State_Monad.return (Inl (Status Internal))
         else do {
           r \<leftarrow> NamespaceSet env dsm \<lparr>nst_Uuid = volId, nst_NewSize = newSize\<rparr>;
           State_Monad.return (case r of
             Inl e \<Rightarrow> Inl (Status Internal)
           | Inr _ \<Rightarrow> Inr (v\<lparr>kv_SizeInBytes := newSize\<rparr>)) })
      else do {
        r \<leftarrow> LunUpdate env dsm \<lparr>lu_Uuid = volId, lu_NewSize = newSize\<rparr>;
        State_Monad.return (case r of
          Inl e \<Rightarrow> Inl (Status Internal)
        | Inr _ \<Rightarrow> Inr (v\<lparr>kv_SizeInBytes := newSize\<rparr>)) })
     (\<lambda>r t. asks_only dsm (expand_params v volId newSize) t \<and>
       (\<forall>v'. r = Inr v' \<longrightarrow> v' = v\<lparr>kv_SizeInBytes := expanded_size v newSize\<rparr>))"
  proof (rule emits_if, rule emits_if, rule emits_return, simp add: asks_only_def)
    assume n: "kv_Protocol v = ProtocolNvme"
    show "emits D (do {
           r \<leftarrow> NamespaceSet env dsm \<lparr>nst_Uuid = volId, nst_NewSize = newSize\<rparr>;
           State_Monad.return (case r of
             Inl e \<Rightarrow> Inl (Status Internal)
           | Inr _ \<Rightarrow> Inr (v\<lparr>kv_SizeInBytes := newSize\<rparr>)) })
       (\<lambda>r t. asks_only dsm (expand_params v volId newSize) t \<and>
         (\<forall>v'. r = Inr v' \<longrightarrow> v' = v\<lparr>kv_SizeInBytes := expanded_size v newSize\<rparr>))"
      unfolding NamespaceSet_def
      by (rule emits_bind [OF san_all_emits], simp add: not_login_def, rule emits_return)
        (use p n in \<open>auto simp: expand_params_def expanded_size_def dest: sent_asks_only split: sum.splits if_splits\<close>)
  next
    assume n: "kv_Protocol v \<noteq> ProtocolNvme"
    show "emits D (do {
        r \<leftarrow> LunUpdate env dsm \<lparr>lu_Uuid = volId, lu_NewSize = newSize\<rparr>;
        State_Monad.return (case r of
          Inl e \<Rightarrow> Inl (Status Internal)
        | Inr _ \<Rightarrow> Inr (v\<lparr>kv_SizeInBytes := newSize\<rparr>)) })
       (\<lambda>r t. asks_only dsm (expand_params v volId newSize) t \<and>
         (\<forall>v'. r = Inr v' \<longrightarrow> v' = v\<lparr>kv_SizeInBytes := expanded_size v newSize\<rparr>))"
      unfolding LunUpdate_def
      by (rule iscsi.finish)
        (use p n in \<open>auto simp: not_login_def expand_params_def expanded_size_def dest: sent_asks_only split: sum.splits\<close>)
  qed
qed

lemma ExpandVolume_contract:
  "emits D (ExpandVolume env volId newSize) (\<lambda>r t. \<exists>t1 t2. t = t1 @ t2 \<and> list_all quiet t1 \<and>
     (t2 = [] \<and> isl r \<or> (\<exists>v dsm. known_volume D volId v t1 \<and> map_of D (kv_DsmIp v) = Some dsm \<and>
        sint (kv_SizeInBytes v) \<le> sint newSize \<and> asks_only dsm (expand_params v volId newSize) t2 \<and>
        (case r of Inl e \<Rightarrow> True | Inr v' \<Rightarrow> v' = v\<lparr>kv_SizeInBytes := expanded_size v newSize\<rparr>))))"
    (is "emits D _ ?Q")
proof -
  have stop: "?Q (Inl e) (t @ t')" if "list_all quiet t" "t' = []" for e t t'
    using that by (intro exI [of _ t] exI [of _ "[]"]) simp
  show ?thesis
    unfolding ExpandVolume_def
  proof (rule emits_bind [OF GetVolume_contract], rule emits_case_sum, rule emits_return, rule stop, simp, simp)
    fix r x t
    assume t: "list_all quiet t \<and> (case r of Inl e \<Rightarrow> True | Inr None \<Rightarrow> no_volume D volId t
        | Inr (Some v) \<Rightarrow> known_volume D volId v t)" and r: "r = Inr x"
    show "emits D (case x of None \<Rightarrow> State_Monad.return (Inl (Status InvalidArgument))
        | Some k8sVolume \<Rightarrow>
            if sint (kv_SizeInBytes k8sVolume) > sint newSize
            then State_Monad.return (Inl (Status InvalidArgument))
            else do {
              d \<leftarrow> GetDsm (kv_DsmIp k8sVolume);
              case d of
                Inl e \<Rightarrow> State_Monad.return (Inl (Status Internal))
              | Inr dsm \<Rightarrow> expand_found env dsm volId newSize k8sVolume }) (\<lambda>r t'. ?Q r (t @ t'))"
    proof (rule emits_case_option, rule emits_return, use t stop in simp, rule emits_if, rule emits_return,
        use t stop in simp, rule emits_bind [OF GetDsm_emits], rule emits_case_sum, rule emits_return,
        use t stop in simp)
      fix v and d :: "err + DSM" and dsm and t1 :: "call list"
      assume v: "x = Some v" "\<not> sint newSize < sint (kv_SizeInBytes v)"
        and d: "t1 = [] \<and> (case d of Inl e \<Rightarrow> map_of D (kv_DsmIp v) = None \<and>
            e = FmtError ''Requested dsm [%s] does not exist''
          | Inr dsm \<Rightarrow> map_of D (kv_DsmIp v) = Some dsm)" "d = Inr dsm"
      have known: "list_all quiet t \<and> known_volume D volId v t" using t r v by simp
      show "emits D (expand_found env dsm volId newSize v) (\<lambda>r t'. ?Q r (t @ t1 @ t'))"
      proof (rule emits_mono [OF expand_found_emits])
        fix r :: "err + K8sVolumeRespSpec" and t2
        assume "asks_only dsm (expand_params v volId newSize) t2 \<and>
          (\<forall>v'. r = Inr v' \<longrightarrow> v' = v\<lparr>kv_SizeInBytes := expanded_size v newSize\<rparr>)"
        with known v d show "?Q r (t @ t1 @ t2)"
          by (intro exI [of _ t] exI [of _ t2]) (auto split: sum.splits)
      qed
    qed
  qed
qed


lemma ExpandVolume_ok:
  assumes "\<exists>t1 t2. t = t1 @ t2 \<and> list_all quiet t1 \<and>
     (t2 = [] \<and> isl r \<or> (\<exists>v dsm. known_volume D volId v t1 \<and> map_of D (kv_DsmIp v) = Some dsm \<and>
        sint (kv_SizeInBytes v) \<le> sint newSize \<and> asks_only dsm (expand_params v volId newSize) t2 \<and>
        (case r of Inl e \<Rightarrow> True | Inr v' \<Rightarrow> v' = v\<lparr>kv_SizeInBytes := expanded_size v newSize\<rparr>)))"
    and "r = Inr v'"
  shows "\<exists>v. v' = v\<lparr>kv_SizeInBytes := expanded_size v newSize\<rparr>"
  using assms by auto


subsection \<open>Runs\<close>

text \<open>A storage system with one LUN volume of a gigabyte, mapped by one target, that accepts
  what it is asked for after the lookup.\<close>

definition one_lun :: "nat \<Rightarrow> reply" where
  "one_lun n =
     (if n = 1 then api_ok (JObj [(''targets'', JArr [JObj [(''target_id'', JNum 7),
         (''mapped_luns'', JArr [JObj [(''lun_uuid'', JStr ''u1'')]])]])])
      else if n = 2 then api_ok (JObj [(''lun'', JObj [(''name'', JStr ''k8s-csi-pvc-1''),
         (''uuid'', JStr ''u1''), (''size'', JNum 1073741824)])])
      else api_ok JNull)"

definition one_lun_env :: "nat env" where
  "one_lun_env = script_env one_lun"

lemma one_lun_request [simp]:
  assumes "\<not> Https dsm"
  shows "run_state (sendRequest one_lun_env dsm [] dec ps path) w =
     (interpret_reply dec (one_lun (nas w)), w\<lparr>nas := nas w + 1, calls := calls w @
        [\<lparr>c_host = Ip dsm, c_path = path, c_query = ps, c_cookie = cookie_of (sids w (Ip dsm)),
          c_reply = one_lun (nas w)\<rparr>]\<rparr>)"
  unfolding one_lun_env_def
  by (rule run_sendRequest_script) (use assms in \<open>simp_all add: one_lun_def split: option.split\<close>)

lemma one_lun_simps [simp]:
  "env_retries one_lun_env ms n = 2" "env_map_order one_lun_env n = ([], n)"
  by (simp_all add: one_lun_env_def)

lemmas lookup_run = GetVolume_def findVolume_def findSMBorNFSVolume_def range_dsms_def find_share_dsm_def
  IsUC_def ShareList_def listISCSIVolumes_def iscsi_dsm_def iscsi_mapping_def TargetList_def LunGet_def
  GetDsm_def add_vol_def DsmLunToK8sVolume_def DevicePrefix_def dec_field_def dec_TargetInfo_def
  dec_MappedLun_def dec_LunInfo_def jfield_def request_run numeral_2_eq_2 Let_def

lemma one_lun_found:
  "\<exists>v w. run_state (GetVolume one_lun_env ''u1'') world0 = (Inr (Some v), w) \<and> kv_DsmIp v = ''10.0.0.1'' \<and>
     kv_SizeInBytes v = 1073741824 \<and> kv_Protocol v = ProtocolIscsi \<and> nas w = 3 \<and> dsms w = dsms world0"
  by (simp add: lookup_run one_lun_def)


theorem DeleteVolume_success_witness:
  "result_of (DeleteVolume empty_env ''u1'') world0 = None \<and>
   (\<exists>t. calls (after (DeleteVolume empty_env ''u1'') world0) = t \<and>
     (no_volume (dsms world0) ''u1'' t \<or> (\<exists>v dsm. known_volume (dsms world0) ''u1'' v t \<and>
        map_of (dsms world0) (kv_DsmIp v) = Some dsm \<and> (Ip dsm, main_resource v) \<in> deleted t)))"
proof -
  let ?m = "DeleteVolume empty_env ''u1''"
  obtain w where "run_state (GetVolume empty_env ''u1'') world0 = (Inr None, w)"
    unfolding GetVolume_def using run_empty_world by metis
  then have r: "result_of ?m world0 = None"
    by (simp add: DeleteVolume_def)
  from emitsD [OF DeleteVolume_success [of "dsms world0" empty_env "''u1''"], of world0, OF refl] obtain t where
    t: "calls (after ?m world0) = calls world0 @ t"
      "result_of ?m world0 = None \<longrightarrow> no_volume (dsms world0) ''u1'' t \<or>
        (\<exists>v dsm. known_volume (dsms world0) ''u1'' v t \<and> map_of (dsms world0) (kv_DsmIp v) = Some dsm \<and>
           (Ip dsm, main_resource v) \<in> deleted t)"
    by (elim exE conjE)
  show ?thesis
    by (rule conjI [OF r], rule exI [of _ t], rule conjI [OF _ mp [OF t(2) r]]) (use t(1) in simp)
qed

text \<open>A network that answers nothing.\<close>

definition mute_env :: "nat env" where
  "mute_env = script_env (\<lambda>_. NoReply)"

lemma mute_request [simp]:
  assumes "\<not> Https dsm"
  shows "run_state (sendRequest mute_env dsm [] dec ps path) w =
     ((0, Inl (HttpError ''no response'')), w\<lparr>nas := nas w + 1, calls := calls w @
        [\<lparr>c_host = Ip dsm, c_path = path, c_query = ps, c_cookie = cookie_of (sids w (Ip dsm)),
          c_reply = NoReply\<rparr>]\<rparr>)"
  unfolding mute_env_def
  by (subst run_sendRequest_script) (use assms in simp_all)

lemma mute_simps [simp]:
  "env_retries mute_env ms n = 2" "env_map_order mute_env n = ([], n)"
  by (simp_all add: mute_env_def)


end
