(* ===== verification/Table.thy ===== *)
theory Table
  imports Service
begin

text \<open>
  The table of storage systems as a state: its invariant (one entry per address, under
  the address of the entry), kept by \<^verbatim>\<open>AddDsm\<close>, the only operation that changes it; what
  \<^verbatim>\<open>AddDsm\<close> does to it on every path; and the logouts of \<^verbatim>\<open>RemoveAllDsms\<close>.
\<close>

definition table_ok :: "(string \<times> DSM) list \<Rightarrow> bool" where
  "table_ok D \<longleftrightarrow> distinct (map fst D) \<and> (\<forall>(k, dsm) \<in> set D. k = Ip dsm)"

lemma table_ok_lookup: "table_ok D \<Longrightarrow> map_of D ip = Some dsm \<Longrightarrow> Ip dsm = ip"
  by (auto simp: table_ok_def dest: map_of_SomeD)

lemma table_ok_entry: "table_ok D \<Longrightarrow> dsm \<in> snd ` set D \<Longrightarrow> map_of D (Ip dsm) = Some dsm"
  by (auto simp: table_ok_def)

lemma table_ok_add:
  "table_ok D \<Longrightarrow> map_of D (Ip dsm) = None \<Longrightarrow> table_ok (D @ [(Ip dsm, dsm)])"
  by (auto simp: table_ok_def map_of_eq_None_iff image_iff)

text \<open>What \<^verbatim>\<open>AddDsm\<close> adds keeps the connection settings of the configuration.\<close>

definition configured :: "ClientInfo \<Rightarrow> DSM \<Rightarrow> bool" where
  "configured client dsm \<longleftrightarrow> (\<exists>nvme hostname firmware. dsm = (new_DSM client)
     \<lparr>SupportNvmeof := nvme, Hostname := hostname, FirmwareVer := firmware\<rparr>)"

lemma FillSystemInfo_configured:
  assumes "run_state (FillSystemInfo env (new_DSM client)) w = (Inr dsm', w')"
  shows "configured client dsm'"
  using assms
  by (auto simp: FillSystemInfo_def Let_def case_prod_beta configured_def split: sum.splits prod.splits)

lemma configured_Ip: "configured client dsm \<Longrightarrow> Ip dsm = cl_Host client"
  by (auto simp: configured_def new_DSM_def)

lemma keeps_table: "emits (dsms w) m Q \<Longrightarrow> dsms (after m w) = dsms w"
  by (auto simp: emits_def)

lemma AddDsm_cases:
  "let r = result_of (AddDsm env client) w; D' = dsms (after (AddDsm env client) w) in
     (map_of (dsms w) (cl_Host client) \<noteq> None \<and> r = None \<and> D' = dsms w) \<or>
     (map_of (dsms w) (cl_Host client) = None \<and> r \<noteq> None \<and> D' = dsms w) \<or>
     (map_of (dsms w) (cl_Host client) = None \<and> r = None \<and>
        (\<exists>dsm. configured client dsm \<and> D' = dsms w @ [(Ip dsm, dsm)]))"
proof (cases "map_of (dsms w) (cl_Host client)")
  case (Some d)
  then show ?thesis by (simp add: AddDsm_def)
next
  case None
  let ?d = "new_DSM client"
  obtain u w1 where w1: "run_state (set_sid ?d []) w = (u, w1)" by (meson surj_pair)
  obtain l w2 where w2: "run_state (Login env ?d) w1 = (l, w2)" by (meson surj_pair)
  obtain f w3 where w3: "run_state (FillSystemInfo env ?d) w2 = (f, w3)" by (meson surj_pair)
  have d1: "dsms w1 = dsms w" using w1 by (auto simp: set_sid_def)
  have d2: "dsms w2 = dsms w" using keeps_table [OF Login_emits [of _ env ?d], of w1] w2 d1 by simp
  have d3: "dsms w3 = dsms w" using keeps_table [OF FillSystemInfo_reads [of _ env ?d], of w2] w3 d2 by simp
  show ?thesis
  proof (cases l)
    case (Some e)
    with None w1 w2 d2 show ?thesis by (simp add: AddDsm_def Let_def)
  next
    case l: None
    show ?thesis
    proof (cases f)
      case (Inl e)
      with None l w1 w2 w3 d3 show ?thesis by (simp add: AddDsm_def Let_def)
    next
      case (Inr dsm)
      with w3 have "configured client dsm" by (auto intro: FillSystemInfo_configured)
      with None l Inr w1 w2 w3 d3 show ?thesis by (auto simp: AddDsm_def Let_def)
    qed
  qed
qed

text \<open>The table keeps its invariant: whatever the storage system answers during
  \<^verbatim>\<open>AddDsm\<close>, afterwards every address has at most one entry, the entry of that address.\<close>

theorem AddDsm_invariant:
  assumes "table_ok (dsms w)"
  shows "table_ok (dsms (after (AddDsm env client) w))"
proof -
  have "table_ok (dsms w @ [(Ip dsm, dsm)])"
    if "configured client dsm" "map_of (dsms w) (cl_Host client) = None" for dsm
    using table_ok_add [OF assms, of dsm] configured_Ip [OF that(1)] that(2) by simp
  then show ?thesis using AddDsm_cases [of env client w] assms by (auto simp: Let_def)
qed

theorem AddDsm_invariant_witness:
  "table_ok (dsms (after (AddDsm empty_env \<lparr>cl_Host = ''10.0.0.2'', cl_Port = 5000, cl_Https = False,
     cl_Username = ''csi'', cl_Password = ''pw'', cl_TLSCACert = '''', cl_TLSServerName = '''',
     cl_InsecureSkipVerify = False\<rparr>) world0))"
  by (rule AddDsm_invariant) (simp add: table_ok_def)

text \<open>\<^verbatim>\<open>AddDsm\<close> adds an entry exactly when the address was not in the table and it reports
  no error, and then \<^verbatim>\<open>GetDsm\<close> of that address finds it, with the connection and TLS settings
  of the configuration; in every other case the table is as before. An error leaves no
  half-registered storage system behind.\<close>

theorem AddDsm_registers:
  "let r = result_of (AddDsm env client) w; w' = after (AddDsm env client) w in
     if map_of (dsms w) (cl_Host client) = None \<and> r = None
     then \<exists>dsm. result_of (GetDsm (cl_Host client)) w' = Inr dsm \<and> configured client dsm \<and>
       dsms w' = dsms w @ [(cl_Host client, dsm)]
     else dsms w' = dsms w"
  using AddDsm_cases [of env client w] configured_Ip [of client]
  by (auto simp: Let_def GetDsm_def map_add_Some_iff map_of_append split: option.split)

subsection \<open>Logging out\<close>

definition is_logout :: "DSM \<Rightarrow> call \<Rightarrow> bool" where
  "is_logout dsm c \<longleftrightarrow> carries dsm [(''api'', PStr ''SYNO.API.Auth''), (''method'', PStr ''logout''),
     (''version'', PStr ''1'')] c"

lemma Logout_emits: "emits D (Logout env dsm) (\<lambda>r t. list_all (is_logout dsm) t \<and> length t \<le> 1)"
  unfolding Logout_def
  by (rule emits_bind [OF sends_emits], rule emits_case_sum)
    (auto intro!: emits_return emits_bind [OF set_sid_emits] simp: is_logout_def carries_def)

lemma logout_tries_emits:
  "emits D (logout_tries n env dsm) (\<lambda>_ t. list_all (is_logout dsm) t \<and> length t \<le> n)"
proof (induction n)
  case 0
  show ?case by (simp, rule emits_return) simp
next
  case (Suc n)
  show ?case
    by (simp, rule emits_bind [OF Logout_emits], rule emits_if, rule emits_return, simp,
        rule emits_mono [OF Suc]) auto
qed

lemma length_permute_by [simp]: "length (permute_by ks xs) = length xs"
proof (induction ks xs rule: permute_by.induct)
  case (3 k ks x xs)
  have "k mod length (x # xs) < length (x # xs)" by (rule mod_less_divisor) simp
  moreover have "length (take i ys @ drop (Suc i) ys) = length ys - 1" if "i < length ys" for i and ys :: "'a list"
    using that by simp
  ultimately have "length (take (k mod length (x # xs)) (x # xs) @ drop (Suc (k mod length (x # xs))) (x # xs)) =
      length (x # xs) - 1"
    by blast
  with 3 [OF refl] show ?case by (simp add: Let_def del: take_Suc_Cons drop_Suc_Cons length_append)
qed simp_all

lemma RemoveAllDsms_emits:
  "emits D (RemoveAllDsms env) (\<lambda>_ t. length t \<le> 3 * length D \<and>
     list_all (\<lambda>c. \<exists>dsm \<in> snd ` set D. is_logout dsm c) t)"
  unfolding RemoveAllDsms_def
proof (rule emits_bind)
  show "emits D (range_dsms env) (\<lambda>ds t. t = [] \<and> set ds = snd ` set D \<and> length ds = length D)"
    by (simp add: emits_def range_dsms_def Let_def case_prod_beta)
  fix ds and t0 :: "call list"
  assume ds: "t0 = [] \<and> set ds = snd ` set D \<and> length ds = length D"
  let ?Inv = "\<lambda>pre (_ :: unit) t. length t \<le> 3 * length pre \<and>
    list_all (\<lambda>c. \<exists>dsm \<in> snd ` set D. is_logout dsm c) t"
  have "emits D (for_each (\<lambda>dsm u. logout_tries 3 env dsm) ds ()) (\<lambda>u t. ?Inv ([] @ ds) u ([] @ t))"
  proof (rule for_each_emits [where Inv = ?Inv])
    fix dsm u t and pre :: "DSM list"
    assume "dsm \<in> set ds" and inv: "?Inv pre u t"
    then show "emits D (logout_tries 3 env dsm) (\<lambda>u' t'. ?Inv (pre @ [dsm]) u' (t @ t'))"
      using ds by (intro emits_mono [OF logout_tries_emits]) (auto simp: list_all_iff)
  qed simp
  with ds show "emits D (for_each (\<lambda>dsm u. logout_tries 3 env dsm) ds ())
      (\<lambda>_ t. length (t0 @ t) \<le> 3 * length D \<and> list_all (\<lambda>c. \<exists>dsm \<in> snd ` set D. is_logout dsm c) (t0 @ t))"
    by (elim emits_mono) auto
qed

text \<open>\<^verbatim>\<open>RemoveAllDsms\<close> only logs out, from storage systems of the table, three times each at
  most; it leaves the table alone.\<close>

theorem RemoveAllDsms_bound:
  "emits D (RemoveAllDsms env) (\<lambda>_ t. length t \<le> 3 * length D \<and>
     list_all (\<lambda>c. \<exists>dsm \<in> snd ` set D. is_logout dsm c) t)"
  by (rule RemoveAllDsms_emits)

subsection \<open>The table as a registry\<close>

text \<open>
  What the table promises, without the state of the connections: a registry of the
  configured storage systems, a map from an address to its settings, that keeps the first
  settings it is given for an address.
\<close>

definition client_of :: "DSM \<Rightarrow> ClientInfo" where
  "client_of dsm = \<lparr>cl_Host = Ip dsm, cl_Port = Port dsm, cl_Https = Https dsm, cl_Username = Username dsm,
     cl_Password = Password dsm, cl_TLSCACert = TLSCACert dsm, cl_TLSServerName = TLSServerName dsm,
     cl_InsecureSkipVerify = InsecureSkipVerify dsm\<rparr>"

definition registry :: "(string \<times> DSM) list \<Rightarrow> string \<rightharpoonup> ClientInfo" where
  "registry D ip = map_option client_of (map_of D ip)"

definition register :: "ClientInfo \<Rightarrow> (string \<rightharpoonup> ClientInfo) \<Rightarrow> string \<rightharpoonup> ClientInfo" where
  "register client m = (if m (cl_Host client) = None then m(cl_Host client \<mapsto> client) else m)"

lemma client_of_configured: "configured client dsm \<Longrightarrow> client_of dsm = client"
  by (auto simp: configured_def new_DSM_def client_of_def)

lemma AddDsm_registry:
  "registry (dsms (after (AddDsm env client) w)) =
     (if result_of (AddDsm env client) w = None then register client (registry (dsms w)) else registry (dsms w))"
  using AddDsm_cases [of env client w] client_of_configured [of client] configured_Ip [of client]
  by (auto simp: Let_def registry_def register_def fun_eq_iff map_add_def split: option.splits)

text \<open>C21: The table refines the registry: \<^verbatim>\<open>AddDsm\<close> registers the configuration when it reports no
  error and changes nothing otherwise, \<^verbatim>\<open>GetDsm\<close> is the lookup, an error exactly for an address
  that was never registered, and \<^verbatim>\<open>RemoveAllDsms\<close> keeps every entry.\<close>

theorem table_refines_registry:
  "registry (dsms (after (AddDsm env client) w)) =
     (if result_of (AddDsm env client) w = None then register client (registry (dsms w)) else registry (dsms w)) \<and>
   registry (dsms w) ip = (case result_of (GetDsm ip) w of Inl e \<Rightarrow> None | Inr dsm \<Rightarrow> Some (client_of dsm)) \<and>
   registry (dsms (after (RemoveAllDsms env) w)) = registry (dsms w)"
proof (intro conjI)
  show "registry (dsms w) ip = (case result_of (GetDsm ip) w of Inl e \<Rightarrow> None | Inr dsm \<Rightarrow> Some (client_of dsm))"
    by (simp add: GetDsm_def registry_def split: option.split)
  show "registry (dsms (after (RemoveAllDsms env) w)) = registry (dsms w)"
    by (simp add: keeps_table [OF RemoveAllDsms_emits])
qed (rule AddDsm_registry)

end
