(* ===== verification/Choice.thy ===== *)
theory Choice
  imports Lifecycle Table
begin

text \<open>
  \<^verbatim>\<open>CreateVolume\<close> of \<^verbatim>\<open>pkg/dsm/service/dsm.go\<close> as a whole: the loop over the storage systems
  composed with the rollback contracts of the creating functions. What an attempt made on
  a storage system that failed is undone before the next one is tried, so a failed call
  leaves nothing behind and a successful one leaves only what the last attempt made.
\<close>

subsection \<open>Cleaning up after an attempt\<close>

text \<open>Targets, subsystems and shares are undone by the identity they were created under,
  LUNs and namespaces by looking their name up (\<open>lun_undone\<close>, \<open>ns_undone\<close>).\<close>

definition by_identity :: "res \<Rightarrow> bool" where
  "by_identity k \<longleftrightarrow> is_mapping k \<or> (\<exists>n. k = ResShare n)"

definition part_of :: "(call list \<Rightarrow> bool) \<Rightarrow> call list \<Rightarrow> bool" where
  "part_of P t \<longleftrightarrow> (\<exists>a b c. t = a @ b @ c \<and> P b)"

definition cleaned :: "'n env \<Rightarrow> string \<Rightarrow> call list \<Rightarrow> bool" where
  "cleaned env name t \<longleftrightarrow>
     (\<forall>h k. (h, k) \<in> made True t \<and> by_identity k \<longrightarrow> (h, k) \<in> deleted t) \<and>
     (\<forall>h k. (h, k) \<in> deleted t \<and> by_identity k \<longrightarrow> (h, k) \<in> made False t) \<and>
     (\<forall>h u. (h, ResLun u) \<in> made True t \<longrightarrow> (\<exists>dsm. Ip dsm = h \<and> part_of (lun_undone env dsm name) t)) \<and>
     (\<forall>h u. (h, ResNs u) \<in> made True t \<longrightarrow> (\<exists>dsm. Ip dsm = h \<and> part_of (ns_undone env dsm name) t)) \<and>
     (\<forall>h u. (h, ResLun u) \<in> deleted t \<longrightarrow> (\<exists>u'. (h, ResLun u') \<in> made False t)) \<and>
     (\<forall>h u. (h, ResNs u) \<in> deleted t \<longrightarrow> (\<exists>u'. (h, ResNs u') \<in> made False t))"

lemma part_of_append: "part_of P t \<or> part_of P t' \<Longrightarrow> part_of P (t @ t')"
  unfolding part_of_def by (metis append_assoc)

lemma part_of_self: "P t2 \<Longrightarrow> part_of P (t1 @ t2)"
  unfolding part_of_def by (metis append_Nil2)

lemma cleaned_harmless: "harmless t \<Longrightarrow> cleaned env name t"
  by (simp add: cleaned_def harmlessD)

lemma cleaned_append:
  assumes "cleaned env name t" "cleaned env name t'"
  shows "cleaned env name (t @ t')"
proof -
  note c = assms [unfolded cleaned_def]
  have part: "\<exists>dsm. Ip dsm = h \<and> part_of (P dsm) (t @ t')"
    if "(\<exists>dsm. Ip dsm = h \<and> part_of (P dsm) t) \<or> (\<exists>dsm. Ip dsm = h \<and> part_of (P dsm) t')" for P h
    using that part_of_append by metis
  have 1: "(h, k) \<in> deleted (t @ t')" if "(h, k) \<in> made True (t @ t')" "by_identity k" for h k
    using that c by (simp, metis)
  have 2: "(h, k) \<in> made False (t @ t')" if "(h, k) \<in> deleted (t @ t')" "by_identity k" for h k
    using that c by (simp, metis)
  have 3: "\<exists>dsm. Ip dsm = h \<and> part_of (lun_undone env dsm name) (t @ t')"
    if "(h, ResLun u) \<in> made True (t @ t')" for h u
    by (rule part) (use that c in \<open>simp, metis\<close>)
  have 4: "\<exists>dsm. Ip dsm = h \<and> part_of (ns_undone env dsm name) (t @ t')"
    if "(h, ResNs u) \<in> made True (t @ t')" for h u
    by (rule part) (use that c in \<open>simp, metis\<close>)
  have 5: "\<exists>u'. (h, ResLun u') \<in> made False (t @ t')" if "(h, ResLun u) \<in> deleted (t @ t')" for h u
    using that c by (simp, metis)
  have 6: "\<exists>u'. (h, ResNs u') \<in> made False (t @ t')" if "(h, ResNs u) \<in> deleted (t @ t')" for h u
    using that c by (simp, metis)
  show ?thesis
    unfolding cleaned_def using 1 2 3 4 5 6 by blast
qed

text \<open>
  What a creation that failed leaves when it was to make a resource \<open>f x\<close> on one storage
  system: mappings are deleted exactly, the resource is undone if it was made.
\<close>

definition clean_block :: "DSM \<Rightarrow> ('b \<Rightarrow> res) \<Rightarrow> (call list \<Rightarrow> bool) \<Rightarrow> call list \<Rightarrow> bool" where
  "clean_block dsm f U t \<longleftrightarrow>
     (\<forall>hk \<in> made True t. is_mapping (snd hk) \<longrightarrow> hk \<in> deleted t) \<and>
     (\<forall>hk \<in> deleted t. is_mapping (snd hk) \<longrightarrow> hk \<in> made False t) \<and>
     ((\<exists>x. (Ip dsm, f x) \<in> made True t) \<longrightarrow> part_of U t) \<and>
     (\<forall>hk \<in> made False t. \<not> is_mapping (snd hk) \<longrightarrow> fst hk = Ip dsm \<and> snd hk \<in> range f) \<and>
     (\<forall>hk \<in> deleted t. \<not> is_mapping (snd hk) \<longrightarrow> fst hk = Ip dsm \<and> snd hk \<in> range f \<and>
        (\<exists>x. (Ip dsm, f x) \<in> made False t))"

lemma block_cleaned:
  assumes "rolled_back env dsm f U (Inl e :: err + 'a) t" "\<And>x. \<not> is_mapping (f x)"
    and "\<And>t. U t \<Longrightarrow> made False t = {} \<and> (\<forall>hk \<in> deleted t. hk \<in> {Ip dsm} \<times> range f)"
  shows "clean_block dsm f U t"
proof -
  have b: "(\<forall>hk \<in> made True t. is_mapping (snd hk) \<longrightarrow> hk \<in> deleted t) \<and>
      (\<forall>hk \<in> deleted t. is_mapping (snd hk) \<longrightarrow> hk \<in> made False t) \<and>
      ((\<exists>x. (Ip dsm, f x) \<in> made True t) \<longrightarrow> (\<exists>t1 t2. t = t1 @ t2 \<and> U t2)) \<and>
      ((\<exists>hk \<in> deleted t. \<not> is_mapping (snd hk)) \<longrightarrow> (\<exists>x. (Ip dsm, f x) \<in> made False t))"
    using rolled_back_block [OF assms] by simp
  from assms(1) obtain t1 t2 t3 new where t: "t = t1 @ t2 @ t3" "fresh env dsm f new t1"
      "tidy (Inl e :: err + 'a) t2" "if new then U t3 else t3 = []"
    unfolding rolled_back_def by auto
  have t3: "made False t3 = {} \<and> (\<forall>hk \<in> deleted t3. hk \<in> {Ip dsm} \<times> range f)"
    using t(4) assms(3) [of t3] by (cases new) simp_all
  have "fst hk = Ip dsm \<and> snd hk \<in> range f" if "hk \<in> made False t" "\<not> is_mapping (snd hk)" for hk
    using that t(1,2,3) t3 by (auto simp: fresh_def tidy_def)
  moreover have "fst hk = Ip dsm \<and> snd hk \<in> range f" if "hk \<in> deleted t" "\<not> is_mapping (snd hk)" for hk
    using that t(1,2,3) t3 by (fastforce simp: fresh_def tidy_def)
  ultimately show ?thesis unfolding clean_block_def using b by (blast intro: part_of_self)
qed

lemma rolled_back_ok: "rolled_back env dsm f U (Inr x) t \<Longrightarrow> deleted t = {}"
  by (auto simp: rolled_back_def fresh_def tidy_def)

lemma undone_shape:
  "lun_undone env dsm name t \<Longrightarrow> made False t = {} \<and> (\<forall>hk \<in> deleted t. hk \<in> {Ip dsm} \<times> range ResLun)"
  "ns_undone env dsm name t \<Longrightarrow> made False t = {} \<and> (\<forall>hk \<in> deleted t. hk \<in> {Ip dsm} \<times> range ResNs)"
  by (auto simp: lun_undone_def ns_undone_def undone_def)

lemma block_resource:
  assumes "clean_block dsm f U t" "\<And>x. \<not> is_mapping (f x)"
  shows "(h, f x) \<in> made True t \<Longrightarrow> Ip dsm = h \<and> part_of U t"
    "(h, f x) \<in> deleted t \<Longrightarrow> \<exists>y. (h, f y) \<in> made False t"
    "(h, k) \<in> made True t \<Longrightarrow> k \<notin> range f \<Longrightarrow> (h, k) \<in> deleted t"
    "(h, k) \<in> deleted t \<Longrightarrow> k \<notin> range f \<Longrightarrow> (h, k) \<in> made False t"
    "(h, k) \<in> made True t \<Longrightarrow> \<not> is_mapping k \<Longrightarrow> k \<in> range f"
    "(h, k) \<in> deleted t \<Longrightarrow> \<not> is_mapping k \<Longrightarrow> k \<in> range f"
proof -
  note b = assms(1) [unfolded clean_block_def]
  have sub: "(h, k) \<in> made True t \<Longrightarrow> (h, k) \<in> made False t" for h k using made_clean by blast
  show "(h, f x) \<in> made True t \<Longrightarrow> Ip dsm = h \<and> part_of U t"
    using b sub [of h "f x"] assms(2) [of x] by force
  show "(h, f x) \<in> deleted t \<Longrightarrow> \<exists>y. (h, f y) \<in> made False t"
    using b assms(2) [of x] by force
  show "(h, k) \<in> made True t \<Longrightarrow> k \<notin> range f \<Longrightarrow> (h, k) \<in> deleted t"
    using b sub [of h k] by force
  show "(h, k) \<in> deleted t \<Longrightarrow> k \<notin> range f \<Longrightarrow> (h, k) \<in> made False t"
    using b by force
  show "(h, k) \<in> made True t \<Longrightarrow> \<not> is_mapping k \<Longrightarrow> k \<in> range f"
    using b sub [of h k] by force
  show "(h, k) \<in> deleted t \<Longrightarrow> \<not> is_mapping k \<Longrightarrow> k \<in> range f"
    using b by force
qed

lemma by_identity_other: "by_identity k \<Longrightarrow> k \<notin> range ResLun \<and> k \<notin> range ResNs"
  by (auto simp: by_identity_def)

lemma lun_cleaned:
  assumes "rolled_back env dsm ResLun (lun_undone env dsm name) (Inl e :: err + 'a) t"
  shows "cleaned env name t"
proof -
  have nm: "\<not> is_mapping (ResLun x)" for x by simp
  have b: "clean_block dsm ResLun (lun_undone env dsm name) t"
    by (rule block_cleaned [OF assms nm undone_shape(1)])
  note r = block_resource [OF b nm]
  show ?thesis
    unfolding cleaned_def
  proof (intro conjI allI impI; (elim conjE)?)
    show "(h, k) \<in> deleted t" if "(h, k) \<in> made True t" "by_identity k" for h k
      using r(3) [OF that(1)] by_identity_other [OF that(2)] by blast
    show "(h, k) \<in> made False t" if "(h, k) \<in> deleted t" "by_identity k" for h k
      using r(4) [OF that(1)] by_identity_other [OF that(2)] by blast
    show "\<exists>dsm. Ip dsm = h \<and> part_of (lun_undone env dsm name) t" if "(h, ResLun u) \<in> made True t" for h u
      using r(1) [OF that] by blast
    show "\<exists>dsm. Ip dsm = h \<and> part_of (ns_undone env dsm name) t" if "(h, ResNs u) \<in> made True t" for h u
      using r(5) [OF that] by auto
    show "\<exists>u'. (h, ResLun u') \<in> made False t" if "(h, ResLun u) \<in> deleted t" for h u
      using r(2) [OF that] .
    show "\<exists>u'. (h, ResNs u') \<in> made False t" if "(h, ResNs u) \<in> deleted t" for h u
      using r(6) [OF that] by auto
  qed
qed

lemma namespace_cleaned:
  assumes "rolled_back env dsm ResNs (ns_undone env dsm name) (Inl e :: err + 'a) t"
  shows "cleaned env name t"
proof -
  have nm: "\<not> is_mapping (ResNs x)" for x by simp
  have b: "clean_block dsm ResNs (ns_undone env dsm name) t"
    by (rule block_cleaned [OF assms nm undone_shape(2)])
  note r = block_resource [OF b nm]
  show ?thesis
    unfolding cleaned_def
  proof (intro conjI allI impI; (elim conjE)?)
    show "(h, k) \<in> deleted t" if "(h, k) \<in> made True t" "by_identity k" for h k
      using r(3) [OF that(1)] by_identity_other [OF that(2)] by blast
    show "(h, k) \<in> made False t" if "(h, k) \<in> deleted t" "by_identity k" for h k
      using r(4) [OF that(1)] by_identity_other [OF that(2)] by blast
    show "\<exists>dsm. Ip dsm = h \<and> part_of (lun_undone env dsm name) t" if "(h, ResLun u) \<in> made True t" for h u
      using r(5) [OF that] by auto
    show "\<exists>dsm. Ip dsm = h \<and> part_of (ns_undone env dsm name) t" if "(h, ResNs u) \<in> made True t" for h u
      using r(1) [OF that] by blast
    show "\<exists>u'. (h, ResLun u') \<in> made False t" if "(h, ResLun u) \<in> deleted t" for h u
      using r(6) [OF that] by auto
    show "\<exists>u'. (h, ResNs u') \<in> made False t" if "(h, ResNs u) \<in> deleted t" for h u
      using r(2) [OF that] .
  qed
qed

lemma share_cleaned:
  assumes "rolled_back env dsm (\<lambda>_ :: 'b. ResShare n) (drops env dsm (ResShare n)) (Inl e :: err + 'a) t"
  shows "cleaned env name t"
proof -
  have nm: "\<not> is_mapping (ResShare n)" by simp
  have b: "clean_block dsm (\<lambda>_ :: 'b. ResShare n) (drops env dsm (ResShare n)) t"
    by (rule block_cleaned [OF assms nm]) (auto simp: drops_def split: if_splits)
  note r = block_resource [OF b nm]
  have e: "made True t \<subseteq> deleted t" "deleted t \<subseteq> made False t"
    using rolled_back_exact [OF assms] by simp_all
  show ?thesis
    unfolding cleaned_def using e by (auto dest: r(5,6))
qed

subsection \<open>One attempt\<close>

definition attempt_ok :: "'n env \<Rightarrow> string \<Rightarrow> (err + 'a) \<Rightarrow> call list \<Rightarrow> bool" where
  "attempt_ok env name r t = (case r of Inl e \<Rightarrow> cleaned env name t | Inr x \<Rightarrow> deleted t = {})"

lemma rolled_back_attempt:
  "rolled_back env dsm ResLun (lun_undone env dsm name) r t \<Longrightarrow> attempt_ok env name r t"
  "rolled_back env dsm ResNs (ns_undone env dsm name) r t \<Longrightarrow> attempt_ok env name r t"
  "rolled_back env dsm (\<lambda>_ :: 'b. ResShare n) (drops env dsm (ResShare n)) r t \<Longrightarrow> attempt_ok env name r t"
  unfolding attempt_ok_def
  by (cases r; auto dest: lun_cleaned namespace_cleaned share_cleaned rolled_back_ok)+

lemma by_dsm_attempts:
  "emits D (createVolumeByDsm env dsm spec) (\<lambda>out. attempt_ok env (cv_BackendName spec) (snd out))"
  "emits D (createNVMeVolumeByDsm env dsm spec) (\<lambda>out. attempt_ok env (cv_BackendName spec) (snd out))"
  "emits D (createSMBorNFSVolumeByDsm env dsm spec) (\<lambda>out. attempt_ok env (cv_BackendName spec) (snd out))"
  by (rule emits_mono [OF lun_functions_rolled_back(1)] emits_mono [OF namespace_functions_rolled_back(1)]
      emits_mono [OF share_functions_rolled_back(1)], erule rolled_back_attempt)+

lemma by_source_attempts:
  "emits D (createVolumeBySnapshot env dsm spec snap) (attempt_ok env (cv_BackendName spec))"
  "emits D (createVolumeByVolume env dsm spec lun) (attempt_ok env (cv_BackendName spec))"
  "emits D (createNVMeVolumeBySnapshot env dsm spec snap) (attempt_ok env (cv_BackendName spec))"
  "emits D (createNVMeVolumeByVolume env dsm spec ns) (attempt_ok env (cv_BackendName spec))"
  "emits D (createSMBorNFSVolumeBySnapshot env dsm spec snap) (attempt_ok env (cv_BackendName spec))"
  "emits D (createSMBorNFSVolumeByVolume env dsm spec share) (attempt_ok env (cv_BackendName spec))"
  by (rule emits_mono [OF lun_functions_rolled_back(2)] emits_mono [OF lun_functions_rolled_back(3)]
      emits_mono [OF namespace_functions_rolled_back(2)] emits_mono [OF namespace_functions_rolled_back(3)]
      emits_mono [OF share_functions_rolled_back(2)] emits_mono [OF share_functions_rolled_back(3)],
      erule rolled_back_attempt)+

text \<open>The specification that an attempt leaves behind differs at most in its location.\<close>

definition relocated :: "CreateK8sVolumeSpec \<Rightarrow> CreateK8sVolumeSpec \<Rightarrow> bool" where
  "relocated spec spec' \<longleftrightarrow> (\<exists>l. spec' = spec\<lparr>cv_Location := l\<rparr>)"

lemma relocated_refl [simp]: "relocated spec spec"
  unfolding relocated_def by (rule exI [of _ "cv_Location spec"]) simp

lemma relocated_trans: "relocated a b \<Longrightarrow> relocated b c \<Longrightarrow> relocated a c"
  by (auto simp: relocated_def)

lemma relocated_same: "relocated a b \<Longrightarrow> cv_BackendName b = cv_BackendName a \<and> cv_DsmIp b = cv_DsmIp a"
  by (auto simp: relocated_def)

lemma choose_location_relocates:
  "yields (choose_location env dsm spec) (\<lambda>r. case r of Inl e \<Rightarrow> True | Inr s \<Rightarrow> relocated spec s)"
  unfolding choose_location_def
  by (intro yields_rules) (auto simp: relocated_def split: sum.split intro: exI [of _ "cv_Location spec"])

lemma by_dsm_relocates:
  "yields (createVolumeByDsm env dsm spec) (\<lambda>out. relocated spec (fst out))"
  "yields (createNVMeVolumeByDsm env dsm spec) (\<lambda>out. relocated spec (fst out))"
  "yields (createSMBorNFSVolumeByDsm env dsm spec) (\<lambda>out. relocated spec (fst out))"
  unfolding createVolumeByDsm_def createNVMeVolumeByDsm_def createSMBorNFSVolumeByDsm_def
  by (rule yields_after [OF choose_location_relocates], intro yields_case_sum yields_return yields_bind;
      simp)+

lemma isNfsVersionSupport_harmless: "emits D (isNfsVersionSupport env dsm v) (\<lambda>_. harmless)"
  unfolding isNfsVersionSupport_def
  by (rule emits_bind [OF emits_quiet_harmless [OF NfsGet_reads]])
    (auto intro!: emits_return emits_bind [OF NfsSet_harmless] split: sum.splits option.splits)

subsection \<open>The loop over the storage systems\<close>

definition tried :: "'n env \<Rightarrow> CreateK8sVolumeSpec \<Rightarrow> CreateK8sVolumeSpec \<times> (err + 'a) option \<Rightarrow> call list \<Rightarrow> bool" where
  "tried env spec out t \<longleftrightarrow> relocated spec (fst out) \<and> (case snd out of
     None \<Rightarrow> harmless t | Some r \<Rightarrow> attempt_ok env (cv_BackendName spec) r t)"

lemma attempt_ok_append:
  "harmless s \<Longrightarrow> attempt_ok env name r t \<Longrightarrow> attempt_ok env name r (s @ t)"
  using cleaned_append [OF cleaned_harmless] by (auto simp: attempt_ok_def harmlessD split: sum.splits)

lemma attempt_ok_map: "attempt_ok env name (map_sum id g r) t = attempt_ok env name r t"
  by (cases r) (simp_all add: attempt_ok_def)

lemma tried_return:
  assumes "emits D m (\<lambda>out. attempt_ok env (cv_BackendName spec) (snd out))"
    and "yields m (\<lambda>out. relocated spec (fst out))"
  shows "emits D (do { out \<leftarrow> m; State_Monad.return (fst out, Some (map_sum id Some (snd out))) })
     (tried env spec)"
  by (rule emits_bind [OF emits_yields [OF assms]], rule emits_return) (simp add: tried_def attempt_ok_map)

lemma create_on_dsm_tried: "emits D (create_on_dsm env dsm spec) (tried env spec)"
proof -
  note by_dsm = tried_return [OF by_dsm_attempts(1) by_dsm_relocates(1)]
    tried_return [OF by_dsm_attempts(2) by_dsm_relocates(2)]
    tried_return [OF by_dsm_attempts(3) by_dsm_relocates(3)]
  have skip: "tried env spec (spec, None) t" if "harmless t" for t
    using that by (simp add: tried_def)
  have "emits D (do {
        ok \<leftarrow> isNfsVersionSupport env dsm (cv_NfsVersion spec);
        if \<not> ok then State_Monad.return (spec, None)
        else do {
          out \<leftarrow> createSMBorNFSVolumeByDsm env dsm spec;
          State_Monad.return (fst out, Some (map_sum id Some (snd out))) } }) (tried env spec)"
    by (rule emits_bind [OF isNfsVersionSupport_harmless], rule emits_if)
      (auto intro!: emits_return skip emits_mono [OF by_dsm(3)]
        simp: tried_def attempt_ok_append split: option.splits)
  moreover have "tried env spec (spec, Some (Inr None)) []"
    by (simp add: tried_def attempt_ok_def)
  ultimately show ?thesis
    unfolding create_on_dsm_def by (auto intro!: emits_if by_dsm emits_return skip)
qed

lemma try_dsm_tried:
  "emits D (try_dsm env dsm spec) (\<lambda>out t. case out of
     Inl spec' \<Rightarrow> relocated spec spec' \<and> cleaned env (cv_BackendName spec) t
   | Inr v \<Rightarrow> deleted t = {})"
  unfolding try_dsm_def
  by (rule emits_if, rule emits_return, simp add: cleaned_harmless,
      rule emits_bind [OF create_on_dsm_tried], rule emits_return)
    (auto simp: tried_def attempt_ok_def cleaned_harmless split: option.splits sum.splits)

subsection \<open>CreateVolume\<close>

lemma CreateVolume_contract:
  "emits D (CreateVolume env spec) (\<lambda>r t. \<exists>t1 t2. t = t1 @ t2 \<and> cleaned env (cv_BackendName spec) t1 \<and>
     (case r of Inl e \<Rightarrow> t2 = [] | Inr v \<Rightarrow> deleted t2 = {}))"
    (is "emits D _ ?Q")
proof -
  have fail: "?Q (Inl e) t" if "harmless t" for e t
    using cleaned_harmless [OF that] by auto
  have source: "emits D (do { r \<leftarrow> m; State_Monad.return (map_sum id Some r) }) (\<lambda>r t'. ?Q r (t @ t'))"
    if "harmless t" "emits D m (attempt_ok env (cv_BackendName spec))"
    for t and m :: "('a world, err + K8sVolumeRespSpec) prog"
  proof (rule emits_bind [OF that(2)], rule emits_return)
    fix r :: "err + K8sVolumeRespSpec" and t'
    assume ok: "attempt_ok env (cv_BackendName spec) r t'"
    show "?Q (map_sum id Some r) (t @ t' @ [])"
    proof (cases r)
      case (Inl e)
      with ok that(1) have "cleaned env (cv_BackendName spec) (t @ t')"
        by (auto simp: attempt_ok_def intro: cleaned_append cleaned_harmless)
      with Inl show ?thesis by auto
    next
      case (Inr v)
      with ok cleaned_harmless [OF that(1)] show ?thesis
        by (intro exI [of _ t] exI [of _ t']) (auto simp: attempt_ok_def)
    qed
  qed
  have source': "emits D (do { r \<leftarrow> m; State_Monad.return (map_sum id Some r) }) (\<lambda>r t'. ?Q r (t @ t2 @ t'))"
    if "harmless t" "harmless t2" "emits D m (attempt_ok env (cv_BackendName spec))"
    for t t2 and m :: "('a world, err + K8sVolumeRespSpec) prog"
    using source [of "t @ t2" m] that by simp
  have vol: "emits D (create_by_volume env spec) ?Q"
    unfolding create_by_volume_def
    by (rule emits_bind [OF lookup_reads(3) [THEN emits_quiet_harmless]],
        intro emits_case_sum emits_case_option emits_bind [OF GetDsm_reads [THEN emits_quiet_harmless]] emits_if
          source' by_source_attempts emits_return fail; simp)
  have snap: "emits D (create_by_snapshot env spec) ?Q"
    unfolding create_by_snapshot_def
    by (rule emits_bind [OF snapshot_lookup_reads(1) [THEN emits_quiet_harmless]],
        intro emits_case_sum emits_case_option emits_bind [OF GetDsm_reads [THEN emits_quiet_harmless]] emits_if
          source' by_source_attempts emits_return fail; simp)
  have loop: "emits D (do {
        ds \<leftarrow> range_dsms env;
        out \<leftarrow> for_return (try_dsm env) ds spec;
        State_Monad.return (case out of Inl _ \<Rightarrow> Inl (Status Internal) | Inr k8sVolume \<Rightarrow> Inr k8sVolume) }) ?Q"
  proof (rule emits_bind [OF range_dsms_emits])
    fix ds and t0 :: "call list"
    assume t0: "t0 = [] \<and> set ds = snd ` set D"
    let ?Inv = "\<lambda>(pre :: DSM list) spec' t. relocated spec spec' \<and> cleaned env (cv_BackendName spec) t"
    let ?R = "\<lambda>(v :: K8sVolumeRespSpec option) t. ?Q (Inr v) t"
    have "emits D (for_return (try_dsm env) ds spec)
        (\<lambda>out t. case out of Inl s' \<Rightarrow> ?Inv ([] @ ds) s' ([] @ t) | Inr v \<Rightarrow> ?R v ([] @ t))"
    proof (rule for_return_emits [where Inv = ?Inv and Q = ?R])
      fix dsm spec' t and pre :: "DSM list"
      assume inv: "?Inv pre spec' t"
      then have same: "cv_BackendName spec' = cv_BackendName spec" using relocated_same by blast
      show "emits D (try_dsm env dsm spec') (\<lambda>out t'. case out of
          Inl s' \<Rightarrow> ?Inv (pre @ [dsm]) s' (t @ t') | Inr v \<Rightarrow> ?R v (t @ t'))"
        by (rule emits_mono [OF try_dsm_tried])
          (use inv in \<open>auto simp: same intro: relocated_trans cleaned_append split: sum.splits\<close>)
    qed (simp add: cleaned_harmless)
    then show "emits D (do {
        out \<leftarrow> for_return (try_dsm env) ds spec;
        State_Monad.return (case out of Inl _ \<Rightarrow> Inl (Status Internal) | Inr k8sVolume \<Rightarrow> Inr k8sVolume) })
        (\<lambda>r t. ?Q r (t0 @ t))"
    proof (rule emits_bind, intro emits_return)
      fix out :: "CreateK8sVolumeSpec + K8sVolumeRespSpec option" and t
      assume "case out of Inl s' \<Rightarrow> ?Inv ([] @ ds) s' ([] @ t) | Inr v \<Rightarrow> ?R v ([] @ t)"
      with t0 show "?Q (case out of Inl _ \<Rightarrow> Inl (Status Internal) | Inr v \<Rightarrow> Inr v) (t0 @ t @ [])"
        by (cases out) auto
    qed
  qed
  from vol snap loop show ?thesis unfolding CreateVolume_def by (intro emits_if)
qed


end
