(* ===== verification/Contract.thy ===== *)
theory Contract
  imports Interface Choice
begin

text \<open>
  The service of \<^verbatim>\<open>pkg/dsm/service\<close> keeps the contract of its interface: the locale
  \<open>dsm_service\<close> interpreted on \<open>DsmService\<close>, from the contracts of its operations.
\<close>

subsection \<open>Relations between states\<close>

text \<open>A relation between the states before and after: the requests sent in between satisfy \<open>P\<close>.\<close>

definition since :: "(call list \<Rightarrow> bool) \<Rightarrow> 'n world \<Rightarrow> 'n world \<Rightarrow> bool" where
  "since P w w' \<longleftrightarrow> (\<exists>t. calls w' = calls w @ t \<and> P t)"

lemma emits_meets: "emits D m Q \<longleftrightarrow> meets (\<lambda>w. dsms w = D) m (\<lambda>x. since (Q x))"
  by (simp add: emits_def meets_def since_def)

lemma meets_emits:
  assumes "emits D m Q" "\<And>x w w' t. calls w' = calls w @ t \<Longrightarrow> Q x t \<Longrightarrow> P x w w'"
  shows "meets (\<lambda>w. dsms w = D) m P"
  using assms by (auto simp: emits_meets since_def elim!: meets_mono)

text \<open>First requests that satisfy \<open>P\<close>, then, when \<open>A\<close> holds of those, any others.\<close>

lemma since_steps:
  assumes "\<exists>w1. since P w w1 \<and> (w' = w1 \<or> since A w w1 \<and> since (\<lambda>_. True) w1 w')"
  shows "since (\<lambda>t. \<exists>t1 t2. t = t1 @ t2 \<and> P t1 \<and> (t2 = [] \<or> A t1)) w w'"
proof -
  from assms obtain w1 t1 where t1: "calls w1 = calls w @ t1" "P t1"
    and w': "w' = w1 \<or> since A w w1 \<and> since (\<lambda>_. True) w1 w'" by (auto simp: since_def)
  from w' show ?thesis
  proof
    assume "w' = w1"
    with t1 show ?thesis by (auto simp: since_def)
  next
    assume "since A w w1 \<and> since (\<lambda>_. True) w1 w'"
    with t1(1) obtain t2 where "A t1" "calls w' = calls w @ t1 @ t2" by (auto simp: since_def)
    with t1(2) show ?thesis unfolding since_def by blast
  qed
qed

text \<open>A list that leaves nothing out: every storage system was heard, and what it reported is on
  the list.\<close>

definition all_seen :: "(string \<times> DSM) list \<Rightarrow> K8sVolumeRespSpec list \<Rightarrow> call list \<Rightarrow> bool" where
  "all_seen D vs t \<longleftrightarrow> (\<forall>dsm \<in> snd ` set D.
     iscsi_seen '''' dsm vs t \<and> nvme_seen '''' dsm vs t \<and> shares_seen '''' dsm vs t)"

lemma ListVolumes_contract:
  "emits D (ListVolumes env) (\<lambda>r t. list_all quiet t \<and> (snd r = None \<longrightarrow> all_seen D (fst r) t))"
proof (rule emits_conj [OF lookup_reads(5)])
  show "emits D (ListVolumes env) (\<lambda>r t. snd r = None \<longrightarrow> all_seen D (fst r) t)"
    unfolding ListVolumes_def
  proof (rule emits_bind [OF listISCSI_collects], rule emits_bind [OF listShares_collects],
      rule emits_bind [OF listNVMe_collects], rule emits_return)
    fix i s n :: "K8sVolumeRespSpec listing" and t1 t2 t3 :: "call list"
    let ?vs = "fst i @ fst s @ fst n" and ?t = "t1 @ t2 @ t3 @ []"
    assume "collects ([], None) i (\<lambda>vs t. \<forall>dsm \<in> snd ` set D. iscsi_seen '''' dsm vs t) (lun_volume D) t1"
      "collects ([], None) s (\<lambda>vs t. \<forall>dsm \<in> snd ` set D. shares_seen '''' dsm vs t) (any_share_volume D) t2"
      "collects ([], None) n (\<lambda>vs t. \<forall>dsm \<in> snd ` set D. nvme_seen '''' dsm vs t) (namespace_volume D) t3"
    then have "snd i = None \<and> snd s = None \<and> snd n = None \<Longrightarrow> \<forall>dsm \<in> snd ` set D.
        iscsi_seen '''' dsm (fst i) t1 \<and> shares_seen '''' dsm (fst s) t2 \<and> nvme_seen '''' dsm (fst n) t3"
      by (simp add: collects_def)
    then have "snd i = None \<and> snd s = None \<and> snd n = None \<Longrightarrow> all_seen D ?vs ?t"
      unfolding all_seen_def
      by (auto elim!: iscsi_seen_mono nvme_seen_mono shares_seen_mono)
    then show "snd (?vs, errors_join [snd i, snd s, snd n]) = None \<longrightarrow>
        all_seen D (fst (?vs, errors_join [snd i, snd s, snd n])) ?t" by simp
  qed
qed

lemma ListDsmVolumes_reads: "only D quiet (ListDsmVolumes env ip)"
  unfolding ListDsmVolumes_def by ((intro emits_rules; simp)+)

text \<open>A volume that \<^verbatim>\<open>DeleteVolume\<close> asked to delete: reported by a storage system that is
  registered, and its share, namespace or LUN deleted there.\<close>

definition volume_removed :: "(string \<times> DSM) list \<Rightarrow> string \<Rightarrow> call list \<Rightarrow> bool" where
  "volume_removed D volId t \<longleftrightarrow> (\<exists>v dsm. known_volume D volId v t \<and> map_of D (kv_DsmIp v) = Some dsm \<and>
     (Ip dsm, main_resource v) \<in> deleted t)"

text \<open>No volume and no share has the name of a Kubernetes volume.\<close>

abbreviation name_absent :: "(string \<times> DSM) list \<Rightarrow> string \<Rightarrow> call list \<Rightarrow> bool" where
  "name_absent D volName \<equiv> volume_absent D (\<lambda>share. sh_Name share = GenShareName volName)
     (\<lambda>v. kv_Name v = GenBackendName volName \<or> kv_Name v = GenShareName volName)"

lemma GetVolumeByName_contract:
  "emits D (GetVolumeByName env volName) (\<lambda>r t. list_all quiet t \<and> (r = Inr None \<longrightarrow> name_absent D volName t))"
  unfolding GetVolumeByName_def
  by (rule emits_mono [OF findVolume_contract]) (auto split: sum.splits option.splits)

lemma map_sum_Some: "map_sum id Some r \<noteq> Inr None"
  by (cases r) simp_all

subsection \<open>The service\<close>

interpretation dsm: dsm_service "DsmService env" "\<lambda>w. dsms w = D" "since (\<lambda>_. True)" "since (list_all quiet)"
    "\<lambda>i v. since (known_volume D i v)" "\<lambda>i. since (no_volume D i)" "\<lambda>n. since (name_absent D n)"
    "\<lambda>vs. since (all_seen D vs)" "\<lambda>i. since (volume_removed D i)" for env D
proof (unfold_locales, unfold DsmService_sel)
  show "since (list_all quiet) w w" for w :: "'a world" by (simp add: since_def)
  show "meets (\<lambda>w. dsms w = D) (CreateVolume env spec) (\<lambda>_. since (\<lambda>_. True))" for spec
    by (rule meets_emits [OF CreateVolume_contract]) (auto simp: since_def)
  show "meets (\<lambda>w. dsms w = D) (DeleteVolume env volId) (\<lambda>r w w'.
      r = None \<longrightarrow> since (no_volume D volId) w w' \<or> since (volume_removed D volId) w w')" for volId
    by (rule meets_emits [OF DeleteVolume_contract]) (auto simp: since_def volume_removed_def)
  show "meets (\<lambda>w. dsms w = D) (ListVolumes env) (\<lambda>r w w'.
      since (list_all quiet) w w' \<and> (snd r = None \<longrightarrow> since (all_seen D (fst r)) w w'))"
    by (rule meets_emits [OF ListVolumes_contract]) (auto simp: since_def)
  show "meets (\<lambda>w. dsms w = D) (GetVolume env volId) (\<lambda>r w w'. since (list_all quiet) w w' \<and>
      (\<forall>v. r = Inr (Some v) \<longrightarrow> since (known_volume D volId v) w w') \<and>
      (r = Inr None \<longrightarrow> since (no_volume D volId) w w'))" for volId
    by (rule meets_emits [OF GetVolume_contract]) (auto simp: since_def)
  show "meets (\<lambda>w. dsms w = D) (GetVolumeByName env volName) (\<lambda>r w w'. since (list_all quiet) w w' \<and>
      (r = Inr None \<longrightarrow> since (name_absent D volName) w w'))" for volName
    by (rule meets_emits [OF GetVolumeByName_contract]) (auto simp: since_def)
  show "meets (\<lambda>w. dsms w = D) (ListAllSnapshots env) (\<lambda>_. since (list_all quiet))"
    "meets (\<lambda>w. dsms w = D) (ListSnapshots env volId) (\<lambda>_. since (list_all quiet))"
    "meets (\<lambda>w. dsms w = D) (GetSnapshotByName env snapName) (\<lambda>_. since (list_all quiet))" for volId snapName
    by (rule meets_emits [OF snapshot_listing_reads(4)] meets_emits [OF snapshot_lookup_reads(5)]
        meets_emits [OF snapshot_lookup_reads(2)]; auto simp: since_def)+
  show "meets (\<lambda>w. dsms w = D) (no_error (ListDsmVolumes env ip)) (\<lambda>_. since (list_all quiet))" for ip
    unfolding no_error_def by (rule meets_answer [OF meets_emits [OF ListDsmVolumes_reads]])
      (auto simp: since_def)
qed

end
