(* ===== verification/Answers.thy ===== *)
theory Answers
  imports Controller Contract
begin

text \<open>
  What the handlers of the controller server owe to the contract of the service: for any service
  that keeps it, a volume is made only when none has its name, a volume is confirmed only when
  it is known, and a page comes from a listing that leaves nothing out.
\<close>

text \<open>What the driver can serve: an access mode it supports, and no raw block device on a share.\<close>

definition servable :: "Driver \<Rightarrow> string \<Rightarrow> VolumeCapability \<Rightarrow> bool" where
  "servable d protocol c \<longleftrightarrow> isVolumeAccessModeSupport d (cap_AccessMode c) \<and>
     \<not> (is_block (cap_AccessType c) \<and> isShareProtocol protocol)"

text \<open>The page that a listing is cut into, as \<^verbatim>\<open>ListVolumes\<close> and \<^verbatim>\<open>ListSnapshots\<close> answer it.\<close>

abbreviation volume_answer :: "int \<Rightarrow> string \<Rightarrow> K8sVolumeRespSpec list \<Rightarrow> err + CsiVolume list \<times> string" where
  "volume_answer n token vs \<equiv> map_sum id (\<lambda>(entries, nextToken). (map volume_entry entries, nextToken))
     (volume_page n token vs)"

context dsm_service
begin

text \<open>\<^verbatim>\<open>CreateVolume\<close>: only reads, until it knows that no volume has the name.\<close>

lemma named_before_created:
  "meets valid (controllerServer_CreateVolume (NewControllerServer d svc) req)
     (\<lambda>r w w'. \<exists>w1. reads w w1 \<and> (w' = w1 \<or> unnamed (cvr_Name req) w w1 \<and> later w1 w'))"
  unfolding controllerServer_CreateVolume_def NewControllerServer_sel
proof (rule meets_case_sum)
  fix e
  show "meets valid (State_Monad.return (Inl e))
     (\<lambda>r w w'. \<exists>w1. reads w w1 \<and> (w' = w1 \<or> unnamed (cvr_Name req) w w1 \<and> later w1 w'))"
    by (rule meets_return) (use reads_refl in blast)
next
  fix spec
  show "meets valid (do {
       g \<leftarrow> svc_GetVolumeByName svc (cvr_Name req);
       case g of
         Inl e \<Rightarrow> State_Monad.return (Inl (Status Unavailable))
       | Inr None \<Rightarrow> do {
           r \<leftarrow> svc_CreateVolume svc spec;
           State_Monad.return (case r of
             Inl e \<Rightarrow> Inl e
           | Inr k8sVolume \<Rightarrow> answer_volume req (cv_Size spec) k8sVolume) }
       | Inr (Some v) \<Rightarrow> State_Monad.return (answer_volume req (cv_Size spec) (Some v)) })
     (\<lambda>r w w'. \<exists>w1. reads w w1 \<and> (w' = w1 \<or> unnamed (cvr_Name req) w w1 \<and> later w1 w'))"
    by (rule meets_bind [OF GetVolumeByName_law], intro meets_split; (rule meets_return)?;
        (rule meets_answer [OF CreateVolume_law])?) blast+
qed

text \<open>\<^verbatim>\<open>DeleteVolume\<close>: a success means that the volume is absent, or that it was asked to go.\<close>

lemma deleted_when_answered:
  "meets valid (controllerServer_DeleteVolume (NewControllerServer d svc) volId)
     (\<lambda>r w w'. r = None \<longrightarrow> absent volId w w' \<or> removed volId w w')"
  unfolding controllerServer_DeleteVolume_def NewControllerServer_sel
  by (rule meets_if, rule meets_return, simp, rule meets_answer [OF DeleteVolume_law])
    (simp split: option.splits)

text \<open>\<^verbatim>\<open>ListVolumes\<close>: only reads, and a page is a page of a complete listing.\<close>

lemma page_of_complete:
  "meets valid (controllerServer_ListVolumes (NewControllerServer d svc) n token)
     (\<lambda>r w w'. reads w w' \<and> (\<forall>page. r = Inr page \<longrightarrow>
        (\<exists>vs. complete vs w w' \<and> Inr page = volume_answer n token vs)))"
  unfolding controllerServer_ListVolumes_def NewControllerServer_sel
  by (rule meets_if, rule meets_return, simp add: reads_refl, rule meets_answer [OF ListVolumes_law])
    (auto split: prod.splits option.splits)

text \<open>\<^verbatim>\<open>ValidateVolumeCapabilities\<close>: only reads, and confirms what can be served for a volume that
  is known.\<close>

lemma confirmed_known:
  "meets valid (controllerServer_ValidateVolumeCapabilities (NewControllerServer d svc) volId volCap)
     (\<lambda>r w w'. reads w w' \<and> (\<forall>caps. r = Inr (Confirmed caps) \<longrightarrow> volCap = Some caps \<and>
        (\<exists>v. known volId v w w' \<and> list_all (servable d (kv_Protocol v)) caps)))"
  unfolding controllerServer_ValidateVolumeCapabilities_def NewControllerServer_sel
  by (intro meets_split; (rule meets_return)?; (rule meets_answer [OF GetVolume_law])?)
    (auto simp: reads_refl list_all_iff list_ex_iff servable_def split: sum.splits option.splits if_splits)

end

end
