(* ===== verification/Sizes.thy ===== *)
theory Sizes
  imports Choice
begin

text \<open>
  What the creating functions of \<^verbatim>\<open>pkg/dsm/service\<close> promise about what they make: a
  volume that is restored or cloned is never smaller than asked for, and a request below
  the size of its source is refused before anything is sent; the storage volume chosen is
  the first usable one; the qualified names of targets and subsystems are well formed.
\<close>

subsection \<open>Results that survive the wrappers\<close>

lemma yields_with_rollback:
  assumes "yields body (\<lambda>out. P (snd out))" "\<And>e. P (Inl e)"
  shows "yields (with_rollback body) P"
  unfolding with_rollback_def
  by (rule yields_after [OF assms(1)], intro yields_case_sum yields_bind yields_return)
    (simp_all add: assms(2))

lemma yields_after_create:
  assumes "\<And>rb. yields (k rb) (\<lambda>out. P (snd out))" "\<And>e. P (Inl e)"
  shows "yields (after_create d u r k) (\<lambda>out. P (snd out))"
  unfolding after_create_def
  by (intro yields_case_sum yields_if yields_return assms(1)) (simp add: assms(2))

subsection \<open>Restored and cloned volumes\<close>

definition covers :: "int \<Rightarrow> (err + K8sVolumeRespSpec) \<Rightarrow> bool" where
  "covers n r \<longleftrightarrow> (case r of Inl e \<Rightarrow> True | Inr v \<Rightarrow> n \<le> sint (kv_SizeInBytes v))"

lemma covers_error [simp]: "covers n (Inl e)"
  by (simp add: covers_def)

lemma map_lun_size:
  "n \<le> sint (lun_Size lunInfo) \<Longrightarrow> yields (map_lun env dsm spec lunInfo rb) (\<lambda>out. covers n (snd out))"
  unfolding map_lun_def
  by (intro yields_bind yields_return) (simp add: covers_def DsmLunToK8sVolume_def split: sum.split)

lemma map_namespace_size:
  "n \<le> sint (ns_Size info) \<Longrightarrow> yields (map_namespace env dsm spec info rb) (\<lambda>out. covers n (snd out))"
  unfolding map_namespace_def
  by (intro yields_bind yields_return) (simp add: covers_def DsmNamespaceToK8sVolume_def split: sum.split)

lemma needsExpandTo_some: "0 < sint (needsExpandTo sz actual) \<Longrightarrow> sint sz \<le> sint (needsExpandTo sz actual)"
  by (simp add: needsExpandTo_def split: if_splits)

lemma needsExpandTo_none: "0 < sint sz \<Longrightarrow> \<not> 0 < sint (needsExpandTo sz actual) \<Longrightarrow> sint sz \<le> sint actual"
  by (simp add: needsExpandTo_def split: if_splits)

lemma finish_lun_clone_size:
  assumes "0 < sint (cv_Size spec)"
  shows "yields (finish_lun_clone env dsm spec rb) (\<lambda>out. covers (sint (cv_Size spec)) (snd out))"
  unfolding finish_lun_clone_def
  by (intro yields_bind yields_case_option yields_case_sum yields_let yields_if yields_return map_lun_size)
    (simp_all add: needsExpandTo_some needsExpandTo_none [OF assms])

lemma finish_namespace_clone_size:
  assumes "0 < sint (cv_Size spec)"
  shows "yields (finish_namespace_clone env dsm spec rb) (\<lambda>out. covers (sint (cv_Size spec)) (snd out))"
  unfolding finish_namespace_clone_def
  by (intro yields_bind yields_case_option yields_case_sum yields_let yields_if yields_return map_namespace_size)
    (simp_all add: needsExpandTo_some needsExpandTo_none [OF assms])

lemma at_source_size [simp]: "cv_Size (at_source l spec) = cv_Size spec"
  by (simp add: at_source_def)


definition sample_snapshot :: K8sSnapshotRespSpec where
  "sample_snapshot = \<lparr>ks_DsmIp = ''10.0.0.1'', ks_Name = ''snapshot-1'', ks_Uuid = ''s1'', ks_ParentName = '''',
     ks_ParentUuid = ''u0'', ks_Status = ''Healthy'', ks_SizeInBytes = 2147483648, ks_CreateTime = 0,
     ks_Time = '''', ks_RootPath = ''/volume1'', ks_Protocol = ''iscsi''\<rparr>"

lemma sample_sizes:
  "cv_Size sample_spec = 1073741824" "ks_SizeInBytes sample_snapshot = 2147483648"
  by (simp_all add: sample_spec_def sample_snapshot_def)


text \<open>For a share the size is its quota, in megabytes.\<close>

definition quota_covers :: "int64 \<Rightarrow> (err + K8sVolumeRespSpec) \<Rightarrow> bool" where
  "quota_covers sz r \<longleftrightarrow> (case r of Inl e \<Rightarrow> True
     | Inr v \<Rightarrow> sint sz \<le> sint (sh_QuotaValueInMB (kv_Share v)) * 2 ^ 20)"

lemma quota_covers_error [simp]: "quota_covers sz (Inl e)"
  by (simp add: quota_covers_def)

lemma mb_ceil_covers:
  assumes "0 \<le> sint sz" "sint sz \<le> 2 ^ 63 - 2 ^ 20" "sint (BytesToMBCeil sz) \<le> q"
  shows "sint sz \<le> q * 2 ^ 20"
proof -
  have "sint sz \<le> (sint sz + 1048575) div 1048576 * 1048576"
    using assms(1) by linarith
  also have "\<dots> \<le> q * 1048576"
    using assms sint_BytesToMBCeil [OF assms(1,2)] by (intro mult_right_mono) simp_all
  finally show ?thesis by simp
qed

lemma kv_Share_DsmShare [simp]: "kv_Share (DsmShareToK8sVolume ip share p) = share"
  by (simp add: DsmShareToK8sVolume_def)

text \<open>The quota of a share that is restored or cloned covers the bytes that were asked
  for, for every size up to the last megabyte below \<^verbatim>\<open>2^63\<close>.\<close>

theorem restored_quota:
  assumes "0 \<le> sint (cv_Size spec)" "sint (cv_Size spec) \<le> 2 ^ 63 - 2 ^ 20"
  shows "yields (createSMBorNFSVolumeBySnapshot env dsm spec snap) (quota_covers (cv_Size spec)) \<and>
    yields (createSMBorNFSVolumeByVolume env dsm spec share) (quota_covers (cv_Size spec))"
proof -
  have ok: "quota_covers (cv_Size spec) (Inr (DsmShareToK8sVolume ip s p))"
    if "sint (BytesToMBCeil (cv_Size spec)) \<le> sint (sh_QuotaValueInMB s)" for ip s p
    using mb_ceil_covers [OF assms that] by (simp add: quota_covers_def)
  show ?thesis
    unfolding createSMBorNFSVolumeBySnapshot_def createSMBorNFSVolumeByVolume_def Let_def
    by (intro conjI yields_with_rollback yields_case_option yields_case_sum yields_if yields_bind
        yields_after_create yields_return; auto intro!: ok split: sum.split)
qed

theorem restored_quota_witness:
  "yields (createSMBorNFSVolumeBySnapshot failing_env http_dsm sample_spec sample_snapshot)
     (quota_covers 1073741824)"
  using restored_quota [of sample_spec failing_env http_dsm sample_snapshot] by (simp add: sample_sizes)

subsection \<open>Requests below the size of the source\<close>

lemma refused_restore:
  "sz \<noteq> 0 \<Longrightarrow> sint sz < sint source \<Longrightarrow> checkRestoreSize sz source = Some (Status OutOfRange)"
  by (simp add: checkRestoreSize_def)

lemma refused_run: "emits D (with_rollback (State_Monad.return ([], Inl e))) (\<lambda>r t. r = Inl e \<and> t = [])"
  unfolding with_rollback_def
  by (rule emits_bind [where P = "\<lambda>out t. out = ([], Inl e) \<and> t = []"], rule emits_return, simp)
    (auto simp: rollback_run_simps intro!: emits_bind [where P = "\<lambda>_ t. t = []"] emits_return)

text \<open>Asking to restore or clone a LUN or namespace to less than the size of its source
  fails with OutOfRange, and nothing is sent to the storage system.\<close>

theorem restore_too_small:
  assumes "cv_Size spec \<noteq> 0" "sint (cv_Size spec) < sint (ks_SizeInBytes snap)"
    "sint (cv_Size spec) < sint (lun_Size lun)" "sint (cv_Size spec) < sint (ns_Size ns)"
  shows "emits D (createVolumeBySnapshot env dsm spec snap) (\<lambda>r t. r = Inl (Status OutOfRange) \<and> t = []) \<and>
    emits D (createVolumeByVolume env dsm spec lun) (\<lambda>r t. r = Inl (Status OutOfRange) \<and> t = []) \<and>
    emits D (createNVMeVolumeBySnapshot env dsm spec snap) (\<lambda>r t. r = Inl (Status OutOfRange) \<and> t = []) \<and>
    emits D (createNVMeVolumeByVolume env dsm spec ns) (\<lambda>r t. r = Inl (Status OutOfRange) \<and> t = [])"
  unfolding createVolumeBySnapshot_def createVolumeByVolume_def createNVMeVolumeBySnapshot_def
    createNVMeVolumeByVolume_def
  using refused_restore [OF assms(1)] assms(2-4) by (simp add: refused_run)

theorem restore_too_small_witness:
  "emits (dsms world0) (createVolumeBySnapshot failing_env http_dsm sample_spec sample_snapshot)
     (\<lambda>r t. r = Inl (Status OutOfRange) \<and> t = [])"
  using restore_too_small [of sample_spec sample_snapshot "zero_LunInfo\<lparr>lun_Size := 2147483648\<rparr>"
      "zero_NamespaceInfo\<lparr>ns_Size := 2147483648\<rparr>" "dsms world0" failing_env http_dsm]
  by (simp add: sample_sizes)

subsection \<open>The volume of the storage system\<close>

text \<open>A volume that can take the new share or LUN: healthy, with a gigabyte and the size asked
  for to spare, not on an external disk, and not ext4 when a share is to be made.\<close>

definition usable :: "int64 \<Rightarrow> string \<Rightarrow> VolInfo \<Rightarrow> bool" where
  "usable sz protocol v \<longleftrightarrow> (case parse_int 64 (vi_Free v) of
     None \<Rightarrow> False
   | Some free \<Rightarrow> 2 ^ 30 \<le> free \<and> sint sz < free \<and>
       vi_Status v \<notin> {''crashed'', ''read_only'', ''deleting''} \<and>
       (vi_Container v, vi_Location v) \<noteq> (''external'', ''sata'') \<and>
       \<not> (vi_FsType v = FsTypeExt4 \<and> protocol \<in> {ProtocolSmb, ProtocolNfs}))"

text \<open>When the free sizes are numbers, \<^verbatim>\<open>getFirstAvailableVolume\<close> picks the first usable volume
  of the list, and fails exactly when there is none.\<close>

theorem first_available_first:
  assumes "\<forall>v \<in> set vols. parse_int 64 (vi_Free v) \<noteq> None"
  shows "first_available vols sz protocol = (case find (usable sz protocol) vols of
     None \<Rightarrow> Inl (FmtError ''Cannot find any available volume'') | Some v \<Rightarrow> Inr v)"
  using assms
proof (induction vols)
  case (Cons v vols)
  then obtain free where free: "parse_int 64 (vi_Free v) = Some free" by auto
  show ?case
  proof (cases "usable sz protocol v")
    case True
    with free show ?thesis by (auto simp: usable_def)
  next
    case False
    with free have "first_available (v # vols) sz protocol = first_available vols sz protocol"
      by (auto simp: usable_def)
    with False Cons show ?thesis by simp
  qed
qed simp

definition sample_volume :: "string \<Rightarrow> string \<Rightarrow> VolInfo" where
  "sample_volume path st = \<lparr>vi_Name = ''v'', vi_Path = path, vi_Status = st, vi_FsType = ''btrfs'',
     vi_Size = ''9000000000'', vi_Free = ''9000000000'', vi_Container = '''', vi_Location = ''''\<rparr>"

theorem first_available_first_witness:
  "first_available [sample_volume ''/volume1'' ''crashed'', sample_volume ''/volume2'' ''normal''] 1073741824 ''smb'' =
   Inr (sample_volume ''/volume2'' ''normal'')"
  by (subst first_available_first)
    (simp_all add: sample_volume_def usable_def parse_int_def parse_nat_def digit_of_def FsTypeExt4_def)

subsection \<open>Qualified names\<close>

lemma gen_qualified_ok:
  "length (gen_qualified p n dsm spec) \<le> n \<and> CHR ''_'' \<notin> set (gen_qualified p n dsm spec) \<and>
    CHR ''+'' \<notin> set (gen_qualified p n dsm spec)"
proof -
  define qn where "qn = replace_all (replace_all (p @ Hostname dsm @ ''.'' @ cv_K8sVolumeName spec) ''_'' ''-'') ''+'' ''p''"
  have u: "CHR ''_'' \<notin> set qn"
    unfolding qn_def by (auto dest: replace_all_char_keeps simp: replace_all_char_notin)
  have p: "CHR ''+'' \<notin> set qn"
    unfolding qn_def by (simp add: replace_all_char_notin)
  have "gen_qualified p n dsm spec = take n qn"
    by (simp add: gen_qualified_def Let_def qn_def)
  with u p show ?thesis by (auto dest: in_set_takeD)
qed

text \<open>C37: The names generated for targets and subsystems have at most 128 characters and
  hold neither underscores nor plus signs, whatever the host and volume are called.\<close>

theorem qualified_names:
  "length (genTargetIqn dsm spec) \<le> 128 \<and> CHR ''_'' \<notin> set (genTargetIqn dsm spec) \<and>
     CHR ''+'' \<notin> set (genTargetIqn dsm spec) \<and>
   length (genNqn dsm spec) \<le> 128 \<and> CHR ''_'' \<notin> set (genNqn dsm spec) \<and> CHR ''+'' \<notin> set (genNqn dsm spec)"
  using gen_qualified_ok [of IqnPrefix 128 dsm spec] gen_qualified_ok [of NqnPrefix 128 dsm spec]
  by (simp add: genTargetIqn_def genNqn_def MaxIqnLen_def MaxNqnLen_def)

end
