(* ===== verification/Provision.thy ===== *)
theory Provision
  imports Answers Sizes
begin

text \<open>
  The controller service as a whole: which errors \<^verbatim>\<open>CreateVolume\<close> can answer with, when it
  may create anything at all, and that the size it reports is the size that was asked for.
\<close>

subsection \<open>The errors of the creating functions\<close>

definition status_only :: "(err + 'a) \<Rightarrow> bool" where
  "status_only r \<longleftrightarrow> (case r of Inl e \<Rightarrow> \<exists>c. e = Status c | Inr x \<Rightarrow> True)"

lemma status_only_simps [simp]: "status_only (Inl (Status c))" "status_only (Inr x)"
  by (simp_all add: status_only_def)

lemma status_with_rollback:
  "yields body (\<lambda>out. status_only (snd out)) \<Longrightarrow> yields (with_rollback body) status_only"
  unfolding with_rollback_def
  by (erule yields_after, intro yields_case_sum yields_bind yields_return) simp_all

lemma status_after_create:
  "(\<And>rb. yields (k rb) (\<lambda>out. status_only (snd out))) \<Longrightarrow>
   yields (after_create d u r k) (\<lambda>out. status_only (snd out))"
  unfolding after_create_def by (intro yields_case_sum yields_if yields_return) simp_all

lemma checkRestoreSize_status: "checkRestoreSize a b = Some e \<Longrightarrow> \<exists>c. e = Status c"
  by (auto simp: checkRestoreSize_def split: if_splits)

lemma map_status:
  "yields (map_lun env dsm spec lun rb) (\<lambda>out. status_only (snd out))"
  "yields (map_namespace env dsm spec ns rb) (\<lambda>out. status_only (snd out))"
  unfolding map_lun_def map_namespace_def
  by (intro yields_bind yields_return; simp split: sum.split)+

lemma finish_status:
  "yields (finish_lun_clone env dsm spec rb) (\<lambda>out. status_only (snd out))"
  "yields (finish_namespace_clone env dsm spec rb) (\<lambda>out. status_only (snd out))"
  unfolding finish_lun_clone_def finish_namespace_clone_def
  by (intro yields_bind yields_case_option yields_case_sum yields_let yields_if yields_return map_status; simp)+

lemmas status_rules = status_with_rollback status_after_create finish_status map_status
  yields_case_option yields_case_sum yields_let yields_if yields_bind yields_return

lemma by_source_status:
  "yields (createVolumeBySnapshot env dsm spec snap) status_only"
  "yields (createVolumeByVolume env dsm spec lun) status_only"
  "yields (createNVMeVolumeBySnapshot env dsm spec snap) status_only"
  "yields (createNVMeVolumeByVolume env dsm spec ns) status_only"
  "yields (createSMBorNFSVolumeBySnapshot env dsm spec snap) status_only"
  "yields (createSMBorNFSVolumeByVolume env dsm spec share) status_only"
  unfolding createVolumeBySnapshot_def createVolumeByVolume_def createNVMeVolumeBySnapshot_def
    createNVMeVolumeByVolume_def createSMBorNFSVolumeBySnapshot_def createSMBorNFSVolumeByVolume_def
  by (intro status_rules; auto dest: checkRestoreSize_status split: sum.split if_splits)+

lemma create_by_status:
  "yields (create_by_volume env spec) (\<lambda>r. status_only r \<and> r \<noteq> Inr None)"
  "yields (create_by_snapshot env spec) (\<lambda>r. status_only r \<and> r \<noteq> Inr None)"
proof -
  have made: "yields (do { r \<leftarrow> m; State_Monad.return (map_sum id Some r) })
      (\<lambda>r. status_only r \<and> r \<noteq> Inr None)" if "yields m status_only" for m :: "('b, err + 'c) prog"
    by (rule yields_after [OF that], rule yields_return) (auto simp: status_only_def map_sum_def split: sum.splits)
  have lookup: "(\<And>x. yields (f x) P) \<Longrightarrow> yields (State_Monad.bind (GetDsm ip) f) P"
    for f and P :: "'c \<Rightarrow> bool" and ip
    by (rule yields_bind)
  show "yields (create_by_volume env spec) (\<lambda>r. status_only r \<and> r \<noteq> Inr None)"
    unfolding create_by_volume_def
    by (rule yields_bind, intro yields_case_option yields_case_sum yields_return lookup
        yields_if made by_source_status; simp)
  show "yields (create_by_snapshot env spec) (\<lambda>r. status_only r \<and> r \<noteq> Inr None)"
    unfolding create_by_snapshot_def
    by (rule yields_bind, intro yields_case_option yields_case_sum yields_return lookup
        yields_if made by_source_status; simp)
qed

subsection \<open>CreateVolume of the service\<close>

lemma yields_for_return:
  assumes "\<And>x s. I s \<Longrightarrow> yields (f x s) (\<lambda>out. case out of Inl s' \<Rightarrow> I s' | Inr r \<Rightarrow> P r)" "I s"
  shows "yields (for_return f xs s) (\<lambda>out. case out of Inl s' \<Rightarrow> I s' | Inr r \<Rightarrow> P r)"
  using assms(2)
proof (induction xs arbitrary: s)
  case Nil
  then show ?case by (simp add: yields_return)
next
  case (Cons x xs)
  show ?case
    by (simp, rule yields_after [OF assms(1) [OF Cons.prems]], rule yields_case_sum)
      (auto intro: Cons.IH yields_return)
qed

text \<open>A storage system that is tried gives a volume or an error, for the four protocols.\<close>

lemma create_on_dsm_some:
  assumes "isProtocolSupport (cv_Protocol spec)"
  shows "yields (create_on_dsm env dsm spec) (\<lambda>out. relocated spec (fst out) \<and> snd out \<noteq> Some (Inr None))"
proof -
  have made: "yields (do { out \<leftarrow> m; State_Monad.return (fst out, Some (map_sum id Some (snd out))) })
      (\<lambda>out. relocated spec (fst out) \<and> snd out \<noteq> Some (Inr None))"
    if "yields m (\<lambda>out. relocated spec (fst out))" for m :: "('b, CreateK8sVolumeSpec \<times> (err + 'c)) prog"
    by (rule yields_after [OF that], rule yields_return) (auto simp: map_sum_def split: sum.splits)
  have "yields (do {
        ok \<leftarrow> isNfsVersionSupport env dsm (cv_NfsVersion spec);
        if \<not> ok then State_Monad.return (spec, None)
        else do {
          out \<leftarrow> createSMBorNFSVolumeByDsm env dsm spec;
          State_Monad.return (fst out, Some (map_sum id Some (snd out))) } })
      (\<lambda>out. relocated spec (fst out) \<and> snd out \<noteq> Some (Inr None))"
    by (rule yields_bind, intro yields_if yields_return made by_dsm_relocates) simp
  then show ?thesis
    unfolding create_on_dsm_def
    using assms made [OF by_dsm_relocates(1)] made [OF by_dsm_relocates(2)] made [OF by_dsm_relocates(3)]
    by (auto simp: isProtocolSupport_cases intro!: yields_return)
qed

lemma relocated_protocol: "relocated a b \<Longrightarrow> cv_Protocol b = cv_Protocol a"
  by (auto simp: relocated_def)

lemma service_CreateVolume_status:
  assumes "isProtocolSupport (cv_Protocol spec)"
  shows "yields (CreateVolume env spec) (\<lambda>r. status_only r \<and> r \<noteq> Inr None)"
proof -
  have attempt: "yields (try_dsm env dsm s) (\<lambda>out. case out of Inl s' \<Rightarrow> relocated spec s' | Inr v \<Rightarrow> v \<noteq> None)"
    if "relocated spec s" for dsm s
  proof -
    have "isProtocolSupport (cv_Protocol s)" using assms relocated_protocol [OF that] by simp
    then show ?thesis
      unfolding try_dsm_def
      by (intro yields_if yields_return yields_after [OF create_on_dsm_some])
        (auto simp: that relocated_trans [OF that] split: option.split sum.split)
  qed
  have "yields (do {
        ds \<leftarrow> range_dsms env;
        out \<leftarrow> for_return (try_dsm env) ds spec;
        State_Monad.return (case out of Inl _ \<Rightarrow> Inl (Status Internal) | Inr k8sVolume \<Rightarrow> Inr k8sVolume) })
      (\<lambda>r. status_only r \<and> r \<noteq> Inr None)"
    by (rule yields_bind, rule yields_after [OF yields_for_return [where I = "relocated spec", OF attempt]])
      (auto intro!: yields_return split: sum.splits)
  then show ?thesis
    unfolding CreateVolume_def using create_by_status by (intro yields_if) auto
qed

subsection \<open>What a checked request is\<close>

definition checked :: "CreateVolumeRequest \<Rightarrow> CreateK8sVolumeSpec \<Rightarrow> bool" where
  "checked req spec \<longleftrightarrow> isProtocolSupport (cv_Protocol spec) \<and>
     getSizeByCapacityRange (cvr_CapacityRange req) = Inr (cv_Size spec) \<and>
     cv_K8sVolumeName spec = cvr_Name req \<and> cvr_Name req \<noteq> '''' \<and>
     cv_BackendName spec = GenBackendName (cvr_Name req) \<and> cv_ShareName spec = GenShareName (cvr_Name req) \<and>
     cv_DsmIp spec = get_param (cvr_Parameters req) ''dsm''"

lemma request_protocol_status: "request_protocol params = Inl e \<Longrightarrow> e = Status InvalidArgument"
  by (simp add: request_protocol_def Let_def split: if_splits)

lemma request_protocol_supported: "request_protocol params = Inr p \<Longrightarrow> isProtocolSupport p"
  by (auto simp: request_protocol_def Let_def isProtocolSupport_cases ProtocolDefault_def split: if_splits)

lemma check_capabilities_status:
  "check_capabilities d protocol caps s = Inl e \<Longrightarrow> e = Status InvalidArgument"
  by (induction d protocol caps s rule: check_capabilities.induct) (auto split: if_splits)

lemma getSizeByCapacityRange_status:
  "getSizeByCapacityRange r = Inl e \<Longrightarrow> e = Status InvalidArgument"
  by (auto simp: getSizeByCapacityRange_def Let_def split: option.splits if_splits)

lemma content_source_status: "content_source s = Inl e \<Longrightarrow> e = Status InvalidArgument"
  by (simp add: content_source_def split: option.splits ContentSource.splits)

lemma check_request_cases:
  "case check_request d req of Inl e \<Rightarrow> e = Status InvalidArgument | Inr spec \<Rightarrow> checked req spec"
  by (auto simp: check_request_def checked_def volume_spec_def Let_def
      dest: request_protocol_status request_protocol_supported check_capabilities_status
        getSizeByCapacityRange_status content_source_status
      split: sum.split option.split prod.split)

lemma answer_volume_status: "k8sVolume \<noteq> None \<Longrightarrow> status_only (answer_volume req sz k8sVolume)"
  by (auto simp: answer_volume_def)

subsection \<open>A service that answers\<close>

text \<open>The part of the contract about errors: what the handlers hand on as it is, is a gRPC status, and
  a pointer that comes without an error is not nil. For \<^verbatim>\<open>CreateVolume\<close> that takes a protocol the
  driver knows.\<close>

locale answering_service =
  fixes svc :: "'w IDsmService"
  assumes CreateVolume_answers: "isProtocolSupport (cv_Protocol spec) \<Longrightarrow>
      yields (svc_CreateVolume svc spec) (\<lambda>r. status_only r \<and> r \<noteq> Inr None)"
    and ExpandVolume_answers: "yields (svc_ExpandVolume svc volId newSize) (\<lambda>r. status_only r \<and> r \<noteq> Inr None)"
    and CreateSnapshot_answers: "yields (svc_CreateSnapshot svc snapSpec) (\<lambda>r. status_only r \<and> r \<noteq> Inr None)"
begin

lemma handed_on:
  fixes m :: "('w, err + 'b option) prog" and f :: "'b option \<Rightarrow> err + 'c"
  assumes "yields m (\<lambda>r. status_only r \<and> r \<noteq> Inr None)" "\<And>x. status_only (f (Some x))"
  shows "yields (do { r \<leftarrow> m; State_Monad.return (case r of Inl e \<Rightarrow> Inl e | Inr x \<Rightarrow> f x) }) status_only"
proof (rule yields_after [OF assms(1)], rule yields_return)
  fix r :: "err + 'b option"
  assume r: "status_only r \<and> r \<noteq> Inr None"
  show "status_only (case r of Inl e \<Rightarrow> Inl e | Inr x \<Rightarrow> f x)"
  proof (cases r)
    case (Inl e)
    with r show ?thesis by (simp add: status_only_def)
  next
    case (Inr x)
    with r assms(2) show ?thesis by (cases x) simp_all
  qed
qed

lemma create_volume_answers:
  "yields (controllerServer_CreateVolume (NewControllerServer d svc) req) status_only"
proof (cases "check_request d req")
  case (Inl e)
  with check_request_cases [where d = d and req = req] show ?thesis
    by (simp add: controllerServer_CreateVolume_def yields_return)
next
  case (Inr spec)
  with check_request_cases [where d = d and req = req] have "isProtocolSupport (cv_Protocol spec)"
    by (simp add: checked_def)
  then have created: "yields (do { r \<leftarrow> svc_CreateVolume svc spec; State_Monad.return (case r of Inl e \<Rightarrow> Inl e
         | Inr k8sVolume \<Rightarrow> answer_volume req (cv_Size spec) k8sVolume) }) status_only"
    by (intro handed_on CreateVolume_answers answer_volume_status) simp_all
  show ?thesis
    unfolding controllerServer_CreateVolume_def NewControllerServer_sel Inr sum.case
    by (rule yields_bind, intro yields_case_sum yields_case_option;
        (rule created | rule yields_return, simp add: answer_volume_status))
qed

lemma create_snapshot_answers:
  "yields (controllerServer_CreateSnapshot (NewControllerServer d svc) srcVolId name params) status_only"
  unfolding controllerServer_CreateSnapshot_def NewControllerServer_sel
  by (intro yields_if yields_return yields_bind [where P = status_only] yields_case_option
      handed_on [OF CreateSnapshot_answers]) (simp_all add: answer_snapshot_def)

lemma expand_volume_answers:
  "yields (controllerServer_ControllerExpandVolume (NewControllerServer d svc) volId capRange) status_only"
  unfolding controllerServer_ControllerExpandVolume_def NewControllerServer_sel
  by (intro yields_if yields_return yields_case_sum handed_on [OF ExpandVolume_answers])
    (simp_all add: answer_expanded_def)

end

text \<open>The other handlers make a status of every error themselves, whatever the service is.\<close>

lemma page_of_status: "status_only (page_of key wanted n token xs)"
  by (simp add: page_of_def Let_def split: prod.split)

lemma status_map_sum: "status_only r \<Longrightarrow> status_only (map_sum id f r)"
  by (cases r) (simp_all add: status_only_def)

lemma handlers_answer:
  "yields (controllerServer_DeleteVolume cs volId) (\<lambda>r. r \<in> {None, Some (Status InvalidArgument), Some (Status Internal)})"
  "yields (controllerServer_DeleteSnapshot cs volId) (\<lambda>r. r \<in> {None, Some (Status InvalidArgument), Some (Status Internal)})"
  "yields (controllerServer_ValidateVolumeCapabilities cs volId volCap) status_only"
  "yields (controllerServer_ListVolumes cs n token) status_only"
  "yields (controllerServer_ListSnapshots cs volId snapId n token) status_only"
  "yields (controllerServer_GetCapacity cs params) status_only"
  unfolding controllerServer_DeleteVolume_def controllerServer_DeleteSnapshot_def
    controllerServer_ValidateVolumeCapabilities_def controllerServer_ListVolumes_def
    controllerServer_ListSnapshots_def controllerServer_GetCapacity_def volume_page_def snapshot_page_def
  by (intro yields_if yields_bind yields_case_option yields_return;
      auto intro!: status_map_sum page_of_status split: option.split sum.split prod.split)+

lemma service_status:
  "yields (ExpandVolume env volId newSize) status_only"
  "yields (CreateSnapshot env snapSpec) status_only"
  unfolding ExpandVolume_def expand_found_def CreateSnapshot_def snapshot_lun_def snapshot_share_def
    snapshot_namespace_def snapshot_error_def
  by (intro status_rules; simp split: sum.split option.split)+

lemma not_nil_status: "yields m status_only \<Longrightarrow> yields (not_nil m) (\<lambda>r. status_only r \<and> r \<noteq> Inr None)"
  unfolding not_nil_def
  by (rule yields_after, assumption, rule yields_return) (simp add: status_map_sum map_sum_Some)

interpretation answers: answering_service "DsmService env" for env
  by unfold_locales (simp_all add: service_CreateVolume_status not_nil_status service_status)

subsection \<open>CreateVolume of the driver\<close>

text \<open>C36: Every error that a handler of the controller server answers with is a gRPC status. In
  particular no handler reads through a nil pointer, although \<^verbatim>\<open>CreateVolume\<close> of the service can
  return neither a volume nor an error for a protocol it does not know.\<close>

theorem controller_status:
  "yields (cs_CreateVolume env d req) status_only \<and>
   yields (cs_DeleteVolume env d volId) (\<lambda>r. r \<in> {None, Some (Status InvalidArgument), Some (Status Internal)}) \<and>
   yields (ValidateVolumeCapabilities env d volId volCap) status_only \<and>
   yields (cs_ListVolumes env d n token) status_only \<and>
   yields (GetCapacity env d params) status_only \<and>
   yields (cs_CreateSnapshot env d volId name params) status_only \<and>
   yields (cs_DeleteSnapshot env d snapId) (\<lambda>r. r \<in> {None, Some (Status InvalidArgument), Some (Status Internal)}) \<and>
   yields (cs_ListSnapshots env d volId snapId n token) status_only \<and>
   yields (ControllerExpandVolume env d volId capRange) status_only"
  unfolding cs_CreateVolume_def cs_DeleteVolume_def ValidateVolumeCapabilities_def cs_ListVolumes_def
    GetCapacity_def cs_CreateSnapshot_def cs_DeleteSnapshot_def cs_ListSnapshots_def
    ControllerExpandVolume_def controller_def
  by (intro conjI answers.create_volume_answers answers.create_snapshot_answers
      answers.expand_volume_answers handlers_answer)

text \<open>C4: \<^verbatim>\<open>CreateVolume\<close> of the driver first only reads, to look the name up. Anything further
  is sent only when every storage system was heard and none has a volume or share of that
  name, so a repeated request, or one made while a storage system does not answer, never
  makes a second volume.\<close>

theorem CreateVolume_idempotent:
  "emits D (cs_CreateVolume env d req) (\<lambda>r t. \<exists>t1 t2. t = t1 @ t2 \<and> list_all quiet t1 \<and>
     (t2 = [] \<or> volume_absent D (\<lambda>share. sh_Name share = GenShareName (cvr_Name req))
        (\<lambda>v. kv_Name v = GenBackendName (cvr_Name req) \<or> kv_Name v = GenShareName (cvr_Name req)) t1))"
  unfolding emits_meets cs_CreateVolume_def controller_def
  by (rule meets_mono [OF dsm.named_before_created]) (rule since_steps)

subsection \<open>Capabilities\<close>

lemma check_capabilities_servable:
  "isl (check_capabilities d protocol caps s) \<longleftrightarrow> \<not> list_all (servable d protocol) caps"
  by (induction d protocol caps s rule: check_capabilities.induct) (auto simp: servable_def)

text \<open>C22: A request with a capability that the driver cannot serve, such as a block device on a
  share, is refused with InvalidArgument, and nothing is sent to any storage system.\<close>

theorem CreateVolume_unservable:
  assumes "request_protocol (cvr_Parameters req) = Inr protocol"
    "cvr_VolumeCapabilities req = Some caps" "c \<in> set caps" "\<not> servable d protocol c"
  shows "emits D (cs_CreateVolume env d req) (\<lambda>r t. r = Inl (Status InvalidArgument) \<and> t = [])"
proof -
  from assms(3,4) have "\<not> list_all (servable d protocol) caps" by (auto simp: list_all_iff)
  then obtain e where "check_capabilities d protocol caps (False, []) = Inl e"
    using check_capabilities_servable [of d protocol caps "(False, [])"] by (auto simp: isl_def)
  with assms(1,2) have "isl (check_request d req)"
    by (auto simp: check_request_def Let_def split: sum.split)
  then obtain e' where e': "check_request d req = Inl e'" by (auto simp: isl_def)
  with check_request_cases [where d = d and req = req] have "e' = Status InvalidArgument" by simp
  with e' show ?thesis by (simp add: cs_CreateVolume_run emits_return)
qed

definition block_on_nfs :: CreateVolumeRequest where
  "block_on_nfs = \<lparr>cvr_Name = ''pvc-1'', cvr_CapacityRange = None,
     cvr_VolumeCapabilities = Some [\<lparr>cap_AccessMode = SINGLE_NODE_WRITER, cap_AccessType = BlockVolume\<rparr>],
     cvr_Parameters = [''protocol'' \<mapsto> ''nfs''], cvr_VolumeContentSource = None\<rparr>"

lemma block_on_nfs_protocol: "request_protocol (cvr_Parameters block_on_nfs) = Inr ''nfs''"
  by (simp add: block_on_nfs_def request_protocol_def get_param_def to_lower_def lower_char_def Let_def
      isProtocolSupport_cases protocol_defs)

theorem CreateVolume_unservable_witness:
  "emits (dsms world0) (cs_CreateVolume failing_env (NewControllerAndNodeDriver ''node'' ''unix:///csi.sock'') block_on_nfs)
     (\<lambda>r t. r = Inl (Status InvalidArgument) \<and> t = [])"
  by (rule CreateVolume_unservable [where protocol = "''nfs''" and req = block_on_nfs
        and caps = "[\<lparr>cap_AccessMode = SINGLE_NODE_WRITER, cap_AccessType = BlockVolume\<rparr>]"
          and c = "\<lparr>cap_AccessMode = SINGLE_NODE_WRITER, cap_AccessType = BlockVolume\<rparr>"], rule block_on_nfs_protocol)
    (simp_all add: block_on_nfs_def servable_def isShareProtocol_def protocol_defs)

text \<open>C40: \<^verbatim>\<open>ValidateVolumeCapabilities\<close> only reads, and confirms exactly the capabilities asked
  about, for a volume that a storage system reported, each of which the driver can serve
  for that volume's protocol: what it confirms, \<^verbatim>\<open>CreateVolume\<close> would accept.\<close>

theorem ValidateVolumeCapabilities_sound:
  "emits D (ValidateVolumeCapabilities env d volumeId volCap) (\<lambda>r t. list_all quiet t \<and>
     (case r of Inr (Confirmed caps) \<Rightarrow> volCap = Some caps \<and>
        (\<exists>v. known_volume D volumeId v t \<and> list_all (servable d (kv_Protocol v)) caps) | _ \<Rightarrow> True))"
  unfolding emits_meets ValidateVolumeCapabilities_def controller_def
  by (rule meets_mono [OF dsm.confirmed_known])
    (auto simp: since_def split: sum.split Validation.split)

text \<open>C8: A page that \<^verbatim>\<open>ListVolumes\<close> of the driver answers with is a page of a listing for which every
  storage system was heard, with every LUN, namespace and share of the driver that they
  reported; when something could not be listed there is no page. Listing only reads.\<close>

theorem ListVolumes_complete:
  "emits D (cs_ListVolumes env d n token) (\<lambda>r t. list_all quiet t \<and>
     (case r of Inl e \<Rightarrow> True | Inr page \<Rightarrow>
        (\<exists>vs. all_seen D vs t \<and> Inr page = volume_answer n token vs)))"
  unfolding emits_meets cs_ListVolumes_def controller_def
  by (rule meets_mono [OF dsm.page_of_complete]) (auto simp: since_def split: sum.split)

subsection \<open>Capacity\<close>

text \<open>The size of a volume is the required size, accepted when it is at least a gigabyte and
  not above a limit that is set.\<close>

theorem capacity_range:
  "getSizeByCapacityRange (Some \<lparr>cr_RequiredBytes = a, cr_LimitBytes = b\<rparr>) =
     (if 2 ^ 30 \<le> sint a \<and> (sint b \<le> 0 \<or> sint a \<le> sint b) then Inr a else Inl (Status InvalidArgument))"
  by (auto simp: getSizeByCapacityRange_def Let_def)

lemma BytesToMB_ceil:
  assumes "BytesToMB cap = BytesToMBCeil n" "0 < sint n" "sint n \<le> 2 ^ 63 - 2 ^ 20"
  shows "sint n \<le> sint cap"
proof -
  have ceil: "sint (BytesToMBCeil n) = (sint n + 1048575) div 1048576"
    using assms(2,3) by (intro sint_BytesToMBCeil) simp_all
  have pos: "0 < (sint n + 1048575) div 1048576" using assms(2) by linarith
  have "0 \<le> sint cap"
  proof (rule ccontr)
    assume neg: "\<not> 0 \<le> sint cap"
    have "sint cap sdiv 1048576 = - (- sint cap div 1048576)"
      using neg by (simp add: signed_divide_int_def)
    moreover have "0 \<le> - sint cap div 1048576" using neg by simp
    moreover have "sint cap \<ge> - 9223372036854775808" using sint64_range(1) [of cap] by simp
    then have "- sint cap div 1048576 \<le> 9223372036854775808" using neg by linarith
    ultimately have r: "- (2 ^ 63) \<le> sint cap sdiv 1048576" "sint cap sdiv 1048576 \<le> 0" by simp_all
    then have "sint (BytesToMB cap) = sint cap sdiv 1048576"
      using sint64_of_int [of "sint cap sdiv 1048576"] by (simp add: BytesToMB_def div64_def)
    with r(2) have "sint (BytesToMB cap) \<le> 0" by simp
    with assms(1) ceil pos show False by simp
  qed
  then have "sint cap div 1048576 = (sint n + 1048575) div 1048576"
    using sint_BytesToMB [of cap] assms(1) ceil by simp
  then show ?thesis by linarith
qed

text \<open>C23: The capacity that \<^verbatim>\<open>CreateVolume\<close> answers with is exactly the size asked for when the
  volume is a LUN or a namespace, and not below it when it is a share; this holds for a
  volume that was there already as well as for a new one.\<close>

theorem CreateVolume_capacity:
  assumes "getSizeByCapacityRange (cvr_CapacityRange req) = Inr n" "sint n \<le> 2 ^ 63 - 2 ^ 20"
  shows "yields (cs_CreateVolume env d req) (\<lambda>r. case r of Inl e \<Rightarrow> True
     | Inr v \<Rightarrow>
         if csi_VolumeContext v ''protocol'' \<in> {Some ProtocolIscsi, Some ProtocolNvme}
         then csi_CapacityBytes v = n
         else if csi_VolumeContext v ''protocol'' \<in> {Some ProtocolSmb, Some ProtocolNfs}
         then sint n \<le> sint (csi_CapacityBytes v) else True)" (is "yields _ ?P")
proof (cases "check_request d req")
  case (Inl e)
  then show ?thesis by (simp add: cs_CreateVolume_run yields_return)
next
  case (Inr spec)
  with check_request_cases [where d = d and req = req] assms(1) have n: "cv_Size spec = n"
    by (simp add: checked_def)
  have pos: "0 < sint n"
    using assms(1) by (auto simp: getSizeByCapacityRange_def Let_def split: option.splits if_splits)
  have ans: "?P (answer_volume req n k)" for k
    using BytesToMB_ceil [OF _ pos assms(2)]
    by (auto simp: answer_volume_def size_differs_def volume_response_def split: option.split)
  then have "?P (case r of Inl e \<Rightarrow> Inl e | Inr k \<Rightarrow> answer_volume req n k)" for r :: "err + K8sVolumeRespSpec option"
    by (cases r) simp_all
  with ans show ?thesis
    unfolding cs_CreateVolume_run Inr sum.case n
    by (intro yields_bind [where P = ?P] yields_case_sum yields_case_option yields_return) simp_all
qed

theorem CreateVolume_capacity_witness:
  "yields (cs_CreateVolume failing_env (NewControllerAndNodeDriver ''node'' ''unix:///csi.sock'') block_on_nfs)
     (\<lambda>r. case r of Inl e \<Rightarrow> True
     | Inr v \<Rightarrow>
         if csi_VolumeContext v ''protocol'' \<in> {Some ProtocolIscsi, Some ProtocolNvme}
         then csi_CapacityBytes v = 1073741824
         else if csi_VolumeContext v ''protocol'' \<in> {Some ProtocolSmb, Some ProtocolNfs}
         then sint (1073741824 :: int64) \<le> sint (csi_CapacityBytes v) else True)"
  by (rule CreateVolume_capacity) (simp_all add: block_on_nfs_def getSizeByCapacityRange_def UNIT_GB_def)

text \<open>The free bytes that a volume adds to \<^verbatim>\<open>GetCapacity\<close>: none when it is another location or
  when its free size is not a number.\<close>

definition free_at :: "string \<Rightarrow> VolInfo \<Rightarrow> int" where
  "free_at location v = (if location \<noteq> '''' \<and> vi_Path v \<noteq> location then 0
     else case parse_int 64 (vi_Free v) of None \<Rightarrow> 0 | Some n \<Rightarrow> n)"

text \<open>\<^verbatim>\<open>GetCapacity\<close> adds up the free bytes of the volumes at the location, modulo
  \<^verbatim>\<open>2^64\<close>.\<close>

theorem GetCapacity_sum:
  "sum_free location infos acc = acc + word_of_int (sum_list (map (free_at location) infos))"
  by (induction location infos acc rule: sum_free.induct)
    (auto simp: free_at_def split: option.split)

end
