(* ===== verification/Taking.thy ===== *)
theory Taking
  imports Provision
begin

text \<open>
  \<^verbatim>\<open>CreateSnapshot\<close> of the service and of the driver: one snapshot is taken, of the volume that was
  looked up, on the storage system that reported it; before and after, storage systems are only
  asked.
\<close>

subsection \<open>The request that takes a snapshot\<close>

definition snapshot_params :: "K8sVolumeRespSpec \<Rightarrow> CreateK8sVolumeSnapshotSpec \<Rightarrow> params" where
  "snapshot_params v spec =
     (if kv_Protocol v = ProtocolIscsi then
        [(''api'', lun_api), (''method'', PStr ''take_snapshot''), v1,
         (''src_lun_uuid'', PQuote (csn_K8sVolumeId spec)), (''snapshot_name'', PQuote (csn_SnapshotName spec)),
         (''description'', PQuote (csn_Description spec)), (''taken_by'', PQuote (csn_TakenBy spec)),
         (''is_locked'', PStr (bool_str (csn_IsLocked spec))), (''is_app_consistent'', PStr (bool_str False))]
      else if kv_Protocol v = ProtocolSmb \<or> kv_Protocol v = ProtocolNfs then
        [(''api'', snap_api), (''method'', PStr ''create''), v1, (''name'', PQuote (sh_Name (kv_Share v))),
         (''snapinfo'', PJson (JObj [(''desc'', JStr (ShareSnapshotDescPrefix @ csn_SnapshotName spec)),
           (''lock'', JBool (csn_IsLocked spec))]))]
      else
        [(''api'', ns_api), (''method'', PStr ''take_snapshot''), v1, (''uuid'', PQuote (csn_K8sVolumeId spec)),
         (''snapshot_name'', PQuote (csn_SnapshotName spec)), (''description'', PQuote (csn_Description spec)),
         (''taken_by'', PQuote (csn_TakenBy spec)), (''is_user_locked'', PStr (bool_str (csn_IsLocked spec))),
         (''is_app_consistent'', PStr (bool_str False))])"

definition takes :: "DSM \<Rightarrow> params \<Rightarrow> call list \<Rightarrow> bool" where
  "takes dsm ps t \<longleftrightarrow> (\<exists>t1 t2. t = t1 @ t2 \<and> asks_only dsm ps t1 \<and> list_all quiet t2)"

lemma takes_Nil [simp]: "takes dsm ps []"
  by (simp add: takes_def asks_only_def)

lemma takes_then:
  assumes "emits D m (\<lambda>r t. asks_only dsm ps t)" "\<And>x. only D quiet (f x)"
  shows "emits D (do { r \<leftarrow> m; case r of Inl e \<Rightarrow> State_Monad.return (Inl (h e)) | Inr x \<Rightarrow> f x })
    (\<lambda>_. takes dsm ps)"
proof (rule emits_bind [OF assms(1)], rule emits_case_sum, rule emits_return)
  fix t
  assume t: "asks_only dsm ps t"
  then show "takes dsm ps (t @ [])" unfolding takes_def by (intro exI [of _ t] exI [of _ "[]"]) simp
  show "emits D (f x) (\<lambda>_ t'. takes dsm ps (t @ t'))" for x
    by (rule emits_mono [OF assms(2)]) (use t in \<open>auto simp: takes_def\<close>)
qed

lemma snapshot_found_emits:
  "kv_Protocol v = ProtocolIscsi \<Longrightarrow> emits D (snapshot_lun env dsm spec) (\<lambda>_. takes dsm (snapshot_params v spec))"
  "kv_Protocol v \<noteq> ProtocolIscsi \<Longrightarrow> kv_Protocol v = ProtocolSmb \<or> kv_Protocol v = ProtocolNfs \<Longrightarrow>
     emits D (snapshot_share env dsm spec v) (\<lambda>_. takes dsm (snapshot_params v spec))"
  "kv_Protocol v = ProtocolNvme \<Longrightarrow> emits D (snapshot_namespace env dsm spec) (\<lambda>_. takes dsm (snapshot_params v spec))"
proof -
  assume p: "kv_Protocol v = ProtocolIscsi"
  have "emits D (SnapshotCreate env dsm (san_snapshot_spec spec)) (\<lambda>_. asks_only dsm (snapshot_params v spec))"
    unfolding SnapshotCreate_def
    by (rule emits_mono [OF iscsi.send_emits])
      (auto simp: p not_login_def snapshot_params_def san_snapshot_spec_def dest: sent_asks_only)
  then show "emits D (snapshot_lun env dsm spec) (\<lambda>_. takes dsm (snapshot_params v spec))"
    unfolding snapshot_lun_def
    by (rule takes_then) (intro emits_rules; simp)
next
  assume p: "kv_Protocol v \<noteq> ProtocolIscsi" "kv_Protocol v = ProtocolSmb \<or> kv_Protocol v = ProtocolNfs"
  have "emits D (ShareSnapshotCreate env dsm \<lparr>sscs_ShareName = sh_Name (kv_Share v),
      sscs_Desc = ShareSnapshotDescPrefix @ csn_SnapshotName spec, sscs_IsLocked = csn_IsLocked spec\<rparr>)
      (\<lambda>_. asks_only dsm (snapshot_params v spec))"
    unfolding ShareSnapshotCreate_def
    by (rule emits_mono [OF share.send_emits])
      (use p in \<open>auto simp: not_login_def snapshot_params_def dest: sent_asks_only\<close>)
  then show "emits D (snapshot_share env dsm spec v) (\<lambda>_. takes dsm (snapshot_params v spec))"
    unfolding snapshot_share_def
    by (rule takes_then) (intro emits_rules; simp)
next
  assume p: "kv_Protocol v = ProtocolNvme"
  have made: "emits D (NamespaceSnapshotCreate env dsm (san_snapshot_spec spec)) (\<lambda>_. asks_only dsm (snapshot_params v spec))"
    unfolding NamespaceSnapshotCreate_def
    by (rule emits_mono [OF san.send_emits])
      (auto simp: p not_login_def snapshot_params_def san_snapshot_spec_def protocol_defs dest: sent_asks_only)
  show "emits D (snapshot_namespace env dsm spec) (\<lambda>_. takes dsm (snapshot_params v spec))"
    unfolding snapshot_namespace_def
    by (rule emits_if, rule emits_return, rule takes_Nil, rule takes_then [OF made]) (intro emits_rules; simp)
qed

subsection \<open>CreateSnapshot\<close>

text \<open>First only reading; then nothing more and an error, or one kind of request, to the storage
  system of the volume, and only reading again.\<close>

definition takes_one :: "(string \<times> DSM) list \<Rightarrow> CreateK8sVolumeSnapshotSpec \<Rightarrow> bool \<Rightarrow> call list \<Rightarrow> bool" where
  "takes_one D spec failed t \<longleftrightarrow> (\<exists>t1 t2. t = t1 @ t2 \<and> list_all quiet t1 \<and>
     (t2 = [] \<and> failed \<or> (\<exists>v dsm. known_volume D (csn_K8sVolumeId spec) v t1 \<and>
        map_of D (kv_DsmIp v) = Some dsm \<and> takes dsm (snapshot_params v spec) t2)))"

lemma takes_one_failed: "list_all quiet t \<Longrightarrow> takes_one D spec True t"
  unfolding takes_one_def by auto

lemma takes_one_after:
  assumes "list_all quiet t" "takes_one D spec b t'"
  shows "takes_one D spec b (t @ t')"
proof -
  from assms(2) obtain t1 t2 where t': "t' = t1 @ t2" "list_all quiet t1"
    and t2: "t2 = [] \<and> b \<or> (\<exists>v dsm. known_volume D (csn_K8sVolumeId spec) v t1 \<and>
        map_of D (kv_DsmIp v) = Some dsm \<and> takes dsm (snapshot_params v spec) t2)"
    unfolding takes_one_def by blast
  have "known_volume D i v (t @ t1)" if "known_volume D i v t1" for i v
    using that by (rule known_volume_mono) simp
  with t2 have "t2 = [] \<and> b \<or> (\<exists>v dsm. known_volume D (csn_K8sVolumeId spec) v (t @ t1) \<and>
      map_of D (kv_DsmIp v) = Some dsm \<and> takes dsm (snapshot_params v spec) t2)" by blast
  with t' assms(1) show ?thesis
    unfolding takes_one_def by (intro exI [of _ "t @ t1"] exI [of _ t2]) simp
qed

lemma CreateSnapshot_contract:
  "emits D (CreateSnapshot env spec) (\<lambda>r. takes_one D spec (isl r))"
  unfolding CreateSnapshot_def
proof (rule emits_bind [OF GetVolume_contract], rule emits_case_sum, rule emits_return, simp add: takes_one_failed)
  fix r x t
  assume t: "list_all quiet t \<and> (case r of Inl e \<Rightarrow> True | Inr None \<Rightarrow> no_volume D (csn_K8sVolumeId spec) t
      | Inr (Some v) \<Rightarrow> known_volume D (csn_K8sVolumeId spec) v t)" and r: "r = Inr x"
  show "emits D (case x of None \<Rightarrow> State_Monad.return (Inl (Status NotFound))
      | Some k8sVolume \<Rightarrow> do {
         d \<leftarrow> GetDsm (kv_DsmIp k8sVolume);
         case d of
           Inl e \<Rightarrow> State_Monad.return (Inl (Status InvalidArgument))
         | Inr dsm \<Rightarrow>
             if kv_Protocol k8sVolume = ProtocolIscsi then snapshot_lun env dsm spec
             else if kv_Protocol k8sVolume = ProtocolSmb \<or> kv_Protocol k8sVolume = ProtocolNfs
             then snapshot_share env dsm spec k8sVolume
             else if kv_Protocol k8sVolume = ProtocolNvme then snapshot_namespace env dsm spec
             else State_Monad.return (Inl (Status InvalidArgument)) }) (\<lambda>r t'. takes_one D spec (isl r) (t @ t'))"
  proof (rule emits_case_option, rule emits_return, simp add: takes_one_failed t,
      rule emits_bind [OF GetDsm_emits], rule emits_case_sum, rule emits_return, simp add: takes_one_failed t)
    fix v and d :: "err + DSM" and dsm and t1 :: "call list"
    assume v: "x = Some v"
      and d: "t1 = [] \<and> (case d of Inl e \<Rightarrow> map_of D (kv_DsmIp v) = None \<and>
          e = FmtError ''Requested dsm [%s] does not exist''
        | Inr dsm \<Rightarrow> map_of D (kv_DsmIp v) = Some dsm)" "d = Inr dsm"
    have found: "takes_one D spec b (t @ t2)" if "takes dsm (snapshot_params v spec) t2" for b t2
      unfolding takes_one_def using that t r v d by (intro exI [of _ t] exI [of _ t2]) auto
    show "emits D (if kv_Protocol v = ProtocolIscsi then snapshot_lun env dsm spec
         else if kv_Protocol v = ProtocolSmb \<or> kv_Protocol v = ProtocolNfs then snapshot_share env dsm spec v
         else if kv_Protocol v = ProtocolNvme then snapshot_namespace env dsm spec
         else State_Monad.return (Inl (Status InvalidArgument))) (\<lambda>r t'. takes_one D spec (isl r) (t @ t1 @ t'))"
      by (intro emits_if emits_return; (rule emits_mono [OF snapshot_found_emits(1)] emits_mono [OF snapshot_found_emits(2)]
          emits_mono [OF snapshot_found_emits(3)])?) (use t d in \<open>auto intro: found takes_one_failed\<close>)
  qed
qed

text \<open>C25: \<^verbatim>\<open>CreateSnapshot\<close> of the driver first only reads. Then it sends nothing more, or the request to
  take one snapshot, under the name and with the settings asked for, of the source volume, to
  the storage system that reported the volume; after it, it only reads again. Nothing else is
  made, and nothing is deleted.\<close>

theorem CreateSnapshot_takes_one:
  "emits D (cs_CreateSnapshot env d srcVolId name params) (\<lambda>r t. list_all quiet t \<or>
     (\<exists>t1 t2 v dsm. t = t1 @ t2 \<and> list_all quiet t1 \<and> known_volume D srcVolId v t1 \<and>
        map_of D (kv_DsmIp v) = Some dsm \<and>
        takes dsm (snapshot_params v \<lparr>csn_K8sVolumeId = srcVolId, csn_SnapshotName = name,
          csn_Description = get_param params ''description'', csn_TakenBy = ''Kubernetes CSI'',
          csn_IsLocked = StringToBoolean (get_param params ''is_locked'')\<rparr>) t2))"
proof -
  let ?spec = "\<lparr>csn_K8sVolumeId = srcVolId, csn_SnapshotName = name,
    csn_Description = get_param params ''description'', csn_TakenBy = ''Kubernetes CSI'',
    csn_IsLocked = StringToBoolean (get_param params ''is_locked'')\<rparr>"
  have weak: "takes_one D ?spec b t \<Longrightarrow> takes_one D ?spec True t" for b t
    unfolding takes_one_def by blast
  have made: "emits D (CreateSnapshot env ?spec) (\<lambda>r t. takes_one D ?spec True t)"
    by (rule emits_mono [OF CreateSnapshot_contract]) (rule weak)
  have stop: "takes_one D ?spec True []" by (rule takes_one_failed) simp
  have "emits D (cs_CreateSnapshot env d srcVolId name params) (\<lambda>r t. takes_one D ?spec True t)"
    unfolding cs_CreateSnapshot_def controllerServer_CreateSnapshot_def controller_sel DsmService_sel not_nil_def
  proof (rule emits_if, rule emits_return, rule stop, rule emits_if, rule emits_return, rule stop,
      rule emits_bind [OF snapshot_lookup_reads(2)], rule emits_case_option)
    fix t
    assume t: "list_all quiet t"
    show "emits D (do {
        r \<leftarrow> do { r \<leftarrow> CreateSnapshot env ?spec; State_Monad.return (map_sum id Some r) };
        State_Monad.return (case r of Inl e \<Rightarrow> Inl e | Inr snapshot \<Rightarrow> answer_snapshot snapshot) })
      (\<lambda>r t'. takes_one D ?spec True (t @ t'))"
      unfolding State_Monad.bind_assoc
      by (rule emits_bind [OF made], rule emits_bind [where P = "\<lambda>_ t. t = []"]; rule emits_return)
        (simp_all add: takes_one_after t)
  qed (rule emits_return, simp add: takes_one_failed)
  then show ?thesis
    by (rule emits_mono) (auto simp: takes_one_def)
qed

end
