(* ===== verification/Paging.thy ===== *)
theory Paging
  imports Controller "HOL-Library.Multiset"
begin

text \<open>
  The paging of \<^verbatim>\<open>ListVolumes\<close> and \<^verbatim>\<open>ListSnapshots\<close>: what one page holds, and what a client
  gets that asks for page after page until the token is empty. The interface \<open>pager\<close> is
  what the two listings have in common: a key that serves as the token, and a sorting that
  only rearranges; it is interpreted on both.
\<close>

subsection \<open>One page\<close>

text \<open>The token that follows a page: the key of the first entry that did not fit.\<close>

definition next_token :: "('v \<Rightarrow> string) \<Rightarrow> 'v list \<Rightarrow> string" where
  "next_token key rest = (case rest of [] \<Rightarrow> '''' | y # _ \<Rightarrow> key y)"

lemma page_loop_go:
  assumes "0 < m" "c \<le> m"
  shows "page_loop key wanted m token False c xs =
     (False, take (nat (m - c)) (filter wanted xs), next_token key (drop (nat (m - c)) (filter wanted xs)))"
  using assms(2)
proof (induction xs arbitrary: c)
  case Nil
  then show ?case by (simp add: next_token_def)
next
  case (Cons x xs)
  show ?case
  proof (cases "wanted x \<and> c < m")
    case True
    then have n: "nat (m - c) = Suc (nat (m - (c + 1)))" by linarith
    from True Cons.IH [of "c + 1"] show ?thesis by (simp add: n Let_def)
  next
    case False
    with Cons assms(1) show ?thesis by (auto simp: Let_def next_token_def)
  qed
qed

lemma page_loop_all:
  "\<not> 0 < m \<Longrightarrow> page_loop key wanted m token False c xs = (False, filter wanted xs, '''')"
  by (induction xs arbitrary: c) (auto simp: Let_def)

lemma page_loop_skip:
  "page_loop key wanted m token True c xs =
     (if token \<in> key ` set xs then page_loop key wanted m token False c (dropWhile (\<lambda>x. key x \<noteq> token) xs)
      else (True, [], ''''))"
  by (induction xs) (auto simp: Let_def)

text \<open>Where a page starts: at the beginning, or at the first entry with the token as its key.\<close>

definition from_token :: "('v \<Rightarrow> string) \<Rightarrow> string \<Rightarrow> 'v list \<Rightarrow> 'v list" where
  "from_token key token xs = (if token = '''' then xs else dropWhile (\<lambda>x. key x \<noteq> token) xs)"

lemma page_of_cases:
  assumes "0 \<le> m"
  shows "page_of key wanted m token xs =
     (if token \<noteq> '''' \<and> token \<notin> key ` set xs then Inl (Status Aborted)
      else let ys = filter wanted (from_token key token xs); n = (if m = 0 then length ys else nat m)
        in Inr (take n ys, next_token key (drop n ys)))"
proof -
  have go: "page_loop key wanted m token False 0 zs =
      (let ys = filter wanted zs; n = (if m = 0 then length ys else nat m)
       in (False, take n ys, next_token key (drop n ys)))" for zs
    using page_loop_go [of m 0 key wanted token zs] page_loop_all [of m key wanted token 0 zs] assms
    by (auto simp: Let_def next_token_def)
  have loop: "page_loop key wanted m token (token \<noteq> '''') 0 xs =
      (if token \<noteq> '''' \<and> token \<notin> key ` set xs then (True, [], '''')
       else page_loop key wanted m token False 0 (from_token key token xs))"
    by (simp add: page_loop_skip from_token_def)
  show ?thesis
    unfolding page_of_def loop go by (simp add: Let_def)
qed

text \<open>A page of at most \<open>m\<close> entries, for a positive \<open>m\<close>.\<close>

lemma page_of_length:
  assumes "0 < m" "page_of key wanted m token xs = Inr (entries, nextToken)"
  shows "int (length entries) \<le> m"
  using assms by (auto simp: page_of_cases Let_def split: if_splits)

subsection \<open>All pages\<close>

text \<open>A client with patience for \<open>n\<close> requests.\<close>

fun collect :: "nat \<Rightarrow> (string \<Rightarrow> err + 'v list \<times> string) \<Rightarrow> string \<Rightarrow> 'v list option" where
  "collect 0 page token = None"
| "collect (Suc n) page token = (case page token of
     Inl e \<Rightarrow> None
   | Inr (entries, nextToken) \<Rightarrow>
       if nextToken = '''' then Some entries
       else map_option (\<lambda>rest. entries @ rest) (collect n page nextToken))"

lemma filter_split_at:
  "filter P xs = a @ y # b \<Longrightarrow> \<exists>us vs. xs = us @ y # vs \<and> filter P us = a \<and> filter P vs = b \<and> P y"
proof (induction xs arbitrary: a)
  case (Cons x xs)
  show ?case
  proof (cases "P x \<and> a = []")
    case True
    with Cons.prems have "x # xs = [] @ y # xs \<and> filter P [] = a \<and> filter P xs = b \<and> P y" by auto
    then show ?thesis by blast
  next
    case False
    define a' where "a' = (if P x then tl a else a)"
    from False Cons.prems have "filter P xs = a' @ y # b"
      by (cases a) (auto simp: a'_def split: if_splits)
    from Cons.IH [OF this] obtain us vs where
      "xs = us @ y # vs" "filter P us = a'" "filter P vs = b" "P y" by blast
    moreover from False Cons.prems have "filter P (x # us) = a" if "filter P us = a'"
      using that by (cases a) (auto simp: a'_def split: if_splits)
    ultimately have "x # xs = (x # us) @ y # vs \<and> filter P (x # us) = a \<and> filter P vs = b \<and> P y" by simp
    then show ?thesis by blast
  qed
qed simp

locale pager =
  fixes key :: "'v \<Rightarrow> string" and arrange :: "'v list \<Rightarrow> 'v list"
  assumes arrange_perm: "mset (arrange xs) = mset xs"
begin

lemma arrange_set [simp]: "set (arrange xs) = set xs"
  by (metis arrange_perm set_mset_mset)

lemma arrange_length [simp]: "length (arrange xs) = length xs"
  by (metis arrange_perm size_mset)

lemma arrange_distinct: "distinct (map key (arrange xs)) = distinct (map key xs)"
  using mset_eq_imp_distinct_iff [of "map key (arrange xs)" "map key xs"] by (simp add: arrange_perm)

text \<open>The entries from the token on.\<close>

lemma from_token_entry:
  assumes "distinct (map key xs)" "filter wanted xs = a @ y # b" "key y \<noteq> ''''"
  shows "filter wanted (from_token key (key y) xs) = y # b"
proof -
  from filter_split_at [OF assms(2)] obtain us vs where xs: "xs = us @ y # vs" "filter wanted vs = b" "wanted y"
    by blast
  have "key y \<notin> key ` set us"
    using assms(1) unfolding xs(1) by simp
  then have "\<forall>u \<in> set us. key u \<noteq> key y" by (metis imageI)
  then have d: "dropWhile (\<lambda>x. key x \<noteq> key y) (us @ y # vs) = y # vs"
    by (subst dropWhile_append2) auto
  have "filter wanted (dropWhile (\<lambda>x. key x \<noteq> key y) xs) = y # b"
    unfolding xs(1) d using xs(2,3) by simp
  with assms(3) show ?thesis by (simp add: from_token_def)
qed

definition at_entry :: "('v \<Rightarrow> bool) \<Rightarrow> 'v list \<Rightarrow> string \<Rightarrow> 'v list \<Rightarrow> bool" where
  "at_entry wanted xs token ys \<longleftrightarrow>
     token = '''' \<and> ys = filter wanted xs \<or>
     (\<exists>a y b. filter wanted xs = a @ y # b \<and> token = key y \<and> token \<noteq> '''' \<and> ys = y # b)"

lemma page_at_entry:
  assumes "distinct (map key xs)" "0 < m" "at_entry wanted xs token ys"
  shows "page_of key wanted m token xs = Inr (take (nat m) ys, next_token key (drop (nat m) ys))"
  using assms(3) unfolding at_entry_def
proof (elim disjE exE conjE)
  assume "token = ''''" "ys = filter wanted xs"
  with assms(2) show ?thesis by (simp add: page_of_cases from_token_def Let_def)
next
  fix a y b
  assume f: "filter wanted xs = a @ y # b" "token = key y" "token \<noteq> ''''" "ys = y # b"
  then have "y \<in> set (filter wanted xs)" by simp
  then have "token \<in> key ` set xs" using f(2) by auto
  with assms(2) f from_token_entry [OF assms(1) f(1)] show ?thesis
    by (simp add: page_of_cases Let_def)
qed

lemma collect_all:
  assumes "distinct (map key xs)" "'''' \<notin> key ` set xs" "0 < m"
  shows "at_entry wanted xs token ys \<Longrightarrow> length ys < n \<Longrightarrow>
    collect n (\<lambda>t. page_of key wanted m t xs) token = Some ys"
proof (induction n arbitrary: token ys)
  case (Suc n)
  note page = page_at_entry [OF assms(1,3) Suc.prems(1)]
  show ?case
  proof (cases "drop (nat m) ys")
    case Nil
    then show ?thesis by (simp add: page next_token_def)
  next
    case (Cons y b)
    have whole: "\<exists>a. filter wanted xs = a @ ys"
      using Suc.prems(1) by (auto simp: at_entry_def)
    with Cons have "\<exists>a. filter wanted xs = a @ y # b"
      by (metis append_assoc append_take_drop_id)
    then obtain a where a: "filter wanted xs = a @ y # b" by blast
    then have "y \<in> set (filter wanted xs)" by simp
    then have ne: "key y \<noteq> ''''" using assms(2) by (metis filter_is_subset imageI subsetD)
    have "at_entry wanted xs (key y) (y # b)"
      unfolding at_entry_def using a ne by blast
    moreover have "length (y # b) < n"
      using Suc.prems(2) assms(3) arg_cong [OF Cons, of length] by simp
    ultimately have "collect n (\<lambda>t. page_of key wanted m t xs) (key y) = Some (y # b)"
      by (rule Suc.IH)
    moreover have "next_token key (drop (nat m) ys) = key y" by (simp add: Cons next_token_def)
    moreover have "take (nat m) ys @ y # b = ys" by (metis Cons append_take_drop_id)
    ultimately show ?thesis using ne by (simp add: page)
  qed
qed simp

lemma all_pages:
  assumes "distinct (map key xs)" "'''' \<notin> key ` set xs" "0 < m"
  shows "collect (Suc (length xs)) (\<lambda>t. page_of key wanted m t (arrange xs)) '''' =
    Some (filter wanted (arrange xs))"
proof (rule collect_all)
  show "distinct (map key (arrange xs))" using assms(1) by (simp add: arrange_distinct)
  show "'''' \<notin> key ` set (arrange xs)" using assms(2) by simp
  show "at_entry wanted (arrange xs) '''' (filter wanted (arrange xs))" by (simp add: at_entry_def)
  show "length (filter wanted (arrange xs)) < Suc (length xs)"
    using length_filter_le [of wanted "arrange xs"] by simp
qed (rule assms(3))

end

interpretation volume_pager: pager kv_VolumeId sort_ByVolumeId
  by unfold_locales (simp add: sort_ByVolumeId_def)

interpretation snapshot_pager: pager ks_Uuid sort_BySnapshotAndParentUuid
  by unfold_locales (simp add: sort_BySnapshotAndParentUuid_def)

subsection \<open>The listings of the driver\<close>

definition sample_ids :: "string list \<Rightarrow> K8sVolumeRespSpec list" where
  "sample_ids ids = map (\<lambda>i. DsmLunToK8sVolume ''10.0.0.1'' (zero_LunInfo\<lparr>lun_Uuid := i\<rparr>) zero_TargetInfo) ids"

text \<open>C19: A client that pages through \<^verbatim>\<open>ListVolumes\<close> terminates after at most one request more
  than there are volumes, with exactly the volumes there are, in the order of their ids,
  when the ids differ and none is empty.\<close>

theorem ListVolumes_paging:
  assumes "distinct (map kv_VolumeId infos)" "'''' \<notin> kv_VolumeId ` set infos" "0 < m"
  shows "collect (Suc (length infos)) (\<lambda>token. volume_page m token infos) '''' = Some (sort_ByVolumeId infos)"
  using volume_pager.all_pages [OF assms, of "\<lambda>_. True"] by (simp add: volume_page_def)

theorem ListVolumes_paging_witness:
  "collect 4 (\<lambda>token. volume_page 2 token (sample_ids [''c'', ''a'', ''b''])) '''' =
     Some (sort_ByVolumeId (sample_ids [''c'', ''a'', ''b'']))"
  using ListVolumes_paging [of "sample_ids [''c'', ''a'', ''b'']" 2]
  by (simp add: sample_ids_def DsmLunToK8sVolume_def numeral_eq_Suc)

text \<open>The same for \<^verbatim>\<open>ListSnapshots\<close>, with or without a snapshot id to filter by.\<close>

theorem ListSnapshots_paging:
  assumes "distinct (map ks_Uuid snapshots)" "'''' \<notin> ks_Uuid ` set snapshots" "0 < m"
  shows "collect (Suc (length snapshots)) (\<lambda>token. snapshot_page m token snapshotId snapshots) '''' =
    Some (filter (\<lambda>s. snapshotId = '''' \<or> ks_Uuid s = snapshotId) (sort_BySnapshotAndParentUuid snapshots))"
  using snapshot_pager.all_pages [OF assms] by (simp add: snapshot_page_def)

theorem ListSnapshots_paging_witness:
  "let s = DsmSanSnapshotToK8sSnapshot ''10.0.0.1'' \<lparr>sn_Name = ''n'', sn_Uuid = ''u'', sn_ParentUuid = ''p'',
       sn_Status = ''Healthy'', sn_TotalSize = 1, sn_CreateTime = 0, sn_RootPath = ''/volume1''\<rparr> ProtocolIscsi
   in collect 2 (\<lambda>token. snapshot_page 1 token '''' [s]) '''' = Some [s]"
  using ListSnapshots_paging [of "[DsmSanSnapshotToK8sSnapshot ''10.0.0.1'' \<lparr>sn_Name = ''n'', sn_Uuid = ''u'',
       sn_ParentUuid = ''p'', sn_Status = ''Healthy'', sn_TotalSize = 1, sn_CreateTime = 0,
       sn_RootPath = ''/volume1''\<rparr> ProtocolIscsi]" 1 "''''"]
  by (simp add: Let_def DsmSanSnapshotToK8sSnapshot_def sort_BySnapshotAndParentUuid_def numeral_eq_Suc)

text \<open>One page never has more entries than the client allowed.\<close>

theorem page_bound:
  "case volume_page m token infos of Inl e \<Rightarrow> True
   | Inr (entries, _) \<Rightarrow> m \<le> 0 \<or> int (length entries) \<le> m"
  unfolding volume_page_def
  using page_of_length [of m kv_VolumeId "\<lambda>_. True" token "sort_ByVolumeId infos"]
  by (fastforce split: sum.split)


end
