(* ===== verification/Host.thy ===== *)
theory Host
  imports Driver
begin

text \<open>
  The node that the driver runs on. Everything outside the process (commands, the file
  systems under \<^verbatim>\<open>/sys\<close> and \<^verbatim>\<open>/dev\<close>, the mount helpers of \<^verbatim>\<open>k8s.io/mount-utils\<close>, the
  Kubernetes API, name resolution) is a field of the record \<open>host\<close>, a function of the
  state of the outside world; the commands and changes are logged as events, between the
  requests to the storage systems. \<^verbatim>\<open>pkg/utils/hostexec/hostexec.go\<close> is the wrapping of
  commands. \<open>does\<close> is the logic of the node programs, as \<open>emits\<close> is that of the service.
\<close>

subsection \<open>The outside world\<close>

text \<open>How a command ended; what \<^verbatim>\<open>os.Stat\<close> says; an error of a mount, with whether it is a
  permission error and its text; the numbers of \<^verbatim>\<open>unix.Statfs\<close>.\<close>

datatype exec_error = ExitStatus int | ExecFailed string
datatype stat_result = StatOk | StatNotExist | StatFailed
datatype mount_check = MountChecked bool | CheckNotExist | CheckFailed
datatype mount_error = MountError bool string

record statfs =
  st_Bavail :: "64 word"
  st_Bsize :: "64 word"
  st_Blocks :: "64 word"
  st_Bfree :: "64 word"
  st_Files :: "64 word"
  st_Ffree :: "64 word"

record 'n host =
  h_run :: "string \<Rightarrow> string list \<Rightarrow> 'n \<Rightarrow> (string \<times> exec_error option) \<times> 'n"
  h_run_timeout :: "string \<Rightarrow> string list \<Rightarrow> nat \<Rightarrow> 'n \<Rightarrow> (string \<times> exec_error option \<times> bool) \<times> 'n"
  h_lsblk :: "string list \<Rightarrow> 'n \<Rightarrow> (string \<times> exec_error option) \<times> 'n"
  h_ticks :: "string \<Rightarrow> 'n \<Rightarrow> nat \<times> 'n"
  h_path_exists :: "string \<Rightarrow> 'n \<Rightarrow> (err + bool) \<times> 'n"
  h_stat :: "string \<Rightarrow> 'n \<Rightarrow> stat_result \<times> 'n"
  h_eval_symlinks :: "string \<Rightarrow> 'n \<Rightarrow> string option \<times> 'n"
  h_read_dir :: "string \<Rightarrow> 'n \<Rightarrow> string list option \<times> 'n"
  h_read_file :: "string \<Rightarrow> 'n \<Rightarrow> string option \<times> 'n"
  h_lookup_ip :: "string \<Rightarrow> 'n \<Rightarrow> string option list \<times> 'n"
  h_dial :: "string \<Rightarrow> int \<Rightarrow> 'n \<Rightarrow> bool \<times> 'n"
  h_nodes :: "'n \<Rightarrow> (err + (string \<times> string) list list) \<times> 'n"
  h_fsync :: "string \<Rightarrow> 'n \<Rightarrow> err option \<times> 'n"
  h_likely_not_mount :: "string \<Rightarrow> 'n \<Rightarrow> mount_check \<times> 'n"
  h_not_mount :: "string \<Rightarrow> 'n \<Rightarrow> mount_check \<times> 'n"
  h_mount :: "string \<Rightarrow> string \<Rightarrow> string \<Rightarrow> string list \<Rightarrow> 'n \<Rightarrow> mount_error option \<times> 'n"
  h_mount_sensitive :: "string \<Rightarrow> string \<Rightarrow> string \<Rightarrow> string list \<Rightarrow> string list \<Rightarrow> 'n \<Rightarrow> mount_error option \<times> 'n"
  h_mount_retries :: "'n \<Rightarrow> nat"
  h_format_mount :: "string \<Rightarrow> string \<Rightarrow> string \<Rightarrow> string list \<Rightarrow> string list \<Rightarrow> 'n \<Rightarrow> mount_error option \<times> 'n"
  h_unmount :: "string \<Rightarrow> 'n \<Rightarrow> err option \<times> 'n"
  h_need_resize :: "string \<Rightarrow> string \<Rightarrow> 'n \<Rightarrow> (err + bool) \<times> 'n"
  h_resize :: "string \<Rightarrow> string \<Rightarrow> 'n \<Rightarrow> (err + bool) \<times> 'n"
  h_mkdir_all :: "string \<Rightarrow> 32 word \<Rightarrow> 'n \<Rightarrow> err option \<times> 'n"
  h_create_file :: "string \<Rightarrow> 32 word \<Rightarrow> 'n \<Rightarrow> err option \<times> 'n"
  h_close_file :: "string \<Rightarrow> 'n \<Rightarrow> err option \<times> 'n"
  h_remove :: "string \<Rightarrow> 'n \<Rightarrow> err option \<times> 'n"
  h_lstat_mode :: "string \<Rightarrow> 'n \<Rightarrow> (err + 32 word) \<times> 'n"
  h_chmod :: "string \<Rightarrow> 32 word \<Rightarrow> 'n \<Rightarrow> err option \<times> 'n"
  h_statfs :: "string \<Rightarrow> 'n \<Rightarrow> statfs option \<times> 'n"

text \<open>What is logged: the requests to the storage systems, the commands and changes, and the
  answers of the kernel that decide whether a device may be used. Other readings are \<open>Look\<close>.\<close>

datatype event = Api call
  | Exec string "string list"
  | Look string
  | Resolved string "string option"
  | Listed string "string list option"
  | Contents string "string option"
  | Fsync string
  | Mount string string string "string list"
  | MountSensitive string string string "string list" "string list"
  | FormatAndMount string string string "string list" "string list"
  | Unmount string
  | Resize string string
  | MkdirAll string "32 word"
  | CreateFile string
  | Remove string
  | Chmod string "32 word"

record 'n node =
  dsm_world :: "'n world"
  events :: "event list"

definition act :: "('n \<Rightarrow> 'a \<times> 'n) \<Rightarrow> ('a \<Rightarrow> event) \<Rightarrow> ('n node, 'a) prog" where
  "act f ev = do {
     s \<leftarrow> State_Monad.get;
     let (r, n) = f (nas (dsm_world s));
     _ \<leftarrow> State_Monad.set (s\<lparr>dsm_world := (dsm_world s)\<lparr>nas := n\<rparr>, events := events s @ [ev r]\<rparr>);
     State_Monad.return r }"

text \<open>A program of the service layer, run on the node.\<close>

definition service :: "('n world, 'a) prog \<Rightarrow> ('n node, 'a) prog" where
  "service m = do {
     s \<leftarrow> State_Monad.get;
     let (r, w) = run_state m (dsm_world s);
     _ \<leftarrow> State_Monad.set (s\<lparr>dsm_world := w,
       events := events s @ map Api (drop (length (calls (dsm_world s))) (calls w))\<rparr>);
     State_Monad.return r }"

subsection \<open>What a program does\<close>

definition does :: "('n node, 'a) prog \<Rightarrow> ('a \<Rightarrow> event list \<Rightarrow> bool) \<Rightarrow> bool" where
  "does m Q \<longleftrightarrow> (\<forall>s. \<exists>t. events (after m s) = events s @ t \<and> Q (result_of m s) t)"

lemma does_return: "Q x [] \<Longrightarrow> does (State_Monad.return x) Q"
  by (simp add: does_def)

lemma does_mono: "does m P \<Longrightarrow> (\<And>x t. P x t \<Longrightarrow> Q x t) \<Longrightarrow> does m Q"
  unfolding does_def by blast

lemma does_bind:
  assumes "does m P" "\<And>x t. P x t \<Longrightarrow> does (f x) (\<lambda>y t'. Q y (t @ t'))"
  shows "does (State_Monad.bind m f) Q"
  unfolding does_def
proof
  fix s
  from assms(1) obtain t where t: "events (after m s) = events s @ t" "P (result_of m s) t"
    unfolding does_def by blast
  from assms(2) [OF t(2)] obtain t' where
    "events (after (f (result_of m s)) (after m s)) = events (after m s) @ t'"
    "Q (result_of (f (result_of m s)) (after m s)) (t @ t')"
    unfolding does_def by blast
  with t(1) show "\<exists>t. events (after (State_Monad.bind m f) s) = events s @ t \<and>
      Q (result_of (State_Monad.bind m f) s) t"
    by (intro exI [of _ "t @ t'"]) (simp only: result_of_bind after_bind append_assoc)
qed

lemma does_conj: "does m P \<Longrightarrow> does m Q \<Longrightarrow> does m (\<lambda>x t. P x t \<and> Q x t)"
  unfolding does_def by (metis same_append_eq)

lemma does_yields: "does m P \<Longrightarrow> yields m Q \<Longrightarrow> does m (\<lambda>x t. P x t \<and> Q x)"
  unfolding does_def yields_def by blast

lemma does_if: "(b \<Longrightarrow> does m Q) \<Longrightarrow> (\<not> b \<Longrightarrow> does n Q) \<Longrightarrow> does (if b then m else n) Q"
  by simp

lemma does_let: "(\<And>x. x = a \<Longrightarrow> does (f x) Q) \<Longrightarrow> does (let x = a in f x) Q"
  by (simp add: Let_def)

lemma does_case_sum:
  "(\<And>e. r = Inl e \<Longrightarrow> does (f e) Q) \<Longrightarrow> (\<And>x. r = Inr x \<Longrightarrow> does (g x) Q) \<Longrightarrow>
   does (case r of Inl e \<Rightarrow> f e | Inr x \<Rightarrow> g x) Q"
  by (cases r) simp_all

lemma does_case_option:
  "(r = None \<Longrightarrow> does f Q) \<Longrightarrow> (\<And>x. r = Some x \<Longrightarrow> does (g x) Q) \<Longrightarrow>
   does (case r of None \<Rightarrow> f | Some x \<Rightarrow> g x) Q"
  by (cases r) simp_all

lemma does_case_prod: "(\<And>x y. p = (x, y) \<Longrightarrow> does (f x y) Q) \<Longrightarrow> does (case p of (x, y) \<Rightarrow> f x y) Q"
  by (cases p) simp

lemma does_case_mount:
  "(\<And>b. c = MountChecked b \<Longrightarrow> does (f b) Q) \<Longrightarrow> (c = CheckNotExist \<Longrightarrow> does g Q) \<Longrightarrow>
   (c = CheckFailed \<Longrightarrow> does k Q) \<Longrightarrow>
   does (case c of MountChecked b \<Rightarrow> f b | CheckNotExist \<Rightarrow> g | CheckFailed \<Rightarrow> k) Q"
  by (cases c) simp_all

lemma does_get: "(\<And>s. does (f s) Q) \<Longrightarrow> does (State_Monad.bind State_Monad.get f) Q"
  by (simp add: does_def)

lemma does_act: "(\<And>r. Q r [ev r]) \<Longrightarrow> does (act f ev) Q"
  by (simp add: does_def act_def case_prod_beta)

lemma does_service:
  assumes "\<And>D. emits D m (P D)"
  shows "does (service m) (\<lambda>r t. \<exists>D cs. t = map Api cs \<and> P D r cs)"
  unfolding does_def
proof
  fix s :: "'a node"
  from assms [of "dsms (dsm_world s)"] obtain cs where
    "calls (after m (dsm_world s)) = calls (dsm_world s) @ cs"
    "P (dsms (dsm_world s)) (result_of m (dsm_world s)) cs"
    unfolding emits_def by blast
  then show "\<exists>t. events (after (service m) s) = events s @ t \<and>
      (\<exists>D cs. t = map Api cs \<and> P D (result_of (service m) s) cs)"
    by (intro exI [of _ "map Api cs"]) (auto simp: service_def case_prod_beta)
qed

text \<open>Every event satisfies a property.\<close>

abbreviation only_does :: "(event \<Rightarrow> bool) \<Rightarrow> ('n node, 'a) prog \<Rightarrow> bool" where
  "only_does R m \<equiv> does m (\<lambda>_ t. list_all R t)"

lemma only_does_bind: "only_does R m \<Longrightarrow> (\<And>x. only_does R (f x)) \<Longrightarrow> only_does R (State_Monad.bind m f)"
  by (rule does_bind, assumption, rule does_mono) auto

lemma only_does_service: "(\<And>D. only D (\<lambda>c. R (Api c)) m) \<Longrightarrow> only_does R (service m)"
  by (rule does_mono [OF does_service]) (auto simp: list_all_iff)

subsection \<open>hostexec.go\<close>

record executor =
  commandMap :: "(string \<times> string) list"
  chrootDir :: string

definition defaultSearchPath :: "string list" where
  "defaultSearchPath = [''/usr/local/sbin'', ''/usr/local/bin'', ''/usr/sbin'', ''/usr/bin'', ''/sbin'', ''/bin'']"

text \<open>\<^verbatim>\<open>New\<close>: a chroot directory must be there; \<open>is_dir\<close> is what \<^verbatim>\<open>os.Stat\<close> says of it.\<close>

definition new_executor :: "(string \<times> string) list \<Rightarrow> string \<Rightarrow> bool \<Rightarrow> err + executor" where
  "new_executor cmdMap dir is_dir =
     (if dir \<noteq> '''' \<and> \<not> is_dir
      then Inl (FmtError ''chroot directory does not exist or is not a directory'')
      else Inr \<lparr>commandMap = cmdMap, chrootDir = dir\<rparr>)"

definition resolveCmd :: "executor \<Rightarrow> string \<Rightarrow> string list \<Rightarrow> string \<times> string list" where
  "resolveCmd h cmd args = (case map_of (commandMap h) cmd of
     None \<Rightarrow> (cmd, args)
   | Some c \<Rightarrow> if c = '''' then (cmd, args) else (c, args))"

definition wrapEnv :: "string \<Rightarrow> string list \<Rightarrow> string \<times> string list" where
  "wrapEnv cmd args =
     (if CHR ''/'' \<in> set cmd then (cmd, args)
      else (let sp = ''PATH='' @ join_with '':'' defaultSearchPath
            in (''/usr/bin/env'', [''-i'', sp, cmd] @ args)))"

definition wrapChroot :: "executor \<Rightarrow> string \<Rightarrow> string list \<Rightarrow> string \<times> string list" where
  "wrapChroot h cmd args =
     (if chrootDir h = '''' then (cmd, args) else (''/usr/sbin/chroot'', [chrootDir h, cmd] @ args))"

definition wrap :: "executor \<Rightarrow> string \<Rightarrow> string list \<Rightarrow> string \<times> string list" where
  "wrap h cmd args =
     (let (cmd1, args1) = resolveCmd h cmd args;
          (cmd2, args2) = wrapEnv cmd1 args1
      in wrapChroot h cmd2 args2)"

text \<open>\<^verbatim>\<open>executor.Command(cmd, args...).CombinedOutput()\<close>, and the one with a context.\<close>

definition run_command :: "'n host \<Rightarrow> executor \<Rightarrow> string \<Rightarrow> string list \<Rightarrow>
    ('n node, string \<times> exec_error option) prog" where
  "run_command host ex cmd args =
     (let (c, as) = wrap ex cmd args in act (h_run host c as) (\<lambda>_. Exec c as))"

definition run_command_timeout :: "'n host \<Rightarrow> executor \<Rightarrow> string \<Rightarrow> string list \<Rightarrow> nat \<Rightarrow>
    ('n node, string \<times> exec_error option \<times> bool) prog" where
  "run_command_timeout host ex cmd args secs =
     (let (c, as) = wrap ex cmd args in act (h_run_timeout host c as secs) (\<lambda>_. Exec c as))"

lemma run_command_does: "does (run_command host ex cmd args) (\<lambda>_ t. t = [Exec (fst (wrap ex cmd args)) (snd (wrap ex cmd args))])"
  unfolding run_command_def by (simp add: case_prod_beta Let_def does_act)

lemma run_command_timeout_does:
  "does (run_command_timeout host ex cmd args n) (\<lambda>_ t. t = [Exec (fst (wrap ex cmd args)) (snd (wrap ex cmd args))])"
  unfolding run_command_timeout_def by (simp add: case_prod_beta Let_def does_act)

text \<open>What is run on the host has the arguments that the driver gave, unchanged and last,
  without a shell in between; it is run by an absolute path; and inside the chroot
  directory when one is set.\<close>

theorem wrap_keeps_arguments:
  "(\<exists>pre. snd (wrap h cmd args) = pre @ args) \<and> CHR ''/'' \<in> set (fst (wrap h cmd args)) \<and>
   (if chrootDir h = '''' then True
    else fst (wrap h cmd args) = ''/usr/sbin/chroot'' \<and> (\<exists>rest. snd (wrap h cmd args) = chrootDir h # rest))"
  by (auto simp: wrap_def resolveCmd_def wrapEnv_def wrapChroot_def Let_def split: option.split prod.split)

end
