(* ===== verification/Devices.thy ===== *)
theory Devices
  imports Host Clock
begin

text \<open>
  The helpers of the node that deal with block devices: \<^verbatim>\<open>pkg/driver/initiator.go\<close> (iSCSI
  sessions through \<^verbatim>\<open>iscsiadm\<close>), \<^verbatim>\<open>multipath.go\<close> (\<^verbatim>\<open>lsblk\<close> and multipath devices),
  \<^verbatim>\<open>device_identity.go\<close> (is the disk the one the volume stands for) and
  \<^verbatim>\<open>nvme_connector.go\<close> (NVMe over TCP). A function that can panic returns a sum with
  \<open>Panicked\<close> on the left.
\<close>

subsection \<open>initiator.go\<close>

record iscsiSession =
  ses_Protocol :: string
  ses_Id :: int
  ses_Portal :: string
  ses_Iqn :: string
  ses_Name :: string

definition ISCSIPort :: int where "ISCSIPort = 3260"

text \<open>The value of \<^verbatim>\<open>strconv.ParseInt(id, 10, 32)\<close> with its error dropped: zero for what is not
  a number, the nearest bound for a number out of range.\<close>

definition session_id :: "string \<Rightarrow> int" where
  "session_id s =
     (let (neg, ds) = (case s of [] \<Rightarrow> (False, [])
                        | c # r \<Rightarrow> if c = CHR ''-'' then (True, r)
                                  else if c = CHR ''+'' then (False, r) else (False, s))
      in case parse_nat 10 ds of
           None \<Rightarrow> 0
         | Some n \<Rightarrow> max (- (2 ^ 31)) (min (2 ^ 31 - 1) (if neg then - int n else int n)))"

text \<open>\<^verbatim>\<open>strings.Split(e[3], ":")[1]\<close> panics when the name holds no colon.\<close>

definition parse_session :: "string list \<Rightarrow> err + iscsiSession" where
  "parse_session e =
     (let nameParts = split_on CHR '':'' (e ! 3) in
      if length nameParts < 2 then Inl (Panicked ''index out of range'')
      else Inr \<lparr>ses_Protocol = hd (split_on CHR '':'' (e ! 0)),
        ses_Id = session_id (filter (\<lambda>c. c \<noteq> CHR ''['' \<and> c \<noteq> CHR '']'') (e ! 1)),
        ses_Portal = hd (split_on CHR '','' (e ! 2)), ses_Iqn = e ! 3, ses_Name = nameParts ! 1\<rparr>)"

fun parse_entries :: "string list \<Rightarrow> err + iscsiSession list" where
  "parse_entries [] = Inr []"
| "parse_entries (entry # entries) =
     (let e = GoStd.fields entry in
      if length e < 4 then parse_entries entries
      else (case parse_session e of
          Inl err \<Rightarrow> Inl err
        | Inr s \<Rightarrow> map_sum id (\<lambda>sessions. s # sessions) (parse_entries entries)))"

definition parseSessions :: "string \<Rightarrow> err + iscsiSession list" where
  "parseSessions lines = parse_entries (split_on (CHR 0x0A) (trim_space lines))"

definition iscsiadm_session :: "'n host \<Rightarrow> executor \<Rightarrow> ('n node, err + iscsiSession list) prog" where
  "iscsiadm_session host ex = do {
     r \<leftarrow> run_command host ex ''iscsiadm'' [''-m'', ''session''];
     State_Monad.return (case snd r of
       Some e \<Rightarrow> Inr []
     | None \<Rightarrow> parseSessions (fst r)) }"

text \<open>A command whose error is returned.\<close>

definition run_checked :: "'n host \<Rightarrow> executor \<Rightarrow> string \<Rightarrow> string list \<Rightarrow> ('n node, err option) prog" where
  "run_checked host ex cmd args = do {
     r \<leftarrow> run_command host ex cmd args;
     State_Monad.return (map_option (\<lambda>e. FmtError ''%s (%v)'') (snd r)) }"

definition iscsiadm_discovery :: "'n host \<Rightarrow> executor \<Rightarrow> string \<Rightarrow> ('n node, err option) prog" where
  "iscsiadm_discovery host ex portal = run_checked host ex ''iscsiadm''
     [''-m'', ''discoverydb'', ''--type'', ''sendtargets'', ''--portal'', portal, ''--op'', ''new'', ''--discover'']"

definition iscsiadm_login :: "'n host \<Rightarrow> executor \<Rightarrow> string \<Rightarrow> string \<Rightarrow> ('n node, err option) prog" where
  "iscsiadm_login host ex iqn portal = run_checked host ex ''iscsiadm''
     [''-m'', ''node'', ''--targetname'', iqn, ''--portal'', portal, ''--login'']"

definition iscsiadm_update_node_startup :: "'n host \<Rightarrow> executor \<Rightarrow> string \<Rightarrow> string \<Rightarrow> ('n node, err option) prog" where
  "iscsiadm_update_node_startup host ex iqn portal = run_checked host ex ''iscsiadm''
     [''-m'', ''node'', ''--targetname'', iqn, ''--portal'', portal, ''--op'', ''update'',
      ''--name'', ''node.startup'', ''--value'', ''manual'']"

definition iscsiadm_logout :: "'n host \<Rightarrow> executor \<Rightarrow> string \<Rightarrow> ('n node, err option) prog" where
  "iscsiadm_logout host ex iqn = run_checked host ex ''iscsiadm''
     [''-m'', ''node'', ''--targetname'', iqn, ''--logout'']"

definition iscsiadm_delete_node :: "'n host \<Rightarrow> executor \<Rightarrow> string \<Rightarrow> string \<Rightarrow> ('n node, err option) prog" where
  "iscsiadm_delete_node host ex iqn portal = run_checked host ex ''iscsiadm''
     [''-m'', ''node'', ''--targetname'', iqn, ''--portal'', portal, ''-o'', ''delete'']"

definition blockdev_flushbufs :: "'n host \<Rightarrow> executor \<Rightarrow> string \<Rightarrow> ('n node, err option) prog" where
  "blockdev_flushbufs host ex devPath = run_checked host ex ''blockdev'' [''--flushbufs'', devPath]"

definition iscsiadm_rescan :: "'n host \<Rightarrow> executor \<Rightarrow> string \<Rightarrow> ('n node, err option) prog" where
  "iscsiadm_rescan host ex iqn = run_checked host ex ''iscsiadm'' [''-m'', ''node'', ''--targetname'', iqn, ''-R'']"

definition hasSession :: "'n host \<Rightarrow> executor \<Rightarrow> string \<Rightarrow> string \<Rightarrow> ('n node, err + bool) prog" where
  "hasSession host ex targetIqn portal = do {
     r \<leftarrow> iscsiadm_session host ex;
     State_Monad.return (map_sum id (list_ex (\<lambda>s. targetIqn = ses_Iqn s \<and>
       (portal = ses_Portal s \<or> portal = ''''))) r) }"

definition listSessionsByIqn :: "'n host \<Rightarrow> executor \<Rightarrow> string \<Rightarrow> ('n node, err + iscsiSession list) prog" where
  "listSessionsByIqn host ex targetIqn = do {
     r \<leftarrow> iscsiadm_session host ex;
     State_Monad.return (map_sum id (filter (\<lambda>s. targetIqn = ses_Iqn s)) r) }"

definition initiator_login :: "'n host \<Rightarrow> executor \<Rightarrow> string \<Rightarrow> string \<Rightarrow> ('n node, err option) prog" where
  "initiator_login host ex targetIqn portal = do {
     h \<leftarrow> hasSession host ex targetIqn portal;
     case h of
       Inl e \<Rightarrow> State_Monad.return (Some e)
     | Inr has \<Rightarrow>
         if has then State_Monad.return None
         else do {
           d \<leftarrow> iscsiadm_discovery host ex portal;
           case d of
             Some e \<Rightarrow> State_Monad.return (Some e)
           | None \<Rightarrow> do {
               l \<leftarrow> iscsiadm_login host ex targetIqn portal;
               case l of
                 Some e \<Rightarrow> State_Monad.return (Some e)
               | None \<Rightarrow> do {
                   _ \<leftarrow> iscsiadm_update_node_startup host ex targetIqn portal;
                   State_Monad.return None } } } }"

text \<open>The node record is deleted whether or not there was a session.\<close>

definition initiator_logout :: "'n host \<Rightarrow> executor \<Rightarrow> string \<Rightarrow> string \<Rightarrow> ('n node, err option) prog" where
  "initiator_logout host ex targetIqn ip = do {
     let portal = ip @ '':'' @ itoa ISCSIPort;
     h \<leftarrow> hasSession host ex targetIqn '''';
     case h of
       Inl e \<Rightarrow> State_Monad.return (Some e)
     | Inr has \<Rightarrow> do {
         l \<leftarrow> (if has then iscsiadm_logout host ex targetIqn else State_Monad.return None);
         case l of
           Some e \<Rightarrow> State_Monad.return (Some e)
         | None \<Rightarrow> do {
             _ \<leftarrow> iscsiadm_delete_node host ex targetIqn portal;
             State_Monad.return None } } }"

definition initiator_rescan :: "'n host \<Rightarrow> executor \<Rightarrow> string \<Rightarrow> ('n node, err option) prog" where
  "initiator_rescan host ex targetIqn = do {
     h \<leftarrow> hasSession host ex targetIqn '''';
     case h of
       Inl e \<Rightarrow> State_Monad.return (Some e)
     | Inr has \<Rightarrow>
         if \<not> has then State_Monad.return (Some (FmtError ''Session[%s] does not exist.''))
         else iscsiadm_rescan host ex targetIqn }"

definition fsyncDevice :: "'n host \<Rightarrow> string \<Rightarrow> ('n node, err option) prog" where
  "fsyncDevice host devPath = act (h_fsync host devPath) (\<lambda>_. Fsync devPath)"

subsection \<open>multipath.go\<close>

text \<open>The regular expression \<^verbatim>\<open>pid \d+ (running|idle)\<close>, matched anywhere.\<close>

fun pid_running :: "string \<Rightarrow> bool" where
  "pid_running [] = False"
| "pid_running (c # s) =
     (has_prefix (c # s) ''pid '' \<and>
        (let r = drop 4 (c # s); rest = dropWhile is_digit r in
         takeWhile is_digit r \<noteq> [] \<and> (has_prefix rest '' running'' \<or> has_prefix rest '' idle'')) \<or>
      pid_running s)"

definition multipathd_is_running :: "'n host \<Rightarrow> executor \<Rightarrow> ('n node, bool) prog" where
  "multipathd_is_running host ex = do {
     r \<leftarrow> run_command host ex ''multipathd'' [''show'', ''daemon''];
     State_Monad.return (snd r = None \<and> pid_running (fst r)) }"

text \<open>\<^verbatim>\<open>MultipathEnabled\<close> is the flag of the command line.\<close>

definition IsMultipathEnabled :: "'n host \<Rightarrow> executor \<Rightarrow> bool \<Rightarrow> ('n node, bool) prog" where
  "IsMultipathEnabled host ex multipathEnabled =
     (if multipathEnabled then multipathd_is_running host ex else State_Monad.return False)"

text \<open>The output and the error; a deadline that passed drops the output.\<close>

definition execWithTimeout :: "'n host \<Rightarrow> executor \<Rightarrow> string \<Rightarrow> string list \<Rightarrow> nat \<Rightarrow>
    ('n node, string \<times> err option) prog" where
  "execWithTimeout host ex command args timeout = do {
     r \<leftarrow> run_command_timeout host ex command args timeout;
     State_Monad.return (case r of (out, e, exceeded) \<Rightarrow>
       if exceeded then ('''', Some (FmtError ''context deadline exceeded''))
       else (out, case e of
         None \<Rightarrow> None
       | Some (ExitStatus n) \<Rightarrow> Some (FmtError ''exit status %d'')
       | Some (ExecFailed m) \<Rightarrow> Some (FmtError m))) }"

definition multipath_resize :: "'n host \<Rightarrow> executor \<Rightarrow> string \<Rightarrow> ('n node, err option) prog" where
  "multipath_resize host ex devName = run_checked host ex ''multipathd'' [''resize'', ''map'', devName]"

definition multipath_flush :: "'n host \<Rightarrow> executor \<Rightarrow> string \<Rightarrow> ('n node, err option) prog" where
  "multipath_flush host ex devPath = do {
     r \<leftarrow> execWithTimeout host ex ''multipath'' [''-f'', devPath] 5;
     case snd r of
       None \<Rightarrow> State_Monad.return None
     | Some e \<Rightarrow> do {
         st \<leftarrow> act (h_stat host devPath) (\<lambda>_. Look devPath);
         State_Monad.return (if st = StatNotExist then None else Some (FmtError ''%s (%v)'')) } }"

datatype Device = Device (dev_Name: string) (dev_Hctl: string) (dev_Children: "Device list")
  (dev_Type: string) (dev_Transport: string) (dev_Size: string)

fun common_child :: "Device list \<Rightarrow> Device option \<Rightarrow> err + Device option" where
  "common_child [] multipathDevice = Inr multipathDevice"
| "common_child (device # devices) multipathDevice =
     (case dev_Children device of
        [child] \<Rightarrow>
          (case multipathDevice of
             Some m \<Rightarrow> if dev_Name child \<noteq> dev_Name m
               then Inl (FmtError ''devices do not share a common multipath device: %v'')
               else common_child devices (Some child)
           | None \<Rightarrow> common_child devices (Some child))
      | _ \<Rightarrow> Inl (FmtError ''device is not mapped to exactly one multipath device: %v''))"

definition GetMultipathDevice :: "Device list \<Rightarrow> err + Device" where
  "GetMultipathDevice devices = (case common_child devices None of
     Inl e \<Rightarrow> Inl e
   | Inr None \<Rightarrow> Inl (FmtError ''multipath device not found'')
   | Inr (Some m) \<Rightarrow> if dev_Type m \<noteq> ''mpath'' then Inl (FmtError ''device is not of mpath type: %v'') else Inr m)"

text \<open>
  The lines of \<^verbatim>\<open>lsblk\<close>: the devices in order, with the kernel names of the device and of its
  parent. A line of fewer than five columns is an error, one of five or six makes the code
  index past the end of the slice.
\<close>

definition parse_lsblk_line :: "string \<Rightarrow> err + string \<times> string \<times> Device" where
  "parse_lsblk_line line =
     (let columns = split_on CHR '' '' line in
      if length columns < 5 then Inl (FmtError ''invalid output from lsblk: %s'')
      else if length columns < 7 then Inl (Panicked ''index out of range'')
      else Inr (columns ! 1, columns ! 2,
        Device (columns ! 0) (columns ! 3) [] (columns ! 4) (columns ! 5) (columns ! 6)))"

fun parse_lsblk_lines :: "string list \<Rightarrow> err + (string \<times> string \<times> Device) list" where
  "parse_lsblk_lines [] = Inr []"
| "parse_lsblk_lines (line # lines) = (case parse_lsblk_line line of
     Inl e \<Rightarrow> Inl e
   | Inr d \<Rightarrow> map_sum id (\<lambda>ds. d # ds) (parse_lsblk_lines lines))"

text \<open>The map from kernel names to devices: the last line of a name wins.\<close>

definition device_index :: "(string \<times> string \<times> Device) list \<Rightarrow> string \<Rightarrow> nat option" where
  "device_index entries kname =
     map_of (rev (map (\<lambda>(i, (k, p, d)). (k, i)) (enumerate 0 entries))) kname"

definition add_child :: "Device \<Rightarrow> Device \<Rightarrow> Device" where
  "add_child p c = Device (dev_Name p) (dev_Hctl p) (dev_Children p @ [c]) (dev_Type p) (dev_Transport p) (dev_Size p)"

text \<open>The loop that hangs every device under its parent, with the devices as a store: a parent
  gets a copy of the child as the child is at that moment.\<close>

fun hang_children :: "(string \<times> string \<times> Device) list \<Rightarrow> nat \<Rightarrow> string list \<Rightarrow> Device list \<Rightarrow> err + Device list" where
  "hang_children entries i [] store = Inr store"
| "hang_children entries i (pkName # pkNames) store =
     (if pkName = '''' then hang_children entries (Suc i) pkNames store
      else (case device_index entries pkName of
          None \<Rightarrow> Inl (FmtError ''invalid output from lsblk: parent device %q not found'')
        | Some p \<Rightarrow> hang_children entries (Suc i) pkNames (store[p := add_child (store ! p) (store ! i)])))"

definition build_devices :: "(string \<times> string \<times> Device) list \<Rightarrow> err + Device list" where
  "build_devices entries =
     (let pkNames = map (\<lambda>(k, p, d). p) entries in
      map_sum id (\<lambda>store. map snd (filter (\<lambda>(p, d). p = '''') (zip pkNames store)))
        (hang_children entries 0 pkNames (map (\<lambda>(k, p, d). d) entries)))"

definition trim_newlines :: "string \<Rightarrow> string" where
  "trim_newlines s = rev (dropWhile (\<lambda>c. c = CHR 0x0A) (rev (dropWhile (\<lambda>c. c = CHR 0x0A) s)))"

definition parse_lsblk :: "string \<Rightarrow> err + Device list" where
  "parse_lsblk out = (case parse_lsblk_lines (split_on (CHR 0x0A) (trim_newlines out)) of
     Inl e \<Rightarrow> Inl e
   | Inr entries \<Rightarrow> build_devices entries)"

text \<open>\<^verbatim>\<open>lsblk\<close> is run directly, not through the executor.\<close>

definition lsblk :: "'n host \<Rightarrow> string list \<Rightarrow> bool \<Rightarrow> ('n node, err + Device list) prog" where
  "lsblk host devicePaths strict = do {
     let args = [''-rn'', ''-o'', ''NAME,KNAME,PKNAME,HCTL,TYPE,TRAN,SIZE''] @ devicePaths;
     r \<leftarrow> act (h_lsblk host args) (\<lambda>_. Exec ''lsblk'' args);
     State_Monad.return (case snd r of
       Some (ExitStatus n) \<Rightarrow> if strict \<or> n \<noteq> 64 then Inl (FmtError ''%s'') else parse_lsblk (fst r)
     | Some (ExecFailed m) \<Rightarrow> Inl (FmtError m)
     | None \<Rightarrow> parse_lsblk (fst r)) }"

subsection \<open>device_identity.go\<close>

text \<open>\<^verbatim>\<open>filepath.Base\<close>, and \<^verbatim>\<open>filepath.Join\<close> of elements without dot segments.\<close>

definition path_base :: "string \<Rightarrow> string" where
  "path_base p = (if p = '''' then ''.''
     else (let q = rev (dropWhile (\<lambda>c. c = CHR ''/'') (rev p)) in
           if q = '''' then ''/'' else last (split_on CHR ''/'' q)))"

definition path_join :: "string list \<Rightarrow> string" where
  "path_join elems = join_with ''/'' (filter (\<lambda>e. e \<noteq> '''') elems)"

definition sysfsRoot :: string where "sysfsRoot = ''/sys''"

text \<open>The second group of \<^verbatim>\<open>(^|/)(session\d+)(/|$)\<close>: the first path component that is
  \<^verbatim>\<open>session\<close> and digits.\<close>

definition is_session :: "string \<Rightarrow> bool" where
  "is_session s \<longleftrightarrow> has_prefix s ''session'' \<and> drop 7 s \<noteq> '''' \<and> list_all is_digit (drop 7 s)"

definition session_of :: "string \<Rightarrow> string option" where
  "session_of canonical = find is_session (split_on CHR ''/'' canonical)"

text \<open>The LUN of the last component \<^verbatim>\<open>H:C:T:L\<close>, none (\<^verbatim>\<open>-1\<close> in the code) when it has another
  form.\<close>

definition lun_of :: "string \<Rightarrow> int option" where
  "lun_of canonical =
     (let parts = split_on CHR '':'' (path_base canonical) in
      if length parts = 4
      then (case parse_int 64 (parts ! 3) of Some v \<Rightarrow> (if v = - 1 then None else Some v) | None \<Rightarrow> None)
      else None)"

text \<open>What the kernel says about one disk; \<^verbatim>\<open>None\<close> lets it pass, also when nothing can be said.\<close>

definition verify_disk :: "'n host \<Rightarrow> string \<Rightarrow> int \<Rightarrow> string \<Rightarrow> string \<Rightarrow> ('n node, err option) prog" where
  "verify_disk host wantIqn wantLun sysfs name = do {
     let devlink = path_join [sysfs, ''block'', name, ''device''];
     c \<leftarrow> act (h_eval_symlinks host devlink) (Resolved devlink);
     case c of
       None \<Rightarrow> State_Monad.return None
     | Some canonical \<Rightarrow> (case session_of canonical of
         None \<Rightarrow> State_Monad.return (Some (FmtError ''device %s (%s) is not an iSCSI disk''))
       | Some session \<Rightarrow> do {
           let file = path_join [sysfs, ''class'', ''iscsi_session'', session, ''targetname''];
           d \<leftarrow> act (h_read_file host file) (Contents file);
           State_Monad.return (case d of
             None \<Rightarrow> None
           | Some data \<Rightarrow>
               if trim_space data \<noteq> wantIqn \<or>
                  (case lun_of canonical of None \<Rightarrow> False | Some gotLun \<Rightarrow> gotLun \<noteq> wantLun)
               then Some (FmtError ''device %s (%s) belongs to target[%s] lun %d'')
               else None) }) }"

fun verify_disks :: "'n host \<Rightarrow> string \<Rightarrow> int \<Rightarrow> string \<Rightarrow> string list \<Rightarrow> ('n node, err option) prog" where
  "verify_disks host wantIqn wantLun sysfs [] = State_Monad.return None"
| "verify_disks host wantIqn wantLun sysfs (name # names) = do {
     r \<leftarrow> verify_disk host wantIqn wantLun sysfs name;
     case r of Some e \<Rightarrow> State_Monad.return (Some e) | None \<Rightarrow> verify_disks host wantIqn wantLun sysfs names }"

definition verifyIscsiDevice :: "'n host \<Rightarrow> string \<Rightarrow> string \<Rightarrow> int \<Rightarrow> string \<Rightarrow> ('n node, err option) prog" where
  "verifyIscsiDevice host devPath wantIqn wantLun sysfs = do {
     r \<leftarrow> act (h_eval_symlinks host devPath) (\<lambda>_. Look devPath);
     case r of
       None \<Rightarrow> State_Monad.return None
     | Some real \<Rightarrow>
         if has_prefix (path_base real) ''dm-'' then do {
           let dir = path_join [sysfs, ''block'', path_base real, ''slaves''];
           s \<leftarrow> act (h_read_dir host dir) (Listed dir);
           case s of
             None \<Rightarrow> State_Monad.return None
           | Some slaves \<Rightarrow> verify_disks host wantIqn wantLun sysfs slaves }
         else verify_disks host wantIqn wantLun sysfs [path_base real] }"

subsection \<open>nvme_connector.go\<close>

record Namespace =
  nv_DevPath :: string
  nv_Subsystem :: string
  nv_Uuid :: string

definition NVME_SUBSYSTEM_PATH :: string where "NVME_SUBSYSTEM_PATH = ''/sys/class/nvme-subsystem''"
definition NVME_FABRICS_PATH :: string where "NVME_FABRICS_PATH = ''/sys/class/nvme-fabrics/ctl''"
definition NVMePort :: int where "NVMePort = 4420"

text \<open>The regular expressions \<^verbatim>\<open>^nvme[0-9]+$\<close> and \<^verbatim>\<open>^nvme[0-9]+n[0-9]+$\<close>.\<close>

definition is_nvme :: "string \<Rightarrow> bool" where
  "is_nvme s \<longleftrightarrow> has_prefix s ''nvme'' \<and> drop 4 s \<noteq> '''' \<and> list_all is_digit (drop 4 s)"

definition is_nvme_namespace :: "string \<Rightarrow> bool" where
  "is_nvme_namespace s \<longleftrightarrow> has_prefix s ''nvme'' \<and>
     (let r = drop 4 s; rest = dropWhile is_digit r in
      takeWhile is_digit r \<noteq> '''' \<and>
      (case rest of [] \<Rightarrow> False | c # ds \<Rightarrow> c = CHR ''n'' \<and> ds \<noteq> '''' \<and> list_all is_digit ds))"

definition nvme_args :: "string \<Rightarrow> string list \<Rightarrow> string list" where
  "nvme_args hostNqn args = (if hostNqn \<noteq> '''' then args @ [''--hostnqn'', hostNqn] else args)"

definition nvmeDiscover :: "'n host \<Rightarrow> executor \<Rightarrow> string \<Rightarrow> int \<Rightarrow> string \<Rightarrow> string \<Rightarrow> ('n node, err option) prog" where
  "nvmeDiscover host ex ip port transport hostNqn = run_checked host ex ''nvme''
     (nvme_args hostNqn [''discover'', ''-t'', transport, ''-a'', ip, ''-s'', itoa port])"

definition nvmeConnect :: "'n host \<Rightarrow> executor \<Rightarrow> string \<Rightarrow> int \<Rightarrow> string \<Rightarrow> string \<Rightarrow> string \<Rightarrow>
    ('n node, err option) prog" where
  "nvmeConnect host ex ip port transport nqn hostNqn = run_checked host ex ''nvme''
     (nvme_args hostNqn [''connect'', ''-t'', transport, ''-a'', ip, ''-s'', itoa port, ''-n'', nqn])"

definition nvmeDisconnect :: "'n host \<Rightarrow> executor \<Rightarrow> string \<Rightarrow> ('n node, err option) prog" where
  "nvmeDisconnect host ex nqn = run_checked host ex ''nvme'' [''disconnect'', ''-n'', nqn]"

definition readTrimFile :: "'n host \<Rightarrow> string \<Rightarrow> ('n node, string option) prog" where
  "readTrimFile host path = do {
     d \<leftarrow> act (h_read_file host path) (Contents path);
     State_Monad.return (map_option trim_space d) }"

fun list_namespaces :: "'n host \<Rightarrow> string \<Rightarrow> string \<Rightarrow> string list \<Rightarrow> ('n node, Namespace list) prog" where
  "list_namespaces host subsysPath nqn [] = State_Monad.return []"
| "list_namespaces host subsysPath nqn (name # names) =
     (if is_nvme_namespace name then do {
        u \<leftarrow> readTrimFile host (path_join [subsysPath, name, ''uuid'']);
        rest \<leftarrow> list_namespaces host subsysPath nqn names;
        State_Monad.return (case u of
          None \<Rightarrow> rest
        | Some uuid \<Rightarrow> \<lparr>nv_DevPath = path_join [''/dev'', name], nv_Subsystem = nqn, nv_Uuid = uuid\<rparr> # rest) }
      else list_namespaces host subsysPath nqn names)"

fun list_subsystems :: "'n host \<Rightarrow> string \<Rightarrow> string list \<Rightarrow> ('n node, Namespace list) prog" where
  "list_subsystems host subsysNqn [] = State_Monad.return []"
| "list_subsystems host subsysNqn (sd # sds) = do {
     let subsysPath = path_join [NVME_SUBSYSTEM_PATH, sd];
     q \<leftarrow> readTrimFile host (path_join [subsysPath, ''subsysnqn'']);
     case q of
       None \<Rightarrow> list_subsystems host subsysNqn sds
     | Some nqn \<Rightarrow>
         if nqn \<noteq> subsysNqn then list_subsystems host subsysNqn sds
         else do {
           n \<leftarrow> act (h_read_dir host subsysPath) (Listed subsysPath);
           case n of
             None \<Rightarrow> list_subsystems host subsysNqn sds
           | Some nsDirs \<Rightarrow> do {
               xs \<leftarrow> list_namespaces host subsysPath nqn nsDirs;
               ys \<leftarrow> list_subsystems host subsysNqn sds;
               State_Monad.return (xs @ ys) } } }"

definition listNamespacesFromSysfs :: "'n host \<Rightarrow> string \<Rightarrow> ('n node, err + Namespace list) prog" where
  "listNamespacesFromSysfs host subsysNqn = do {
     d \<leftarrow> act (h_read_dir host NVME_SUBSYSTEM_PATH) (Listed NVME_SUBSYSTEM_PATH);
     case d of
       None \<Rightarrow> State_Monad.return (Inl (FmtError ''Failed to read %s: %v''))
     | Some subsysDirs \<Rightarrow> do {
         res \<leftarrow> list_subsystems host subsysNqn subsysDirs;
         State_Monad.return (if res = [] then Inl (FmtError ''No namespaces found for subsystem %s'')
           else Inr res) } }"

text \<open>The address of a controller is compared by looking for \<^verbatim>\<open>traddr=IP\<close> anywhere in it.\<close>

definition address_matches :: "string \<Rightarrow> int \<Rightarrow> string \<Rightarrow> bool" where
  "address_matches ip port addrStr \<longleftrightarrow>
     str_contains addrStr (''traddr='' @ ip) \<and> str_contains addrStr (''trsvcid='' @ itoa port)"

fun find_session :: "'n host \<Rightarrow> string \<Rightarrow> int \<Rightarrow> string \<Rightarrow> string \<Rightarrow> string list \<Rightarrow> ('n node, bool) prog" where
  "find_session host ip port transport nqn [] = State_Monad.return False"
| "find_session host ip port transport nqn (dir # dirs) =
     (let next = find_session host ip port transport nqn dirs in
      if \<not> is_nvme dir then next
      else do {
        q \<leftarrow> readTrimFile host (path_join [NVME_FABRICS_PATH, dir, ''subsysnqn'']);
        if q \<noteq> Some nqn then next
        else do {
          t \<leftarrow> readTrimFile host (path_join [NVME_FABRICS_PATH, dir, ''transport'']);
          if t \<noteq> Some transport then next
          else do {
            a \<leftarrow> readTrimFile host (path_join [NVME_FABRICS_PATH, dir, ''address'']);
            case a of
              None \<Rightarrow> next
            | Some addrStr \<Rightarrow>
                if address_matches ip port addrStr then State_Monad.return True else next } } })"

definition hasNVMeSession :: "'n host \<Rightarrow> string \<Rightarrow> int \<Rightarrow> string \<Rightarrow> string \<Rightarrow> ('n node, bool) prog" where
  "hasNVMeSession host ip port transport nqn = do {
     d \<leftarrow> act (h_read_dir host NVME_FABRICS_PATH) (Listed NVME_FABRICS_PATH);
     case d of
       None \<Rightarrow> State_Monad.return False
     | Some dirs \<Rightarrow> find_session host ip port transport nqn dirs }"

end
