(* ===== verification/Node.thy ===== *)
theory Node
  imports Devices Controller
begin

text \<open>
  \<^verbatim>\<open>pkg/driver/nodeserver.go\<close> and \<^verbatim>\<open>nfs_utils.go\<close>: the handlers of the CSI node service,
  which log in to targets, mount and unmount volumes and grow file systems; with
  \<^verbatim>\<open>GetAnotherController\<close> of \<^verbatim>\<open>pkg/dsm/webapi/utils.go\<close>, which only the node uses. A
  handler without a payload in its response answers with \<open>()\<close>.
\<close>

subsection \<open>Returning early\<close>

fun is_panic :: "err \<Rightarrow> bool" where
  "is_panic (Panicked m) = True"
| "is_panic e = False"

text \<open>\<^verbatim>\<open>if err != nil { return nil, status.Error(code, ...) }\<close>; a panic is not an error that the
  code could turn into a status.\<close>

definition to_status :: "code \<Rightarrow> err \<Rightarrow> err" where
  "to_status c e = (if is_panic e then e else Status c)"

definition try_or :: "(err \<Rightarrow> err) \<Rightarrow> ('w, err + 'a) prog \<Rightarrow> ('a \<Rightarrow> ('w, err + 'b) prog) \<Rightarrow> ('w, err + 'b) prog" where
  "try_or h m k = do {
     r \<leftarrow> m;
     case r of Inl e \<Rightarrow> State_Monad.return (Inl (h e)) | Inr x \<Rightarrow> k x }"

definition check_or :: "(err \<Rightarrow> err) \<Rightarrow> ('w, err option) prog \<Rightarrow> ('w, err + 'b) prog \<Rightarrow> ('w, err + 'b) prog" where
  "check_or h m k = do {
     r \<leftarrow> m;
     case r of Some e \<Rightarrow> State_Monad.return (Inl (h e)) | None \<Rightarrow> k }"

definition fail :: "code \<Rightarrow> ('w, err + 'a) prog" where
  "fail c = State_Monad.return (Inl (Status c))"

definition mount_failed :: "('w, mount_error option) prog \<Rightarrow> ('w, err option) prog" where
  "mount_failed m = do {
     r \<leftarrow> m;
     State_Monad.return (case r of None \<Rightarrow> None | Some (MountError p text) \<Rightarrow> Some (FmtError text)) }"

subsection \<open>nfs_utils.go\<close>

type_synonym file_mode = "32 word"

definition ModePerm :: file_mode where "ModePerm = 511"
definition ModeSetgid :: file_mode where "ModeSetgid = push_bit 22 1"
definition groupBits :: file_mode where "groupBits = 56"

definition mountPermissionsFor :: "file_mode \<Rightarrow> file_mode \<Rightarrow> file_mode" where
  "mountPermissionsFor current requested =
     (if and current ModeSetgid = 0 then and requested ModePerm
      else or (or (and (and requested ModePerm) (not groupBits)) (and (and current ModePerm) groupBits)) ModeSetgid)"

definition chmodIfPermissionMismatch :: "'n host \<Rightarrow> string \<Rightarrow> file_mode \<Rightarrow> ('n node, err option) prog" where
  "chmodIfPermissionMismatch host targetPath mode = do {
     i \<leftarrow> act (h_lstat_mode host targetPath) (\<lambda>_. Look targetPath);
     case i of
       Inl e \<Rightarrow> State_Monad.return (Some e)
     | Inr current \<Rightarrow>
         (let want = mountPermissionsFor current mode in
          if and current (or ModePerm ModeSetgid) \<noteq> want
          then act (h_chmod host targetPath want) (\<lambda>_. Chmod targetPath want)
          else State_Monad.return None) }"

subsection \<open>Waiting for devices\<close>

text \<open>One look at every tick of a second, as many ticks as come before the timer of twenty.\<close>

fun wait_path :: "'n host \<Rightarrow> string \<Rightarrow> nat \<Rightarrow> ('n node, err option) prog" where
  "wait_path host path 0 = State_Monad.return (Some (FmtError ''file does not exist''))"
| "wait_path host path (Suc n) = do {
     e \<leftarrow> act (h_path_exists host path) (\<lambda>_. Look path);
     case e of
       Inl err \<Rightarrow> State_Monad.return (Some err)
     | Inr there \<Rightarrow> if there then State_Monad.return None else wait_path host path n }"

definition waitForDevicePathToExist :: "'n host \<Rightarrow> string \<Rightarrow> ('n node, err option) prog" where
  "waitForDevicePathToExist host path = do {
     ticks \<leftarrow> act (h_ticks host path) (\<lambda>_. Look path);
     wait_path host path ticks }"

definition by_path :: "string \<Rightarrow> string \<Rightarrow> int \<Rightarrow> string" where
  "by_path portal iqn lun = ''/dev/disk/by-path/ip-'' @ portal @ ''-iscsi-'' @ iqn @ ''-lun-'' @ itoa lun"

text \<open>The device to mount: the only path, or the multipath device that several share; the empty
  string when there is none.\<close>

definition getVolumeMountPath :: "'n host \<Rightarrow> string list \<Rightarrow> ('n node, err + string) prog" where
  "getVolumeMountPath host iscsiDevPaths =
     (let finish = (\<lambda>path. do {
            w \<leftarrow> waitForDevicePathToExist host path;
            State_Monad.return (Inr (case w of Some e \<Rightarrow> '''' | None \<Rightarrow> path)) })
      in case iscsiDevPaths of
        [] \<Rightarrow> State_Monad.return (Inr '''')
      | [p] \<Rightarrow> finish p
      | _ \<Rightarrow> do {
          l \<leftarrow> lsblk host iscsiDevPaths True;
          case l of
            Inl e \<Rightarrow> State_Monad.return (if is_panic e then Inl e else Inr '''')
          | Inr devices \<Rightarrow> (case GetMultipathDevice devices of
              Inl e \<Rightarrow> State_Monad.return (Inr '''')
            | Inr m \<Rightarrow> finish (path_join [''/dev/mapper'', dev_Name m])) })"

definition getExistedVolumeMountPath :: "'n host \<Rightarrow> executor \<Rightarrow> string \<Rightarrow> int \<Rightarrow> ('n node, err + string) prog" where
  "getExistedVolumeMountPath host ex targetIqn mappingIndex =
     try_or id (listSessionsByIqn host ex targetIqn) (\<lambda>sessions.
       getVolumeMountPath host (map (\<lambda>s. by_path (ses_Portal s) targetIqn mappingIndex) sessions))"

text \<open>The namespaces of a subsystem, polled as often as fits before the deadline.\<close>

fun poll_namespaces :: "'n host \<Rightarrow> string \<Rightarrow> nat \<Rightarrow> ('n node, Namespace list option) prog" where
  "poll_namespaces host subsysNqn n = do {
     r \<leftarrow> listNamespacesFromSysfs host subsysNqn;
     case r of
       Inr (l # ls) \<Rightarrow> State_Monad.return (Some (l # ls))
     | _ \<Rightarrow> (case n of 0 \<Rightarrow> State_Monad.return None | Suc k \<Rightarrow> poll_namespaces host subsysNqn k) }"

declare poll_namespaces.simps [simp del]

definition getExistedNvmeDevPath :: "'n host \<Rightarrow> string \<Rightarrow> string \<Rightarrow> ('n node, string) prog" where
  "getExistedNvmeDevPath host subsysNqn uuid = do {
     n \<leftarrow> act (h_ticks host subsysNqn) (\<lambda>_. Look subsysNqn);
     l \<leftarrow> poll_namespaces host subsysNqn n;
     case l of
       None \<Rightarrow> State_Monad.return ''''
     | Some ns \<Rightarrow> (case find (\<lambda>x. nv_Uuid x = uuid) ns of
         None \<Rightarrow> State_Monad.return ''''
       | Some x \<Rightarrow> do {
           w \<leftarrow> waitForDevicePathToExist host (nv_DevPath x);
           State_Monad.return (case w of Some e \<Rightarrow> '''' | None \<Rightarrow> nv_DevPath x) }) }"

subsection \<open>Mount points\<close>

text \<open>\<^verbatim>\<open>0750\<close>. The result tells whether nothing is mounted there.\<close>

definition mode_0750 :: file_mode where "mode_0750 = 488"

definition createTargetMountPathNFS :: "'n host \<Rightarrow> string \<Rightarrow> file_mode \<Rightarrow> ('n node, err + bool) prog" where
  "createTargetMountPathNFS host mountPath mode = do {
     c \<leftarrow> act (h_likely_not_mount host mountPath) (\<lambda>_. Look mountPath);
     case c of
       MountChecked notMount \<Rightarrow> State_Monad.return (Inr notMount)
     | CheckNotExist \<Rightarrow> check_or id (act (h_mkdir_all host mountPath mode) (\<lambda>_. MkdirAll mountPath mode))
         (State_Monad.return (Inr True))
     | CheckFailed \<Rightarrow> State_Monad.return (Inl (FmtError ''IsLikelyNotMountPoint'')) }"

definition createTargetMountPath :: "'n host \<Rightarrow> string \<Rightarrow> bool \<Rightarrow> ('n node, err + bool) prog" where
  "createTargetMountPath host mountPath isBlock = do {
     c \<leftarrow> act (h_not_mount host mountPath) (\<lambda>_. Look mountPath);
     case c of
       MountChecked notMount \<Rightarrow> State_Monad.return (Inr notMount)
     | CheckNotExist \<Rightarrow>
         if isBlock
         then check_or id (act (h_create_file host mountPath mode_0750) (\<lambda>_. CreateFile mountPath))
           (check_or id (act (h_close_file host mountPath) (\<lambda>_. Look mountPath))
             (State_Monad.return (Inr True)))
         else check_or id (act (h_mkdir_all host mountPath mode_0750) (\<lambda>_. MkdirAll mountPath mode_0750))
           (State_Monad.return (Inr True))
     | CheckFailed \<Rightarrow> State_Monad.return (Inl (FmtError ''IsNotMountPoint'')) }"

subsection \<open>The addresses of a storage system\<close>

definition LookupIPv4 :: "'n host \<Rightarrow> string \<Rightarrow> ('n node, err + string list) prog" where
  "LookupIPv4 host name = do {
     ips \<leftarrow> act (h_lookup_ip host name) (\<lambda>_. Look name);
     State_Monad.return (let retIps = List.map_filter id ips in
       if retIps \<noteq> [] then Inr retIps
       else Inl (FmtError ''Failed to LookupIPv4 by local resolver for: %s'')) }"

definition CheckIpReachable :: "'n host \<Rightarrow> string \<Rightarrow> int \<Rightarrow> ('n node, bool) prog" where
  "CheckIpReachable host ip port = act (h_dial host ip port) (\<lambda>_. Look ip)"

text \<open>\<^verbatim>\<open>ipPrefix[:strings.LastIndex(ipPrefix, ".")]\<close>, empty when there is no dot.\<close>

definition cut_last_dot :: "string \<Rightarrow> string" where
  "cut_last_dot s = rev (drop 1 (dropWhile (\<lambda>c. c \<noteq> CHR ''.'') (rev s)))"

fun reachable_interface :: "'n host \<Rightarrow> int \<Rightarrow> string \<Rightarrow> NetworkInterface list \<Rightarrow> ('n node, string option) prog" where
  "reachable_interface host port ipPrefix [] = State_Monad.return None"
| "reachable_interface host port ipPrefix (netIf # ifs) =
     (if ipPrefix \<noteq> '''' \<and> \<not> has_prefix (ni_Ip netIf) ipPrefix then reachable_interface host port ipPrefix ifs
      else if ni_Status netIf \<noteq> ''connected'' then reachable_interface host port ipPrefix ifs
      else do {
        ok \<leftarrow> CheckIpReachable host (ni_Ip netIf) port;
        if ok then State_Monad.return (Some (ni_Ip netIf)) else reachable_interface host port ipPrefix ifs })"

text \<open>Four rounds, with one more part of the address cut off in each.\<close>

fun nearest_interface :: "'n host \<Rightarrow> int \<Rightarrow> nat \<Rightarrow> string \<Rightarrow> NetworkInterface list \<Rightarrow> ('n node, string option) prog" where
  "nearest_interface host port 0 ipPrefix ifs = State_Monad.return None"
| "nearest_interface host port (Suc n) ipPrefix ifs = do {
     let ipPrefix' = cut_last_dot ipPrefix;
     r \<leftarrow> reachable_interface host port ipPrefix' ifs;
     case r of Some ip \<Rightarrow> State_Monad.return (Some ip) | None \<Rightarrow> nearest_interface host port n ipPrefix' ifs }"

text \<open>The letter of the controller is written into the storage system's entry of the table.\<close>

definition set_controller :: "DSM \<Rightarrow> string \<Rightarrow> ('n node, unit) prog" where
  "set_controller dsm letter = do {
     s \<leftarrow> State_Monad.get;
     let w = dsm_world s;
     State_Monad.set (s\<lparr>dsm_world := w\<lparr>dsms :=
       map (\<lambda>(k, d). (k, if Ip d = Ip dsm then d\<lparr>Controller := letter\<rparr> else d)) (dsms w)\<rparr>\<rparr>) }"

definition GetAnotherController :: "'n env \<Rightarrow> 'n host \<Rightarrow> DSM \<Rightarrow> ('n node, err + DSM) prog" where
  "GetAnotherController env host dsm =
     try_or (\<lambda>e. FmtError ''Failed to get DSM network list of controller A. %v'')
       (service (NetworkInterfaceList env dsm ''node0'')) (\<lambda>netListA.
     try_or (\<lambda>e. FmtError ''Failed to get DSM network list of controller B. %v'')
       (service (NetworkInterfaceList env dsm ''node1'')) (\<lambda>netListB.
     try_or id (LookupIPv4 host (Ip dsm)) (\<lambda>ips.
       let onB = list_ex (\<lambda>netIf. ni_Ip netIf = ips ! 0) netListB;
           letter = (if onB then ''B'' else ''A'');
           anotherLetter = (if onB then ''A'' else ''B'');
           anotherList = (if onB then netListA else netListB)
       in do {
         _ \<leftarrow> set_controller dsm letter;
         r \<leftarrow> nearest_interface host (Port dsm) 4 (ips ! 0) anotherList;
         State_Monad.return (case r of
           Some ip \<Rightarrow> Inr (dsm\<lparr>Ip := ip, Controller := anotherLetter, Hostname := '''',
             SupportNvmeof := False, FirmwareVer := ''''\<rparr>)
         | None \<Rightarrow> Inl (FmtError ''Failed to get reachable network of another controller.'')) })))"

definition portal_of :: "string \<Rightarrow> string" where
  "portal_of ip = ip @ '':'' @ itoa ISCSIPort"

definition getPortals :: "'n env \<Rightarrow> 'n host \<Rightarrow> executor \<Rightarrow> bool \<Rightarrow> string \<Rightarrow> ('n node, string list) prog" where
  "getPortals env host ex multipathEnabled dsmIp = do {
     g \<leftarrow> service (GetDsm dsmIp);
     case g of
       Inl e \<Rightarrow> State_Monad.return []
     | Inr dsm \<Rightarrow> do {
         l \<leftarrow> LookupIPv4 host dsmIp;
         let first = (case l of Inl e \<Rightarrow> portal_of dsmIp | Inr ips \<Rightarrow> portal_of (ips ! 0));
         multi \<leftarrow> (if IsUC dsm then IsMultipathEnabled host ex multipathEnabled else State_Monad.return False);
         if multi then do {
           a \<leftarrow> GetAnotherController env host dsm;
           State_Monad.return (case a of Inl e \<Rightarrow> [first] | Inr dsm2 \<Rightarrow> [first, portal_of (Ip dsm2)]) }
         else State_Monad.return [first] } }"

subsection \<open>Logging in and out\<close>

definition loginNVMeSubsystem :: "'n env \<Rightarrow> 'n host \<Rightarrow> executor \<Rightarrow> string \<Rightarrow> ('n node, err + string list) prog" where
  "loginNVMeSubsystem env host ex volumeId =
     try_or (\<lambda>e. Status Unavailable) (service (GetVolume env volumeId)) (\<lambda>g. case g of
       None \<Rightarrow> fail NotFound
     | Some k8sVolume \<Rightarrow>
         let subsysNqn = ss_Nqn (kv_Subsystem k8sVolume) in
         if subsysNqn = '''' then fail InvalidArgument
         else do {
           l \<leftarrow> LookupIPv4 host (kv_DsmIp k8sVolume);
           let targetIp = (case l of Inl e \<Rightarrow> kv_DsmIp k8sVolume | Inr ips \<Rightarrow> ips ! 0);
           has \<leftarrow> hasNVMeSession host targetIp NVMePort ''tcp'' subsysNqn;
           check_or (to_status Internal)
             (if has then State_Monad.return None
              else nvmeConnect host ex targetIp NVMePort ''tcp'' subsysNqn '''')
             (do {
               path \<leftarrow> getExistedNvmeDevPath host subsysNqn volumeId;
               if path = '''' then fail Internal else State_Monad.return (Inr [path]) }) })"

definition logoutNVMeSubsystem :: "'n host \<Rightarrow> executor \<Rightarrow> string \<Rightarrow> ('n node, unit) prog" where
  "logoutNVMeSubsystem host ex nqn =
     (if nqn = '''' then State_Monad.return ()
      else do { _ \<leftarrow> nvmeDisconnect host ex nqn; State_Monad.return () })"

fun login_portals :: "'n host \<Rightarrow> executor \<Rightarrow> string \<Rightarrow> int \<Rightarrow> string list \<Rightarrow> ('n node, err + string list) prog" where
  "login_portals host ex iqn lun [] = State_Monad.return (Inr [])"
| "login_portals host ex iqn lun (portal # portals) =
     check_or (to_status Internal) (initiator_login host ex iqn portal)
       (check_or (to_status Internal) (waitForDevicePathToExist host (by_path portal iqn lun))
         (try_or id (login_portals host ex iqn lun portals) (\<lambda>paths.
           State_Monad.return (Inr (by_path portal iqn lun # paths)))))"

text \<open>\<^verbatim>\<open>MappedLuns[0]\<close> panics for a volume without a mapped LUN, such as one of another protocol.\<close>

definition first_mapping :: "TargetInfo \<Rightarrow> err + int" where
  "first_mapping target = (case tg_MappedLuns target of
     [] \<Rightarrow> Inl (Panicked ''index out of range'') | m # ms \<Rightarrow> Inr (ml_MappingIndex m))"

definition loginTarget :: "'n env \<Rightarrow> 'n host \<Rightarrow> executor \<Rightarrow> bool \<Rightarrow> string \<Rightarrow>
    ('n node, err + string list \<times> string \<times> int) prog" where
  "loginTarget env host ex multipathEnabled volumeId =
     try_or (\<lambda>e. Status Unavailable) (service (GetVolume env volumeId)) (\<lambda>g. case g of
       None \<Rightarrow> fail NotFound
     | Some k8sVolume \<Rightarrow> do {
         portals \<leftarrow> getPortals env host ex multipathEnabled (kv_DsmIp k8sVolume);
         if portals = [] then fail Internal
         else (case first_mapping (kv_Target k8sVolume) of
           Inl e \<Rightarrow> State_Monad.return (Inl e)
         | Inr lun \<Rightarrow>
             let iqn = tg_Iqn (kv_Target k8sVolume) in
             try_or id (login_portals host ex iqn lun portals) (\<lambda>paths.
               State_Monad.return (Inr (paths, iqn, lun)))) })"

definition logoutTarget :: "'n host \<Rightarrow> executor \<Rightarrow> bool \<Rightarrow> K8sVolumeRespSpec \<Rightarrow> ('n node, err + unit) prog" where
  "logoutTarget host ex multipathEnabled k8sVolume = (case first_mapping (kv_Target k8sVolume) of
     Inl e \<Rightarrow> State_Monad.return (Inl e)
   | Inr mappingIndex \<Rightarrow>
       let iqn = tg_Iqn (kv_Target k8sVolume) in
       try_or id (getExistedVolumeMountPath host ex iqn mappingIndex) (\<lambda>volumeMountPath. do {
         _ \<leftarrow> (if volumeMountPath = '''' then State_Monad.return None
               else do {
                 f \<leftarrow> fsyncDevice host volumeMountPath;
                 case f of
                   Some e \<Rightarrow> State_Monad.return None
                 | None \<Rightarrow> blockdev_flushbufs host ex volumeMountPath });
         multi \<leftarrow> (if str_contains volumeMountPath ''/dev/mapper''
                  then IsMultipathEnabled host ex multipathEnabled else State_Monad.return False);
         _ \<leftarrow> (if multi then multipath_flush host ex volumeMountPath else State_Monad.return None);
         res \<leftarrow> initiator_logout host ex iqn (kv_DsmIp k8sVolume);
         State_Monad.return (case res of
           Some e \<Rightarrow> if is_panic e then Inl e else Inr ()
         | None \<Rightarrow> Inr ()) }))"

end
