(* ===== verification/Printed.thy ===== *)
theory Printed
  imports Node
begin

text \<open>
  What the node reads from the output of the tools of the host, and the mode it gives a mount
  point: the sessions that \<^verbatim>\<open>iscsiadm\<close> prints come back, the multipath device is the one child
  that all paths share, and a chmod keeps the access of the group once kubelet has marked a
  volume. The two places where an unexpected line makes the node panic, and the comparison of
  NVMe addresses by prefix, are stated as the code has them.
\<close>

subsection \<open>Lines and words\<close>

lemma fields_acc_word:
  "list_all (\<lambda>c. \<not> is_space c) w \<Longrightarrow> fields_acc (w @ s) acc = fields_acc s (rev w @ acc)"
  by (induction w arbitrary: acc) simp_all

lemma is_space_blank: "is_space (CHR '' '')" "is_space (CHR 0x0A)"
  by (simp_all add: is_space_def)

lemma fields_join:
  assumes "list_all (\<lambda>w. w \<noteq> [] \<and> list_all (\<lambda>c. \<not> is_space c) w) ws"
  shows "GoStd.fields (join_with '' '' ws) = ws"
  using assms
proof (induction ws rule: induct_list012)
  case (2 w)
  then show ?case using fields_acc_word [of w "[]" "[]"] by (simp add: GoStd.fields_def)
next
  case (3 w w' ws)
  then show ?case
    using fields_acc_word [of w "'' '' @ join_with '' '' (w' # ws)" "[]"]
    by (simp add: GoStd.fields_def is_space_blank)
qed (simp add: GoStd.fields_def)

lemma split_join:
  assumes "list_all (\<lambda>l. c \<notin> set l) ls" "ls \<noteq> []"
  shows "split_on c (join_with [c] ls) = ls"
  using assms
proof (induction ls rule: induct_list012)
  case (2 l)
  then show ?case by (simp add: split_on_no_sep)
next
  case (3 l l' ls)
  then show ?case
    using split_on_append_sep [of c l "join_with [c] (l' # ls)"] by (simp add: split_on_no_sep)
qed simp

lemma digit_not_special:
  assumes "d < 10"
  shows "\<not> is_space (char_of (48 + d :: nat))" "char_of (48 + d :: nat) \<noteq> CHR ''[''" "char_of (48 + d :: nat) \<noteq> CHR '']''"
proof -
  have eq: "of_char (char_of (48 + d :: nat)) = (48 + d :: nat)" using of_char_digit [OF assms] by simp
  then show "\<not> is_space (char_of (48 + d :: nat))" using assms by (simp add: is_space_def)
  have "char_of (48 + d :: nat) \<noteq> c" if "(58 :: nat) \<le> of_char c" for c :: char
    using that eq assms by auto
  then show "char_of (48 + d :: nat) \<noteq> CHR ''[''" "char_of (48 + d :: nat) \<noteq> CHR '']''" by simp_all
qed

lemma itoa_chars:
  "list_all (\<lambda>c. \<not> is_space c \<and> c \<noteq> CHR ''['' \<and> c \<noteq> CHR '']'') (itoa i)"
proof -
  have "\<not> is_space c \<and> c \<noteq> CHR ''['' \<and> c \<noteq> CHR '']''" if "c \<in> set (nat_digits n)" for c n
  proof -
    obtain d where "d < 10" "c = char_of (48 + d :: nat)" using nat_digits_chars [OF \<open>c \<in> set (nat_digits n)\<close>] by blast
    then show ?thesis using digit_not_special [of d] by simp
  qed
  then have "list_all (\<lambda>c. \<not> is_space c \<and> c \<noteq> CHR ''['' \<and> c \<noteq> CHR '']'') (nat_digits n)" for n
    unfolding list_all_iff by blast
  moreover have "\<not> is_space (CHR ''-'')" by (simp add: is_space_def)
  ultimately show ?thesis by (simp add: itoa_def)
qed

lemma session_id_itoa:
  assumes "- (2 ^ 31) \<le> i" "i < 2 ^ 31"
  shows "session_id (itoa i) = i"
proof (cases "i < 0")
  case True
  then have "itoa i = CHR ''-'' # nat_digits (nat (- i))" by (simp add: itoa_def)
  with True assms show ?thesis
    by (simp add: session_id_def parse_nat_def parse_nat_digits_0)
next
  case False
  obtain c r where cr: "nat_digits (nat i) = c # r" by (cases "nat_digits (nat i)") auto
  then have "c \<noteq> CHR ''-''" "c \<noteq> CHR ''+''"
    using nat_digits_no_sign [of c "nat i"] by auto
  moreover have "parse_nat 10 (c # r) = Some (nat i)"
    using parse_nat_digits_0 [of "nat i"] cr by (simp add: parse_nat_def del: parse_digits.simps)
  moreover from False have "itoa i = c # r" by (simp add: itoa_def cr)
  ultimately show ?thesis using False assms by (simp add: session_id_def)
qed

subsection \<open>The sessions of iscsiadm\<close>

text \<open>A line of \<^verbatim>\<open>iscsiadm -m session\<close>, and the sessions that it can stand for.\<close>

definition session_words :: "iscsiSession \<Rightarrow> string list" where
  "session_words s = [ses_Protocol s @ '':'', ''['' @ itoa (ses_Id s) @ '']'', ses_Portal s @ '',1'',
     ses_Iqn s, ''(non-flash)'']"

definition session_line :: "iscsiSession \<Rightarrow> string" where
  "session_line s = join_with '' '' (session_words s)"

definition no_space :: "string \<Rightarrow> bool" where
  "no_space w \<longleftrightarrow> list_all (\<lambda>c. \<not> is_space c) w"

definition printable :: "iscsiSession \<Rightarrow> bool" where
  "printable s \<longleftrightarrow> no_space (ses_Protocol s) \<and> CHR '':'' \<notin> set (ses_Protocol s) \<and>
     - (2 ^ 31) \<le> ses_Id s \<and> ses_Id s < 2 ^ 31 \<and>
     no_space (ses_Portal s) \<and> CHR '','' \<notin> set (ses_Portal s) \<and>
     no_space (ses_Iqn s) \<and> CHR '':'' \<in> set (ses_Iqn s) \<and> ses_Name s = split_on CHR '':'' (ses_Iqn s) ! 1"

lemma session_words_fields: "printable s \<Longrightarrow> GoStd.fields (session_line s) = session_words s"
  unfolding session_line_def
proof (rule fields_join)
  assume s: "printable s"
  then have "ses_Iqn s \<noteq> []" by (auto simp: printable_def)
  moreover have "\<not> is_space (CHR '':'')" "\<not> is_space (CHR ''['')" "\<not> is_space (CHR '']'')"
    "\<not> is_space (CHR '','')" "\<not> is_space (CHR ''1'')" "list_all (\<lambda>c. \<not> is_space c) ''(non-flash)''"
    by (simp_all add: is_space_def)
  moreover have "list_all (\<lambda>c. \<not> is_space c) (itoa (ses_Id s))"
    using itoa_chars [of "ses_Id s"] by (simp add: list_all_iff)
  ultimately show "list_all (\<lambda>w. w \<noteq> [] \<and> list_all (\<lambda>c. \<not> is_space c) w) (session_words s)"
    using s by (simp add: session_words_def printable_def no_space_def)
qed

lemma parse_session_words: "printable s \<Longrightarrow> parse_session (session_words s) = Inr s"
proof -
  assume s: "printable s"
  then obtain a b where ab: "ses_Iqn s = a @ CHR '':'' # b"
    by (auto simp: printable_def dest: split_list)
  have "length (split_on CHR '':'' (ses_Iqn s)) = length (split_on CHR '':'' a) + length (split_on CHR '':'' b)"
    using split_on_append_sep [of "CHR '':''" a b] by (simp add: ab)
  moreover have "0 < length (split_on CHR '':'' a)" "0 < length (split_on CHR '':'' b)" by simp_all
  ultimately have len: "\<not> length (split_on CHR '':'' (ses_Iqn s)) < 2" by linarith
  have p: "split_on CHR '':'' (ses_Protocol s @ '':'') = [ses_Protocol s, []]"
    using s split_on_append_sep [of "CHR '':''" "ses_Protocol s" "[]"] by (simp add: printable_def split_on_no_sep)
  have q: "split_on CHR '','' (ses_Portal s @ '',1'') = [ses_Portal s, ''1'']"
    using s split_on_append_sep [of "CHR '',''" "ses_Portal s" "''1''"] by (simp add: printable_def split_on_no_sep)
  have i: "filter (\<lambda>c. c \<noteq> CHR ''['' \<and> c \<noteq> CHR '']'') (''['' @ itoa (ses_Id s) @ '']'') = itoa (ses_Id s)"
    using itoa_chars [of "ses_Id s"] by (simp add: list_all_iff filter_id_conv)
  show ?thesis
    using s len p q i session_id_itoa [of "ses_Id s"]
    by (simp add: parse_session_def session_words_def printable_def Let_def)
qed

lemma parse_entries_lines: "list_all printable ss \<Longrightarrow> parse_entries (map session_line ss) = Inr ss"
  by (induction ss)
    (simp_all add: session_words_fields parse_session_words Let_def, simp add: session_words_def)

lemma session_line_ends:
  "\<exists>m. session_line s = m @ '')''" "printable s \<Longrightarrow> \<exists>c m. session_line s = c # m \<and> \<not> is_space c"
  "printable s \<Longrightarrow> CHR 0x0A \<notin> set (session_line s)"
proof -
  show "\<exists>m. session_line s = m @ '')''" by (simp add: session_line_def session_words_def)
  assume s: "printable s"
  show "\<exists>c m. session_line s = c # m \<and> \<not> is_space c"
    using s by (cases "ses_Protocol s")
      (simp_all add: session_line_def session_words_def printable_def no_space_def is_space_def)
  have nl: "CHR 0x0A \<notin> set w" if "list_all (\<lambda>c. \<not> is_space c) w" for w
    using that is_space_blank(2) by (auto simp: list_all_iff)
  from s show "CHR 0x0A \<notin> set (session_line s)"
    using nl [of "ses_Protocol s"] nl [of "ses_Portal s"] nl [of "ses_Iqn s"] nl [of "itoa (ses_Id s)"]
      itoa_chars [of "ses_Id s"]
    by (simp add: session_line_def session_words_def printable_def no_space_def list_all_iff)
qed

lemma join_ends:
  assumes "list_all (\<lambda>l. (\<exists>m. l = m @ [e]) \<and> (\<exists>c m. l = c # m \<and> P c)) ls" "ls \<noteq> []"
  shows "(\<exists>m. join_with sep ls = m @ [e]) \<and> (\<exists>c m. join_with sep ls = c # m \<and> P c)"
  using assms
proof (induction sep ls rule: join_with.induct)
  case (3 sep l l' ls)
  then obtain m c m' where "join_with sep (l' # ls) = m @ [e]" "l = c # m'" "P c" by auto
  then have "join_with sep (l # l' # ls) = (l @ sep @ m) @ [e]"
    "join_with sep (l # l' # ls) = c # (m' @ sep @ join_with sep (l' # ls))" by simp_all
  with \<open>P c\<close> show ?case by blast
qed auto

lemma trim_output:
  assumes "s = m @ [e]" "s = c # m'" "\<not> is_space e" "\<not> is_space c"
  shows "trim_space (s @ [CHR 0x0A]) = s"
proof -
  have "trim_left (s @ [CHR 0x0A]) = s @ [CHR 0x0A]"
    using assms(2,4) by (simp add: trim_left_def)
  then show ?thesis
    using assms(1,3) by (simp add: trim_space_def trim_left_def is_space_blank)
qed

text \<open>C31: The sessions that \<^verbatim>\<open>iscsiadm\<close> prints, one per line with a line end after the last, are
  read back exactly: whatever can be printed without breaking the line apart comes back.\<close>

theorem parseSessions_roundtrip:
  assumes "list_all printable sessions"
  shows "parseSessions (join_with [CHR 0x0A] (map session_line sessions) @ [CHR 0x0A]) = Inr sessions"
proof (cases "sessions = []")
  case True
  then show ?thesis
    by (simp add: parseSessions_def trim_space_def trim_left_def is_space_blank GoStd.fields_def)
next
  case False
  let ?out = "join_with [CHR 0x0A] (map session_line sessions)"
  have "(\<exists>m. ?out = m @ '')'') \<and> (\<exists>c m. ?out = c # m \<and> \<not> is_space c)"
    using assms False session_line_ends(1,2) by (intro join_ends) (auto simp: list_all_iff)
  moreover have "\<not> is_space (CHR '')'')" by (simp add: is_space_def)
  ultimately have "trim_space (?out @ [CHR 0x0A]) = ?out" using trim_output by blast
  moreover have "split_on (CHR 0x0A) ?out = map session_line sessions"
    using assms False session_line_ends(3) by (intro split_join) (auto simp: list_all_iff)
  ultimately show ?thesis using assms by (simp add: parseSessions_def parse_entries_lines)
qed

definition sample_session :: iscsiSession where
  "sample_session = \<lparr>ses_Protocol = ''tcp'', ses_Id = 1, ses_Portal = ''10.0.0.1:3260'',
     ses_Iqn = ''iqn.2000-01.com.synology:ds.pvc-1'', ses_Name = ''ds.pvc-1''\<rparr>"

theorem parseSessions_roundtrip_witness:
  "parseSessions (join_with [CHR 0x0A] (map session_line [sample_session]) @ [CHR 0x0A]) = Inr [sample_session]"
  by (rule parseSessions_roundtrip) (simp add: sample_session_def printable_def no_space_def is_space_def)

text \<open>A target name without a colon makes the node panic, whatever the rest of the line is.\<close>

lemma parse_session_panics:
  "CHR '':'' \<notin> set (e ! 3) \<Longrightarrow> parse_session e = Inl (Panicked ''index out of range'')"
  by (simp add: parse_session_def split_on_no_sep)

subsection \<open>Multipath devices\<close>

definition has_child :: "string \<Rightarrow> Device \<Rightarrow> bool" where
  "has_child name d = (case dev_Children d of [c] \<Rightarrow> dev_Name c = name | _ \<Rightarrow> False)"

lemma has_child_iff: "has_child name d \<longleftrightarrow> (\<exists>c. dev_Children d = [c] \<and> dev_Name c = name)"
  by (auto simp: has_child_def split: list.splits)

lemma last_child:
  assumes "list_all (has_child name) ds" "ds \<noteq> []"
  shows "dev_Children (last ds) = [hd (dev_Children (last ds))] \<and> dev_Name (hd (dev_Children (last ds))) = name"
proof -
  from assms have "has_child name (last ds)" by (simp add: list_all_iff)
  then show ?thesis by (auto simp: has_child_iff)
qed

lemma common_child_some:
  "common_child ds (Some m0) = Inr r \<longleftrightarrow> list_all (has_child (dev_Name m0)) ds \<and>
     r = Some (if ds = [] then m0 else hd (dev_Children (last ds)))"
proof (induction ds "Some m0" arbitrary: m0 rule: common_child.induct)
  case (2 d ds)
  show ?case
  proof (cases "\<exists>c. dev_Children d = [c] \<and> dev_Name c = dev_Name m0")
    case True
    then obtain c where c: "dev_Children d = [c]" "dev_Name c = dev_Name m0" by blast
    with 2 show ?thesis by (auto simp: has_child_def)
  next
    case False
    then show ?thesis by (auto simp: has_child_def split: list.splits)
  qed
qed auto



text \<open>C30: The multipath device of several paths is found exactly when every path has one child, all
  the children have its name, it is the child of the last path, and it is of the type
  \<^verbatim>\<open>mpath\<close>.\<close>

theorem GetMultipathDevice_iff:
  "GetMultipathDevice ds = Inr m \<longleftrightarrow> ds \<noteq> [] \<and> list_all (has_child (dev_Name m)) ds \<and>
     dev_Children (last ds) = [m] \<and> dev_Type m = ''mpath''"
proof (cases ds)
  case Nil
  then show ?thesis by (simp add: GetMultipathDevice_def)
next
  case (Cons d ds')
  show ?thesis
  proof (cases "\<exists>c. dev_Children d = [c]")
    case True
    then obtain c where c: "dev_Children d = [c]" by blast
    let ?last = "hd (dev_Children (last ds))"
    have "GetMultipathDevice ds = Inr m \<longleftrightarrow> common_child ds' (Some c) = Inr (Some m) \<and> dev_Type m = ''mpath''"
      by (auto simp: GetMultipathDevice_def Cons c split: sum.splits option.splits if_splits)
    also have "\<dots> \<longleftrightarrow> list_all (has_child (dev_Name c)) ds \<and> ?last = m \<and> dev_Type m = ''mpath''"
      by (auto simp: common_child_some Cons c has_child_iff)
    also have "\<dots> \<longleftrightarrow> list_all (has_child (dev_Name m)) ds \<and> dev_Children (last ds) = [m] \<and> dev_Type m = ''mpath''"
      using last_child [of "dev_Name c" ds] last_child [of "dev_Name m" ds] c
      by (auto simp: Cons has_child_iff)
    finally show ?thesis by (simp add: Cons)
  next
    case False
    then have "common_child ds None = Inl (FmtError ''device is not mapped to exactly one multipath device: %v'')"
      by (auto simp: Cons split: list.splits)
    with False show ?thesis by (auto simp: GetMultipathDevice_def Cons has_child_iff)
  qed
qed

text \<open>A line of five or six columns passes the check of its length and makes the node panic.\<close>

lemma parse_lsblk_line_panics:
  "length (split_on CHR '' '' line) \<in> {5, 6} \<Longrightarrow> parse_lsblk_line line = Inl (Panicked ''index out of range'')"
  by (auto simp: parse_lsblk_line_def)

subsection \<open>Addresses of NVMe controllers\<close>

text \<open>A session to one address counts as a session to every address that is a prefix of it:
  connected to \<^verbatim>\<open>10.0.0.10\<close>, the node takes itself to be connected to \<^verbatim>\<open>10.0.0.1\<close> too.\<close>

theorem address_prefix_matches:
  "address_matches ip port (''traddr='' @ ip @ rest @ '',trsvcid='' @ itoa port @ tail)"
proof -
  have "''traddr='' @ ip @ rest @ '',trsvcid='' @ itoa port @ tail =
      [] @ (''traddr='' @ ip) @ (rest @ '',trsvcid='' @ itoa port @ tail)" by simp
  then have "str_contains (''traddr='' @ ip @ rest @ '',trsvcid='' @ itoa port @ tail) (''traddr='' @ ip)"
    unfolding str_contains_iff by blast
  moreover have "''traddr='' @ ip @ rest @ '',trsvcid='' @ itoa port @ tail =
      (''traddr='' @ ip @ rest @ '','') @ (''trsvcid='' @ itoa port) @ tail" by simp
  then have "str_contains (''traddr='' @ ip @ rest @ '',trsvcid='' @ itoa port @ tail) (''trsvcid='' @ itoa port)"
    unfolding str_contains_iff by blast
  ultimately show ?thesis by (simp add: address_matches_def)
qed

subsection \<open>Permissions of a mount point\<close>

lemma mode_bits [simp]:
  "bit ModePerm n \<longleftrightarrow> n < 9" "bit ModeSetgid n \<longleftrightarrow> n = 22" "bit groupBits n \<longleftrightarrow> n \<in> {3, 4, 5}"
proof -
  have perm: "ModePerm = mask 9" by (simp add: ModePerm_def mask_eq_exp_minus_1)
  show "bit ModePerm n \<longleftrightarrow> n < 9" unfolding perm bit_mask_iff by auto
  show "bit ModeSetgid n \<longleftrightarrow> n = 22" unfolding ModeSetgid_def bit_push_bit_iff bit_1_iff by auto
  have grp: "groupBits = push_bit 3 (mask 3)" by (simp add: groupBits_def mask_eq_exp_minus_1)
  show "bit groupBits n \<longleftrightarrow> n \<in> {3, 4, 5}" unfolding grp bit_push_bit_iff bit_mask_iff by auto
qed

lemma setgid_iff: "and m ModeSetgid = 0 \<longleftrightarrow> \<not> bit m 22"
  using and_exp_eq_0_iff_not_bit [of m 22] by (simp only: ModeSetgid_def push_bit_eq_mult mult_1)

lemma mountPermissionsFor_bit:
  "bit (mountPermissionsFor current requested) n \<longleftrightarrow>
     (if bit current 22 then (if n \<in> {3, 4, 5} then bit current n else n < 9 \<and> bit requested n \<or> n = 22)
      else n < 9 \<and> bit requested n)"
  by (auto simp: mountPermissionsFor_def setgid_iff bit_simps)

text \<open>On a volume that kubelet has marked with the setgid bit, the group keeps exactly the
  access it has and the mark stays; the other permission bits are the requested ones. On any
  other volume all nine are. Doing it twice changes nothing, so the mode that was written is
  never written again.\<close>

theorem mount_permissions:
  "(bit (mountPermissionsFor current requested) n \<longleftrightarrow>
     (if bit current 22 then (if n \<in> {3, 4, 5} then bit current n else n < 9 \<and> bit requested n \<or> n = 22)
      else n < 9 \<and> bit requested n)) \<and>
   and (mountPermissionsFor current requested) (or ModePerm ModeSetgid) =
     mountPermissionsFor (mountPermissionsFor current requested) requested"
proof (rule conjI [OF mountPermissionsFor_bit])
  show "and (mountPermissionsFor current requested) (or ModePerm ModeSetgid) =
      mountPermissionsFor (mountPermissionsFor current requested) requested"
    by (rule bit_eqI) (auto simp: mountPermissionsFor_bit bit_simps split: if_splits)
qed

end
