(* ===== verification/Handlers.thy ===== *)
theory Handlers
  imports Node
begin

text \<open>
  The handlers of the CSI node service of \<^verbatim>\<open>pkg/driver/nodeserver.go\<close>: staging a volume for
  each protocol, unstaging, publishing, unpublishing, statistics and growing.
\<close>

subsection \<open>Mount options\<close>

definition withXfsMountOptions :: "string \<Rightarrow> string list \<Rightarrow> string list" where
  "withXfsMountOptions fsType options =
     (if fsType \<noteq> ''xfs'' \<or> SliceContains options ''nouuid'' then options else options @ [''nouuid''])"

text \<open>\<^verbatim>\<open>strings.EqualFold\<close> on ASCII. The flag tells whether a gid was seen so far.\<close>

fun check_gid :: "string \<Rightarrow> string list \<Rightarrow> bool \<Rightarrow> err + bool" where
  "check_gid volumeMountGroup [] present = Inr present"
| "check_gid volumeMountGroup (mountFlag # flags) present =
     (if has_prefix mountFlag ''gid'' then
        (let kvpair = split_on CHR ''='' mountFlag in
         if volumeMountGroup \<noteq> '''' \<and> length kvpair = 2 \<and> to_lower volumeMountGroup \<noteq> to_lower (kvpair ! 1)
         then Inl (Status InvalidArgument)
         else check_gid volumeMountGroup flags True)
      else check_gid volumeMountGroup flags present)"

definition checkGidPresentInMountFlags :: "string \<Rightarrow> string list \<Rightarrow> err + bool" where
  "checkGidPresentInMountFlags volumeMountGroup mountFlags = check_gid volumeMountGroup mountFlags False"

text \<open>\<^verbatim>\<open>backoff.RetryNotify\<close> with a limit of five seconds.\<close>

definition mountSensitiveWithRetry :: "'n host \<Rightarrow> string \<Rightarrow> string \<Rightarrow> string \<Rightarrow> string list \<Rightarrow> string list \<Rightarrow>
    ('n node, err option) prog" where
  "mountSensitiveWithRetry host sourcePath targetPath fsType options sensitiveOptions = do {
     s \<leftarrow> State_Monad.get;
     r \<leftarrow> retry_n (h_mount_retries host (nas (dsm_world s))) (do {
       m \<leftarrow> mount_failed (act (h_mount_sensitive host sourcePath targetPath fsType options sensitiveOptions)
         (\<lambda>_. MountSensitive sourcePath targetPath fsType options sensitiveOptions));
       State_Monad.return ((), map_option (\<lambda>e. (False, e)) m) });
     State_Monad.return (snd r) }"

subsection \<open>Access to shares\<close>

definition getNodeAddress :: "'n host \<Rightarrow> ('n node, err + string list) prog" where
  "getNodeAddress host =
     try_or id (act (h_nodes host) (\<lambda>_. Look ''nodes'')) (\<lambda>nodes.
       let ips = concat (map (\<lambda>addresses. map snd (filter (\<lambda>(type, a). type = ''InternalIP'') addresses)) nodes)
       in State_Monad.return (if ips = [] then Inl (FmtError ''Empty results'') else Inr ips))"

text \<open>The storage system and the share of a source \<^verbatim>\<open>//host/share\<close>.\<close>

definition parse_source :: "string \<Rightarrow> err + string \<times> string" where
  "parse_source sourcePath =
     (let s = split_on CHR ''/'' (trim_prefix sourcePath ''//'') in
      if length s \<noteq> 2 then Inl (FmtError ''Failed to parse dsmIp and shareName from source path'')
      else Inr (s ! 0, s ! 1))"

definition node_rule :: "AuthType \<Rightarrow> string \<Rightarrow> PrivilegeRule" where
  "node_rule authType hostname = \<lparr>pr_Async = True, pr_Client = hostname, pr_Crossmnt = True, pr_Insecure = True,
     pr_Privilege = auth_string authType, pr_RootSquash = ''root'',
     pr_SecurityFlavor = \<lparr>sf_Kerbros = False, sf_KerbrosIntegrity = False, sf_KerbrosPrivacy = False, sf_Sys = True\<rparr>\<rparr>"

definition missingNfsPrivilegeClients :: "SharePrivilege \<Rightarrow> SharePrivilege \<Rightarrow> string list" where
  "missingNfsPrivilegeClients current want =
     (let granted = map_of (rev (map (\<lambda>rule. (pr_Client rule, pr_Privilege rule)) (spv_Rule current))) in
      map pr_Client (filter (\<lambda>rule.
        (case granted (pr_Client rule) of None \<Rightarrow> '''' | Some p \<Rightarrow> p) \<noteq> pr_Privilege rule) (spv_Rule want)))"

definition setNFSVolumePrivilege :: "'n env \<Rightarrow> string \<Rightarrow> string list \<Rightarrow> AuthType \<Rightarrow> bool \<Rightarrow>
    ('n world, err option) prog" where
  "setNFSVolumePrivilege env sourcePath hostnames authType force = (case parse_source sourcePath of
     Inl e \<Rightarrow> State_Monad.return (Some e)
   | Inr (dsmIp, shareName) \<Rightarrow> do {
       d \<leftarrow> GetDsm dsmIp;
       case d of
         Inl e \<Rightarrow> State_Monad.return (Some (FmtError ''Failed to get DSM[%s]''))
       | Inr dsm \<Rightarrow> do {
           let priv = \<lparr>spv_ShareName = shareName, spv_Rule = map (node_rule authType) hostnames\<rparr>;
           granted \<leftarrow> (if force then State_Monad.return False
             else do {
               l \<leftarrow> ShareNfsPrivilegeLoad env dsm shareName;
               State_Monad.return (case l of
                 Inl e \<Rightarrow> False
               | Inr current \<Rightarrow> missingNfsPrivilegeClients current priv = []) });
           if granted then State_Monad.return None else ShareNfsPrivilegeSave env dsm priv } })"

definition setSMBVolumePermission :: "'n env \<Rightarrow> string \<Rightarrow> string \<Rightarrow> AuthType \<Rightarrow> ('n world, err option) prog" where
  "setSMBVolumePermission env sourcePath userName authType = (case parse_source sourcePath of
     Inl e \<Rightarrow> State_Monad.return (Some e)
   | Inr (dsmIp, shareName) \<Rightarrow> do {
       d \<leftarrow> GetDsm dsmIp;
       case d of
         Inl e \<Rightarrow> State_Monad.return (Some (FmtError ''Failed to get DSM[%s]''))
       | Inr dsm \<Rightarrow> do {
           r \<leftarrow> SharePermissionSet env dsm \<lparr>sps_Name = shareName, sps_UserGroupType = ''local_user'',
             sps_Permissions = [\<lparr>sp_Name = userName, sp_IsReadonly = (authType = AuthTypeReadOnly),
               sp_IsWritable = (authType = AuthTypeReadWrite), sp_IsDeny = (authType = AuthTypeNoAccess),
               sp_IsCustom = False, sp_IsAdmin = False\<rparr>]\<rparr>;
           State_Monad.return (case r of Inl e \<Rightarrow> Some e | Inr _ \<Rightarrow> None) } })"

subsection \<open>Staging\<close>

record NodeStageVolumeSpec =
  nss_VolumeId :: string
  nss_StagingTargetPath :: string
  nss_VolumeCapability :: VolumeCapability
  nss_Dsm :: string
  nss_Source :: string
  nss_FormatOptions :: string

definition growFilesystemIfNeeded :: "'n host \<Rightarrow> string \<Rightarrow> string \<Rightarrow> ('n node, err option) prog" where
  "growFilesystemIfNeeded host devicePath mountPath = do {
     n \<leftarrow> act (h_need_resize host devicePath mountPath) (\<lambda>_. Look devicePath);
     case n of
       Inl e \<Rightarrow> State_Monad.return (Some (Wrapf ''cannot tell whether the filesystem on %s needs to grow: %w'' e))
     | Inr needed \<Rightarrow>
         if \<not> needed then State_Monad.return None
         else do {
           r \<leftarrow> act (h_resize host devicePath mountPath) (\<lambda>_. Resize devicePath mountPath);
           State_Monad.return (case r of
             Inl e \<Rightarrow> Some (Wrapf ''failed to grow the filesystem on %s: %w'' e) | Inr _ \<Rightarrow> None) } }"

text \<open>The end of staging a LUN or namespace: the device is formatted if it has no file system,
  mounted at the staging path unless something is mounted there, and its file system grown.\<close>

definition stage_device :: "'n host \<Rightarrow> NodeStageVolumeSpec \<Rightarrow> string \<Rightarrow> ('n node, err + unit) prog" where
  "stage_device host spec volumeMountPath = do {
     c \<leftarrow> act (h_likely_not_mount host (nss_StagingTargetPath spec)) (\<lambda>_. Look (nss_StagingTargetPath spec));
     case c of
       MountChecked notMount \<Rightarrow>
         if \<not> notMount then State_Monad.return (Inr ())
         else
           (let cap = cap_AccessType (nss_VolumeCapability spec);
                fsType = mount_fs_type cap;
                options = withXfsMountOptions fsType (''rw'' # mount_flags cap);
                formatOptions = StringToSlice (nss_FormatOptions spec)
            in check_or (to_status Internal)
                 (mount_failed (act (h_format_mount host volumeMountPath (nss_StagingTargetPath spec) fsType options formatOptions)
                   (\<lambda>_. FormatAndMount volumeMountPath (nss_StagingTargetPath spec) fsType options formatOptions)))
                 (check_or (to_status Internal)
                   (growFilesystemIfNeeded host volumeMountPath (nss_StagingTargetPath spec))
                   (State_Monad.return (Inr ()))))
     | CheckNotExist \<Rightarrow> fail Internal
     | CheckFailed \<Rightarrow> fail Internal }"

text \<open>The device of an iSCSI volume: logged in to, resolved, and shown not to be another's.\<close>

definition iscsi_device :: "'n env \<Rightarrow> 'n host \<Rightarrow> executor \<Rightarrow> bool \<Rightarrow> string \<Rightarrow> ('n node, err + string) prog" where
  "iscsi_device env host ex multipathEnabled volumeId =
     try_or (to_status Internal) (loginTarget env host ex multipathEnabled volumeId) (\<lambda>(iscsiDevPaths, iqn, lun).
       try_or id (getVolumeMountPath host iscsiDevPaths) (\<lambda>volumeMountPath.
         if volumeMountPath = '''' then fail Internal
         else check_or (to_status Internal) (verifyIscsiDevice host volumeMountPath iqn lun sysfsRoot)
           (State_Monad.return (Inr volumeMountPath))))"

definition nvme_device :: "'n env \<Rightarrow> 'n host \<Rightarrow> executor \<Rightarrow> string \<Rightarrow> ('n node, err + string) prog" where
  "nvme_device env host ex volumeId =
     try_or (to_status Internal) (loginNVMeSubsystem env host ex volumeId) (\<lambda>nvmeDevPaths.
       let volumeMountPath = nvmeDevPaths ! 0 in
       if volumeMountPath = '''' then fail Internal else State_Monad.return (Inr volumeMountPath))"

definition nodeStageISCSIVolume :: "'n env \<Rightarrow> 'n host \<Rightarrow> executor \<Rightarrow> bool \<Rightarrow> NodeStageVolumeSpec \<Rightarrow>
    ('n node, err + unit) prog" where
  "nodeStageISCSIVolume env host ex multipathEnabled spec =
     (if is_block (cap_AccessType (nss_VolumeCapability spec)) then State_Monad.return (Inr ())
      else try_or id (iscsi_device env host ex multipathEnabled (nss_VolumeId spec)) (stage_device host spec))"

definition nodeStageNVMeVolume :: "'n env \<Rightarrow> 'n host \<Rightarrow> executor \<Rightarrow> NodeStageVolumeSpec \<Rightarrow>
    ('n node, err + unit) prog" where
  "nodeStageNVMeVolume env host ex spec =
     (if is_block (cap_AccessType (nss_VolumeCapability spec)) then State_Monad.return (Inr ())
      else try_or id (nvme_device env host ex (nss_VolumeId spec)) (stage_device host spec))"

text \<open>The secrets of a request, a Go map that may be nil.\<close>

definition smb_options :: "string \<Rightarrow> string \<Rightarrow> bool \<Rightarrow> string list \<Rightarrow> string list" where
  "smb_options volumeMountGroup domain gidPresent flags =
     flags @ (if \<not> gidPresent \<and> volumeMountGroup \<noteq> '''' then [''gid='' @ volumeMountGroup] else []) @
       (if domain \<noteq> '''' then [''domain='' @ domain] else [])"

definition nodeStageSMBVolume :: "'n env \<Rightarrow> 'n host \<Rightarrow> NodeStageVolumeSpec \<Rightarrow> (string \<rightharpoonup> string) option \<Rightarrow>
    ('n node, err + unit) prog" where
  "nodeStageSMBVolume env host spec secrets =
     (let cap = cap_AccessType (nss_VolumeCapability spec) in
      if is_block cap then fail InvalidArgument
      else if nss_Source spec = '''' then fail InvalidArgument
      else (case secrets of
        None \<Rightarrow> fail InvalidArgument
      | Some sec \<Rightarrow>
          let username = trim_space (get_param sec ''username'');
              password = trim_space (get_param sec ''password'');
              domain = trim_space (get_param sec ''domain'');
              targetPath = nss_StagingTargetPath spec
          in check_or (to_status Internal)
               (service (setSMBVolumePermission env (nss_Source spec) username AuthTypeReadWrite))
               (try_or (to_status Internal) (createTargetMountPath host targetPath False) (\<lambda>notMount.
                 if \<not> notMount then State_Monad.return (Inr ())
                 else (case checkGidPresentInMountFlags (mount_group cap) (mount_flags cap) of
                   Inl e \<Rightarrow> State_Monad.return (Inl e)
                 | Inr gidPresent \<Rightarrow>
                     check_or (to_status Internal)
                       (mountSensitiveWithRetry host (nss_Source spec) targetPath ''cifs''
                         (smb_options (mount_group cap) domain gidPresent (mount_flags cap))
                         [''username='' @ username @ '',password='' @ password])
                       (State_Monad.return (Inr ())))))))"

definition nodeStageNFSVolume :: "'n env \<Rightarrow> 'n host \<Rightarrow> NodeStageVolumeSpec \<Rightarrow> ('n node, err + unit) prog" where
  "nodeStageNFSVolume env host spec =
     (if is_block (cap_AccessType (nss_VolumeCapability spec)) then fail InvalidArgument
      else try_or (to_status Internal) (getNodeAddress host) (\<lambda>nodeIps.
        check_or (to_status Internal)
          (service (setNFSVolumePrivilege env (nss_Source spec) nodeIps AuthTypeReadWrite False))
          (State_Monad.return (Inr ()))))"

record NodeStageRequest =
  nsr_VolumeId :: string
  nsr_StagingTargetPath :: string
  nsr_VolumeCapability :: "VolumeCapability option"
  nsr_VolumeContext :: "string \<rightharpoonup> string"
  nsr_Secrets :: "(string \<rightharpoonup> string) option"

definition NodeStageVolume :: "'n env \<Rightarrow> 'n host \<Rightarrow> executor \<Rightarrow> bool \<Rightarrow> NodeStageRequest \<Rightarrow>
    ('n node, err + unit) prog" where
  "NodeStageVolume env host ex multipathEnabled req =
     (case nsr_VolumeCapability req of
        None \<Rightarrow> fail InvalidArgument
      | Some cap \<Rightarrow>
          if nsr_VolumeId req = '''' \<or> nsr_StagingTargetPath req = '''' then fail InvalidArgument
          else if is_block (cap_AccessType cap) \<and> is_mount (cap_AccessType cap) then fail InvalidArgument
          else
            (let spec = \<lparr>nss_VolumeId = nsr_VolumeId req, nss_StagingTargetPath = nsr_StagingTargetPath req,
                   nss_VolumeCapability = cap, nss_Dsm = get_param (nsr_VolumeContext req) ''dsm'',
                   nss_Source = get_param (nsr_VolumeContext req) ''source'',
                   nss_FormatOptions = get_param (nsr_VolumeContext req) ''formatOptions''\<rparr>;
                 protocol = get_param (nsr_VolumeContext req) ''protocol''
             in if protocol = ProtocolSmb then nodeStageSMBVolume env host spec (nsr_Secrets req)
                else if protocol = ProtocolNfs then nodeStageNFSVolume env host spec
                else if protocol = ProtocolNvme then nodeStageNVMeVolume env host ex spec
                else nodeStageISCSIVolume env host ex multipathEnabled spec))"

subsection \<open>Unstaging\<close>

text \<open>Whether nothing is mounted at a path; every error of the check is an internal one.\<close>

definition is_not_mount :: "'n host \<Rightarrow> string \<Rightarrow> ('n node, err + bool) prog" where
  "is_not_mount host path = do {
     c \<leftarrow> act (h_not_mount host path) (\<lambda>_. Look path);
     State_Monad.return (case c of
       MountChecked notMount \<Rightarrow> Inr notMount
     | CheckNotExist \<Rightarrow> Inl (FmtError ''file does not exist'')
     | CheckFailed \<Rightarrow> Inl (FmtError ''IsNotMountPoint'')) }"

definition unmount_if :: "'n host \<Rightarrow> string \<Rightarrow> bool \<Rightarrow> ('n node, err option) prog" where
  "unmount_if host path notMount =
     (if notMount then State_Monad.return None else act (h_unmount host path) (\<lambda>_. Unmount path))"

definition NodeUnstageVolume :: "'n env \<Rightarrow> 'n host \<Rightarrow> executor \<Rightarrow> bool \<Rightarrow> string \<Rightarrow> string \<Rightarrow>
    ('n node, err + unit) prog" where
  "NodeUnstageVolume env host ex multipathEnabled volumeId stagingTargetPath =
     (if volumeId = '''' then fail InvalidArgument
      else if stagingTargetPath = '''' then fail InvalidArgument
      else try_or (to_status Internal) (is_not_mount host stagingTargetPath) (\<lambda>notMount.
        check_or (to_status Internal) (unmount_if host stagingTargetPath notMount)
          (try_or (\<lambda>e. Status Unavailable) (service (GetVolume env volumeId)) (\<lambda>g. case g of
             None \<Rightarrow> State_Monad.return (Inr ())
           | Some k8sVolume \<Rightarrow>
               if kv_Protocol k8sVolume = ProtocolIscsi then logoutTarget host ex multipathEnabled k8sVolume
               else if kv_Protocol k8sVolume = ProtocolNvme then do {
                 _ \<leftarrow> logoutNVMeSubsystem host ex (ss_Nqn (kv_Subsystem k8sVolume));
                 State_Monad.return (Inr ()) }
               else State_Monad.return (Inr ())))))"

subsection \<open>Publishing\<close>

record NodePublishRequest =
  npr_VolumeId :: string
  npr_TargetPath :: string
  npr_StagingTargetPath :: string
  npr_VolumeCapability :: "VolumeCapability option"
  npr_Readonly :: bool
  npr_VolumeContext :: "string \<rightharpoonup> string"

text \<open>The server, the directory and the permissions of the volume context; the loop over the
  context reads each key once, so its order does not matter.\<close>

definition nfs_context :: "(string \<rightharpoonup> string) \<Rightarrow> err + string \<times> string \<times> file_mode" where
  "nfs_context ctx =
     (let perm = get_param ctx ''mountPermissions'' in
      case (if perm = '''' then Some 488 else parse_octal32 perm) of
        None \<Rightarrow> Inl (Status InvalidArgument)
      | Some n \<Rightarrow> Inr (get_param ctx ''dsm'', get_param ctx ''baseDir'', of_nat n))"

definition publish_error :: "mount_error \<Rightarrow> err" where
  "publish_error e = (case e of MountError permission text \<Rightarrow>
     if permission then Status PermissionDenied
     else if str_contains text ''invalid argument'' then Status InvalidArgument
     else Status Internal)"

text \<open>A mount that fails because the server has no export saves the rules of the share again and
  is tried once more.\<close>

definition mount_nfs :: "'n env \<Rightarrow> 'n host \<Rightarrow> string \<Rightarrow> string \<Rightarrow> string \<Rightarrow> string list \<Rightarrow>
    ('n node, mount_error option) prog" where
  "mount_nfs env host server baseDir targetPath options =
     (let source = server @ '':'' @ baseDir;
          mnt = act (h_mount host source targetPath ''nfs'' options) (\<lambda>_. Mount source targetPath ''nfs'' options)
      in do {
        m \<leftarrow> mnt;
        case m of
          None \<Rightarrow> State_Monad.return None
        | Some (MountError p text) \<Rightarrow>
            if \<not> str_contains text ''No such file or directory'' then State_Monad.return m
            else do {
              a \<leftarrow> getNodeAddress host;
              case a of
                Inl e \<Rightarrow> State_Monad.return m
              | Inr nodeIps \<Rightarrow> do {
                  s \<leftarrow> service (setNFSVolumePrivilege env (''//'' @ server @ ''/'' @ path_base baseDir)
                         nodeIps AuthTypeReadWrite True);
                  case s of Some e \<Rightarrow> State_Monad.return m | None \<Rightarrow> mnt } } })"

definition publish_nfs :: "'n env \<Rightarrow> 'n host \<Rightarrow> NodePublishRequest \<Rightarrow> VolumeCapability \<Rightarrow>
    ('n node, err + unit) prog" where
  "publish_nfs env host req cap = (case nfs_context (npr_VolumeContext req) of
     Inl e \<Rightarrow> State_Monad.return (Inl e)
   | Inr (server, baseDir, mode) \<Rightarrow>
       if server = '''' \<or> baseDir = '''' then fail InvalidArgument
       else try_or (to_status Internal) (createTargetMountPathNFS host (npr_TargetPath req) mode) (\<lambda>notMount.
         if \<not> notMount then State_Monad.return (Inr ())
         else do {
           m \<leftarrow> mount_nfs env host server baseDir (npr_TargetPath req)
                 ((if npr_Readonly req then [''ro''] else []) @ mount_flags (cap_AccessType cap));
           case m of
             Some e \<Rightarrow> State_Monad.return (Inl (publish_error e))
           | None \<Rightarrow>
               check_or (to_status Internal)
                 (if mode > 0 then chmodIfPermissionMismatch host (npr_TargetPath req) mode
                  else State_Monad.return None)
                 (State_Monad.return (Inr ())) }))"

text \<open>A bind mount: of the device itself for a raw block volume, of the staging path otherwise.\<close>

definition bind_mount :: "'n host \<Rightarrow> NodePublishRequest \<Rightarrow> VolumeCapability \<Rightarrow> string list \<Rightarrow> string \<Rightarrow>
    ('n node, err + unit) prog" where
  "bind_mount host req cap options device =
     (let target = npr_TargetPath req;
          source = (if is_block (cap_AccessType cap) then device else npr_StagingTargetPath req);
          fsType = (if is_block (cap_AccessType cap) then '''' else mount_fs_type (cap_AccessType cap))
      in check_or (to_status Internal)
           (mount_failed (act (h_mount host source target fsType options) (\<lambda>_. Mount source target fsType options)))
           (State_Monad.return (Inr ())))"

definition NodePublishVolume :: "'n env \<Rightarrow> 'n host \<Rightarrow> executor \<Rightarrow> bool \<Rightarrow> NodePublishRequest \<Rightarrow>
    ('n node, err + unit) prog" where
  "NodePublishVolume env host ex multipathEnabled req =
     (if npr_VolumeId req = '''' \<or> npr_TargetPath req = '''' \<or> npr_StagingTargetPath req = ''''
      then fail InvalidArgument
      else (case npr_VolumeCapability req of
        None \<Rightarrow> fail InvalidArgument
      | Some cap \<Rightarrow>
          let protocol = get_param (npr_VolumeContext req) ''protocol'';
              options = (if npr_Readonly req then [''ro''] else []) @ [''bind'']
          in if protocol = ProtocolNfs then publish_nfs env host req cap
             else try_or (to_status Internal)
               (createTargetMountPath host (npr_TargetPath req) (is_block (cap_AccessType cap))) (\<lambda>notMount.
               if \<not> notMount then State_Monad.return (Inr ())
               else if protocol = ProtocolSmb then
                 check_or (to_status Internal)
                   (mount_failed (act (h_mount host (npr_StagingTargetPath req) (npr_TargetPath req) '''' options)
                     (\<lambda>_. Mount (npr_StagingTargetPath req) (npr_TargetPath req) '''' options)))
                   (State_Monad.return (Inr ()))
               else if protocol = ProtocolNvme then
                 try_or id (nvme_device env host ex (npr_VolumeId req)) (bind_mount host req cap options)
               else
                 try_or id (iscsi_device env host ex multipathEnabled (npr_VolumeId req))
                   (bind_mount host req cap options))))"

definition NodeUnpublishVolume :: "'n host \<Rightarrow> string \<Rightarrow> string \<Rightarrow> ('n node, err + unit) prog" where
  "NodeUnpublishVolume host volumeId targetPath =
     (if volumeId = '''' then fail InvalidArgument
      else if targetPath = '''' then fail InvalidArgument
      else do {
        st \<leftarrow> act (h_stat host targetPath) (\<lambda>_. Look targetPath);
        case st of
          StatNotExist \<Rightarrow> State_Monad.return (Inr ())
        | StatFailed \<Rightarrow> fail Internal
        | StatOk \<Rightarrow> try_or (to_status Internal) (is_not_mount host targetPath) (\<lambda>notMount.
            if notMount then State_Monad.return (Inr ())
            else check_or (to_status Internal) (act (h_unmount host targetPath) (\<lambda>_. Unmount targetPath))
              (check_or (to_status Internal) (act (h_remove host targetPath) (\<lambda>_. Remove targetPath))
                (State_Monad.return (Inr ())))) })"

definition NodeGetInfo :: "Driver \<Rightarrow> string" where
  "NodeGetInfo d = dr_nodeID d"

definition NodeGetCapabilities :: "Driver \<Rightarrow> NodeServiceCapability list" where
  "NodeGetCapabilities d = dr_nsCap d"

subsection \<open>Statistics\<close>

datatype usage_unit = UsageBytes | UsageInodes

record VolumeUsage =
  vu_Unit :: usage_unit
  vu_Available :: int64
  vu_Total :: int64
  vu_Used :: int64

definition usage_of :: "statfs \<Rightarrow> VolumeUsage list" where
  "usage_of st =
     [\<lparr>vu_Unit = UsageBytes, vu_Available = st_Bavail st * st_Bsize st, vu_Total = st_Blocks st * st_Bsize st,
       vu_Used = (st_Blocks st - st_Bfree st) * st_Bsize st\<rparr>,
      \<lparr>vu_Unit = UsageInodes, vu_Available = st_Ffree st, vu_Total = st_Files st,
       vu_Used = st_Files st - st_Ffree st\<rparr>]"

definition NodeGetVolumeStats :: "'n env \<Rightarrow> 'n host \<Rightarrow> string \<Rightarrow> string \<Rightarrow> ('n node, err + VolumeUsage list) prog" where
  "NodeGetVolumeStats env host volumeId volumePath =
     (if volumeId = '''' \<or> volumePath = '''' then fail InvalidArgument
      else try_or (\<lambda>e. Status Unavailable) (service (GetVolume env volumeId)) (\<lambda>g. case g of
        None \<Rightarrow> fail NotFound
      | Some k8sVolume \<Rightarrow> do {
          c \<leftarrow> act (h_not_mount host volumePath) (\<lambda>_. Look volumePath);
          if c \<noteq> MountChecked False then fail NotFound
          else if kv_Protocol k8sVolume = ProtocolSmb \<or> kv_Protocol k8sVolume = ProtocolNfs
          then State_Monad.return (Inr [\<lparr>vu_Unit = UsageBytes, vu_Available = 0,
            vu_Total = kv_SizeInBytes k8sVolume, vu_Used = 0\<rparr>])
          else do {
            st \<leftarrow> act (h_statfs host volumePath) (\<lambda>_. Look volumePath);
            State_Monad.return (case st of None \<Rightarrow> Inl (Status Internal) | Some f \<Rightarrow> Inr (usage_of f)) } }))"

subsection \<open>Growing\<close>

text \<open>The device of a volume that is attached: its iSCSI session is scanned again first; an NVMe
  namespace needs no scan.\<close>

definition expand_device :: "'n host \<Rightarrow> executor \<Rightarrow> string \<Rightarrow> K8sVolumeRespSpec \<Rightarrow> ('n node, err + string) prog" where
  "expand_device host ex volumeId k8sVolume =
     (if kv_Protocol k8sVolume = ProtocolIscsi then
        check_or (to_status Internal) (initiator_rescan host ex (tg_Iqn (kv_Target k8sVolume)))
          (case first_mapping (kv_Target k8sVolume) of
             Inl e \<Rightarrow> State_Monad.return (Inl e)
           | Inr mappingIndex \<Rightarrow>
               try_or id (getExistedVolumeMountPath host ex (tg_Iqn (kv_Target k8sVolume)) mappingIndex) (\<lambda>p.
                 if p = '''' then fail Internal else State_Monad.return (Inr p)))
      else if kv_Protocol k8sVolume = ProtocolNvme then
        (let subsysNqn = ss_Nqn (kv_Subsystem k8sVolume) in
         if subsysNqn = '''' then fail InvalidArgument
         else do {
           p \<leftarrow> getExistedNvmeDevPath host subsysNqn volumeId;
           if p = '''' then fail Internal else State_Monad.return (Inr p) })
      else State_Monad.return (Inr ''''))"

text \<open>The size of the response is the one of \<^verbatim>\<open>getSizeByCapacityRange\<close>, whose error is dropped:
  zero for a range that it refuses.\<close>

definition dropped_size :: "CapacityRange option \<Rightarrow> int64" where
  "dropped_size capRange = (case getSizeByCapacityRange capRange of Inl e \<Rightarrow> 0 | Inr n \<Rightarrow> n)"

definition NodeExpandVolume :: "'n env \<Rightarrow> 'n host \<Rightarrow> executor \<Rightarrow> bool \<Rightarrow> string \<Rightarrow> string \<Rightarrow>
    CapacityRange option \<Rightarrow> VolumeCapability option \<Rightarrow> ('n node, err + int64) prog" where
  "NodeExpandVolume env host ex multipathEnabled volumeId volumePath capRange cap =
     (let sizeInByte = dropped_size capRange in
      if volumeId = '''' \<or> volumePath = '''' then fail InvalidArgument
      else try_or (\<lambda>e. Status Unavailable) (service (GetVolume env volumeId)) (\<lambda>g. case g of
        None \<Rightarrow> fail NotFound
      | Some k8sVolume \<Rightarrow>
          if kv_Protocol k8sVolume = ProtocolSmb \<or> kv_Protocol k8sVolume = ProtocolNfs
          then State_Monad.return (Inr sizeInByte)
          else try_or id (expand_device host ex volumeId k8sVolume) (\<lambda>volumeMountPath. do {
            multi \<leftarrow> (if str_contains volumeMountPath ''/dev/mapper''
                     then IsMultipathEnabled host ex multipathEnabled else State_Monad.return False);
            check_or (to_status Internal)
              (if multi then multipath_resize host ex (path_base volumeMountPath) else State_Monad.return None)
              (case cap of
                 Some c \<Rightarrow> if is_block (cap_AccessType c) then State_Monad.return (Inr sizeInByte)
                   else try_or (to_status Internal)
                     (act (h_resize host volumeMountPath volumePath) (\<lambda>_. Resize volumeMountPath volumePath))
                     (\<lambda>ok. if ok then State_Monad.return (Inr sizeInByte) else fail Internal)
               | None \<Rightarrow> try_or (to_status Internal)
                     (act (h_resize host volumeMountPath volumePath) (\<lambda>_. Resize volumeMountPath volumePath))
                     (\<lambda>ok. if ok then State_Monad.return (Inr sizeInByte) else fail Internal)) })))"

end
