(* ===== verification/Attach.thy ===== *)
theory Attach
  imports Handlers Lifecycle
begin

text \<open>
  Attaching a volume to the node. What \<open>verifyIscsiDevice\<close> decides is what the answers of the
  kernel in the log say; a device reaches a format, a mount or a resize only after its check
  has passed, and it is the one the by-path links of the target of the volume lead to. The
  first part is a small logic for what the node programs leave alone.
\<close>

subsection \<open>Programs that leave mounts alone\<close>

lemma only_act: "(\<And>r. R (ev r)) \<Longrightarrow> only_does R (act f ev)"
  by (rule does_act) simp

lemma only_return: "only_does R (State_Monad.return x)"
  by (rule does_return) simp

lemma only_try_or: "only_does R m \<Longrightarrow> (\<And>x. only_does R (k x)) \<Longrightarrow> only_does R (try_or h m k)"
  unfolding try_or_def by (intro only_does_bind does_case_sum only_return)

lemma only_check_or: "only_does R m \<Longrightarrow> only_does R k \<Longrightarrow> only_does R (check_or h m k)"
  unfolding check_or_def by (intro only_does_bind does_case_option only_return)

lemma only_fail: "only_does R (fail c)"
  unfolding fail_def by (rule only_return)

lemma only_mount_failed: "only_does R m \<Longrightarrow> only_does R (mount_failed m)"
  unfolding mount_failed_def by (intro only_does_bind only_return)

lemma only_run: "(\<And>c as. R (Exec c as)) \<Longrightarrow> only_does R (run_command host ex cmd args)"
  unfolding run_command_def by (intro does_let does_case_prod only_act)

lemma only_run_timeout: "(\<And>c as. R (Exec c as)) \<Longrightarrow> only_does R (run_command_timeout host ex cmd args n)"
  unfolding run_command_timeout_def by (intro does_let does_case_prod only_act)

lemma only_quiet_service:
  "(\<And>c. R (Api c)) \<Longrightarrow> (\<And>D. only D quiet m) \<Longrightarrow> only_does R (service m)"
  by (rule only_does_service, rule only_weaken [where R = quiet]) simp_all

lemmas only_rules = does_if does_let does_case_sum does_case_option does_case_prod does_case_mount
  only_does_bind only_try_or only_check_or only_fail only_mount_failed only_return

text \<open>An event that neither mounts, nor formats, nor grows, nor unmounts.\<close>

fun idle :: "event \<Rightarrow> bool" where
  "idle (Mount s t f os) = False"
| "idle (MountSensitive s t f os ss) = False"
| "idle (FormatAndMount d t f os fs) = False"
| "idle (Resize d t) = False"
| "idle (Unmount t) = False"
| "idle e = True"

lemma idle_act: "(\<And>r. idle (ev r)) \<Longrightarrow> only_does idle (act f ev)"
  by (rule only_act)

lemma idle_run: "only_does idle (run_command host ex cmd args)"
  "only_does idle (run_command_timeout host ex cmd args n)"
  by (rule only_run, simp) (rule only_run_timeout, simp)

lemma idle_checked: "only_does idle (run_checked host ex cmd args)"
  unfolding run_checked_def by (intro only_rules idle_run)

lemma idle_sessions: "only_does idle (iscsiadm_session host ex)" "only_does idle (hasSession host ex iqn portal)"
  "only_does idle (listSessionsByIqn host ex iqn)"
  unfolding iscsiadm_session_def hasSession_def listSessionsByIqn_def by (intro only_rules idle_run)+

lemma idle_login: "only_does idle (initiator_login host ex iqn portal)"
  unfolding initiator_login_def iscsiadm_discovery_def iscsiadm_login_def iscsiadm_update_node_startup_def
  by (intro only_rules idle_sessions idle_checked)

lemma idle_multipath: "only_does idle (IsMultipathEnabled host ex multipathEnabled)"
  unfolding IsMultipathEnabled_def multipathd_is_running_def by (intro only_rules idle_run)

lemma idle_wait: "only_does idle (waitForDevicePathToExist host path)"
proof -
  have "only_does idle (wait_path host path n)" for n
    by (induction n) (auto intro!: only_rules idle_act)
  then show ?thesis unfolding waitForDevicePathToExist_def by (intro only_rules idle_act) simp_all
qed

lemma idle_lsblk: "only_does idle (lsblk host paths strict)"
  unfolding lsblk_def by (intro only_rules idle_act) simp

lemma idle_lookup: "only_does idle (LookupIPv4 host name)"
  unfolding LookupIPv4_def by (intro only_rules idle_act) simp

lemma idle_interface: "only_does idle (nearest_interface host port n prefix ifs)"
proof -
  have "only_does idle (reachable_interface host port p ifs)" for p
    by (induction ifs) (auto simp: CheckIpReachable_def intro!: only_rules idle_act)
  then show ?thesis by (induction n arbitrary: prefix) (auto simp: Let_def intro!: only_rules)
qed

lemma idle_set_controller: "only_does R (set_controller dsm letter)"
  unfolding set_controller_def Let_def by (simp add: does_def)

lemma idle_another: "only_does idle (GetAnotherController env host dsm)"
  unfolding GetAnotherController_def
  by (intro only_rules idle_lookup idle_interface idle_set_controller only_quiet_service NetworkInterfaceList_reads) simp_all

lemma idle_portals: "only_does idle (getPortals env host ex multipathEnabled dsmIp)"
  unfolding getPortals_def
  by (intro only_rules idle_lookup idle_another idle_multipath only_quiet_service GetDsm_reads) simp

lemma idle_login_portals: "only_does idle (login_portals host ex iqn lun portals)"
  by (induction portals) (auto intro!: only_rules idle_login idle_wait)

lemma idle_mount_path: "only_does idle (getVolumeMountPath host paths)"
  unfolding getVolumeMountPath_def
  by (cases paths rule: remdups_adj.cases) (auto intro!: only_rules idle_wait idle_lsblk)

subsection \<open>The check of a device\<close>

text \<open>What the kernel said, read off the log: a disk that hangs off no iSCSI session, or whose
  session is logged in to another target, or that has another LUN.\<close>

fun other_disk :: "string \<Rightarrow> int \<Rightarrow> event list \<Rightarrow> bool" where
  "other_disk iqn lun [] \<longleftrightarrow> False"
| "other_disk iqn lun (Resolved link (Some canonical) # t) \<longleftrightarrow>
     (session_of canonical = None \<or>
      (case t of
         Contents file (Some name) # _ \<Rightarrow> trim_space name \<noteq> iqn \<or>
           (case lun_of canonical of None \<Rightarrow> False | Some got \<Rightarrow> got \<noteq> lun)
       | _ \<Rightarrow> False) \<or> other_disk iqn lun t)"
| "other_disk iqn lun (e # t) \<longleftrightarrow> other_disk iqn lun t"

lemma verify_disk_does:
  "does (verify_disk host iqn lun sysfs name) (\<lambda>r t.
     (\<forall>rest. other_disk iqn lun (t @ rest) \<longleftrightarrow> r \<noteq> None \<or> r = None \<and> other_disk iqn lun rest) \<and> list_all idle t)"
  unfolding verify_disk_def Let_def
  apply (rule does_bind, rule does_act [where Q = "\<lambda>r t. \<exists>l. t = [Resolved l r]"], blast)
  apply (rule does_case_option, rule does_return, force)
  apply (rule does_case_option, rule does_return, force)
  apply (rule does_bind, rule does_act [where Q = "\<lambda>r t. \<exists>l. t = [Contents l r]"], blast)
  apply (rule does_return)
  apply (auto split: option.splits)
  done

lemma verify_disks_does:
  "does (verify_disks host iqn lun sysfs names) (\<lambda>r t. (other_disk iqn lun t \<longleftrightarrow> r \<noteq> None) \<and> list_all idle t)"
proof (induction names)
  case Nil
  show ?case by (auto intro: does_return)
next
  case (Cons name names)
  show ?case unfolding verify_disks.simps
  proof (rule does_bind [OF verify_disk_does], rule does_case_option)
    fix r t
    assume t: "(\<forall>rest. other_disk iqn lun (t @ rest) \<longleftrightarrow> r \<noteq> None \<or> r = None \<and> other_disk iqn lun rest) \<and> list_all idle t"
    { assume "r = None"
      with t show "does (verify_disks host iqn lun sysfs names)
          (\<lambda>y t'. (other_disk iqn lun (t @ t') \<longleftrightarrow> y \<noteq> None) \<and> list_all idle (t @ t'))"
        using Cons.IH by (simp add: list_all_append) }
    fix e
    assume "r = Some e"
    with t have "other_disk iqn lun (t @ [])" by blast
    with t show "does (State_Monad.return (Some e))
        (\<lambda>y t'. (other_disk iqn lun (t @ t') \<longleftrightarrow> y \<noteq> None) \<and> list_all idle (t @ t'))"
      by (intro does_return) auto
  qed
qed

lemma verifyIscsiDevice_does:
  "does (verifyIscsiDevice host dev iqn lun sysfs) (\<lambda>r t. \<exists>t'. t = Look dev # t' \<and>
     (other_disk iqn lun t \<longleftrightarrow> r \<noteq> None) \<and> list_all idle t)"
  unfolding verifyIscsiDevice_def Let_def
  apply (rule does_bind, rule does_act [where Q = "\<lambda>_ t. t = [Look dev]"], simp)
  apply (rule does_case_option, rule does_return, simp)
  apply (rule does_if)
   apply (rule does_bind, rule does_act [where Q = "\<lambda>r t. \<exists>l. t = [Listed l r]"], blast)
   apply (rule does_case_option, rule does_return, force)
   apply (rule does_mono [OF verify_disks_does], force)
  apply (rule does_mono [OF verify_disks_does], force)
  done


subsection \<open>The device of a volume\<close>

text \<open>The target and the LUN number of a volume that some storage system reported under the id.\<close>

definition volume_target :: "string \<Rightarrow> string \<Rightarrow> int \<Rightarrow> event list \<Rightarrow> bool" where
  "volume_target volumeId iqn lun t \<longleftrightarrow> (\<exists>D v m ms cs t0 t'. t = t0 @ map Api cs @ t' \<and> known_volume D volumeId v cs \<and>
     tg_Iqn (kv_Target v) = iqn \<and> tg_MappedLuns (kv_Target v) = m # ms \<and> ml_MappingIndex m = lun)"

lemma volume_targetI:
  "known_volume D volumeId v cs \<Longrightarrow> tg_MappedLuns (kv_Target v) = m # ms \<Longrightarrow>
   volume_target volumeId (tg_Iqn (kv_Target v)) (ml_MappingIndex m) (map Api cs @ t)"
  unfolding volume_target_def by (metis append_Nil)

lemma volume_target_mono:
  assumes "volume_target volumeId iqn lun t"
  shows "volume_target volumeId iqn lun (s @ t @ u)"
proof -
  from assms obtain D v m ms cs t0 t' where "t = t0 @ map Api cs @ t'" and v: "known_volume D volumeId v cs"
    "tg_Iqn (kv_Target v) = iqn" "tg_MappedLuns (kv_Target v) = m # ms" "ml_MappingIndex m = lun"
    unfolding volume_target_def by blast
  then have "s @ t @ u = (s @ t0) @ map Api cs @ (t' @ u)" by simp
  with v show ?thesis unfolding volume_target_def by blast
qed

text \<open>A device that the by-path links of a target lead to: one of the links, or the multipath
  device that \<^verbatim>\<open>lsblk\<close> was asked for with all of them.\<close>

definition leads_to :: "string \<Rightarrow> int \<Rightarrow> string \<Rightarrow> event list \<Rightarrow> bool" where
  "leads_to iqn lun dev t \<longleftrightarrow> (\<exists>portal. dev = by_path portal iqn lun) \<or>
     (\<exists>name portals args. dev = path_join [''/dev/mapper'', name] \<and>
        Exec ''lsblk'' (args @ map (\<lambda>portal. by_path portal iqn lun) portals) \<in> set t)"

lemma login_portals_yields:
  "yields (login_portals host ex iqn lun portals) (\<lambda>r. case r of Inl e \<Rightarrow> True
     | Inr paths \<Rightarrow> paths = map (\<lambda>portal. by_path portal iqn lun) portals)"
proof (induction portals)
  case Nil
  show ?case by (simp add: yields_return)
next
  case (Cons portal portals)
  show ?case unfolding login_portals.simps check_or_def try_or_def
    by (rule yields_bind, rule yields_case_option, rule yields_bind, rule yields_case_option,
        rule yields_after [OF Cons.IH], rule yields_case_sum) (auto intro: yields_return)
qed

lemma loginTarget_does:
  "does (loginTarget env host ex mp volumeId) (\<lambda>r t. list_all idle t \<and> (case r of Inl e \<Rightarrow> True
     | Inr (paths, iqn, lun) \<Rightarrow> volume_target volumeId iqn lun t \<and>
         (\<exists>portals. paths = map (\<lambda>portal. by_path portal iqn lun) portals)))"
proof -
  have api: "list_all idle (map Api cs)" for cs by (simp add: list_all_iff)
  have login: "does (login_portals host ex iqn lun portals) (\<lambda>r t. list_all idle t \<and> (case r of Inl e \<Rightarrow> True
     | Inr paths \<Rightarrow> paths = map (\<lambda>portal. by_path portal iqn lun) portals))" for iqn lun portals
    by (rule does_yields [OF idle_login_portals login_portals_yields])
  show ?thesis
    unfolding loginTarget_def try_or_def fail_def
    apply (rule does_bind [OF does_service [OF GetVolume_contract]], rule does_case_sum)
     apply (rule does_return, auto simp: api) []
    apply (rule does_case_option)
     apply (rule does_return, auto simp: api) []
    apply (rule does_bind [OF idle_portals], rule does_if)
     apply (rule does_return, auto simp: api) []
    apply (rule does_case_sum)
     apply (rule does_return, auto simp: api) []
    apply (rule does_let, rule does_bind [OF login], rule does_case_sum)
     apply (rule does_return, auto simp: api) []
    apply (rule does_return)
    apply (auto simp: api first_mapping_def split: list.splits intro!: volume_targetI)
    done
qed

lemma getVolumeMountPath_does:
  "does (getVolumeMountPath host (map (\<lambda>portal. by_path portal iqn lun) portals))
     (\<lambda>r t. list_all idle t \<and> (case r of Inl e \<Rightarrow> True | Inr dev \<Rightarrow> dev = '''' \<or> leads_to iqn lun dev t))"
proof -
  have finish: "does (do { w \<leftarrow> waitForDevicePathToExist host path;
       State_Monad.return (Inr (case w of Some e \<Rightarrow> '''' | None \<Rightarrow> path)) })
     (\<lambda>r t. list_all idle t \<and> (case r of Inl e \<Rightarrow> True | Inr dev \<Rightarrow> dev = '''' \<or> dev = path))" for path
    by (rule does_bind [OF idle_wait], rule does_return) (auto split: option.splits)
  have lsblk: "does (lsblk host paths True) (\<lambda>_ t. \<exists>args. t = [Exec ''lsblk'' (args @ paths)])" for paths
    unfolding lsblk_def Let_def
    by (rule does_bind, rule does_act [where Q = "\<lambda>_ t. \<exists>args. t = [Exec ''lsblk'' (args @ paths)]"], blast,
        rule does_return) auto
  consider "portals = []" | portal where "portals = [portal]" | p q ps where "portals = p # q # ps"
    by (cases portals rule: remdups_adj.cases) auto
  then show ?thesis
  proof cases
    case 1
    then show ?thesis by (auto simp: getVolumeMountPath_def intro: does_return)
  next
    case 2
    show ?thesis
      unfolding 2 list.map getVolumeMountPath_def Let_def list.case
      by (rule does_mono [OF finish]) (auto simp: leads_to_def split: sum.splits)
  next
    case 3
    let ?paths = "map (\<lambda>portal. by_path portal iqn lun) portals"
    have path: "getVolumeMountPath host ?paths = do {
          l \<leftarrow> lsblk host ?paths True;
          case l of
            Inl e \<Rightarrow> State_Monad.return (if is_panic e then Inl e else Inr '''')
          | Inr devices \<Rightarrow> (case GetMultipathDevice devices of
              Inl e \<Rightarrow> State_Monad.return (Inr '''')
            | Inr m \<Rightarrow> do { w \<leftarrow> waitForDevicePathToExist host (path_join [''/dev/mapper'', dev_Name m]);
       State_Monad.return (Inr (case w of Some e \<Rightarrow> '''' | None \<Rightarrow> path_join [''/dev/mapper'', dev_Name m])) }) }"
      by (simp add: 3 getVolumeMountPath_def)
    show ?thesis
      unfolding path
      apply (rule does_bind [OF lsblk], rule does_case_sum)
       apply (rule does_return, force)
      apply (rule does_case_sum, rule does_return, force)
      apply (rule does_mono [OF finish])
      apply (auto simp: leads_to_def split: sum.splits)
      done
  qed
qed

text \<open>What staging and publishing rest on: a device that is handed out is the one of the target of
  the volume, and nothing the kernel said speaks against it.\<close>

definition handed_out :: "string \<Rightarrow> string \<Rightarrow> event list \<Rightarrow> bool" where
  "handed_out volumeId dev t \<longleftrightarrow> (\<exists>iqn lun t1 t2. t = t1 @ Look dev # t2 \<and>
     volume_target volumeId iqn lun t1 \<and> leads_to iqn lun dev t1 \<and> \<not> other_disk iqn lun t2)"

lemma handed_outI:
  assumes "volume_target volumeId iqn lun t" "leads_to iqn lun dev t'" "\<not> other_disk iqn lun t''"
  shows "handed_out volumeId dev (t @ t' @ Look dev # t'')"
proof -
  have "volume_target volumeId iqn lun (t @ t')"
    using volume_target_mono [OF assms(1), of "[]" t'] by simp
  moreover have "leads_to iqn lun dev (t @ t')"
    using assms(2) by (auto simp: leads_to_def)
  ultimately have "volume_target volumeId iqn lun (t @ t')" "leads_to iqn lun dev (t @ t')" .
  with assms(3) show ?thesis unfolding handed_out_def by (metis append.assoc)
qed

lemma iscsi_device_does:
  "does (iscsi_device env host ex mp volumeId) (\<lambda>r t. list_all idle t \<and>
     (case r of Inl e \<Rightarrow> True | Inr dev \<Rightarrow> handed_out volumeId dev t))"
  unfolding iscsi_device_def try_or_def check_or_def fail_def
  apply (rule does_bind [OF loginTarget_does], rule does_case_sum)
   apply (rule does_return, simp)
  apply (rule does_case_prod)
  apply clarsimp
  apply (rule does_bind [OF getVolumeMountPath_does], rule does_case_sum)
   apply (rule does_return, simp)
  apply (rule does_if, rule does_return, simp)
  apply (rule does_bind [OF verifyIscsiDevice_does], rule does_case_option)
   apply (rule does_return)
   apply (auto intro: handed_outI)
  apply (rule does_return)
  apply auto
  done

subsection \<open>Staging and publishing\<close>

text \<open>An event that works on one device, or on the staging path of its volume, and one target.\<close>

fun works_on :: "string \<Rightarrow> string \<Rightarrow> string \<Rightarrow> event \<Rightarrow> bool" where
  "works_on dev staging target (FormatAndMount d t f os fs) \<longleftrightarrow> d = dev \<and> t = target"
| "works_on dev staging target (Resize d t) \<longleftrightarrow> d = dev \<and> t = target"
| "works_on dev staging target (Mount s t f os) \<longleftrightarrow> s \<in> {dev, staging} \<and> t = target"
| "works_on dev staging target (Look p) \<longleftrightarrow> True"
| "works_on dev staging target e \<longleftrightarrow> False"

definition attaches :: "string \<Rightarrow> string \<Rightarrow> string \<Rightarrow> event list \<Rightarrow> bool" where
  "attaches volumeId staging target t \<longleftrightarrow> list_all idle t \<or>
     (\<exists>dev t1 t2. t = t1 @ t2 \<and> list_all idle t1 \<and> handed_out volumeId dev t1 \<and>
        list_all (works_on dev staging target) t2)"

lemma grow_does: "only_does (works_on dev staging target) (growFilesystemIfNeeded host dev target)"
  unfolding growFilesystemIfNeeded_def by (intro only_rules only_act) simp_all

lemma stage_device_does:
  "only_does (works_on dev staging (nss_StagingTargetPath spec)) (stage_device host spec dev)"
  unfolding stage_device_def by (intro only_rules only_act grow_does) simp_all

lemma bind_mount_does:
  "only_does (works_on dev (npr_StagingTargetPath req) (npr_TargetPath req)) (bind_mount host req cap options dev)"
  unfolding bind_mount_def by (intro only_rules only_act) simp

lemma device_then:
  assumes "\<And>dev. only_does (works_on dev staging target) (k dev)"
  shows "does (try_or id (iscsi_device env host ex mp volumeId) k) (\<lambda>_ t. attaches volumeId staging target t)"
  unfolding try_or_def
  apply (rule does_bind [OF iscsi_device_does], rule does_case_sum)
   apply (rule does_return, simp add: attaches_def)
  apply (rule does_mono [OF assms])
  apply (auto simp: attaches_def)
  done

lemma attaches_after: "list_all idle t \<Longrightarrow> attaches v s g t' \<Longrightarrow> attaches v s g (t @ t')"
proof -
  assume t: "list_all idle t" and "attaches v s g t'"
  then consider "list_all idle t'" | dev t1 t2 where "t' = t1 @ t2" "list_all idle t1" "handed_out v dev t1"
    "list_all (works_on dev s g) t2" unfolding attaches_def by blast
  then show ?thesis
  proof cases
    case 1
    with t show ?thesis by (simp add: attaches_def)
  next
    case 2
    moreover have "handed_out v dev (t @ t1)"
    proof -
      from 2(3) obtain iqn lun a b where ab: "t1 = a @ Look dev # b" "volume_target v iqn lun a"
        "leads_to iqn lun dev a" "\<not> other_disk iqn lun b" unfolding handed_out_def by blast
      then have "volume_target v iqn lun (t @ a)" using volume_target_mono [of v iqn lun a t "[]"] by simp
      moreover from ab have "leads_to iqn lun dev (t @ a)" by (auto simp: leads_to_def)
      ultimately show ?thesis using ab unfolding handed_out_def by (metis append.assoc)
    qed
    ultimately have "t @ t' = (t @ t1) @ t2" "list_all idle (t @ t1)" "handed_out v dev (t @ t1)"
      "list_all (works_on dev s g) t2" using t by simp_all
    then show ?thesis unfolding attaches_def by blast
  qed
qed

lemma idle_attaches: "only_does idle m \<Longrightarrow> does m (\<lambda>_ t. attaches v s g t)"
  by (erule does_mono) (simp add: attaches_def)

lemma idle_target_path: "only_does idle (createTargetMountPath host path isBlock)"
  unfolding createTargetMountPath_def by (intro only_rules idle_act) simp_all



text \<open>A host on which nothing works and nothing is there.\<close>

definition silent_host :: "nat host" where
  "silent_host = \<lparr>h_run = \<lambda>c as n. (('''', Some (ExecFailed '''')), n),
     h_run_timeout = \<lambda>c as secs n. (('''', Some (ExecFailed ''''), False), n),
     h_lsblk = \<lambda>as n. (('''', Some (ExecFailed '''')), n), h_ticks = \<lambda>p n. (20, n),
     h_path_exists = \<lambda>p n. (Inr False, n), h_stat = \<lambda>p n. (StatNotExist, n),
     h_eval_symlinks = \<lambda>p n. (None, n), h_read_dir = \<lambda>p n. (None, n), h_read_file = \<lambda>p n. (None, n),
     h_lookup_ip = \<lambda>p n. ([], n), h_dial = \<lambda>a p n. (False, n), h_nodes = \<lambda>n. (Inr [], n),
     h_fsync = \<lambda>p n. (None, n), h_likely_not_mount = \<lambda>p n. (CheckNotExist, n),
     h_not_mount = \<lambda>p n. (CheckNotExist, n), h_mount = \<lambda>s t f os n. (None, n),
     h_mount_sensitive = \<lambda>s t f os ss n. (None, n), h_mount_retries = \<lambda>n. 0,
     h_format_mount = \<lambda>d t f os fs n. (None, n), h_unmount = \<lambda>p n. (None, n),
     h_need_resize = \<lambda>d t n. (Inr False, n), h_resize = \<lambda>d t n. (Inr True, n),
     h_mkdir_all = \<lambda>p m n. (None, n), h_create_file = \<lambda>p m n. (None, n), h_close_file = \<lambda>p n. (None, n),
     h_remove = \<lambda>p n. (None, n), h_lstat_mode = \<lambda>p n. (Inr 0, n), h_chmod = \<lambda>p m n. (None, n),
     h_statfs = \<lambda>p n. (None, n)\<rparr>"

definition block_publish :: NodePublishRequest where
  "block_publish = \<lparr>npr_VolumeId = ''u1'', npr_TargetPath = ''/target'', npr_StagingTargetPath = ''/staging'',
     npr_VolumeCapability = Some \<lparr>cap_AccessMode = SINGLE_NODE_WRITER, cap_AccessType = BlockVolume\<rparr>,
     npr_Readonly = False, npr_VolumeContext = [''protocol'' \<mapsto> ''iscsi'']\<rparr>"


subsection \<open>The password of an SMB share\<close>

text \<open>What staging an SMB share may do: a mount of its source whose options come from the mount
  flags, the group and the domain, the credentials being sensitive options; no command.\<close>

fun hides :: "NodeStageVolumeSpec \<Rightarrow> string \<Rightarrow> string \<Rightarrow> event \<Rightarrow> bool" where
  "hides spec domain credentials (MountSensitive s t f os ss) \<longleftrightarrow>
     (let cap = cap_AccessType (nss_VolumeCapability spec) in
      s = nss_Source spec \<and> t = nss_StagingTargetPath spec \<and> f = ''cifs'' \<and> ss = [credentials] \<and>
      os \<in> {smb_options (mount_group cap) domain True (mount_flags cap),
             smb_options (mount_group cap) domain False (mount_flags cap)})"
| "hides spec domain credentials (Api c) \<longleftrightarrow> True"
| "hides spec domain credentials (Look p) \<longleftrightarrow> p = nss_StagingTargetPath spec"
| "hides spec domain credentials (MkdirAll p m) \<longleftrightarrow> p = nss_StagingTargetPath spec"
| "hides spec domain credentials e \<longleftrightarrow> False"

lemma only_retry: "only_does R op \<Longrightarrow> only_does R (retry_n n op)"
  by (induction n) (auto intro!: only_rules)

lemma setSMBVolumePermission_any: "only D (\<lambda>_. True) (setSMBVolumePermission env source user auth)"
proof -
  have "only D (\<lambda>_. True) (SharePermissionSet env dsm p)" for dsm p
    by (rule emits_mono [OF share_harmless(2)]) (simp add: list_all_iff)
  then show ?thesis
    unfolding setSMBVolumePermission_def by (intro emits_rules GetDsm_reads) simp_all
qed


end
