(* ===== verification/Detach.thy ===== *)
theory Detach
  imports Attach
begin

text \<open>
  Detaching a volume from the node and giving nodes access to NFS shares: the order of
  unmounting, flushing, logging out and deleting the node record; what is done when it
  cannot be told whether the volume exists; and that staging an NFS volume reports success
  only after the storage system has read the rules of every node back.
\<close>

subsection \<open>The end of a session\<close>

abbreviation ran :: "executor \<Rightarrow> string \<Rightarrow> string list \<Rightarrow> event" where
  "ran ex cmd args \<equiv> Exec (fst (wrap ex cmd args)) (snd (wrap ex cmd args))"

lemma wrap_suffix: "\<exists>pre. snd (wrap ex cmd args) = pre @ args"
  by (auto simp: wrap_def resolveCmd_def wrapEnv_def wrapChroot_def Let_def split: option.split prod.split)

text \<open>A command that logs out of a target or deletes its node record, by its last argument.\<close>

fun ends_session :: "event \<Rightarrow> bool" where
  "ends_session (Exec c as) \<longleftrightarrow> as \<noteq> [] \<and> last as \<in> {''--logout'', ''delete''}"
| "ends_session e \<longleftrightarrow> False"

abbreviation keeps :: "event \<Rightarrow> bool" where
  "keeps e \<equiv> \<not> ends_session e"

lemma ran_keeps: "args \<noteq> [] \<Longrightarrow> last args \<notin> {''--logout'', ''delete''} \<Longrightarrow> keeps (ran ex cmd args)"
  using wrap_suffix [of ex cmd args] by auto

lemma keeps_run:
  assumes "args \<noteq> []" "last args \<notin> {''--logout'', ''delete''}"
  shows "only_does keeps (run_command host ex cmd args)" "only_does keeps (run_command_timeout host ex cmd args n)"
    "only_does keeps (run_checked host ex cmd args)"
proof -
  show *: "only_does keeps (run_command host ex cmd args)"
    by (rule does_mono [OF run_command_does]) (use ran_keeps [OF assms] in simp)
  show "only_does keeps (run_command_timeout host ex cmd args n)"
    by (rule does_mono [OF run_command_timeout_does]) (use ran_keeps [OF assms] in simp)
  show "only_does keeps (run_checked host ex cmd args)"
    unfolding run_checked_def by (intro only_rules *)
qed

lemma keeps_act: "(\<And>r. keeps (ev r)) \<Longrightarrow> only_does keeps (act f ev)"
  by (rule only_act)

lemma keeps_sessions: "only_does keeps (hasSession host ex iqn portal)"
  "only_does keeps (listSessionsByIqn host ex iqn)"
  unfolding hasSession_def listSessionsByIqn_def iscsiadm_session_def
  by (intro only_rules keeps_run; simp)+

lemma keeps_wait: "only_does keeps (waitForDevicePathToExist host path)"
proof -
  have "only_does keeps (wait_path host path n)" for n
    by (induction n) (auto intro!: only_rules keeps_act)
  then show ?thesis unfolding waitForDevicePathToExist_def by (intro only_rules keeps_act) simp_all
qed

lemma keeps_lsblk:
  assumes "paths \<noteq> []" "last paths \<notin> {''--logout'', ''delete''}"
  shows "only_does keeps (lsblk host paths strict)"
  unfolding lsblk_def using assms by (intro only_rules keeps_act) auto

lemma keeps_mount_path:
  "only_does keeps (getVolumeMountPath host (map (\<lambda>portal. by_path portal iqn lun) portals))"
proof -
  have "last (map (\<lambda>portal. by_path portal iqn lun) portals) \<notin> {''--logout'', ''delete''}" if "portals \<noteq> []"
    using that by (simp add: last_map by_path_def)
  then show ?thesis
    unfolding getVolumeMountPath_def
    by (cases portals rule: remdups_adj.cases) (auto intro!: only_rules keeps_wait keeps_lsblk)
qed

text \<open>The device of a target that the node is logged in to.\<close>

lemma dev_prefix: "leads_to iqn lun dev t \<Longrightarrow> has_prefix dev ''/dev/''"
  by (auto simp: leads_to_def by_path_def path_join_def)

lemma existed_does:
  "does (getExistedVolumeMountPath host ex iqn idx)
     (\<lambda>r t. list_all keeps t \<and> (case r of Inl e \<Rightarrow> True | Inr dev \<Rightarrow> dev = '''' \<or> has_prefix dev ''/dev/''))"
proof -
  have "does (getVolumeMountPath host (map (\<lambda>s. by_path (ses_Portal s) iqn idx) sessions))
     (\<lambda>r t. list_all keeps t \<and> (case r of Inl e \<Rightarrow> True | Inr dev \<Rightarrow> dev = '''' \<or> has_prefix dev ''/dev/''))"
    (is "does ?m _") for sessions
  proof -
    have "map (\<lambda>s. by_path (ses_Portal s) iqn idx) sessions =
        map (\<lambda>portal. by_path portal iqn idx) (map ses_Portal sessions)" by simp
    then have "does ?m (\<lambda>r t. list_all keeps t \<and> list_all idle t \<and>
        (case r of Inl e \<Rightarrow> True | Inr dev \<Rightarrow> dev = '''' \<or> leads_to iqn idx dev t))"
      by (simp only: does_conj [OF keeps_mount_path getVolumeMountPath_does])
    then show ?thesis by (rule does_mono) (auto split: sum.splits dest: dev_prefix)
  qed
  then show ?thesis
    unfolding getExistedVolumeMountPath_def try_or_def
    by (intro does_bind [OF keeps_sessions(2)] does_case_sum does_return) (auto elim!: does_mono)
qed

text \<open>The commands that end the session of a target: the log of \<open>initiator_logout\<close>.\<close>

definition session_end :: "executor \<Rightarrow> string \<Rightarrow> string \<Rightarrow> event list \<Rightarrow> bool" where
  "session_end ex iqn ip t \<longleftrightarrow>
     (let ses = ran ex ''iscsiadm'' [''-m'', ''session''];
          out = ran ex ''iscsiadm'' [''-m'', ''node'', ''--targetname'', iqn, ''--logout''];
          del = ran ex ''iscsiadm'' [''-m'', ''node'', ''--targetname'', iqn, ''--portal'', ip @ '':3260'', ''-o'', ''delete'']
      in t = [ses, del] \<or> t = [ses, out, del] \<or> t = [ses, out])"

lemma run_checked_does: "does (run_checked host ex cmd args)
    (\<lambda>r t. t = [ran ex cmd args] \<and> (case r of None \<Rightarrow> True | Some e \<Rightarrow> \<not> is_panic e))"
  unfolding run_checked_def by (rule does_bind [OF run_command_does], rule does_return) (simp split: option.split)

lemma itoa_port: "itoa ISCSIPort = ''3260''"
  by code_simp

lemma parse_entries_panic: "parse_entries entries = Inl e \<Longrightarrow> is_panic e"
proof (induction entries)
  case (Cons entry entries)
  then show ?case
    by (cases "parse_entries entries") (auto simp: Let_def parse_session_def split: if_splits)
qed simp

lemma hasSession_does:
  "does (hasSession host ex iqn portal) (\<lambda>r t. t = [ran ex ''iscsiadm'' [''-m'', ''session'']] \<and>
     (case r of Inl e \<Rightarrow> is_panic e | Inr has \<Rightarrow> True))"
proof -
  have "does (iscsiadm_session host ex) (\<lambda>r t. t = [ran ex ''iscsiadm'' [''-m'', ''session'']] \<and>
     (case r of Inl e \<Rightarrow> is_panic e | Inr has \<Rightarrow> True))"
    unfolding iscsiadm_session_def
    by (rule does_bind [OF run_command_does], rule does_return)
      (auto simp: parseSessions_def split: option.split sum.split dest: parse_entries_panic)
  then show ?thesis
    unfolding hasSession_def by (rule does_bind, intro does_return) (auto split: sum.splits)
qed

lemma logout_does:
  "does (initiator_logout host ex iqn ip) (\<lambda>r t. case r of
     Some e \<Rightarrow> if is_panic e then list_all keeps t else session_end ex iqn ip t
   | None \<Rightarrow> session_end ex iqn ip t)" (is "does _ ?Q")
proof -
  let ?out = "ran ex ''iscsiadm'' [''-m'', ''node'', ''--targetname'', iqn, ''--logout'']"
  let ?P = "\<lambda>l t. l = None \<and> t = [] \<or> t = [?out] \<and> (case l of None \<Rightarrow> True | Some e \<Rightarrow> \<not> is_panic e)"
  have out: "does (if has then iscsiadm_logout host ex iqn else State_Monad.return None) ?P" for has
    unfolding iscsiadm_logout_def
    by (rule does_if, rule does_mono [OF run_checked_does], simp, rule does_return, simp)
  show ?thesis
    unfolding initiator_logout_def itoa_port iscsiadm_delete_node_def
  proof (intro does_let does_bind [OF hasSession_does] does_case_sum)
    fix portal and r :: "err + bool" and t e
    assume "t = [ran ex ''iscsiadm'' [''-m'', ''session'']] \<and> (case r of Inl e \<Rightarrow> is_panic e | Inr has \<Rightarrow> True)"
      and "r = Inl e"
    then show "does (State_Monad.return (Some e)) (\<lambda>y t'. ?Q y (t @ t'))"
      using ran_keeps [of "[''-m'', ''session'']" ex "''iscsiadm''"] by (intro does_return) auto
  next
    fix portal and r :: "err + bool" and t has
    assume portal: "portal = ip @ '':'' @ ''3260''"
      and t: "t = [ran ex ''iscsiadm'' [''-m'', ''session'']] \<and> (case r of Inl e \<Rightarrow> is_panic e | Inr has \<Rightarrow> True)"
      and "r = Inr has"
    show "does (do {
         l \<leftarrow> if has then iscsiadm_logout host ex iqn else State_Monad.return None;
         case l of
           None \<Rightarrow> do {
             _ \<leftarrow> run_checked host ex ''iscsiadm''
                  [''-m'', ''node'', ''--targetname'', iqn, ''--portal'', portal, ''-o'', ''delete''];
             State_Monad.return None }
         | Some e \<Rightarrow> State_Monad.return (Some e) }) (\<lambda>y t'. ?Q y (t @ t'))"
      by (rule does_bind [OF out], rule does_case_option, rule does_bind [OF run_checked_does], rule does_return)
        (use portal t in \<open>auto simp: session_end_def Let_def intro!: does_return\<close>)
  qed
qed

subsection \<open>Unstaging\<close>

text \<open>The target of a volume: everything before the session ends leaves it open, and what ends it
  is a listing of the sessions, the logout if there is one, and the removal of the record.\<close>

definition torn_down :: "executor \<Rightarrow> K8sVolumeRespSpec \<Rightarrow> event list \<Rightarrow> bool" where
  "torn_down ex v t \<longleftrightarrow>
     (if kv_Protocol v = ProtocolIscsi
      then \<exists>t1 t2. t = t1 @ t2 \<and> list_all keeps t1 \<and> session_end ex (tg_Iqn (kv_Target v)) (kv_DsmIp v) t2
      else if kv_Protocol v = ProtocolNvme \<and> ss_Nqn (kv_Subsystem v) \<noteq> ''''
      then t = [ran ex ''nvme'' [''disconnect'', ''-n'', ss_Nqn (kv_Subsystem v)]]
      else t = [])"

lemma keeps_multipath: "only_does keeps (IsMultipathEnabled host ex mp)"
  unfolding IsMultipathEnabled_def multipathd_is_running_def by (intro only_rules keeps_run; simp)

lemma keeps_flush: "has_prefix dev ''/dev/'' \<Longrightarrow> only_does keeps (multipath_flush host ex dev)"
  unfolding multipath_flush_def execWithTimeout_def by (intro only_rules keeps_run keeps_act) auto

lemma keeps_sync:
  "has_prefix dev ''/dev/'' \<Longrightarrow> only_does keeps (do {
     f \<leftarrow> fsyncDevice host dev;
     case f of Some e \<Rightarrow> State_Monad.return None | None \<Rightarrow> blockdev_flushbufs host ex dev })"
  unfolding fsyncDevice_def blockdev_flushbufs_def by (intro only_rules keeps_run keeps_act) auto

lemma existed_panics:
  "yields (getExistedVolumeMountPath host ex iqn idx) (\<lambda>r. case r of Inl e \<Rightarrow> is_panic e | Inr dev \<Rightarrow> True)"
proof -
  have path: "yields (getVolumeMountPath host paths) (\<lambda>r. case r of Inl e \<Rightarrow> is_panic e | Inr dev \<Rightarrow> True)" for paths
    unfolding getVolumeMountPath_def
    by (cases paths rule: remdups_adj.cases) (auto intro!: yields_rules)
  have sess: "yields (listSessionsByIqn host ex iqn) (\<lambda>r. case r of Inl e \<Rightarrow> is_panic e | Inr dev \<Rightarrow> True)"
    unfolding listSessionsByIqn_def iscsiadm_session_def
    by (rule yields_after, rule yields_bind, rule yields_return
          [where P = "\<lambda>r. case r of Inl e \<Rightarrow> is_panic e | Inr dev \<Rightarrow> True"])
      (auto simp: parseSessions_def split: option.split sum.splits intro!: yields_return dest: parse_entries_panic)
  show ?thesis
    unfolding getExistedVolumeMountPath_def try_or_def
    by (rule yields_after [OF sess], rule yields_case_sum, rule yields_return, simp, rule path)
qed

lemma logoutTarget_does:
  assumes "kv_Protocol v = ProtocolIscsi"
  shows "does (logoutTarget host ex mp v) (\<lambda>r t. case r of Inl e \<Rightarrow> is_panic e | Inr _ \<Rightarrow> torn_down ex v t)"
    (is "does _ ?Q")
proof (cases "first_mapping (kv_Target v)")
  case (Inl e)
  then show ?thesis
    by (auto simp: logoutTarget_def first_mapping_def split: list.splits intro!: does_return)
next
  case (Inr idx)
  let ?iqn = "tg_Iqn (kv_Target v)"
  note existed = does_yields [OF existed_does existed_panics, of host ex ?iqn idx]
  have last: "does (initiator_logout host ex ?iqn (kv_DsmIp v) \<bind> (\<lambda>res. State_Monad.return (case res of
       Some e \<Rightarrow> if is_panic e then Inl e else Inr () | None \<Rightarrow> Inr ())))
     (\<lambda>r t. case r of Inl e \<Rightarrow> is_panic e | Inr _ \<Rightarrow> session_end ex ?iqn (kv_DsmIp v) t)"
    by (rule does_bind [OF logout_does], rule does_return) (auto split: option.splits)
  have ends: "?Q r (t1 @ t2)" if "list_all keeps t1"
      "case r of Inl e \<Rightarrow> is_panic e | Inr _ \<Rightarrow> session_end ex ?iqn (kv_DsmIp v) t2" for r :: "err + unit" and t1 t2
    using that assms by (auto simp: torn_down_def split: sum.splits)
  show ?thesis
    unfolding logoutTarget_def Inr sum.case Let_def try_or_def id_apply
  proof (rule does_bind [OF existed], rule does_case_sum, rule does_return, simp split: sum.splits)
    fix r dev t
    assume t: "(list_all keeps t \<and> (case r of Inl e \<Rightarrow> True | Inr dev \<Rightarrow> dev = '''' \<or> has_prefix dev ''/dev/'')) \<and>
        (case r of Inl e \<Rightarrow> is_panic e | Inr dev \<Rightarrow> True)" and r: "r = Inr dev"
    let ?sync = "if dev = '''' then State_Monad.return None else do {
       f \<leftarrow> fsyncDevice host dev;
       case f of Some e \<Rightarrow> State_Monad.return None | None \<Rightarrow> blockdev_flushbufs host ex dev }"
    have sync: "only_does keeps ?sync"
      using t r by (intro does_if only_return keeps_sync) auto
    have multi: "does (if str_contains dev ''/dev/mapper'' then IsMultipathEnabled host ex mp else State_Monad.return False)
        (\<lambda>b t. list_all keeps t \<and> (b \<longrightarrow> dev \<noteq> ''''))"
      by (rule does_if, rule does_mono [OF keeps_multipath], auto intro: does_return)
    show "does (do {
         _ \<leftarrow> ?sync;
         multi \<leftarrow> if str_contains dev ''/dev/mapper'' then IsMultipathEnabled host ex mp else State_Monad.return False;
         _ \<leftarrow> if multi then multipath_flush host ex dev else State_Monad.return None;
         res \<leftarrow> initiator_logout host ex ?iqn (kv_DsmIp v);
         State_Monad.return (case res of Some e \<Rightarrow> if is_panic e then Inl e else Inr () | None \<Rightarrow> Inr ()) })
       (\<lambda>y t'. ?Q y (t @ t'))"
    proof (rule does_bind [OF sync], rule does_bind [OF multi])
      fix t' b t''
      assume t': "list_all keeps t'" and b: "list_all keeps t'' \<and> (b \<longrightarrow> dev \<noteq> '''')"
      have "only_does keeps (if b then multipath_flush host ex dev else State_Monad.return None)"
        using t r b by (intro does_if only_return keeps_flush) auto
      then show "does (do {
           _ \<leftarrow> if b then multipath_flush host ex dev else State_Monad.return None;
           res \<leftarrow> initiator_logout host ex ?iqn (kv_DsmIp v);
           State_Monad.return (case res of Some e \<Rightarrow> if is_panic e then Inl e else Inr () | None \<Rightarrow> Inr ()) })
         (\<lambda>y u. ?Q y (t @ t' @ t'' @ u))"
      proof (rule does_bind)
        fix u
        assume "list_all keeps u"
        then have "list_all keeps (t @ t' @ t'' @ u)" using t t' b by simp
        from ends [OF this] show "does (initiator_logout host ex ?iqn (kv_DsmIp v) \<bind> (\<lambda>res. State_Monad.return (case res of
            Some e \<Rightarrow> if is_panic e then Inl e else Inr () | None \<Rightarrow> Inr ())))
          (\<lambda>y u'. ?Q y (t @ t' @ t'' @ u @ u'))"
          by (intro does_mono [OF last]) (simp only: append_assoc)
      qed
    qed
  qed
qed

text \<open>An event that leaves the host as it is, apart from the mount of one path.\<close>

fun only_unmounts :: "string \<Rightarrow> event \<Rightarrow> bool" where
  "only_unmounts path (Look p) \<longleftrightarrow> True"
| "only_unmounts path (Unmount p) \<longleftrightarrow> p = path"
| "only_unmounts path e \<longleftrightarrow> False"


text \<open>C27: Before the session of a volume ends, its device is synced: as soon as the device has been
  found, the first thing done on the host is the fsync of it, ahead of any flush and logout.\<close>

theorem synced_before_logout:
  "case first_mapping (kv_Target v) of Inl _ \<Rightarrow> True
   | Inr idx \<Rightarrow> (let m = getExistedVolumeMountPath host ex (tg_Iqn (kv_Target v)) idx in
       case result_of m s of Inl _ \<Rightarrow> True
       | Inr dev \<Rightarrow> dev = '''' \<or>
           (\<exists>t. events (after (logoutTarget host ex mp v) s) = events (after m s) @ Fsync dev # t))"
proof (cases "first_mapping (kv_Target v)")
  case (Inr idx)
  let ?m = "getExistedVolumeMountPath host ex (tg_Iqn (kv_Target v)) idx"
  have "\<exists>t. events (after (logoutTarget host ex mp v) s) = events (after ?m s) @ Fsync dev # t"
    if dev: "result_of ?m s = Inr dev" "dev \<noteq> ''''" for dev
  proof -
    let ?rest = "do {
       multi \<leftarrow> if str_contains dev ''/dev/mapper'' then IsMultipathEnabled host ex mp else State_Monad.return False;
       _ \<leftarrow> if multi then multipath_flush host ex dev else State_Monad.return None;
       res \<leftarrow> initiator_logout host ex (tg_Iqn (kv_Target v)) (kv_DsmIp v);
       State_Monad.return (case res of Some e \<Rightarrow> if is_panic e then Inl e else Inr () | None \<Rightarrow> Inr ()) }"
    have any: "only_does (\<lambda>_. True) m" if "does m P" for m :: "('a node, 'b) prog" and P
      using that by (rule does_mono) (simp add: list_all_iff)
    have flush: "does (multipath_flush host ex dev) (\<lambda>_ _. True)"
      unfolding multipath_flush_def execWithTimeout_def
      by (rule does_mono [where P = "\<lambda>_ t. list_all (\<lambda>_. True) t"])
        (intro only_rules only_run_timeout only_act, simp_all)
    have rest: "does ?rest (\<lambda>_ _. True)"
      by (rule does_mono [where P = "\<lambda>_ t. list_all (\<lambda>_. True) t"])
        (intro only_rules any [OF keeps_multipath] any [OF flush] any [OF logout_does], simp_all)
    let ?sync = "do {
       f \<leftarrow> fsyncDevice host dev;
       case f of Some e \<Rightarrow> State_Monad.return None | None \<Rightarrow> blockdev_flushbufs host ex dev }"
    have "does ?sync (\<lambda>_ t. \<exists>t'. t = Fsync dev # t')"
      unfolding fsyncDevice_def blockdev_flushbufs_def
      by (rule does_bind, rule does_act [where Q = "\<lambda>_ t. t = [Fsync dev]"], simp,
          rule does_case_option, rule does_mono [OF run_checked_does], simp, rule does_return, simp)
    then have "does (do { _ \<leftarrow> ?sync; ?rest }) (\<lambda>_ t. \<exists>t'. t = Fsync dev # t')"
      by (rule does_bind) (erule exE, rule does_mono [OF rest], simp)
    then have "\<exists>t. events (after (do { _ \<leftarrow> ?sync; ?rest }) (after ?m s)) = events (after ?m s) @ Fsync dev # t"
      unfolding does_def by blast
    then show ?thesis
      using dev by (simp add: logoutTarget_def Inr try_or_def Let_def case_prod_beta)
  qed
  then show ?thesis by (auto simp: Inr Let_def split: sum.split)
qed simp

subsection \<open>Access to NFS shares\<close>

text \<open>The check before a save and the one after it, which the code writes twice, agree.\<close>

lemma missing_agree: "missingNfsPrivilegeClients current want = missingPrivilegeRules current want"
  by (simp add: missingNfsPrivilegeClients_def missingPrivilegeRules_def inEffect_def Let_def)

lemma setNFSVolumePrivilege_emits:
  "emits D (setNFSVolumePrivilege env source hosts auth force) (\<lambda>r t. r = None \<longrightarrow>
     (\<exists>addr share dsm. parse_source source = Inr (addr, share) \<and> map_of D addr = Some dsm \<and>
        confirmed dsm \<lparr>spv_ShareName = share, spv_Rule = map (node_rule auth) hosts\<rparr> t))"
proof (cases "parse_source source")
  case (Inl e)
  then show ?thesis by (auto simp: setNFSVolumePrivilege_def intro: emits_return)
next
  case (Inr p)
  obtain addr share where p: "p = (addr, share)" by fastforce
  let ?priv = "\<lparr>spv_ShareName = share, spv_Rule = map (node_rule auth) hosts\<rparr>"
  have load: "not_login (nfs_load_params share)" by (simp add: not_login_def nfs_load_params_def)
  have granted: "emits D (do {
       l \<leftarrow> ShareNfsPrivilegeLoad env dsm share;
       State_Monad.return (case l of Inl e \<Rightarrow> False | Inr current \<Rightarrow> missingNfsPrivilegeClients current ?priv = []) })
     (\<lambda>b t. b \<longrightarrow> confirmed dsm ?priv t)" for dsm
    unfolding ShareNfsPrivilegeLoad_def
  proof (rule emits_bind [OF nfs.send_emits [OF load]], rule emits_return)
    fix l t
    assume l: "sent env dsm (nfs_load_params share) dec_SharePrivilege l t"
    show "(case l of Inl e \<Rightarrow> False | Inr current \<Rightarrow> missingNfsPrivilegeClients current ?priv = []) \<longrightarrow>
        confirmed dsm ?priv (t @ [])"
      using l sent_load_read_back [of env dsm ?priv _ t]
      by (auto simp: missing_agree split: sum.split intro: confirmedI)
  qed
  have save: "emits D (do {
       granted \<leftarrow> if force then State_Monad.return False else do {
         l \<leftarrow> ShareNfsPrivilegeLoad env dsm share;
         State_Monad.return (case l of Inl e \<Rightarrow> False | Inr current \<Rightarrow> missingNfsPrivilegeClients current ?priv = []) };
       if granted then State_Monad.return None else ShareNfsPrivilegeSave env dsm ?priv })
     (\<lambda>r t. r = None \<longrightarrow> confirmed dsm ?priv t)" for dsm
    by (rule emits_bind, rule emits_if [where Q = "\<lambda>b t. b \<longrightarrow> confirmed dsm ?priv t"], rule emits_return, simp,
        rule granted, rule emits_if, rule emits_return, simp,
        rule emits_mono [OF ShareNfsPrivilegeSave_saved])
      (simp add: confirmed_append)
  show ?thesis
    unfolding setNFSVolumePrivilege_def Inr p sum.case prod.case Let_def
    by (rule emits_bind [OF GetDsm_emits], rule emits_case_sum, rule emits_return, simp,
        rule emits_mono [OF save]) auto
qed

text \<open>C10: Staging an NFS volume succeeds only when the storage system of its source has shown, in an
  answer after the last save of the log, that every address of every node has read and write
  access to the share: reported success means that the mount that follows can work.\<close>

theorem nodeStageNFSVolume_confirmed:
  "case result_of (nodeStageNFSVolume env host spec) s of Inl _ \<Rightarrow> True
   | Inr _ \<Rightarrow> \<exists>ips addr share dsm cs. result_of (getNodeAddress host) s = Inr ips \<and> ips \<noteq> [] \<and>
       parse_source (nss_Source spec) = Inr (addr, share) \<and> map_of (dsms (dsm_world s)) addr = Some dsm \<and>
       events (after (nodeStageNFSVolume env host spec) s) = events s @ Look ''nodes'' # map Api cs \<and>
       confirmed dsm \<lparr>spv_ShareName = share, spv_Rule = map (node_rule AuthTypeReadWrite) ips\<rparr> cs"
proof (cases "result_of (nodeStageNFSVolume env host spec) s")
  case (Inr u)
  let ?s1 = "after (getNodeAddress host) s"
  let ?set = "\<lambda>ips. setNFSVolumePrivilege env (nss_Source spec) ips AuthTypeReadWrite False"
  have block: "\<not> is_block (cap_AccessType (nss_VolumeCapability spec))"
    using Inr by (auto simp: nodeStageNFSVolume_def fail_def)
  then obtain ips where ips: "result_of (getNodeAddress host) s = Inr ips"
    using Inr by (cases "result_of (getNodeAddress host) s")
      (auto simp: nodeStageNFSVolume_def try_or_def case_prod_beta)
  have node: "events ?s1 = events s @ [Look ''nodes'']" "dsms (dsm_world ?s1) = dsms (dsm_world s)" "ips \<noteq> []"
    using ips by (auto simp: getNodeAddress_def try_or_def act_def case_prod_beta Let_def split: sum.splits if_splits)
  have ok: "result_of (service (?set ips)) ?s1 = None"
    using Inr ips block
    by (cases "result_of (service (?set ips)) ?s1")
      (auto simp: nodeStageNFSVolume_def try_or_def check_or_def case_prod_beta)
  have after: "after (nodeStageNFSVolume env host spec) s = after (service (?set ips)) ?s1"
    using ips block ok
    by (simp add: nodeStageNFSVolume_def try_or_def check_or_def case_prod_beta)
  let ?w = "dsm_world ?s1"
  obtain cs where cs: "calls (after (?set ips) ?w) = calls ?w @ cs"
    "result_of (?set ips) ?w = None \<longrightarrow> (\<exists>addr share dsm. parse_source (nss_Source spec) = Inr (addr, share) \<and>
       map_of (dsms ?w) addr = Some dsm \<and>
       confirmed dsm \<lparr>spv_ShareName = share, spv_Rule = map (node_rule AuthTypeReadWrite) ips\<rparr> cs)"
    using emitsD [OF setNFSVolumePrivilege_emits, of ?w "dsms ?w"] by blast
  have "result_of (?set ips) ?w = None" "events (after (service (?set ips)) ?s1) = events ?s1 @ map Api cs"
    using ok cs(1) by (simp_all add: service_def case_prod_beta)
  with cs(2) node ips after Inr show ?thesis by auto
qed simp

subsection \<open>The size of an expansion\<close>

text \<open>A range that \<^verbatim>\<open>getSizeByCapacityRange\<close> refuses is not refused by \<^verbatim>\<open>NodeExpandVolume\<close>: the
  error is overwritten, and the response names the size zero.\<close>

lemma dropped_size_refused:
  assumes "0 < sint b" "sint b < sint a"
  shows "dropped_size (Some \<lparr>cr_RequiredBytes = a, cr_LimitBytes = b\<rparr>) = 0"
  using assms by (simp add: dropped_size_def getSizeByCapacityRange_def)

end
