(* ===== verification/Session.thy ===== *)
theory Session
  imports Table Controller
begin

text \<open>
  The state of the driver as a transition system. A step of \<open>talk\<close> is the smallest thing the
  driver does to the state it shares between handlers: one request to a configured storage
  system, the adoption of a session id that a login was answered with, its deletion, or a
  change of the outside world. Every handler of the controller service is a sequence of such
  steps (\<open>speaks\<close>), so an invariant of the steps holds in the middle of a handler as well, and
  for handlers that run at the same time.
\<close>

subsection \<open>The steps\<close>

definition cookie :: "'n world \<Rightarrow> DSM \<Rightarrow> string option" where
  "cookie w dsm = (if sids w (Ip dsm) \<noteq> [] then Some (sids w (Ip dsm)) else None)"

definition with_call :: "DSM \<Rightarrow> string \<Rightarrow> params \<Rightarrow> reply \<Rightarrow> 'n \<Rightarrow> 'n world \<Rightarrow> 'n world" where
  "with_call dsm path ps rp n w = w\<lparr>nas := n, calls := calls w @
     [\<lparr>c_host = Ip dsm, c_path = path, c_query = ps, c_cookie = cookie w dsm, c_reply = rp\<rparr>]\<rparr>"

definition with_sid :: "DSM \<Rightarrow> string \<Rightarrow> 'n world \<Rightarrow> 'n world" where
  "with_sid dsm sid w = w\<lparr>sids := (sids w)(Ip dsm := sid)\<rparr>"

text \<open>The call is a login at the storage system, and was answered with the session id.\<close>

definition grants :: "DSM \<Rightarrow> string \<Rightarrow> call \<Rightarrow> bool" where
  "grants dsm sid c \<longleftrightarrow> c_host c = Ip dsm \<and> c_query c = login_params dsm \<and>
     reply_value False (dec_field ''sid'' dec_string) (c_reply c) = Some sid"

text \<open>\<open>K\<close> are the entries of the configuration that the driver may talk to.\<close>

inductive talk :: "ClientInfo set \<Rightarrow> 'n world \<Rightarrow> 'n world \<Rightarrow> bool" for K where
  outside: "talk K w (w\<lparr>nas := n\<rparr>)"
| request: "client_of dsm \<in> K \<Longrightarrow> not_login ps \<Longrightarrow> talk K w (with_call dsm entry_cgi ps rp n w)"
| login: "client_of dsm \<in> K \<Longrightarrow> talk K w (with_call dsm ''webapi/auth.cgi'' (login_params dsm) rp n w)"
| adopt: "client_of dsm \<in> K \<Longrightarrow> c \<in> set (calls w) \<Longrightarrow> grants dsm sid c \<Longrightarrow> talk K w (with_sid dsm sid w)"
| forget: "client_of dsm \<in> K \<Longrightarrow> talk K w (with_sid dsm [] w)"
| mark: "talk K w (w\<lparr>dsms := map (\<lambda>(k, d). (k, if P d then d\<lparr>Controller := letter\<rparr> else d)) (dsms w)\<rparr>)"

inductive_cases talkE: "talk K w w'"

abbreviation talks_to :: "ClientInfo set \<Rightarrow> 'n world \<Rightarrow> 'n world \<Rightarrow> bool" where
  "talks_to K \<equiv> (talk K)\<^sup>*\<^sup>*"

text \<open>What no step changes: the addresses and the settings of the table.\<close>

definition settings :: "'n world \<Rightarrow> (string \<times> ClientInfo) list" where
  "settings w = map (\<lambda>(k, d). (k, client_of d)) (dsms w)"

lemma client_of_Controller [simp]: "client_of (d\<lparr>Controller := letter\<rparr>) = client_of d"
  by (simp add: client_of_def)

lemma client_of_new_DSM [simp]: "client_of (new_DSM client) = client"
  by (simp add: client_of_def new_DSM_def)

lemma talk_settings: "talk K w w' \<Longrightarrow> settings w' = settings w"
  by (cases rule: talk.cases, assumption) (auto simp: with_call_def with_sid_def settings_def)

lemma talks_settings: "talks_to K w w' \<Longrightarrow> settings w' = settings w"
  by (induction rule: rtranclp_induct) (auto dest: talk_settings)

lemma talk_mono: "talk K w w' \<Longrightarrow> K \<subseteq> K' \<Longrightarrow> talk K' w w'"
  by (induction rule: talk.induct) (auto intro: talk.intros)

lemma talks_mono: "talks_to K w w' \<Longrightarrow> K \<subseteq> K' \<Longrightarrow> talks_to K' w w'"
  by (induction rule: rtranclp_induct) (auto dest: talk_mono intro: rtranclp.rtrancl_into_rtrancl)

subsection \<open>Programs as sequences of steps\<close>

definition known :: "ClientInfo set \<Rightarrow> 'n world \<Rightarrow> bool" where
  "known K w \<longleftrightarrow> snd ` set (settings w) \<subseteq> K"

lemma known_iff: "known K w \<longleftrightarrow> (\<forall>(k, dsm) \<in> set (dsms w). client_of dsm \<in> K)"
  by (simp add: known_def settings_def image_subset_iff case_prod_beta)

text \<open>The state of a program may hold more than the world, which is \<open>\<pi>\<close> of it.\<close>

definition talks_in :: "('s \<Rightarrow> 'n world) \<Rightarrow> ClientInfo set \<Rightarrow> ('s, 'a) prog \<Rightarrow> ('a \<Rightarrow> bool) \<Rightarrow> bool" where
  "talks_in \<pi> K m Q \<longleftrightarrow> (\<forall>s. known K (\<pi> s) \<longrightarrow> talks_to K (\<pi> s) (\<pi> (after m s)) \<and> Q (result_of m s))"

abbreviation talks :: "ClientInfo set \<Rightarrow> ('n world, 'a) prog \<Rightarrow> ('a \<Rightarrow> bool) \<Rightarrow> bool" where
  "talks \<equiv> talks_in (\<lambda>w. w)"

abbreviation speaks :: "ClientInfo set \<Rightarrow> ('n world, 'a) prog \<Rightarrow> bool" where
  "speaks K m \<equiv> talks K m (\<lambda>_. True)"

named_theorems talk_rules \<open>programs as sequences of steps\<close>

lemma known_talks: "known K w \<Longrightarrow> talks_to K w w' \<Longrightarrow> known K w'"
  by (simp add: known_def talks_settings)

lemma talksD: "talks_in \<pi> K m Q \<Longrightarrow> known K (\<pi> s) \<Longrightarrow> talks_to K (\<pi> s) (\<pi> (after m s))"
  by (simp add: talks_in_def)

lemma talks_return: "Q x \<Longrightarrow> talks_in \<pi> K (State_Monad.return x) Q"
  by (simp add: talks_in_def)

lemma talks_bind:
  assumes "talks_in \<pi> K m P" "\<And>x. P x \<Longrightarrow> talks_in \<pi> K (f x) Q"
  shows "talks_in \<pi> K (State_Monad.bind m f) Q"
  unfolding talks_in_def
proof (intro allI impI)
  fix s
  assume k: "known K (\<pi> s)"
  with assms(1) have 1: "talks_to K (\<pi> s) (\<pi> (after m s))" "P (result_of m s)" by (auto simp: talks_in_def)
  then have "known K (\<pi> (after m s))" using known_talks k by blast
  with assms(2) [OF 1(2)] have "talks_to K (\<pi> (after m s)) (\<pi> (after (f (result_of m s)) (after m s)))"
    "Q (result_of (f (result_of m s)) (after m s))" by (auto simp: talks_in_def)
  with 1 show "talks_to K (\<pi> s) (\<pi> (after (State_Monad.bind m f) s)) \<and> Q (result_of (State_Monad.bind m f) s)"
    by (auto simp: case_prod_beta)
qed

lemma speaks_bind:
  "talks_in \<pi> K m (\<lambda>_. True) \<Longrightarrow> (\<And>x. talks_in \<pi> K (f x) Q) \<Longrightarrow> talks_in \<pi> K (State_Monad.bind m f) Q"
  by (erule talks_bind) simp

lemma talks_if: "(b \<Longrightarrow> talks_in \<pi> K m Q) \<Longrightarrow> (\<not> b \<Longrightarrow> talks_in \<pi> K n Q) \<Longrightarrow> talks_in \<pi> K (if b then m else n) Q"
  by simp

lemma talks_case_sum:
  "(\<And>e. r = Inl e \<Longrightarrow> talks_in \<pi> K (f e) Q) \<Longrightarrow> (\<And>x. r = Inr x \<Longrightarrow> talks_in \<pi> K (g x) Q) \<Longrightarrow>
   talks_in \<pi> K (case r of Inl e \<Rightarrow> f e | Inr x \<Rightarrow> g x) Q"
  by (cases r) simp_all

lemma talks_case_option:
  "(r = None \<Longrightarrow> talks_in \<pi> K f Q) \<Longrightarrow> (\<And>x. r = Some x \<Longrightarrow> talks_in \<pi> K (g x) Q) \<Longrightarrow>
   talks_in \<pi> K (case r of None \<Rightarrow> f | Some x \<Rightarrow> g x) Q"
  by (cases r) simp_all

lemma talks_case_prod:
  "(\<And>x y. p = (x, y) \<Longrightarrow> talks_in \<pi> K (f x y) Q) \<Longrightarrow> talks_in \<pi> K (case p of (x, y) \<Rightarrow> f x y) Q"
  by (cases p) simp

lemma talks_case_list:
  "talks_in \<pi> K f Q \<Longrightarrow> (\<And>x xs. talks_in \<pi> K (g x xs) Q) \<Longrightarrow> talks_in \<pi> K (case l of [] \<Rightarrow> f | x # xs \<Rightarrow> g x xs) Q"
  by (cases l) simp_all

lemma talks_case_nat:
  "talks_in \<pi> K f Q \<Longrightarrow> (\<And>m. talks_in \<pi> K (g m) Q) \<Longrightarrow> talks_in \<pi> K (case n of 0 \<Rightarrow> f | Suc m \<Rightarrow> g m) Q"
  by (cases n) simp_all

lemma talks_let: "(\<And>x. x = a \<Longrightarrow> talks_in \<pi> K (f x) Q) \<Longrightarrow> talks_in \<pi> K (let x = a in f x) Q"
  by (simp add: Let_def)

lemma talks_get:
  "(\<And>s. known K (\<pi> s) \<Longrightarrow> talks_in \<pi> K (f s) Q) \<Longrightarrow> talks_in \<pi> K (State_Monad.bind State_Monad.get f) Q"
  by (simp add: talks_in_def)

lemmas talks_control = talks_if talks_case_sum talks_case_option talks_case_prod talks_case_list
  talks_case_nat talks_let

lemma speaks_for_each:
  "(\<And>x s. x \<in> set xs \<Longrightarrow> talks_in \<pi> K (f x s) (\<lambda>_. True)) \<Longrightarrow> talks_in \<pi> K (for_each f xs s) (\<lambda>_. True)"
  by (induction xs arbitrary: s) (auto intro!: talks_return speaks_bind)

lemma speaks_for_return:
  "(\<And>x s. x \<in> set xs \<Longrightarrow> talks_in \<pi> K (f x s) (\<lambda>_. True)) \<Longrightarrow> talks_in \<pi> K (for_return f xs s) (\<lambda>_. True)"
  by (induction xs arbitrary: s) (auto intro!: talks_return speaks_bind talks_case_sum)

lemma speaks_retry_n: "talks_in \<pi> K op (\<lambda>_. True) \<Longrightarrow> talks_in \<pi> K (retry_n n op) (\<lambda>_. True)"
  by (induction n) (auto simp del: split_paired_All intro!: talks_return speaks_bind talks_control)

lemma speaks_backoff: "speaks K op \<Longrightarrow> speaks K (backoff_retry env ms op)"
  unfolding backoff_retry_def by (intro talks_get speaks_retry_n)

lemmas speaks_loops = speaks_for_each speaks_for_return speaks_backoff

subsection \<open>The table\<close>

text \<open>\<open>among K ds\<close>: storage systems the driver may talk to.\<close>

definition among :: "ClientInfo set \<Rightarrow> DSM list \<Rightarrow> bool" where
  "among K ds \<longleftrightarrow> (\<forall>dsm \<in> set ds. client_of dsm \<in> K)"

lemma amongD: "among K ds \<Longrightarrow> dsm \<in> set ds \<Longrightarrow> client_of dsm \<in> K"
  by (simp add: among_def)

lemma talks_range_dsms: "talks K (range_dsms env) (among K)"
  by (auto simp: talks_in_def range_dsms_def Let_def case_prod_beta among_def known_iff
      intro!: r_into_rtranclp talk.outside)

lemma talks_range_attribs: "speaks K (range_attribs env attribs)"
  by (auto simp: talks_in_def range_attribs_def Let_def case_prod_beta intro!: r_into_rtranclp talk.outside)

lemma talks_GetDsm: "talks K (GetDsm ip) (\<lambda>r. case r of Inl e \<Rightarrow> True | Inr dsm \<Rightarrow> client_of dsm \<in> K)"
  by (fastforce simp: talks_in_def GetDsm_def known_iff split: option.split dest: map_of_SomeD)

lemma bind_range_dsms:
  "(\<And>ds. among K ds \<Longrightarrow> talks K (f ds) Q) \<Longrightarrow> talks K (State_Monad.bind (range_dsms env) f) Q"
  by (rule talks_bind [OF talks_range_dsms])

lemma bind_GetDsm:
  "(\<And>e. talks K (f e) Q) \<Longrightarrow> (\<And>dsm. client_of dsm \<in> K \<Longrightarrow> talks K (g dsm) Q) \<Longrightarrow>
   talks K (do { d \<leftarrow> GetDsm ip; case d of Inl e \<Rightarrow> f e | Inr dsm \<Rightarrow> g dsm }) Q"
  by (rule talks_bind [OF talks_GetDsm]) (auto split: sum.splits)

subsection \<open>Requests\<close>

lemma set_sid_is: "after (set_sid dsm sid) w = with_sid dsm sid w"
  by (simp add: set_sid_def with_sid_def)

lemma send_steps:
  obtains (unsent) e where "run_state (sendRequestWithoutConnectionCheck env dsm data dec ps path) w = ((0, Inl e), w)"
  | (sent) rp n where "run_state (sendRequestWithoutConnectionCheck env dsm data dec ps path) w =
      (interpret_reply dec rp, with_call dsm path ps rp n w)"
proof (cases "newHTTPClient env dsm")
  case (Inl e)
  with unsent show ?thesis by (simp add: sendRequestWithoutConnectionCheck_def)
next
  case (Inr cl)
  with unsent sent show ?thesis
    by (cases "env_url_parses env (Https dsm) (Ip dsm) (Port dsm) path")
      (auto simp: sendRequestWithoutConnectionCheck_def Let_def with_call_def cookie_def)
qed

lemma speaks_send:
  assumes "client_of dsm \<in> K" "not_login ps"
  shows "speaks K (sendRequestWithoutConnectionCheck env dsm data dec ps entry_cgi)"
  unfolding talks_in_def
proof (intro allI impI conjI TrueI)
  fix w
  show "talks_to K w (after (sendRequestWithoutConnectionCheck env dsm data dec ps entry_cgi) w)"
    by (rule send_steps [of env dsm data dec ps entry_cgi w]) (auto intro: talk.request [OF assms])
qed

lemma speaks_forget: "client_of dsm \<in> K \<Longrightarrow> speaks K (set_sid dsm [])"
  by (auto simp: talks_in_def set_sid_is intro: talk.forget)

lemma speaks_Login:
  assumes dsm: "client_of dsm \<in> K"
  shows "speaks K (Login env dsm)"
  unfolding talks_in_def
proof (intro allI impI conjI TrueI)
  fix w
  let ?dec = "dec_field ''sid'' dec_string"
  show "talks_to K w (after (Login env dsm) w)"
  proof (rule send_steps [of env dsm "[]" ?dec "login_params dsm" "''webapi/auth.cgi''" w])
    fix e assume "run_state (sendRequestWithoutConnectionCheck env dsm [] ?dec (login_params dsm) ''webapi/auth.cgi'') w = ((0, Inl e), w)"
    then show ?thesis by (simp add: Login_def)
  next
    fix rp n
    let ?w = "with_call dsm ''webapi/auth.cgi'' (login_params dsm) rp n w"
    assume run: "run_state (sendRequestWithoutConnectionCheck env dsm [] ?dec (login_params dsm) ''webapi/auth.cgi'') w =
        (interpret_reply ?dec rp, ?w)"
    have step: "talk K w ?w" by (rule talk.login [OF dsm])
    show ?thesis
    proof (cases "snd (interpret_reply ?dec rp)")
      case (Inl e)
      with run step show ?thesis by (simp add: Login_def)
    next
      case (Inr sid)
      then have "reply_value False ?dec rp = Some sid" by (auto simp: reply_value_def split: prod.splits)
      then have "talk K ?w (with_sid dsm sid ?w)"
        by (intro talk.adopt [OF dsm, of "last (calls ?w)"]) (auto simp: grants_def with_call_def)
      with run step Inr show ?thesis
        by (auto simp: Login_def set_sid_is case_prod_beta intro: rtranclp.rtrancl_into_rtrancl)
    qed
  qed
qed

lemma speaks_Logout: "client_of dsm \<in> K \<Longrightarrow> speaks K (Logout env dsm)"
  unfolding Logout_def
  by (rule speaks_bind [OF speaks_send], assumption, simp add: not_login_def, rule talks_case_sum)
    (auto intro: talks_return speaks_bind [OF speaks_forget])

lemma speaks_sendRequest [talk_rules]:
  "client_of dsm \<in> K \<Longrightarrow> not_login ps \<Longrightarrow> speaks K (sendRequest env dsm data dec ps entry_cgi)"
  unfolding sendRequest_def
  by (rule speaks_bind [OF speaks_send], assumption, assumption, rule talks_if,
      rule speaks_bind [OF speaks_Login], assumption, rule talks_case_option)
    (auto intro: speaks_send talks_return)

end
