(* ===== verification/Talking.thy ===== *)
theory Talking
  imports Session
begin

text \<open>
  Every operation of the web API, of \<^verbatim>\<open>DsmService\<close> and of the controller service is a sequence
  of the steps of \<open>talk\<close>, with the storage systems it is given or finds in the table.
\<close>

subsection \<open>The web API\<close>

lemma speaks_iscsi_request: "client_of dsm \<in> K \<Longrightarrow> not_login ps \<Longrightarrow> speaks K (iscsi_request env dec dsm ps)"
  unfolding iscsi_request_def by (intro speaks_bind speaks_sendRequest talks_return TrueI)

lemma speaks_san_request: "client_of dsm \<in> K \<Longrightarrow> not_login ps \<Longrightarrow> speaks K (san_request env dec dsm ps)"
  unfolding san_request_def by (intro speaks_bind speaks_sendRequest talks_return TrueI)

lemma speaks_san_request_all: "client_of dsm \<in> K \<Longrightarrow> not_login ps \<Longrightarrow> speaks K (san_request_all env dsm ps)"
  unfolding san_request_all_def by (intro speaks_bind speaks_sendRequest talks_return TrueI)

lemma speaks_storage_request: "client_of dsm \<in> K \<Longrightarrow> not_login ps \<Longrightarrow> speaks K (storage_request env dec dsm ps)"
  unfolding storage_request_def by (intro speaks_bind speaks_sendRequest talks_return TrueI)

lemma speaks_shareRequest: "client_of dsm \<in> K \<Longrightarrow> not_login ps \<Longrightarrow> speaks K (shareRequest env dec dsm ps)"
  unfolding shareRequest_def
  by (intro speaks_bind speaks_backoff speaks_sendRequest talks_return TrueI)

lemma speaks_nfsPrivilegeRequest:
  "client_of dsm \<in> K \<Longrightarrow> not_login ps \<Longrightarrow> speaks K (nfsPrivilegeRequest env dec ms dsm ps)"
  unfolding nfsPrivilegeRequest_def
  by (intro speaks_bind speaks_backoff speaks_sendRequest talks_return TrueI)

lemmas speaks_requests = speaks_iscsi_request speaks_san_request speaks_san_request_all
  speaks_storage_request speaks_shareRequest speaks_nfsPrivilegeRequest

lemmas request_defs = not_login_def nfs_save_params_def nfs_load_params_def

lemma speaks_iscsi [talk_rules]:
  assumes "client_of dsm \<in> K"
  shows "speaks K (LunList env dsm)" "speaks K (LunCreate env dsm s1)" "speaks K (LunUpdate env dsm s2)"
    "speaks K (LunGet env dsm u)" "speaks K (LunClone env dsm s3)" "speaks K (TargetList env dsm)"
    "speaks K (TargetGet env dsm u)" "speaks K (TargetSet env dsm u i)" "speaks K (LunMapTarget env dsm us u)"
    "speaks K (LunDelete env dsm u)" "speaks K (TargetDelete env dsm u)" "speaks K (SnapshotCreate env dsm s4)"
    "speaks K (SnapshotDelete env dsm u)" "speaks K (SnapshotGet env dsm u)" "speaks K (SnapshotList env dsm u)"
    "speaks K (SnapshotClone env dsm s5)"
  unfolding LunList_def LunCreate_def LunUpdate_def LunGet_def LunClone_def TargetList_def TargetGet_def
    TargetSet_def LunMapTarget_def LunDelete_def TargetDelete_def SnapshotCreate_def SnapshotDelete_def
    SnapshotGet_def SnapshotList_def SnapshotClone_def
  by (rule speaks_iscsi_request [OF assms]; simp add: not_login_def)+

lemma speaks_TargetCreate [talk_rules]: "client_of dsm \<in> K \<Longrightarrow> speaks K (TargetCreate env dsm s)"
  unfolding TargetCreate_def
  by (intro speaks_bind speaks_iscsi_request talks_return) (simp_all add: not_login_def)

lemma speaks_san [talk_rules]:
  assumes "client_of dsm \<in> K"
  shows "speaks K (NamespaceCreate env dsm s1)" "speaks K (NamespaceClone env dsm s2)"
    "speaks K (NamespaceSet env dsm s3)" "speaks K (NamespaceDelete env dsm u)" "speaks K (NamespaceGet env dsm u)"
    "speaks K (NamespaceList env dsm)" "speaks K (NamespaceSnapshotList env dsm u)"
    "speaks K (NamespaceSnapshotGet env dsm u)" "speaks K (NamespaceSnapshotCreate env dsm s4)"
    "speaks K (NamespaceSnapshotClone env dsm s5)" "speaks K (NamespaceSnapshotDelete env dsm u)"
    "speaks K (SubsystemCreate env dsm s6)" "speaks K (SubsystemGet env dsm u)" "speaks K (SubsystemDelete env dsm u)"
    "speaks K (SubsystemSetNamespaces env dsm u us)"
  unfolding NamespaceCreate_def NamespaceClone_def NamespaceSet_def NamespaceDelete_def NamespaceGet_def
    NamespaceList_def NamespaceSnapshotList_def NamespaceSnapshotGet_def NamespaceSnapshotCreate_def
    NamespaceSnapshotClone_def NamespaceSnapshotDelete_def SubsystemCreate_def SubsystemGet_def
    SubsystemDelete_def SubsystemSetNamespaces_def
  by ((rule speaks_san_request [OF assms] speaks_san_request_all [OF assms]; simp add: not_login_def)+)

lemma speaks_share [talk_rules]:
  assumes "client_of dsm \<in> K"
  shows "speaks K (ShareGet env dsm u)" "speaks K (ShareList env dsm)" "speaks K (ShareCreate env dsm s1)"
    "speaks K (ShareDelete env dsm u)" "speaks K (ShareSet env dsm u s2)"
    "speaks K (ShareSnapshotCreate env dsm s3)" "speaks K (ShareSnapshotList env dsm u)"
    "speaks K (SharePermissionSet env dsm s4)" "speaks K (SharePermissionList env dsm u g)"
    "speaks K (shareNfsPrivilegeSaveOnce env dsm s5)" "speaks K (ShareNfsPrivilegeLoad env dsm u)"
  unfolding ShareGet_def ShareList_def ShareCreate_def ShareDelete_def ShareSet_def
    ShareSnapshotCreate_def ShareSnapshotList_def SharePermissionSet_def SharePermissionList_def
    shareNfsPrivilegeSaveOnce_def ShareNfsPrivilegeLoad_def
  by ((rule speaks_shareRequest [OF assms] speaks_nfsPrivilegeRequest [OF assms]; simp add: request_defs)+)

lemma speaks_ShareClone [talk_rules]: "client_of dsm \<in> K \<Longrightarrow> speaks K (ShareClone env dsm s)"
  unfolding ShareClone_def
  by (intro talks_if talks_return speaks_shareRequest) (simp_all add: not_login_def)

lemma speaks_SetShareQuota [talk_rules]: "client_of dsm \<in> K \<Longrightarrow> speaks K (SetShareQuota env dsm s n)"
  unfolding SetShareQuota_def by (rule talk_rules)

lemma speaks_ShareSnapshotDelete [talk_rules]: "client_of dsm \<in> K \<Longrightarrow> speaks K (ShareSnapshotDelete env dsm t u)"
  unfolding ShareSnapshotDelete_def
  by (intro speaks_bind speaks_shareRequest talks_return) (simp_all add: not_login_def)

lemma speaks_nfs [talk_rules]:
  "client_of dsm \<in> K \<Longrightarrow> speaks K (NfsGet env dsm)"
  "client_of dsm \<in> K \<Longrightarrow> speaks K (NfsSet env dsm b4 b5 i)"
  unfolding NfsGet_def NfsSet_def
  by (intro speaks_bind speaks_sendRequest talks_return; simp add: not_login_def)+

lemma speaks_storage [talk_rules]:
  assumes "client_of dsm \<in> K"
  shows "speaks K (VolumeList env dsm)" "speaks K (VolumeGet env dsm u)" "speaks K (DsmSystemInfoGet env dsm u)"
  unfolding VolumeList_def VolumeGet_def DsmSystemInfoGet_def
  by (rule speaks_storage_request [OF assms]; simp add: not_login_def)+

lemma speaks_NetworkInterfaceList [talk_rules]: "client_of dsm \<in> K \<Longrightarrow> speaks K (NetworkInterfaceList env dsm u)"
  unfolding NetworkInterfaceList_def
  by (intro speaks_bind speaks_storage_request talks_return) (simp_all add: not_login_def)

lemma speaks_save_attempt [talk_rules]: "client_of dsm \<in> K \<Longrightarrow> speaks K (save_attempt env dsm p)"
  unfolding save_attempt_def
  by (rule speaks_bind talk_rules talks_control talks_return TrueI | assumption)+

lemma speaks_ShareNfsPrivilegeSave [talk_rules]: "client_of dsm \<in> K \<Longrightarrow> speaks K (ShareNfsPrivilegeSave env dsm p)"
  unfolding ShareNfsPrivilegeSave_def
  by (rule speaks_bind talk_rules speaks_loops talks_return TrueI | assumption)+

subsection \<open>Listing and looking up\<close>

lemmas talk_steps = bind_range_dsms bind_GetDsm speaks_bind talks_control talks_return speaks_loops

lemma speaks_listing_parts [talk_rules]:
  assumes "client_of dsm \<in> K"
  shows "speaks K (iscsi_mapping env dsm target mapping acc)" "speaks K (nvme_namespace env dsm ns acc)"
    "speaks K (shareToVolume env dsm share)"
  unfolding iscsi_mapping_def nvme_namespace_def shareToVolume_def
  by ((rule assms talk_rules talk_steps TrueI)+)

lemma speaks_share_parts [talk_rules]:
  assumes "client_of dsm \<in> K"
  shows "speaks K (share_classified env dsm share acc)" "speaks K (find_share env pred dsm share u)"
  unfolding share_classified_def find_share_def
  by ((rule assms talk_rules talk_steps TrueI)+)

lemma speaks_listing_dsms [talk_rules]:
  assumes "client_of dsm \<in> K"
  shows "speaks K (iscsi_dsm env ip dsm acc)" "speaks K (nvme_dsm env ip dsm acc)"
    "speaks K (share_dsm env ip dsm acc)" "speaks K (find_share_dsm env pred dsm e)"
  unfolding iscsi_dsm_def nvme_dsm_def share_dsm_def find_share_dsm_def
  by ((rule assms talk_rules talk_steps TrueI)+)

lemma speaks_listings [talk_rules]:
  "speaks K (listISCSIVolumes env ip)" "speaks K (listNVMeVolumes env ip)" "speaks K (listSMBorNFSVolumes env ip)"
  "speaks K (findSMBorNFSVolume env pred)"
  unfolding listISCSIVolumes_def listNVMeVolumes_def listSMBorNFSVolumes_def findSMBorNFSVolume_def
  by ((rule talk_steps talk_rules TrueI | erule (1) amongD)+)

lemma speaks_lookups [talk_rules]:
  "speaks K (ListVolumes env)" "speaks K (findVolume env p q)" "speaks K (GetVolume env u)"
  "speaks K (GetVolumeByName env u)"
  unfolding GetVolume_def GetVolumeByName_def ListVolumes_def findVolume_def
  by ((rule talk_steps talk_rules TrueI)+)

lemma speaks_list_each: "(\<And>v. speaks K (request v)) \<Longrightarrow> speaks K (list_each request convert vs)"
  unfolding list_each_def by (intro speaks_for_each speaks_bind talks_return TrueI)

lemma speaks_snapshots_by_dsm [talk_rules]:
  assumes "client_of dsm \<in> K"
  shows "speaks K (listISCSISnapshotsByDsm env dsm)" "speaks K (listSMBorNFSSnapshotsByDsm env dsm)"
    "speaks K (listNVMeSnapshotsByDsm env dsm)"
  unfolding listISCSISnapshotsByDsm_def listSMBorNFSSnapshotsByDsm_def listNVMeSnapshotsByDsm_def
  by ((rule speaks_list_each talk_steps talk_rules TrueI assms)+)

lemma speaks_find_in_dsms:
  "(\<And>dsm. client_of dsm \<in> K \<Longrightarrow> speaks K (l dsm)) \<Longrightarrow> speaks K (find_in_dsms env l u)"
  unfolding find_in_dsms_def
  by (rule talk_steps TrueI)+ (auto intro!: speaks_bind talks_return dest: amongD)

lemma speaks_snapshots [talk_rules]:
  "speaks K (ListAllSnapshots env)" "speaks K (GetSnapshotByName env u)" "speaks K (GetSnapshotByUuid env u)"
  "speaks K (getISCSISnapshot env u)" "speaks K (getSMBorNFSSnapshot env u)" "speaks K (ListSnapshots env u)"
  unfolding GetSnapshotByName_def GetSnapshotByUuid_def getISCSISnapshot_def getSMBorNFSSnapshot_def
    ListAllSnapshots_def ListSnapshots_def
  by ((rule speaks_find_in_dsms speaks_list_each talk_steps talk_rules TrueI | assumption | erule (1) amongD)+)

subsection \<open>Creating\<close>

text \<open>The steps that a rollback has collected are programs of the same kind.\<close>

definition undoes :: "ClientInfo set \<Rightarrow> 'n createRollback \<Rightarrow> bool" where
  "undoes K rb \<longleftrightarrow> (\<forall>step \<in> set rb. speaks K (snd step))"

lemma undoes_simps [simp]: "undoes K []" "undoes K (rollback_add [] d m) \<longleftrightarrow> speaks K m"
  by (simp_all add: undoes_def rollback_add_def)

lemma speaks_with_rollback:
  assumes "talks K body (\<lambda>out. undoes K (fst out))"
  shows "speaks K (with_rollback body)"
  unfolding with_rollback_def
proof (rule talks_bind [OF assms], rule talks_case_sum)
  fix out and e :: err
  assume "undoes K (fst out)"
  then have "speaks K (rollback_run (fst out))"
    unfolding rollback_run_def undoes_def by (intro speaks_for_each speaks_bind talks_return) auto
  then show "speaks K (do { _ \<leftarrow> rollback_run (fst out); State_Monad.return (Inl e) })"
    by (rule speaks_bind) (rule talks_return, simp)
qed (rule talks_return, simp)

lemma talks_after_create:
  assumes "speaks K undo" "\<And>rb. undoes K rb \<Longrightarrow> talks K (k rb) (\<lambda>out. undoes K (fst out))"
  shows "talks K (after_create d undo r k) (\<lambda>out. undoes K (fst out))"
  unfolding after_create_def using assms by (intro talks_control talks_return) auto

lemmas creation_steps = speaks_with_rollback talks_after_create talk_steps

lemma speaks_undo [talk_rules]:
  assumes "client_of dsm \<in> K"
  shows "speaks K (undo_lun env dsm n)" "speaks K (undo_namespace env dsm n)"
  unfolding undo_lun_def undo_namespace_def
  by ((rule talk_steps assms talk_rules TrueI)+)

lemma speaks_creation_parts [talk_rules]:
  assumes "client_of dsm \<in> K"
  shows "speaks K (getFirstAvailableVolume env dsm n p)" "speaks K (checkFinished env dsm u p)"
  unfolding getFirstAvailableVolume_def checkFinished_def
  by ((rule talk_steps assms talk_rules TrueI)+)

lemma speaks_creation_helpers [talk_rules]:
  assumes "client_of dsm \<in> K"
  shows "speaks K (waitCloneFinished env dsm u p)" "speaks K (choose_location env dsm spec)"
  unfolding waitCloneFinished_def choose_location_def
  by ((rule talk_steps assms talk_rules TrueI)+)

lemma speaks_mappings [talk_rules]:
  assumes "client_of dsm \<in> K"
  shows "speaks K (createMappingTarget env dsm spec u)" "speaks K (createMappingSubsystem env dsm spec u)"
  unfolding createMappingTarget_def createMappingSubsystem_def
  by ((rule creation_steps assms talk_rules TrueI | simp only: undoes_simps fst_conv)+)

lemma talks_map_volume:
  assumes "client_of dsm \<in> K" "undoes K rb"
  shows "talks K (map_lun env dsm spec lun rb) (\<lambda>out. undoes K (fst out))"
    "talks K (map_namespace env dsm spec ns rb) (\<lambda>out. undoes K (fst out))"
  unfolding map_lun_def map_namespace_def
  by (rule speaks_bind [OF speaks_mappings(1) [OF assms(1)]], rule talks_return, simp add: assms(2))
    (rule speaks_bind [OF speaks_mappings(2) [OF assms(1)]], rule talks_return, simp add: assms(2))

lemma talks_finish_clone:
  assumes "client_of dsm \<in> K" "undoes K rb"
  shows "talks K (finish_lun_clone env dsm spec rb) (\<lambda>out. undoes K (fst out))"
    "talks K (finish_namespace_clone env dsm spec rb) (\<lambda>out. undoes K (fst out))"
  unfolding finish_lun_clone_def finish_namespace_clone_def
  by ((rule talks_map_volume [OF assms] talk_steps assms(1) talk_rules | simp add: assms(2))+)

lemma speaks_create_volumes [talk_rules]:
  assumes "client_of dsm \<in> K"
  shows "speaks K (createVolumeByDsm env dsm spec)" "speaks K (createVolumeBySnapshot env dsm spec snap)"
    "speaks K (createVolumeByVolume env dsm spec lun)"
  unfolding createVolumeByDsm_def createVolumeBySnapshot_def createVolumeByVolume_def
  by ((rule talks_map_volume [OF assms] talks_finish_clone [OF assms] creation_steps assms
      talks_range_attribs talk_rules TrueI | assumption | simp only: undoes_simps fst_conv)+)

lemma speaks_create_namespaces [talk_rules]:
  assumes "client_of dsm \<in> K"
  shows "speaks K (createNVMeVolumeByDsm env dsm spec)" "speaks K (createNVMeVolumeBySnapshot env dsm spec snap)"
    "speaks K (createNVMeVolumeByVolume env dsm spec ns)"
  unfolding createNVMeVolumeByDsm_def createNVMeVolumeBySnapshot_def createNVMeVolumeByVolume_def
  by ((rule talks_map_volume [OF assms] talks_finish_clone [OF assms] creation_steps assms
      talk_rules TrueI | assumption | simp only: undoes_simps fst_conv)+)

lemma speaks_create_shares [talk_rules]:
  assumes "client_of dsm \<in> K"
  shows "speaks K (createSMBorNFSVolumeByDsm env dsm spec)" "speaks K (createSMBorNFSVolumeBySnapshot env dsm spec snap)"
    "speaks K (createSMBorNFSVolumeByVolume env dsm spec share)"
  unfolding createSMBorNFSVolumeByDsm_def createSMBorNFSVolumeBySnapshot_def createSMBorNFSVolumeByVolume_def
  by ((rule creation_steps assms talk_rules TrueI | assumption | simp only: undoes_simps fst_conv)+)

subsection \<open>The service\<close>

lemma speaks_service_parts [talk_rules]:
  assumes "client_of dsm \<in> K"
  shows "speaks K (isNfsVersionSupport env dsm v)" "speaks K (expand_found env dsm u n vol)"
    "speaks K (snapshot_lun env dsm sspec)" "speaks K (snapshot_share env dsm sspec vol)"
    "speaks K (snapshot_namespace env dsm sspec)"
  unfolding isNfsVersionSupport_def expand_found_def snapshot_lun_def snapshot_share_def snapshot_namespace_def
  by ((rule talk_steps assms talk_rules TrueI)+)

lemma speaks_delete_or_gone:
  "speaks K del \<Longrightarrow> speaks K get \<Longrightarrow> speaks K rest \<Longrightarrow> speaks K (delete_or_gone del get gone rest)"
  unfolding delete_or_gone_def by (rule talk_steps TrueI | assumption)+

lemma speaks_delete_found [talk_rules]:
  assumes "client_of dsm \<in> K"
  shows "speaks K (delete_found env dsm vol)" "speaks K (delete_found_snapshot env dsm u snap)"
  unfolding delete_found_def delete_lun_def delete_namespace_def delete_found_snapshot_def
  by ((rule speaks_delete_or_gone talk_steps assms talk_rules TrueI)+)

lemma speaks_try_dsm [talk_rules]:
  assumes "client_of dsm \<in> K"
  shows "speaks K (try_dsm env dsm spec)"
  unfolding try_dsm_def create_on_dsm_def by ((rule talk_steps assms talk_rules TrueI)+)

lemma speaks_service [talk_rules]:
  "speaks K (create_by_volume env spec)" "speaks K (create_by_snapshot env spec)"
  "speaks K (ListDsmVolumes env ip)" "speaks K (DeleteVolume env u)" "speaks K (ExpandVolume env u n)"
  "speaks K (CreateSnapshot env sspec)" "speaks K (DeleteSnapshot env u)"
  unfolding create_by_volume_def create_by_snapshot_def ListDsmVolumes_def DeleteVolume_def ExpandVolume_def
    CreateSnapshot_def DeleteSnapshot_def
  by ((rule talk_steps talk_rules TrueI | assumption | erule (1) amongD)+)

lemma speaks_CreateVolume [talk_rules]: "speaks K (CreateVolume env spec)"
  unfolding CreateVolume_def by ((rule talk_steps talk_rules TrueI | assumption | erule (1) amongD)+)

subsection \<open>The controller service\<close>

lemma speaks_controller [talk_rules]:
  "speaks K (cs_CreateVolume env d req)" "speaks K (cs_DeleteVolume env d u)"
  "speaks K (ValidateVolumeCapabilities env d u caps)" "speaks K (cs_ListVolumes env d i u)"
  "speaks K (GetCapacity env d ps)" "speaks K (cs_CreateSnapshot env d u u' ps)" "speaks K (cs_DeleteSnapshot env d u)"
  "speaks K (cs_ListSnapshots env d u u' i tok)" "speaks K (ControllerExpandVolume env d u r)"
  unfolding cs_defs controller_sel DsmService_sel no_error_def not_nil_def
  by ((rule talk_steps talk_rules TrueI)+)

end
