(* ===== verification/NodeTalking.thy ===== *)
theory NodeTalking
  imports Talking Handlers
begin

text \<open>
  The handlers of the node service as sequences of the steps of \<open>talk\<close>: what they do to the
  node is a change of the outside world, what they ask the service is what the controller
  asks it.
\<close>

abbreviation node_talks :: "ClientInfo set \<Rightarrow> ('n node, 'a) prog \<Rightarrow> ('a \<Rightarrow> bool) \<Rightarrow> bool" where
  "node_talks \<equiv> talks_in dsm_world"

abbreviation node_speaks :: "ClientInfo set \<Rightarrow> ('n node, 'a) prog \<Rightarrow> bool" where
  "node_speaks K m \<equiv> node_talks K m (\<lambda>_. True)"

named_theorems node_rules \<open>node programs as sequences of steps\<close>

lemma node_speaks_act [node_rules]: "node_speaks K (act f ev)"
  by (auto simp: talks_in_def act_def case_prod_beta intro!: r_into_rtranclp talk.outside)

lemma node_talks_service: "talks K m Q \<Longrightarrow> node_talks K (service m) Q"
  by (auto simp: talks_in_def service_def case_prod_beta)

lemma node_speaks_service [node_rules]: "speaks K m \<Longrightarrow> node_speaks K (service m)"
  by (rule node_talks_service)

lemma node_talks_mount_check:
  "(\<And>b. node_talks K (f b) Q) \<Longrightarrow> node_talks K g Q \<Longrightarrow> node_talks K h Q \<Longrightarrow>
   node_talks K (case c of MountChecked b \<Rightarrow> f b | CheckNotExist \<Rightarrow> g | CheckFailed \<Rightarrow> h) Q"
  by (cases c) simp_all

lemma node_talks_stat:
  "node_talks K f Q \<Longrightarrow> node_talks K g Q \<Longrightarrow> node_talks K h Q \<Longrightarrow>
   node_talks K (case c of StatOk \<Rightarrow> f | StatNotExist \<Rightarrow> g | StatFailed \<Rightarrow> h) Q"
  by (cases c) simp_all

lemma node_talks_mount_error: "(\<And>p t. node_talks K (f p t) Q) \<Longrightarrow> node_talks K (case e of MountError p t \<Rightarrow> f p t) Q"
  by (cases e) simp_all

lemma node_speaks_try_or:
  "node_speaks K m \<Longrightarrow> (\<And>x. node_speaks K (k x)) \<Longrightarrow> node_speaks K (try_or h m k)"
  unfolding try_or_def by (intro speaks_bind talks_case_sum talks_return TrueI)

lemma node_speaks_check_or: "node_speaks K m \<Longrightarrow> node_speaks K k \<Longrightarrow> node_speaks K (check_or h m k)"
  unfolding check_or_def by (intro speaks_bind talks_case_option talks_return TrueI)

lemma node_speaks_fail: "node_speaks K (fail c)"
  unfolding fail_def by (intro talks_return TrueI)

lemma node_speaks_mount_failed: "node_speaks K m \<Longrightarrow> node_speaks K (mount_failed m)"
  unfolding mount_failed_def by (intro speaks_bind talks_return TrueI)

lemmas node_steps = node_speaks_try_or node_speaks_check_or node_speaks_fail node_speaks_mount_failed
  talks_get speaks_bind talks_control node_talks_mount_check node_talks_stat node_talks_mount_error
  talks_return TrueI

subsection \<open>Devices\<close>

lemma node_speaks_run [node_rules]:
  "node_speaks K (run_command host ex c as)" "node_speaks K (run_command_timeout host ex c as n)"
  unfolding run_command_def run_command_timeout_def by ((rule node_steps node_rules)+)

lemma node_speaks_checked [node_rules]:
  "node_speaks K (run_checked host ex c as)" "node_speaks K (execWithTimeout host ex c as n)"
  "node_speaks K (iscsiadm_session host ex)" "node_speaks K (multipathd_is_running host ex)"
  "node_speaks K (readTrimFile host u)" "node_speaks K (fsyncDevice host u)"
  unfolding run_checked_def execWithTimeout_def iscsiadm_session_def multipathd_is_running_def
    readTrimFile_def fsyncDevice_def
  by ((rule node_steps node_rules)+)

lemma node_speaks_iscsiadm [node_rules]:
  "node_speaks K (iscsiadm_discovery host ex u)" "node_speaks K (iscsiadm_login host ex u u')"
  "node_speaks K (iscsiadm_update_node_startup host ex u u')" "node_speaks K (iscsiadm_logout host ex u)"
  "node_speaks K (iscsiadm_delete_node host ex u u')" "node_speaks K (blockdev_flushbufs host ex u)"
  "node_speaks K (iscsiadm_rescan host ex u)" "node_speaks K (hasSession host ex u u')"
  "node_speaks K (listSessionsByIqn host ex u)" "node_speaks K (IsMultipathEnabled host ex b)"
  "node_speaks K (multipath_resize host ex u)" "node_speaks K (multipath_flush host ex u)"
  "node_speaks K (nvmeConnect host ex u i u' q h)" "node_speaks K (nvmeDisconnect host ex u)"
  "node_speaks K (lsblk host us b)"
  unfolding iscsiadm_discovery_def iscsiadm_login_def iscsiadm_update_node_startup_def iscsiadm_logout_def
    iscsiadm_delete_node_def blockdev_flushbufs_def iscsiadm_rescan_def hasSession_def listSessionsByIqn_def
    IsMultipathEnabled_def multipath_resize_def multipath_flush_def nvmeConnect_def nvmeDisconnect_def lsblk_def
  by ((rule node_steps node_rules)+)

lemma node_speaks_initiator [node_rules]:
  "node_speaks K (initiator_login host ex u u')" "node_speaks K (initiator_logout host ex u u')"
  "node_speaks K (initiator_rescan host ex u)"
  unfolding initiator_login_def initiator_logout_def initiator_rescan_def
  by ((rule node_steps node_rules)+)

lemma node_speaks_verify_disk [node_rules]: "node_speaks K (verify_disk host u i sys name)"
  unfolding verify_disk_def by ((rule node_steps node_rules)+)

lemma node_speaks_verify_disks [node_rules]: "node_speaks K (verify_disks host u i sys names)"
  by (induction names) (simp_all only: verify_disks.simps, (rule node_steps node_rules | assumption)+)

lemma node_speaks_verify [node_rules]: "node_speaks K (verifyIscsiDevice host dev u i sys)"
  unfolding verifyIscsiDevice_def by ((rule node_steps node_rules)+)

lemma node_speaks_list_namespaces [node_rules]: "node_speaks K (list_namespaces host p q names)"
  by (induction names) (simp_all only: list_namespaces.simps, (rule node_steps node_rules | assumption)+)

lemma node_speaks_list_subsystems [node_rules]: "node_speaks K (list_subsystems host q ds)"
  by (induction ds) (simp_all only: list_subsystems.simps, (rule node_steps node_rules | assumption)+)

lemma node_speaks_find_session [node_rules]: "node_speaks K (find_session host ip port tr nqn ds)"
  by (induction ds) (simp_all only: find_session.simps Let_def, (rule node_steps node_rules | assumption)+)

lemma node_speaks_sysfs [node_rules]:
  "node_speaks K (listNamespacesFromSysfs host q)" "node_speaks K (hasNVMeSession host ip port tr nqn)"
  unfolding listNamespacesFromSysfs_def hasNVMeSession_def by ((rule node_steps node_rules)+)

subsection \<open>Node\<close>

lemma node_speaks_wait_path [node_rules]: "node_speaks K (wait_path host u n)"
  by (induction n) (simp_all only: wait_path.simps, (rule node_steps node_rules | assumption)+)

lemma node_speaks_poll [node_rules]: "node_speaks K (poll_namespaces host q n)"
proof (induction n)
  case 0
  show ?case by (subst poll_namespaces.simps) (simp only: nat.case, (rule node_steps node_rules)+)
next
  case (Suc n)
  then show ?case by (subst poll_namespaces.simps) (simp only: nat.case, (rule node_steps node_rules | assumption)+)
qed

lemma node_speaks_paths [node_rules]:
  "node_speaks K (waitForDevicePathToExist host u)" "node_speaks K (chmodIfPermissionMismatch host u mode)"
  "node_speaks K (createTargetMountPathNFS host u mode)" "node_speaks K (createTargetMountPath host u b)"
  "node_speaks K (LookupIPv4 host u)" "node_speaks K (CheckIpReachable host u i)"
  unfolding waitForDevicePathToExist_def chmodIfPermissionMismatch_def createTargetMountPathNFS_def
    createTargetMountPath_def LookupIPv4_def CheckIpReachable_def
  by ((rule node_steps node_rules)+)

lemma node_speaks_mount_paths [node_rules]:
  "node_speaks K (getVolumeMountPath host us)" "node_speaks K (getExistedVolumeMountPath host ex u i)"
  "node_speaks K (getExistedNvmeDevPath host u u')"
  unfolding getExistedVolumeMountPath_def getExistedNvmeDevPath_def getVolumeMountPath_def Let_def
  by ((rule node_steps node_rules)+)

lemma node_speaks_reachable_interface [node_rules]: "node_speaks K (reachable_interface host port ip ifs)"
  by (induction ifs) (simp_all only: reachable_interface.simps, (rule node_steps node_rules | assumption)+)

lemma node_speaks_nearest_interface [node_rules]: "node_speaks K (nearest_interface host port n ip ifs)"
  by (induction n arbitrary: ip)
    (simp_all only: nearest_interface.simps Let_def, (rule node_steps node_rules | assumption)+)

lemma node_speaks_set_controller [node_rules]: "node_speaks K (set_controller dsm letter)"
  by (auto simp: talks_in_def set_controller_def Let_def intro!: r_into_rtranclp talk.mark)

lemma node_speaks_GetAnotherController [node_rules]:
  "client_of dsm \<in> K \<Longrightarrow> node_speaks K (GetAnotherController env host dsm)"
  unfolding GetAnotherController_def
  by ((rule node_steps node_rules talk_rules | assumption)+)

lemma node_speaks_getPortals [node_rules]: "node_speaks K (getPortals env host ex b ip)"
  unfolding getPortals_def
  by (rule talks_bind [OF node_talks_service [OF talks_GetDsm]])
    (auto split: sum.splits intro!: node_steps node_rules)

lemma node_speaks_login_portals [node_rules]: "node_speaks K (login_portals host ex iqn lun ps)"
  by (induction ps) (simp_all only: login_portals.simps, (rule node_steps node_rules | assumption)+)

lemma node_speaks_sessions [node_rules]:
  "node_speaks K (loginNVMeSubsystem env host ex u)" "node_speaks K (logoutNVMeSubsystem host ex u)"
  "node_speaks K (loginTarget env host ex b u)" "node_speaks K (logoutTarget host ex b vol)"
  unfolding loginNVMeSubsystem_def logoutNVMeSubsystem_def loginTarget_def logoutTarget_def
  by ((rule node_steps node_rules talk_rules)+)

subsection \<open>Handlers\<close>

lemma node_speaks_mount_retry [node_rules]: "node_speaks K (mountSensitiveWithRetry host u u' u'' us us')"
  unfolding mountSensitiveWithRetry_def
  by ((rule speaks_retry_n node_steps node_rules)+)

lemma speaks_access [talk_rules]:
  "speaks K (setNFSVolumePrivilege env u us auth b)" "speaks K (setSMBVolumePermission env u u' auth)"
  unfolding setNFSVolumePrivilege_def setSMBVolumePermission_def
  by ((rule talk_steps talk_rules TrueI | assumption)+)

lemma node_speaks_stage_parts [node_rules]:
  "node_speaks K (getNodeAddress host)" "node_speaks K (growFilesystemIfNeeded host u u')"
  "node_speaks K (stage_device host spec u)" "node_speaks K (iscsi_device env host ex b u)"
  "node_speaks K (nvme_device env host ex u)"
  unfolding stage_device_def growFilesystemIfNeeded_def getNodeAddress_def iscsi_device_def nvme_device_def
  by ((rule node_steps node_rules)+)

lemma node_speaks_stage [node_rules]:
  "node_speaks K (nodeStageISCSIVolume env host ex b spec)" "node_speaks K (nodeStageNVMeVolume env host ex spec)"
  "node_speaks K (nodeStageSMBVolume env host spec sec)" "node_speaks K (nodeStageNFSVolume env host spec)"
  unfolding nodeStageISCSIVolume_def nodeStageNVMeVolume_def nodeStageSMBVolume_def nodeStageNFSVolume_def
  by ((rule node_steps node_rules talk_rules)+)

lemma node_speaks_publish_parts [node_rules]:
  "node_speaks K (is_not_mount host u)" "node_speaks K (unmount_if host u b)"
  "node_speaks K (mount_nfs env host u u' u'' us)" "node_speaks K (bind_mount host req cap us u)"
  "node_speaks K (publish_nfs env host req cap)" "node_speaks K (expand_device host ex u vol)"
  unfolding publish_nfs_def is_not_mount_def unmount_if_def mount_nfs_def bind_mount_def expand_device_def Let_def
  by ((rule node_steps node_rules talk_rules)+)

lemma node_speaks_handlers [node_rules]:
  "node_speaks K (NodeStageVolume env host ex b sreq)" "node_speaks K (NodeUnstageVolume env host ex b u u')"
  "node_speaks K (NodePublishVolume env host ex b preq)" "node_speaks K (NodeUnpublishVolume host u u')"
  "node_speaks K (NodeGetVolumeStats env host u u')" "node_speaks K (NodeExpandVolume env host ex b u u' r cap)"
  unfolding NodeStageVolume_def NodeUnstageVolume_def NodePublishVolume_def NodeUnpublishVolume_def
    NodeGetVolumeStats_def NodeExpandVolume_def
  by ((rule node_steps node_rules talk_rules)+)

end
