(* ===== verification/Logger.thy ===== *)
theory Logger
  imports GoStd
begin

text \<open>
  The set-up of the log (\<^verbatim>\<open>pkg/logger/logger.go\<close>): the hook that adds the place of the call to each
  entry, and the level. The call stack and the parser of levels are parameters.
\<close>

subsection \<open>The place of a call\<close>

text \<open>The loop of \<^verbatim>\<open>getCaller\<close> from the end of the path: \<open>i\<close> is the index and \<open>n\<close> the number of
  separators seen. It stops before the first character.\<close>

fun shorten :: "string \<Rightarrow> nat \<Rightarrow> nat \<Rightarrow> string" where
  "shorten file 0 n = file"
| "shorten file (Suc i) n =
     (if file ! Suc i = CHR ''/'' then
        (if n + 1 \<ge> 2 then drop (Suc i + 1) file else shorten file i (n + 1))
      else shorten file i n)"

text \<open>\<open>frames\<close> is \<^verbatim>\<open>runtime.Caller\<close>: the file and the line of the frame that many levels up.\<close>

definition getCaller :: "(nat \<Rightarrow> (string \<times> int) option) \<Rightarrow> nat \<Rightarrow> string \<times> int" where
  "getCaller frames skip = (case frames skip of
     None \<Rightarrow> ('''', 0)
   | Some (file, line) \<Rightarrow> (shorten file (length file - 1) 0, line))"

fun find_caller :: "(nat \<Rightarrow> (string \<times> int) option) \<Rightarrow> nat \<Rightarrow> nat \<Rightarrow> string \<times> int \<Rightarrow> string \<times> int" where
  "find_caller frames skip 0 found = found"
| "find_caller frames skip (Suc tries) found =
     (let (file, line) = getCaller frames skip in
      if \<not> has_prefix file ''logrus'' then (file, line)
      else find_caller frames (skip + 1) tries (file, line))"

definition findCaller :: "(nat \<Rightarrow> (string \<times> int) option) \<Rightarrow> nat \<Rightarrow> string \<times> int" where
  "findCaller frames skip = find_caller frames skip 10 ('''', 0)"

record CallerHook =
  hook_FileNameAndLine :: string
  hook_Skip :: nat

definition NewCallerHook :: CallerHook where
  "NewCallerHook = \<lparr>hook_FileNameAndLine = ''filePath'', hook_Skip = 5\<rparr>"

text \<open>\<^verbatim>\<open>Fire\<close> on the data of an entry.\<close>

definition Fire :: "CallerHook \<Rightarrow> (nat \<Rightarrow> (string \<times> int) option) \<Rightarrow> (string \<rightharpoonup> string) \<Rightarrow> (string \<rightharpoonup> string)" where
  "Fire hook frames entry = (let (fileName, line) = findCaller frames (hook_Skip hook)
     in entry(hook_FileNameAndLine hook \<mapsto> fileName @ '':'' @ itoa line))"

subsection \<open>The level and the set-up\<close>

text \<open>The levels of the library: the one the code names, and the others.\<close>

datatype level = InfoLevel | OtherLevel int

definition DefaultLogLevel :: level where
  "DefaultLogLevel = InfoLevel"

record logger =
  lg_hooks :: "CallerHook list"
  lg_stdout :: bool
  lg_level :: level
  lg_nested_formatter :: bool

definition setLogLevel :: "(string \<Rightarrow> level option) \<Rightarrow> string \<Rightarrow> logger \<Rightarrow> logger" where
  "setLogLevel parse_level logLevel lg = (case parse_level logLevel of
     Some l \<Rightarrow> lg\<lparr>lg_level := l\<rparr>
   | None \<Rightarrow> lg\<lparr>lg_level := DefaultLogLevel\<rparr>)"

definition init_logger :: "(string \<Rightarrow> level option) \<Rightarrow> string \<Rightarrow> logger \<Rightarrow> logger" where
  "init_logger parse_level logLevel lg =
     (let lg = lg\<lparr>lg_hooks := lg_hooks lg @ [NewCallerHook]\<rparr>;
          lg = lg\<lparr>lg_stdout := True\<rparr>;
          lg = setLogLevel parse_level logLevel lg
      in lg\<lparr>lg_nested_formatter := True\<rparr>)"

subsection \<open>What is kept of a path\<close>

lemma shorten_skip:
  assumes "\<forall>j. i < j \<and> j \<le> k \<longrightarrow> file ! j \<noteq> CHR ''/''" "i \<le> k"
  shows "shorten file k n = shorten file i n"
  using assms by (induction k) (auto simp: le_Suc_eq)

lemma shorten_part:
  assumes "CHR ''/'' \<notin> set b" "file = a @ b @ c"
  shows "shorten file (length a + length b - 1) n = shorten file (length a - 1) n"
proof (rule shorten_skip, intro allI impI)
  fix j
  assume j: "length a - 1 < j \<and> j \<le> length a + length b - 1"
  then have "length a \<le> j" "j - length a < length b" by linarith+
  then have "file ! j = b ! (j - length a)" "b ! (j - length a) \<in> set b"
    by (simp_all add: assms(2) nth_append)
  with assms(1) show "file ! j \<noteq> CHR ''/''" by metis
qed simp

text \<open>The last two components of a path are kept, when something is before them.\<close>

lemma shorten_two:
  assumes "CHR ''/'' \<notin> set dir" "CHR ''/'' \<notin> set name" "root \<noteq> []"
  shows "shorten (root @ ''/'' @ dir @ ''/'' @ name) (length (root @ ''/'' @ dir @ ''/'' @ name) - 1) 0 = dir @ ''/'' @ name"
proof -
  define f where "f = root @ ''/'' @ dir @ ''/'' @ name"
  have sep: "f ! Suc (length root + length dir) = CHR ''/''" "f ! length root = CHR ''/''"
    by (simp_all add: f_def nth_append)
  obtain k where k: "length root = Suc k" using assms(3) by (cases root) auto
  have "shorten f (length f - 1) 0 = shorten f (Suc (length root + length dir)) 0"
    using shorten_part [OF assms(2), of f "root @ ''/'' @ dir @ ''/''" "[]" 0] by (simp add: f_def add.assoc del: shorten.simps)
  also have "\<dots> = shorten f (length root + length dir) 1" using sep(1) by (simp del: One_nat_def)
  also have "\<dots> = shorten f (length root) 1"
    using shorten_part [OF assms(1), of f "root @ ''/''" "''/'' @ name" 1] by (simp add: f_def add.assoc del: shorten.simps)
  also have "\<dots> = drop (Suc (length root)) f" using sep(2) by (simp add: k)
  finally show ?thesis by (simp add: f_def)
qed

text \<open>The call is that of the first frame outside the logging library, or of the tenth.\<close>

lemma find_caller_first:
  assumes "\<forall>j < k. has_prefix (fst (getCaller frames (skip + j))) ''logrus''"
    "\<not> has_prefix (fst (getCaller frames (skip + k))) ''logrus''" "k < tries"
  shows "find_caller frames skip tries found = getCaller frames (skip + k)"
  using assms
proof (induction k arbitrary: skip tries found)
  case 0
  then show ?case by (cases tries) (auto simp: case_prod_beta Let_def)
next
  case (Suc k)
  then obtain t where t: "tries = Suc t" by (cases tries) auto
  from Suc.prems(1) have "has_prefix (fst (getCaller frames skip)) ''logrus''"
    by (metis add.right_neutral zero_less_Suc)
  moreover have "find_caller frames (skip + 1) t (getCaller frames skip) = getCaller frames (skip + 1 + k)"
    using Suc.prems t by (intro Suc.IH) (auto dest: spec [of _ "Suc _"])
  ultimately show ?case by (simp add: t case_prod_beta Let_def)
qed

lemma findCaller_first:
  assumes "\<forall>j < k. \<exists>root dir name l. frames (skip + j) = Some (root @ ''/'' @ ''logrus'' @ dir @ ''/'' @ name, l) \<and>
      root \<noteq> [] \<and> CHR ''/'' \<notin> set dir \<and> CHR ''/'' \<notin> set name"
    and "frames (skip + k) = Some (root @ ''/'' @ dir @ ''/'' @ name, line)" "root \<noteq> []"
      "CHR ''/'' \<notin> set dir" "CHR ''/'' \<notin> set name" "\<not> has_prefix (dir @ ''/'' @ name) ''logrus''" "k < 10"
  shows "findCaller frames skip = (dir @ ''/'' @ name, line)"
proof -
  have found: "getCaller frames (skip + k) = (dir @ ''/'' @ name, line)"
    using assms(2) shorten_two [OF assms(4,5,3)] by (simp add: getCaller_def)
  have "has_prefix (fst (getCaller frames (skip + j))) ''logrus''" if "j < k" for j
  proof -
    from assms(1) that obtain r d n l where f: "frames (skip + j) = Some (r @ ''/'' @ (''logrus'' @ d) @ ''/'' @ n, l)"
      and r: "r \<noteq> []" "CHR ''/'' \<notin> set (''logrus'' @ d)" "CHR ''/'' \<notin> set n" by fastforce
    show ?thesis using f shorten_two [OF r(2,3,1)] by (simp add: getCaller_def has_prefix_iff)
  qed
  then show ?thesis
    unfolding findCaller_def using find_caller_first [of k frames skip 10] found assms(6,7) by simp
qed

end
