(* ===== verification/Startup.thy ===== *)
theory Startup
  imports Table Host Logger
begin

text \<open>
  The start of the driver: \<^verbatim>\<open>driverStart\<close> of \<^verbatim>\<open>main.go\<close>, \<^verbatim>\<open>LoadConfig\<close> of
  \<^verbatim>\<open>pkg/dsm/common/config.go\<close> and the address that \<^verbatim>\<open>grpc.go\<close> listens on. Reading a file, the YAML
  parser and what the servers do while they run are parameters. The storage systems that can
  be looked up afterwards are those of the configuration that could be logged in to.
\<close>

subsection \<open>The configuration\<close>

definition LoadConfig :: "(string \<Rightarrow> err + string) \<Rightarrow> (string \<Rightarrow> err + ClientInfo list) \<Rightarrow> string \<Rightarrow>
    err + ClientInfo list" where
  "LoadConfig read_file parse_yaml configPath = (case read_file configPath of
     Inl e \<Rightarrow> Inl e
   | Inr file \<Rightarrow> (case parse_yaml file of Inl e \<Rightarrow> Inl e | Inr clients \<Rightarrow> Inr clients))"

subsection \<open>driverStart\<close>

text \<open>The paths of the four tools, from the command line; an empty one means the search path.\<close>

definition cmdMap :: "string \<Rightarrow> string \<Rightarrow> string \<Rightarrow> string \<Rightarrow> (string \<times> string) list" where
  "cmdMap iscsiadmPath multipathPath multipathdPath nvmePath =
     [(''iscsiadm'', iscsiadmPath), (''multipath'', multipathPath),
      (''multipathd'', multipathdPath), (''nvme'', nvmePath)]"

definition add_dsms :: "'n env \<Rightarrow> ClientInfo list \<Rightarrow> ('n world, unit) prog" where
  "add_dsms env clients =
     for_each (\<lambda>client u. do { _ \<leftarrow> AddDsm env client; State_Monad.return () }) clients ()"

text \<open>How the process comes to its end: \<^verbatim>\<open>driverStart\<close> returns, or \<^verbatim>\<open>log.Fatal\<close> exits in the server's
  goroutine and runs no deferred call.\<close>

datatype ended_by = Fatal | Returned "err option"

text \<open>\<open>activate\<close> is what the servers do until the signal to stop arrives, with whether they live
  to see it; the logout is deferred.\<close>

definition driverStart :: "'n env \<Rightarrow> err + ClientInfo list \<Rightarrow> (string \<times> string) list \<Rightarrow> string \<Rightarrow> bool \<Rightarrow>
    string \<Rightarrow> string \<Rightarrow> (Driver \<Rightarrow> executor \<Rightarrow> ('n world, bool) prog) \<Rightarrow> ('n world, ended_by) prog" where
  "driverStart env config cmds dir is_dir csiNodeID csiEndpoint activate = (case config of
     Inl e \<Rightarrow> State_Monad.return (Returned (Some e))
   | Inr clients \<Rightarrow> do {
       _ \<leftarrow> add_dsms env clients;
       r \<leftarrow> (case new_executor cmds dir is_dir of
           Inl e \<Rightarrow> State_Monad.return (Returned (Some e))
         | Inr ex \<Rightarrow> do {
             alive \<leftarrow> activate (NewControllerAndNodeDriver csiNodeID csiEndpoint) ex;
             State_Monad.return (if alive then Returned None else Fatal) });
       case r of
         Fatal \<Rightarrow> State_Monad.return Fatal
       | Returned e \<Rightarrow> do { _ \<leftarrow> RemoveAllDsms env; State_Monad.return (Returned e) } })"

text \<open>The flags, \<^verbatim>\<open>RunE\<close> of the root command and the exit status of \<^verbatim>\<open>main\<close>. \<open>start\<close> is
  \<^verbatim>\<open>driverStart\<close> with the node, the endpoint, the path of the configuration, the directory and
  the paths of the tools.\<close>

record options =
  csiNodeID :: string
  csiEndpoint :: string
  csiClientInfoPath :: string
  logLevel :: string
  webapiDebug :: bool
  multipathForUC :: bool
  chrootDir :: string
  iscsiadmPath :: string
  multipathPath :: string
  multipathdPath :: string
  nvmePath :: string

definition default_options :: options where
  "default_options = \<lparr>csiNodeID = ''CSINode'', csiEndpoint = ''unix:///var/lib/kubelet/plugins/'' @ DriverName @ ''/csi.sock'',
     csiClientInfoPath = ''/etc/synology/client-info.yml'', logLevel = ''info'', webapiDebug = False,
     multipathForUC = True, chrootDir = '''', iscsiadmPath = '''', multipathPath = '''', multipathdPath = '''',
     nvmePath = ''''\<rparr>"

text \<open>The globals of the other packages that \<^verbatim>\<open>RunE\<close> sets: \<^verbatim>\<open>logger.WebapiDebug\<close>, the log and
  \<^verbatim>\<open>driver.MultipathEnabled\<close>.\<close>

record process_globals =
  WebapiDebug :: bool
  log_setup :: logger
  MultipathEnabled :: bool

definition RunE_setup :: "(string \<Rightarrow> level option) \<Rightarrow> options \<Rightarrow> process_globals \<Rightarrow> process_globals" where
  "RunE_setup parse_level opts g =
     (let level = (if webapiDebug opts then ''debug'' else logLevel opts);
          g = (if webapiDebug opts then g\<lparr>WebapiDebug := True\<rparr> else g);
          g = g\<lparr>log_setup := init_logger parse_level level (log_setup g)\<rparr>
      in if \<not> multipathForUC opts then g\<lparr>MultipathEnabled := False\<rparr> else g)"

definition RunE :: "'n env \<Rightarrow> (string \<Rightarrow> err + string) \<Rightarrow> (string \<Rightarrow> err + ClientInfo list) \<Rightarrow> (string \<Rightarrow> bool) \<Rightarrow>
    options \<Rightarrow> (Driver \<Rightarrow> executor \<Rightarrow> ('n world, bool) prog) \<Rightarrow> ('n world, ended_by) prog" where
  "RunE env read_file parse_yaml is_dir opts activate =
     driverStart env (LoadConfig read_file parse_yaml (csiClientInfoPath opts))
       (cmdMap (iscsiadmPath opts) (multipathPath opts) (multipathdPath opts) (nvmePath opts))
       (chrootDir opts) (is_dir (chrootDir opts)) (csiNodeID opts) (csiEndpoint opts) activate"

fun main_status :: "ended_by \<Rightarrow> int" where
  "main_status Fatal = 1"
| "main_status (Returned (Some e)) = 1"
| "main_status (Returned None) = 0"

text \<open>The clients that the loop registers or finds registered already: those without an error.\<close>

fun added :: "'n env \<Rightarrow> ClientInfo list \<Rightarrow> 'n world \<Rightarrow> ClientInfo list" where
  "added env [] w = []"
| "added env (client # clients) w =
     (let (r, w') = run_state (AddDsm env client) w in
      if r = None then client # added env clients w' else added env clients w')"

lemma add_dsms_registry:
  "registry (dsms (after (add_dsms env clients) w)) = fold register (added env clients w) (registry (dsms w))"
proof (induction clients arbitrary: w)
  case Nil
  show ?case by (simp add: add_dsms_def)
next
  case (Cons client clients)
  have "after (add_dsms env (client # clients)) w = after (add_dsms env clients) (after (AddDsm env client) w)"
    by (simp add: add_dsms_def case_prod_beta)
  with Cons AddDsm_registry [of env client w] show ?case by (simp add: case_prod_beta Let_def)
qed

lemma fold_register:
  "fold register cs m ip = (case m ip of Some c \<Rightarrow> Some c | None \<Rightarrow> find (\<lambda>c. cl_Host c = ip) cs)"
  by (induction cs arbitrary: m) (auto simp: register_def split: option.splits)

text \<open>After the loop of \<^verbatim>\<open>driverStart\<close>, looking an address up finds the first entry of the
  configuration that names it and that could be added; entries that failed are skipped and do
  not keep a later entry of the same address out.\<close>

theorem startup_registry:
  "registry (dsms (after (add_dsms env clients) (w\<lparr>dsms := []\<rparr>))) ip =
     find (\<lambda>c. cl_Host c = ip) (added env clients (w\<lparr>dsms := []\<rparr>))"
  by (simp add: add_dsms_registry fold_register registry_def)

subsection \<open>The endpoint\<close>

text \<open>\<^verbatim>\<open>serve\<close> of \<^verbatim>\<open>grpc.go\<close> up to the listener: the files it removed, and the network and the address
  it listens on, or \<^verbatim>\<open>log.Fatal\<close>. \<open>remove\<close> is \<^verbatim>\<open>os.Remove\<close> and \<open>can_listen\<close> whether
  \<^verbatim>\<open>net.Listen\<close> works.\<close>

datatype removal = RemovalDone | RemovalNotExist | RemovalFailed

definition serve_listen :: "(string \<Rightarrow> removal) \<Rightarrow> (string \<Rightarrow> string \<Rightarrow> bool) \<Rightarrow> string \<Rightarrow>
    string list \<times> (string \<times> string) option" where
  "serve_listen remove can_listen endpoint = (case ParseEndpoint endpoint of
     Inl e \<Rightarrow> ([], None)
   | Inr (proto, addr) \<Rightarrow>
       (let addr = (if proto = ''unix'' then ''/'' @ addr else addr);
            removed = (if proto = ''unix'' \<and> remove addr = RemovalDone then [addr] else [])
        in if proto = ''unix'' \<and> remove addr = RemovalFailed then (removed, None)
           else if \<not> can_listen proto addr then (removed, None)
           else (removed, Some (proto, addr))))"

text \<open>\<^verbatim>\<open>Activate\<close>: the node server needs a Kubernetes client of the cluster, then the servers
  listen and answer requests; \<open>answer\<close> is what they do with them.\<close>

definition Activate :: "err + 'k \<Rightarrow> (string \<Rightarrow> removal) \<Rightarrow> (string \<Rightarrow> string \<Rightarrow> bool) \<Rightarrow>
    ('k \<Rightarrow> executor \<Rightarrow> Driver \<Rightarrow> ('n world, bool) prog) \<Rightarrow> Driver \<Rightarrow> executor \<Rightarrow> ('n world, bool) prog" where
  "Activate getK8sClient remove can_listen answer d ex = (case getK8sClient of
     Inl e \<Rightarrow> State_Monad.return False
   | Inr client \<Rightarrow> (case snd (serve_listen remove can_listen (dr_endpoint d)) of
         None \<Rightarrow> State_Monad.return False
       | Some l \<Rightarrow> answer client ex d))"

lemma cut_at_Some: "cut_at sep s = Some (a, b) \<Longrightarrow> s = a @ sep @ b"
proof (induction sep s arbitrary: a rule: cut_at.induct)
  case (2 sep c s)
  then show ?case
    by (cases "has_prefix (c # s) sep") (auto simp: has_prefix_iff)
qed (auto split: if_splits)

lemma cut_at_None: "cut_at sep s = None \<Longrightarrow> \<not> str_contains s sep"
  by (induction sep s rule: cut_at.induct) (auto split: if_splits)

lemma lower_char_keeps:
  assumes "lower_char c = d" "of_char d < (65 :: nat)"
  shows "c = d"
proof (rule ccontr)
  assume "c \<noteq> d"
  with assms(1) have n: "65 \<le> (of_char c :: nat)" "(of_char c :: nat) \<le> 90" "d = char_of (of_char c + 32 :: nat)"
    by (auto simp: lower_char_def Let_def split: if_splits)
  then have "of_char d = (of_char c + 32 :: nat)" by (simp add: n(3))
  with n(1) assms(2) show False by simp
qed

lemma map_append_split:
  assumes "map f xs = ys @ zs"
  obtains us vs where "xs = us @ vs" "map f us = ys" "map f vs = zs"
  using assms map_eq_append_conv by metis

lemma lower_separator: "map lower_char s = ''://'' \<Longrightarrow> s = ''://''"
proof -
  assume "map lower_char s = ''://''"
  then obtain a b c where s: "s = [a, b, c]" "lower_char a = CHR '':''" "lower_char b = CHR ''/''" "lower_char c = CHR ''/''"
    by (auto simp: map_eq_Cons_conv)
  then show ?thesis using lower_char_keeps [OF s(2)] lower_char_keeps [OF s(3)] lower_char_keeps [OF s(4)] by simp
qed

text \<open>An endpoint is accepted with a scheme and an address that put it together again; nothing
  panics, because the accepted prefixes hold the separator.\<close>

lemma ParseEndpoint_sound:
  "case ParseEndpoint ep of
     Inl e \<Rightarrow> e = FmtError ''Invalid endpoint: %v''
   | Inr (proto, addr) \<Rightarrow> ep = proto @ ''://'' @ addr \<and> addr \<noteq> ''''"
proof (cases "cut_at ''://'' ep")
  case None
  have "\<not> has_prefix (to_lower ep) (p @ ''://'')" for p
  proof
    assume "has_prefix (to_lower ep) (p @ ''://'')"
    then obtain t where "map lower_char ep = p @ ''://'' @ t" by (auto simp: has_prefix_iff to_lower_def)
    then obtain a u where ep: "ep = a @ u" and u: "map lower_char u = ''://'' @ t"
      by (rule map_append_split)
    obtain b c where "u = b @ c" "map lower_char b = ''://''" using u by (rule map_append_split)
    then have "ep = a @ ''://'' @ c" using ep lower_separator by simp
    then have "str_contains ep ''://''" unfolding str_contains_iff by blast
    with cut_at_None [OF None] show False by blast
  qed
  from this [of "''unix''"] this [of "''tcp''"] show ?thesis by (simp add: ParseEndpoint_def)
next
  case (Some p)
  then show ?thesis by (auto simp: ParseEndpoint_def dest: cut_at_Some split: prod.split)
qed

text \<open>The only file that is removed is the socket that is then listened on; the address of a unix
  socket is absolute.\<close>

lemma serve_listen_removes:
  "serve_listen remove can_listen endpoint = (removed, l) \<Longrightarrow> set removed \<noteq> {} \<Longrightarrow>
   \<exists>addr. removed = [''/'' @ addr] \<and> ParseEndpoint endpoint = Inr (''unix'', addr) \<and>
     (l = None \<or> l = Some (''unix'', ''/'' @ addr))"
  by (auto simp: serve_listen_def Let_def split: sum.splits prod.splits if_splits)

lemma serve_listen_default:
  assumes "remove ''//var/lib/kubelet/plugins/csi.san.synology.com/csi.sock'' \<noteq> RemovalFailed"
    "can_listen ''unix'' ''//var/lib/kubelet/plugins/csi.san.synology.com/csi.sock''"
  shows "snd (serve_listen remove can_listen (csiEndpoint default_options)) =
    Some (''unix'', ''//var/lib/kubelet/plugins/csi.san.synology.com/csi.sock'')"
proof -
  have "ParseEndpoint (csiEndpoint default_options) = Inr (''unix'', ''/var/lib/kubelet/plugins/csi.san.synology.com/csi.sock'')"
    by (simp add: default_options_def DriverName_def) code_simp
  with assms show ?thesis by (simp add: serve_listen_def Let_def)
qed

text \<open>A scheme is accepted in any case, but only the lower case one is a unix socket: the others
  are refused by the network.\<close>

lemma serve_listen_scheme:
  assumes "\<And>p a. can_listen p a \<Longrightarrow> p = ''unix'' \<or> p = ''tcp''"
    and "ParseEndpoint endpoint = Inr (proto, addr)" "proto \<noteq> ''unix''" "proto \<noteq> ''tcp''"
  shows "serve_listen remove can_listen endpoint = ([], None)"
  using assms by (auto simp: serve_listen_def Let_def)

subsection \<open>The end of the process\<close>

text \<open>When \<^verbatim>\<open>driverStart\<close> returns, it has logged out or had nothing to log out of; only
  \<^verbatim>\<open>log.Fatal\<close> leaves the sessions.\<close>

lemma RemoveAllDsms_settings: "registry (dsms (after (RemoveAllDsms env) w)) = registry (dsms w)"
  by (simp add: keeps_table [OF RemoveAllDsms_emits])

lemma driverStart_returns:
  assumes "run_state (driverStart env (Inr clients) cmds dir is_dir n ep activate) w = (Returned e, w')"
  shows "\<exists>v. w' = after (RemoveAllDsms env) v"
  using assms by (auto simp: driverStart_def case_prod_beta prod_eq_iff split: sum.splits ended_by.splits if_splits)

lemma driverStart_unreadable:
  "run_state (driverStart env (Inl e) cmds dir is_dir n ep activate) w = (Returned (Some e), w)"
  by (simp add: driverStart_def)

end
