(* ===== verification/Process.thy ===== *)
theory Process
  imports NodeTalking Startup
begin

text \<open>
  The driver as a process: it registers the storage systems of its configuration one after the
  other, serves requests, and logs out. While it serves, the handlers of any requests do their
  steps in any order. What holds in every state that can be reached: every session id it sends
  was issued by the storage system it is sent to, every request and every password goes to
  a storage system of the configuration it belongs to, and the table is that of the
  configuration.
\<close>

subsection \<open>Requests\<close>

text \<open>The requests of the three CSI services that \<^verbatim>\<open>serve\<close> of \<^verbatim>\<open>grpc.go\<close> registers, those that
  only answer from the driver's own constants left out.\<close>

datatype csi_request =
    RqCreateVolume CreateVolumeRequest
  | RqDeleteVolume string
  | RqValidateVolumeCapabilities string "VolumeCapability list option"
  | RqListVolumes int string
  | RqGetCapacity "string \<rightharpoonup> string"
  | RqCreateSnapshot string string "string \<rightharpoonup> string"
  | RqDeleteSnapshot string
  | RqListSnapshots string string int string
  | RqControllerExpandVolume string "CapacityRange option"
  | RqNodeStageVolume NodeStageRequest
  | RqNodeUnstageVolume string string
  | RqNodePublishVolume NodePublishRequest
  | RqNodeUnpublishVolume string string
  | RqNodeGetVolumeStats string string
  | RqNodeExpandVolume string string "CapacityRange option" "VolumeCapability option"

definition discard :: "('s, 'a) prog \<Rightarrow> ('s, unit) prog" where
  "discard m = do { _ \<leftarrow> m; State_Monad.return () }"

fun handle :: "'n env \<Rightarrow> 'n host \<Rightarrow> executor \<Rightarrow> bool \<Rightarrow> Driver \<Rightarrow> csi_request \<Rightarrow> ('n node, unit) prog" where
  "handle env host ex multipath d (RqCreateVolume req) = discard (service (cs_CreateVolume env d req))"
| "handle env host ex multipath d (RqDeleteVolume u) = discard (service (cs_DeleteVolume env d u))"
| "handle env host ex multipath d (RqValidateVolumeCapabilities u caps) =
     discard (service (ValidateVolumeCapabilities env d u caps))"
| "handle env host ex multipath d (RqListVolumes n token) = discard (service (cs_ListVolumes env d n token))"
| "handle env host ex multipath d (RqGetCapacity params) = discard (service (GetCapacity env d params))"
| "handle env host ex multipath d (RqCreateSnapshot u name params) =
     discard (service (cs_CreateSnapshot env d u name params))"
| "handle env host ex multipath d (RqDeleteSnapshot u) = discard (service (cs_DeleteSnapshot env d u))"
| "handle env host ex multipath d (RqListSnapshots u s n token) =
     discard (service (cs_ListSnapshots env d u s n token))"
| "handle env host ex multipath d (RqControllerExpandVolume u rg) =
     discard (service (ControllerExpandVolume env d u rg))"
| "handle env host ex multipath d (RqNodeStageVolume req) = discard (NodeStageVolume env host ex multipath req)"
| "handle env host ex multipath d (RqNodeUnstageVolume u path) =
     discard (NodeUnstageVolume env host ex multipath u path)"
| "handle env host ex multipath d (RqNodePublishVolume req) = discard (NodePublishVolume env host ex multipath req)"
| "handle env host ex multipath d (RqNodeUnpublishVolume u path) = discard (NodeUnpublishVolume host u path)"
| "handle env host ex multipath d (RqNodeGetVolumeStats u path) = discard (NodeGetVolumeStats env host u path)"
| "handle env host ex multipath d (RqNodeExpandVolume u path rg cap) =
     discard (NodeExpandVolume env host ex multipath u path rg cap)"

text \<open>The entries of the configuration that are in the table.\<close>

definition served :: "'n world \<Rightarrow> ClientInfo set" where
  "served w = snd ` set (settings w)"

lemma node_speaks_discard: "node_speaks K m \<Longrightarrow> node_speaks K (discard m)"
  unfolding discard_def by (intro speaks_bind talks_return TrueI)

lemma node_speaks_handle: "node_speaks K (handle env host ex multipath d req)"
  by (cases req) (simp_all only: handle.simps, (rule node_speaks_discard node_rules talk_rules)+)

text \<open>C17: Whatever a request asks for and whatever the storage systems and the node answer, its
  handler changes the state the handlers share only by the steps of \<open>talk\<close>, addressed to
  storage systems of the table: requests with the session id kept for their host, logins with
  the credentials configured for it, the adoption of a session id that such a login was
  answered with. The table keeps its addresses and settings.\<close>

theorem handlers_refine_talk:
  "talks_to (served (dsm_world s)) (dsm_world s) (dsm_world (after (handle env host ex multipath d req) s)) \<and>
   settings (dsm_world (after (handle env host ex multipath d req) s)) = settings (dsm_world s)"
proof -
  have "talks_to (served (dsm_world s)) (dsm_world s) (dsm_world (after (handle env host ex multipath d req) s))"
    by (rule talksD [OF node_speaks_handle]) (simp add: known_def served_def)
  then show ?thesis using talks_settings by blast
qed

subsection \<open>The process\<close>

text \<open>\<^verbatim>\<open>driverStart\<close>: the entries that are still to be added, then serving, then stopped after the
  deferred \<^verbatim>\<open>RemoveAllDsms\<close>. The server itself is never stopped: handlers go on until the
  process exits.\<close>

datatype phase = Starting "ClientInfo list" | Serving | Stopped

inductive process :: "'n env \<Rightarrow> phase \<times> 'n world \<Rightarrow> phase \<times> 'n world \<Rightarrow> bool" for env where
  register: "process env (Starting (c # cs), w) (Starting cs, after (AddDsm env c) w)"
| serve: "process env (Starting [], w) (Serving, w)"
| work: "talk (served w) w w' \<Longrightarrow> process env (Serving, w) (Serving, w')"
| stop: "process env (Serving, w) (Stopped, after (RemoveAllDsms env) w)"
| late: "talk (served w) w w' \<Longrightarrow> process env (Stopped, w) (Stopped, w')"

inductive_cases processE: "process env x y"

abbreviation runs :: "'n env \<Rightarrow> phase \<times> 'n world \<Rightarrow> phase \<times> 'n world \<Rightarrow> bool" where
  "runs env \<equiv> (process env)\<^sup>*\<^sup>*"

definition fresh :: "'n \<Rightarrow> 'n world" where
  "fresh n = \<lparr>nas = n, dsms = [], sids = (\<lambda>_. []), calls = []\<rparr>"

definition reachable :: "'n env \<Rightarrow> ClientInfo list \<Rightarrow> phase \<Rightarrow> 'n world \<Rightarrow> bool" where
  "reachable env clients p w \<longleftrightarrow> (\<exists>n. runs env (Starting clients, fresh n) (p, w))"

lemma served_talks: "talks_to K w w' \<Longrightarrow> served w' = served w"
  by (simp add: served_def talks_settings)

lemma work_steps: "talks_to (served w) w w' \<Longrightarrow> runs env (Serving, w) (Serving, w')"
proof (induction rule: rtranclp_induct)
  case (step y z)
  then have "served y = served w" using served_talks by blast
  with step have "process env (Serving, y) (Serving, z)" by (auto intro: process.work)
  with step show ?case by (simp add: rtranclp.rtrancl_into_rtrancl)
qed simp

text \<open>A handler that runs alone is a run of the process.\<close>

lemma handler_runs:
  "runs env (Serving, dsm_world s) (Serving, dsm_world (after (handle env host ex multipath d req) s))"
  by (rule work_steps [OF talksD [OF node_speaks_handle]]) (simp add: known_def served_def)

subsection \<open>Invariants of the steps\<close>

text \<open>A session id that a login at the host was answered with.\<close>

definition token_of :: "call \<Rightarrow> string option" where
  "token_of c = reply_value False (dec_field ''sid'' dec_string) (c_reply c)"

definition issued :: "string \<Rightarrow> string \<Rightarrow> call list \<Rightarrow> bool" where
  "issued h sid cs \<longleftrightarrow> list_ex (\<lambda>c. c_host c = h \<and> is_login c \<and> token_of c = Some sid) cs"

text \<open>Every session id in a log was issued by the host it is sent to, before it is sent.\<close>

definition cookie_ok :: "call list \<Rightarrow> call \<Rightarrow> bool" where
  "cookie_ok seen c \<longleftrightarrow> (case c_cookie c of None \<Rightarrow> True | Some sid \<Rightarrow> issued (c_host c) sid seen)"

fun cookies_ok :: "call list \<Rightarrow> call list \<Rightarrow> bool" where
  "cookies_ok seen [] = True"
| "cookies_ok seen (c # cs) = (cookie_ok seen c \<and> cookies_ok (seen @ [c]) cs)"

definition sessions_ok :: "'n world \<Rightarrow> bool" where
  "sessions_ok w \<longleftrightarrow> cookies_ok [] (calls w) \<and> (\<forall>h. sids w h \<noteq> [] \<longrightarrow> issued h (sids w h) (calls w))"

text \<open>Every call goes to a host of the configuration, and a login takes its user and password
  from the entry of that host.\<close>

definition addressed :: "ClientInfo set \<Rightarrow> call \<Rightarrow> bool" where
  "addressed K c \<longleftrightarrow> (\<exists>client \<in> K. c_host c = cl_Host client \<and>
     (is_login c \<longrightarrow> c_query c = login_params (new_DSM client)))"

lemma issued_append: "issued h sid cs \<Longrightarrow> issued h sid (cs @ cs')"
  by (simp add: issued_def)

lemma cookies_ok_snoc: "cookies_ok seen (cs @ [c]) \<longleftrightarrow> cookies_ok seen cs \<and> cookie_ok (seen @ cs) c"
  by (induction cs arbitrary: seen) simp_all

lemma sessions_ok_call:
  assumes "sessions_ok w"
  shows "sessions_ok (with_call dsm path ps rp n w)"
  using assms unfolding sessions_ok_def with_call_def cookie_def
  by (simp add: cookies_ok_snoc cookie_ok_def issued_append)

lemma grants_issued: "grants dsm sid c \<Longrightarrow> c \<in> set cs \<Longrightarrow> issued (Ip dsm) sid cs"
  by (auto simp: grants_def issued_def token_of_def list_ex_iff intro!: bexI [of _ c])

lemma issued_Nil [simp]: "\<not> issued h sid []"
  by (simp add: issued_def)

lemma sessions_ok_sid:
  assumes "sessions_ok w" "sid = [] \<or> issued (Ip dsm) sid (calls w)"
  shows "sessions_ok (with_sid dsm sid w)"
  using assms by (auto simp: sessions_ok_def with_sid_def)

lemma talk_sessions: "talk K w w' \<Longrightarrow> sessions_ok w \<Longrightarrow> sessions_ok w'"
proof (induction rule: talk.induct)
  case (adopt dsm c w sid)
  with grants_issued show ?case by (blast intro: sessions_ok_sid)
qed (simp_all add: sessions_ok_call sessions_ok_sid, simp_all add: sessions_ok_def)

lemma login_params_client: "login_params (new_DSM (client_of dsm)) = login_params dsm"
  by (simp add: login_params_def new_DSM_def client_of_def)

lemma not_login_call: "not_login ps \<Longrightarrow> \<not> is_login (c\<lparr>c_query := ps\<rparr>)"
  by (simp add: not_login_def is_login_def c_method_def)

lemma talk_addressed: "talk K w w' \<Longrightarrow> list_all (addressed K) (calls w) \<Longrightarrow> list_all (addressed K) (calls w')"
proof (induction rule: talk.induct)
  case (request dsm ps w rp n)
  then show ?case
    by (auto simp: with_call_def addressed_def client_of_def not_login_def is_login_def c_method_def
        intro!: bexI [of _ "client_of dsm"])
next
  case (login dsm w rp n)
  then show ?case
    by (auto simp: with_call_def addressed_def login_params_client intro!: bexI [of _ "client_of dsm"])
      (simp add: client_of_def)
qed (auto simp: with_sid_def)

text \<open>What holds of the configuration \<open>C\<close> in every state.\<close>

definition process_ok :: "ClientInfo set \<Rightarrow> 'n world \<Rightarrow> bool" where
  "process_ok C w \<longleftrightarrow> sessions_ok w \<and> list_all (addressed C) (calls w) \<and>
     distinct (map fst (settings w)) \<and> (\<forall>(k, client) \<in> set (settings w). k = cl_Host client \<and> client \<in> C)"

lemma served_subset: "process_ok C w \<Longrightarrow> served w \<subseteq> C"
  by (auto simp: process_ok_def served_def)

lemma talks_process_ok: "talks_to C w w' \<Longrightarrow> process_ok C w \<Longrightarrow> process_ok C w'"
proof (induction rule: rtranclp_induct)
  case (step y z)
  then show ?case
    using talk_sessions [OF step(2)] talk_addressed [OF step(2)] talk_settings [OF step(2)]
    by (simp add: process_ok_def)
qed simp

subsection \<open>Registering and stopping\<close>

lemma speaks_FillSystemInfo:
  assumes "client_of dsm \<in> K"
  shows "speaks K (FillSystemInfo env dsm)"
proof -
  have same: "client_of (dsm\<lparr>SupportNvmeof := b\<rparr>) = client_of dsm"
    "client_of (dsm\<lparr>SupportNvmeof := b, Hostname := h\<rparr>) = client_of dsm" for b h
    by (simp_all add: client_of_def)
  show ?thesis unfolding FillSystemInfo_def Let_def
    by ((rule talk_steps talk_rules TrueI | simp add: same assms)+)
qed

lemma speaks_logout_tries:
  assumes "client_of dsm \<in> K"
  shows "speaks K (logout_tries n env dsm)"
  by (induction n) (simp_all only: logout_tries.simps, (rule talk_steps speaks_Logout TrueI assms | assumption)+)

lemma speaks_RemoveAllDsms: "speaks K (RemoveAllDsms env)"
  unfolding RemoveAllDsms_def
  by ((rule talk_steps speaks_logout_tries TrueI | erule (1) amongD)+)

text \<open>\<^verbatim>\<open>AddDsm\<close> does steps of \<open>talk\<close> with the new storage system, and then adds it or not.\<close>

lemma AddDsm_steps:
  assumes K: "client \<in> K" "known K w"
  shows "\<exists>v. talks_to K w v \<and> (after (AddDsm env client) w = v \<or>
    (\<exists>dsm. configured client dsm \<and> map_of (dsms w) (cl_Host client) = None \<and>
      after (AddDsm env client) w = v\<lparr>dsms := dsms v @ [(Ip dsm, dsm)]\<rparr>))"
proof (cases "map_of (dsms w) (cl_Host client)")
  case (Some d)
  then show ?thesis by (intro exI [of _ w]) (simp add: AddDsm_def)
next
  case None
  let ?d = "new_DSM client"
  let ?m = "do { _ \<leftarrow> set_sid ?d []; l \<leftarrow> Login env ?d;
    case l of Some e \<Rightarrow> State_Monad.return None
    | None \<Rightarrow> do { f \<leftarrow> FillSystemInfo env ?d;
        State_Monad.return (case f of Inl e \<Rightarrow> None | Inr d \<Rightarrow> Some d) } }"
  have "talks K ?m (\<lambda>_. True)"
    by ((rule talk_steps speaks_forget speaks_Login speaks_FillSystemInfo TrueI | simp add: K(1))+)
  then have talked: "talks_to K w (after ?m w)" using K(2) by (rule talksD)
  have same: "case result_of ?m w of
      None \<Rightarrow> after (AddDsm env client) w = after ?m w
    | Some d \<Rightarrow> configured client d \<and>
        after (AddDsm env client) w = (after ?m w)\<lparr>dsms := dsms (after ?m w) @ [(Ip d, d)]\<rparr>"
    using None FillSystemInfo_configured [of env client]
    by (auto simp: AddDsm_def Let_def case_prod_beta prod_eq_iff split: option.splits sum.splits prod.splits)
  show ?thesis
  proof (cases "result_of ?m w")
    case None
    with same talked show ?thesis by (intro exI [of _ "after ?m w"]) simp
  next
    case (Some d)
    with same talked \<open>map_of (dsms w) (cl_Host client) = None\<close> show ?thesis
      by (intro exI [of _ "after ?m w"]) auto
  qed
qed

lemma map_fst_settings: "map fst (settings w) = map fst (dsms w)"
  by (simp add: settings_def case_prod_beta)

lemma AddDsm_process_ok:
  assumes ok: "process_ok C w" and client: "client \<in> C"
  shows "process_ok C (after (AddDsm env client) w)"
proof -
  have "known C w" using served_subset [OF ok] by (simp add: known_def served_def)
  then obtain v where v: "talks_to C w v" and
    cases: "after (AddDsm env client) w = v \<or> (\<exists>dsm. configured client dsm \<and> map_of (dsms w) (cl_Host client) = None \<and>
      after (AddDsm env client) w = v\<lparr>dsms := dsms v @ [(Ip dsm, dsm)]\<rparr>)"
    using AddDsm_steps [OF client] by blast
  have vok: "process_ok C v" by (rule talks_process_ok [OF v ok])
  from cases show ?thesis
  proof (elim disjE exE conjE)
    fix dsm
    assume dsm: "configured client dsm" and new: "map_of (dsms w) (cl_Host client) = None"
      and w': "after (AddDsm env client) w = v\<lparr>dsms := dsms v @ [(Ip dsm, dsm)]\<rparr>"
    have "settings (after (AddDsm env client) w) = settings v @ [(cl_Host client, client)]"
      using configured_Ip [OF dsm] client_of_configured [OF dsm] by (simp add: w' settings_def)
    moreover have "cl_Host client \<notin> set (map fst (settings v))"
      unfolding talks_settings [OF v] map_fst_settings using new by (simp add: map_of_eq_None_iff)
    moreover have "sids (after (AddDsm env client) w) = sids v" "calls (after (AddDsm env client) w) = calls v"
      by (simp_all add: w')
    ultimately show ?thesis using vok client by (simp add: process_ok_def sessions_ok_def)
  qed (simp add: vok)
qed

lemma RemoveAllDsms_process_ok: "process_ok C w \<Longrightarrow> process_ok C (after (RemoveAllDsms env) w)"
  by (rule talks_process_ok [OF talksD [OF speaks_RemoveAllDsms]])
    (simp_all add: known_def served_def [symmetric] served_subset)

subsection \<open>Every reachable state\<close>

fun to_add :: "phase \<Rightarrow> ClientInfo list" where
  "to_add (Starting cs) = cs"
| "to_add Serving = []"
| "to_add Stopped = []"

lemma process_keeps:
  "process env x y \<Longrightarrow> process_ok C (snd x) \<and> set (to_add (fst x)) \<subseteq> C \<Longrightarrow>
   process_ok C (snd y) \<and> set (to_add (fst y)) \<subseteq> C"
proof (induction rule: process.induct)
  case (register c cs w)
  then show ?case using AddDsm_process_ok [of C w c env] by simp
next
  case (work w w')
  then show ?case using talks_process_ok [of C w w'] talk_mono [OF work(1) served_subset [of C w]] by auto
next
  case (late w w')
  then show ?case using talks_process_ok [of C w w'] talk_mono [OF late(1) served_subset [of C w]] by auto
next
  case (stop w)
  then show ?case using RemoveAllDsms_process_ok [of C w env] by simp
qed simp

lemma reachable_ok:
  assumes "reachable env clients p w"
  shows "process_ok (set clients) w"
proof -
  from assms obtain n where "runs env (Starting clients, fresh n) (p, w)" by (auto simp: reachable_def)
  then have "process_ok (set clients) (snd (p, w)) \<and> set (to_add (fst (p, w))) \<subseteq> set clients"
  proof (induction rule: rtranclp_induct)
    case base
    show ?case by (simp add: process_ok_def sessions_ok_def fresh_def settings_def)
  next
    case (step y z)
    then show ?case using process_keeps by blast
  qed
  then show ?thesis by simp
qed

text \<open>C15: At any time after the start, with any handlers running in any order, every session id
  in a request was issued by the host of that request, in the answer to an earlier login
  there: no session of one storage system is shown to another, and none is made up.\<close>

theorem sessions_stay_home:
  assumes "reachable env clients p w"
  shows "cookies_ok [] (calls w) \<and> (\<forall>h. sids w h = [] \<or> issued h (sids w h) (calls w))"
  using reachable_ok [OF assms] by (auto simp: process_ok_def sessions_ok_def)

text \<open>C16: At any time after the start, every request went to a host of the configuration, every
  login there with the user and the password that the configuration gives for it, and the
  table holds at most one entry of the configuration for each address, under its address.\<close>

theorem credentials_stay_home:
  assumes "reachable env clients p w"
  shows "list_all (addressed (set clients)) (calls w) \<and> distinct (map fst (settings w)) \<and>
    list_all (\<lambda>(k, client). k = cl_Host client \<and> client \<in> set clients) (settings w)"
  using reachable_ok [OF assms] by (auto simp: process_ok_def list_all_iff)

subsection \<open>A whole run of the driver\<close>

text \<open>The requests that arrive until the signal to stop, answered one after the other.\<close>

definition answer_each :: "'n env \<Rightarrow> 'n host \<Rightarrow> bool \<Rightarrow> csi_request list \<Rightarrow> Driver \<Rightarrow> executor \<Rightarrow>
    ('n world, bool) prog" where
  "answer_each env host multipath reqs d ex = do {
     w \<leftarrow> State_Monad.get;
     _ \<leftarrow> State_Monad.set (dsm_world (after (for_each (\<lambda>req u. handle env host ex multipath d req) reqs ())
       \<lparr>dsm_world = w, events = []\<rparr>));
     State_Monad.return True }"

lemma handlers_run:
  "runs env (Serving, dsm_world s)
     (Serving, dsm_world (after (for_each (\<lambda>req u. handle env host ex multipath d req) reqs ()) s))"
proof (induction reqs arbitrary: s)
  case (Cons req reqs)
  show ?case
    using rtranclp_trans [OF handler_runs [of env s host ex multipath d req]
      Cons [of "after (handle env host ex multipath d req) s"]]
    by (simp add: case_prod_beta)
qed simp

lemma add_dsms_runs: "runs env (Starting clients, w) (Starting [], after (add_dsms env clients) w)"
proof (induction clients arbitrary: w)
  case (Cons client clients)
  have "after (add_dsms env (client # clients)) w = after (add_dsms env clients) (after (AddDsm env client) w)"
    by (simp add: add_dsms_def case_prod_beta)
  with Cons [of "after (AddDsm env client) w"] show ?case
    using converse_rtranclp_into_rtranclp [where r = "process env", OF process.register] by metis
qed (simp add: add_dsms_def)

text \<open>C14: \<^verbatim>\<open>driverStart\<close> from its configuration to its end, whatever requests are handled in between,
  is a run of the process, to its stopped state: what holds in every reachable state holds
  after each start, each request and the shutdown of the driver.\<close>

theorem driverStart_refines_process:
  "reachable env clients Stopped
     (after (driverStart env (Inr clients) cmds dir is_dir node ep (answer_each env host multipath reqs)) (fresh n))"
proof -
  let ?w = "after (add_dsms env clients) (fresh n)"
  let ?fin = "after (driverStart env (Inr clients) cmds dir is_dir node ep (answer_each env host multipath reqs)) (fresh n)"
  have start: "runs env (Starting clients, fresh n) (Serving, ?w)"
    using add_dsms_runs process.serve by (rule rtranclp.rtrancl_into_rtrancl)
  have stop: "runs env (Starting clients, fresh n) (Stopped, after (RemoveAllDsms env) v)"
    if "runs env (Serving, ?w) (Serving, v)" for v
    using rtranclp_trans [OF start that] process.stop by (rule rtranclp.rtrancl_into_rtrancl)
  have "\<exists>v. runs env (Serving, ?w) (Serving, v) \<and> ?fin = after (RemoveAllDsms env) v"
  proof (cases "new_executor cmds dir is_dir")
    case (Inl e)
    then show ?thesis by (intro exI [of _ ?w]) (simp add: driverStart_def case_prod_beta)
  next
    case (Inr ex)
    let ?d = "NewControllerAndNodeDriver node ep"
    let ?v = "dsm_world (after (for_each (\<lambda>req u. handle env host ex multipath ?d req) reqs ()) \<lparr>dsm_world = ?w, events = []\<rparr>)"
    have "?fin = after (RemoveAllDsms env) ?v"
      by (simp add: Inr driverStart_def answer_each_def case_prod_beta)
    moreover have "runs env (Serving, ?w) (Serving, ?v)"
      using handlers_run [of env "\<lparr>dsm_world = ?w, events = []\<rparr>"] by simp
    ultimately show ?thesis by blast
  qed
  with stop show ?thesis unfolding reachable_def by metis
qed

text \<open>The witnesses: a configuration of one storage system, which is registered.\<close>

definition sample_client :: ClientInfo where
  "sample_client = \<lparr>cl_Host = ''10.0.0.1'', cl_Port = 5000, cl_Https = False, cl_Username = ''csi'',
     cl_Password = ''pw'', cl_TLSCACert = '''', cl_TLSServerName = '''', cl_InsecureSkipVerify = False\<rparr>"

definition started :: "nat world" where
  "started = after (AddDsm session_env sample_client) (fresh 0)"

lemma reachable_started: "reachable session_env [sample_client] Serving started"
proof -
  have "process session_env (Starting [sample_client], fresh 0) (Starting [], started)"
    unfolding started_def by (rule process.register)
  moreover have "process session_env (Starting [], started) (Serving, started)" by (rule process.serve)
  ultimately show ?thesis unfolding reachable_def
    by (intro exI [of _ 0]) (meson r_into_rtranclp rtranclp.rtrancl_into_rtrancl)
qed

lemma started_calls:
  "map c_cookie (calls started) = [None, Some ''S2'', Some ''S2'', Some ''S2'']"
  "map is_login (calls started) = [True, False, False, False]"
  by code_simp+

theorem sessions_stay_home_witness:
  "cookies_ok [] (calls started) \<and> map c_cookie (calls started) = [None, Some ''S2'', Some ''S2'', Some ''S2'']"
  using sessions_stay_home [OF reachable_started] started_calls(1) by blast

theorem credentials_stay_home_witness:
  "list_all (addressed {sample_client}) (calls started) \<and> map is_login (calls started) = [True, False, False, False]"
  using credentials_stay_home [OF reachable_started] started_calls(2) by simp

end
