(* ===== verification/Server.thy ===== *)
theory Server
  imports Process
begin

text \<open>
  \<^verbatim>\<open>pkg/driver/grpc.go\<close> and the constructors of \<^verbatim>\<open>utils.go\<close>: the server that answers in the
  background, as a step relation over its goroutines, and the interceptor \<^verbatim>\<open>logGRPC\<close> that wraps
  every handler. The gRPC library is a parameter: its server is the list of what was registered
  with it, and whether \<^verbatim>\<open>Serve\<close> returns, and with an error, is left open.
\<close>

subsection \<open>The constructors\<close>

text \<open>\<^verbatim>\<open>getK8sClient\<close>: the two calls of the Kubernetes library are parameters; none is \<^verbatim>\<open>log.Fatalf\<close>.\<close>

definition getK8sClient :: "err + 'cfg \<Rightarrow> ('cfg \<Rightarrow> err + 'k) \<Rightarrow> 'k option" where
  "getK8sClient inClusterConfig newForConfig = (case inClusterConfig of
     Inl e \<Rightarrow> None
   | Inr cfg \<Rightarrow> (case newForConfig cfg of Inl e \<Rightarrow> None | Inr client \<Rightarrow> Some client))"

text \<open>\<^verbatim>\<open>tools\<close> of \<^verbatim>\<open>driver.go\<close> is the executor of the host's commands.\<close>

record initiatorDriver =
  chapUser :: string
  chapPassword :: string
  ini_tools :: executor

record ('w, 'm, 'k) nodeServer =
  nsv_Driver :: Driver
  nsv_dsmService :: "'w IDsmService"
  nsv_Mounter :: 'm
  nsv_Initiator :: initiatorDriver
  nsv_Client :: 'k
  nsv_tools :: executor

definition NewNodeServer :: "Driver \<Rightarrow> 'w IDsmService \<Rightarrow> executor \<Rightarrow> 'm \<Rightarrow> 'k option \<Rightarrow>
    ('w, 'm, 'k) nodeServer option" where
  "NewNodeServer d svc ex mounter client = map_option (\<lambda>k.
     \<lparr>nsv_Driver = d, nsv_dsmService = svc, nsv_Mounter = mounter,
      nsv_Initiator = \<lparr>chapUser = '''', chapPassword = '''', ini_tools = ex\<rparr>,
      nsv_Client = k, nsv_tools = ex\<rparr>) client"

record identityServer =
  ids_Driver :: Driver

definition NewIdentityServer :: "Driver \<Rightarrow> identityServer" where
  "NewIdentityServer d = \<lparr>ids_Driver = d\<rparr>"

subsection \<open>The server\<close>

text \<open>What \<^verbatim>\<open>Register...Server\<close> was called with. \<open>serve\<close> registers what is not nil.\<close>

datatype ('i, 'c, 'n) registered = IdentityServer 'i | ControllerServer 'c | NodeServer 'n

definition registrations :: "'i option \<Rightarrow> 'c option \<Rightarrow> 'n option \<Rightarrow> ('i, 'c, 'n) registered list" where
  "registrations ids cs ns =
     (case ids of None \<Rightarrow> [] | Some i \<Rightarrow> [IdentityServer i]) @
     (case cs of None \<Rightarrow> [] | Some c \<Rightarrow> [ControllerServer c]) @
     (case ns of None \<Rightarrow> [] | Some n \<Rightarrow> [NodeServer n])"

text \<open>The wait group is its counter. \<^verbatim>\<open>server\<close> is nil, or points to the server that a goroutine of
  \<open>serve\<close> made, which stands for it.\<close>

record nonBlockingGRPCServer =
  nb_wg :: nat
  nb_server :: "nat option"

definition NewNonBlockingGRPCServer :: nonBlockingGRPCServer where
  "NewNonBlockingGRPCServer = \<lparr>nb_wg = 0, nb_server = None\<rparr>"

text \<open>How far a goroutine has come that runs \<open>serve\<close>: called; listening, with its server made and
  published; serving, with what it registered; or returned.\<close>

datatype ('i, 'c, 'n) serving =
    Called string "'i option" "'c option" "'n option"
  | Made "string \<times> string" "'i option" "'c option" "'n option"
  | Answering "string \<times> string" "('i, 'c, 'n) registered list"
  | ServeReturned

type_synonym ('i, 'c, 'n) server_state = "nonBlockingGRPCServer \<times> ('i, 'c, 'n) serving list"

text \<open>\<open>Start\<close> adds to the wait group and starts the goroutine.\<close>

definition Start :: "string \<Rightarrow> 'i option \<Rightarrow> 'c option \<Rightarrow> 'n option \<Rightarrow> ('i, 'c, 'n) server_state \<Rightarrow>
    ('i, 'c, 'n) server_state" where
  "Start endpoint ids cs ns = (\<lambda>(s, gos). (s\<lparr>nb_wg := nb_wg s + 1\<rparr>, gos @ [Called endpoint ids cs ns]))"

text \<open>\<open>Wait\<close> returns when the counter is 0; \<open>Stop\<close> and \<open>ForceStop\<close> call a method of the server,
  which reads through a nil pointer when there is none.\<close>

definition Wait_returns :: "nonBlockingGRPCServer \<Rightarrow> bool" where
  "Wait_returns s \<longleftrightarrow> nb_wg s = 0"

definition Stop :: "nonBlockingGRPCServer \<Rightarrow> err + nat" where
  "Stop s = (case nb_server s of
     None \<Rightarrow> Inl (Panicked ''nil pointer dereference'')
   | Some gracefully_stopped \<Rightarrow> Inr gracefully_stopped)"

definition ForceStop :: "nonBlockingGRPCServer \<Rightarrow> err + nat" where
  "ForceStop s = (case nb_server s of
     None \<Rightarrow> Inl (Panicked ''nil pointer dereference'')
   | Some stopped \<Rightarrow> Inr stopped)"

text \<open>A step of one of the goroutines of \<open>serve\<close>. \<^verbatim>\<open>log.Fatal\<close> ends the process. The server is
  published before anything is registered with it; \<^verbatim>\<open>Serve\<close> returns without an error once it was
  stopped.\<close>

inductive serve_step :: "(string \<Rightarrow> removal) \<Rightarrow> (string \<Rightarrow> string \<Rightarrow> bool) \<Rightarrow>
    ('i, 'c, 'n) server_state \<Rightarrow> ('i, 'c, 'n) server_state option \<Rightarrow> bool"
  for remove can_listen where
  fatal_listen: "\<lbrakk>i < length gos; gos ! i = Called endpoint ids cs ns;
     snd (serve_listen remove can_listen endpoint) = None\<rbrakk> \<Longrightarrow>
     serve_step remove can_listen (s, gos) None"
| publish: "\<lbrakk>i < length gos; gos ! i = Called endpoint ids cs ns;
     snd (serve_listen remove can_listen endpoint) = Some l\<rbrakk> \<Longrightarrow>
     serve_step remove can_listen (s, gos) (Some (s\<lparr>nb_server := Some i\<rparr>, gos[i := Made l ids cs ns]))"
| serve_registered: "\<lbrakk>i < length gos; gos ! i = Made l ids cs ns\<rbrakk> \<Longrightarrow>
     serve_step remove can_listen (s, gos) (Some (s, gos[i := Answering l (registrations ids cs ns)]))"
| serve_returns: "\<lbrakk>i < length gos; gos ! i = Answering l regs\<rbrakk> \<Longrightarrow>
     serve_step remove can_listen (s, gos) (Some (s, gos[i := ServeReturned]))"
| fatal_serve: "\<lbrakk>i < length gos; gos ! i = Answering l regs\<rbrakk> \<Longrightarrow>
     serve_step remove can_listen (s, gos) None"

inductive_cases serve_stepE: "serve_step remove can_listen x (Some y)"

text \<open>The states that a server can come to by calls of \<open>Start\<close> and steps of its goroutines.\<close>

inductive server_reachable :: "(string \<Rightarrow> removal) \<Rightarrow> (string \<Rightarrow> string \<Rightarrow> bool) \<Rightarrow>
    ('i, 'c, 'n) server_state \<Rightarrow> bool"
  for remove can_listen where
  new: "server_reachable remove can_listen (NewNonBlockingGRPCServer, [])"
| start: "server_reachable remove can_listen x \<Longrightarrow>
     server_reachable remove can_listen (Start endpoint ids cs ns x)"
| go: "server_reachable remove can_listen x \<Longrightarrow> serve_step remove can_listen x (Some y) \<Longrightarrow>
     server_reachable remove can_listen y"

subsection \<open>The wait group and the server\<close>

text \<open>Every call of \<open>Start\<close> is counted and nothing is counted off; the server is nil exactly as long
  as no goroutine has got past its listener; what a goroutine answers with was registered in
  the order of the services.\<close>

definition is_Called :: "('i, 'c, 'n) serving \<Rightarrow> bool" where
  "is_Called g \<longleftrightarrow> (case g of Called endpoint ids cs ns \<Rightarrow> True | _ \<Rightarrow> False)"

lemma is_Called_simps [simp]:
  "is_Called (Called endpoint ids cs ns)" "\<not> is_Called (Made l ids cs ns)" "\<not> is_Called (Answering l regs)"
  "\<not> is_Called ServeReturned"
  by (simp_all add: is_Called_def)

definition counted :: "('i, 'c, 'n) server_state \<Rightarrow> bool" where
  "counted x \<longleftrightarrow> nb_wg (fst x) = length (snd x) \<and> (nb_server (fst x) = None \<longleftrightarrow> list_all is_Called (snd x))"

lemma list_all_update:
  "i < length xs \<Longrightarrow> \<not> P y \<Longrightarrow> \<not> list_all P (xs[i := y])"
  by (auto simp: list_all_length intro!: exI [of _ i])

lemma not_all_at: "i < length xs \<Longrightarrow> \<not> P (xs ! i) \<Longrightarrow> \<not> list_all P xs"
  by (auto simp: list_all_length)

lemma serve_step_counted: "serve_step remove can_listen x (Some y) \<Longrightarrow> counted x \<Longrightarrow> counted y"
  by (elim serve_stepE) (auto simp: counted_def list_all_update dest: not_all_at [where P = is_Called])

lemma reachable_counted: "server_reachable remove can_listen x \<Longrightarrow> counted x"
proof (induction rule: server_reachable.induct)
  case new
  show ?case by (simp add: counted_def NewNonBlockingGRPCServer_def)
next
  case (start x endpoint ids cs ns)
  then show ?case by (cases x) (simp add: counted_def Start_def)
next
  case (go x y)
  then show ?case by (blast intro: serve_step_counted)
qed

text \<open>C39: Once \<open>Start\<close> was called, \<open>Wait\<close> never returns, not even after \<open>serve\<close> has: nothing counts
  the wait group off. \<open>Stop\<close> and \<open>ForceStop\<close> panic exactly as long as no goroutine has made its
  server.\<close>

theorem Wait_never_returns:
  assumes "server_reachable remove can_listen (s, gos)" "gos \<noteq> []"
  shows "\<not> Wait_returns s \<and> (isl (Stop s) \<longleftrightarrow> list_all is_Called gos) \<and> ForceStop s = Stop s"
proof -
  have "nb_wg s = length gos" "nb_server s = None \<longleftrightarrow> list_all is_Called gos"
    using reachable_counted [OF assms(1)] by (simp_all add: counted_def)
  with assms(2) show ?thesis
    by (auto simp: Wait_returns_def Stop_def ForceStop_def split: option.split)
qed

text \<open>A server that was stopped: its goroutine has returned, and whoever waits goes on waiting.\<close>

definition any_removal :: "string \<Rightarrow> removal" where
  "any_removal path = RemovalNotExist"

lemma stopped_reachable:
  "server_reachable any_removal (\<lambda>_ _. True)
     (\<lparr>nb_wg = 1, nb_server = Some 0\<rparr>, [ServeReturned :: (unit, unit, unit) serving])"
proof -
  let ?R = "server_reachable any_removal (\<lambda>_ _. True) :: (unit, unit, unit) server_state \<Rightarrow> bool"
  let ?l = "(''tcp'', ''0.0.0.0:10000'')"
  have "?R (Start ''tcp://0.0.0.0:10000'' (Some ()) None None (NewNonBlockingGRPCServer, []))"
    by (intro server_reachable.start server_reachable.new)
  then have started: "?R (\<lparr>nb_wg = 1, nb_server = None\<rparr>, [Called ''tcp://0.0.0.0:10000'' (Some ()) None None])"
    by (simp add: Start_def NewNonBlockingGRPCServer_def)
  have listens: "snd (serve_listen any_removal (\<lambda>_ _. True) ''tcp://0.0.0.0:10000'') = Some ?l"
    by code_simp
  have "?R (\<lparr>nb_wg = 1, nb_server = Some 0\<rparr>, [Made ?l (Some ()) None None])"
    by (rule server_reachable.go [OF started], subst serve_step.simps) (auto simp: listens)
  then have "?R (\<lparr>nb_wg = 1, nb_server = Some 0\<rparr>, [Answering ?l (registrations (Some ()) None None)])"
    by (rule server_reachable.go, subst serve_step.simps) auto
  then show ?thesis
    by (rule server_reachable.go, subst serve_step.simps) auto
qed

theorem Wait_never_returns_witness:
  "\<not> Wait_returns \<lparr>nb_wg = 1, nb_server = Some 0\<rparr>"
  using Wait_never_returns [OF stopped_reachable] by simp

subsection \<open>The server of the driver\<close>

definition RunControllerandNodePublishServer :: "string \<Rightarrow> Driver \<Rightarrow> 'c \<Rightarrow> 'n \<Rightarrow>
    (identityServer, 'c, 'n) server_state" where
  "RunControllerandNodePublishServer endpoint d cs ns =
     Start endpoint (Some (NewIdentityServer d)) (Some cs) (Some ns) (NewNonBlockingGRPCServer, [])"

text \<open>The goroutine that \<open>Activate\<close> starts: the servers of the driver, on one service, and the
  Kubernetes client that the node server needs.\<close>

definition activated :: "Driver \<Rightarrow> 'w IDsmService \<Rightarrow> executor \<Rightarrow> 'm \<Rightarrow> 'k option \<Rightarrow>
    (identityServer, 'w controllerServer, ('w, 'm, 'k) nodeServer) server_state option" where
  "activated d svc ex mounter client = map_option
     (RunControllerandNodePublishServer (dr_endpoint d) d (NewControllerServer d svc))
     (NewNodeServer d svc ex mounter client)"

abbreviation serve_steps :: "(string \<Rightarrow> removal) \<Rightarrow> (string \<Rightarrow> string \<Rightarrow> bool) \<Rightarrow> ('i, 'c, 'n) server_state \<Rightarrow>
    ('i, 'c, 'n) server_state \<Rightarrow> bool" where
  "serve_steps remove can_listen \<equiv> (\<lambda>x y. serve_step remove can_listen x (Some y))\<^sup>*\<^sup>*"

text \<open>What the only goroutine of the driver's server is at.\<close>

definition serving_at :: "(string \<Rightarrow> removal) \<Rightarrow> (string \<Rightarrow> string \<Rightarrow> bool) \<Rightarrow> string \<Rightarrow>
    'i \<Rightarrow> 'c \<Rightarrow> 'n \<Rightarrow> ('i, 'c, 'n) serving \<Rightarrow> bool" where
  "serving_at remove can_listen endpoint ids cs ns g \<longleftrightarrow>
     g = Called endpoint (Some ids) (Some cs) (Some ns) \<or> g = ServeReturned \<or>
     (\<exists>l. snd (serve_listen remove can_listen endpoint) = Some l \<and>
        g \<in> {Made l (Some ids) (Some cs) (Some ns),
              Answering l [IdentityServer ids, ControllerServer cs, NodeServer ns]})"

lemma serving_step:
  assumes "serve_step remove can_listen (s, [g]) (Some (s', gos))"
    and "serving_at remove can_listen endpoint ids cs ns g"
  shows "\<exists>g'. gos = [g'] \<and> serving_at remove can_listen endpoint ids cs ns g' \<and> nb_wg s' = nb_wg s"
  using assms by (elim serve_stepE) (auto simp: serving_at_def registrations_def)



subsection \<open>logGRPC\<close>

text \<open>The state of a handler beside the log that the interceptor writes to.\<close>

datatype 'x log_entry = GrpcCall string | GrpcRequest 'x | GrpcError err | GrpcResponse 'x

definition beside :: "('s, 'a) prog \<Rightarrow> ('s \<times> 'l list, 'a) prog" where
  "beside m = State (\<lambda>(s, l). let (x, s') = run_state m s in (x, (s', l)))"

definition write_log :: "'l \<Rightarrow> ('s \<times> 'l list, unit) prog" where
  "write_log e = State (\<lambda>(s, l). ((), (s, l @ [e])))"

text \<open>\<open>StripSecrets\<close> of the CSI library gives the texts of requests and responses without the fields
  that are marked as secrets.\<close>

definition logGRPC :: "('q \<Rightarrow> 'x) \<Rightarrow> ('p \<Rightarrow> 'x) \<Rightarrow> string \<Rightarrow> ('q \<Rightarrow> ('s, err + 'p) prog) \<Rightarrow> 'q \<Rightarrow>
    ('s \<times> 'x log_entry list, err + 'p) prog" where
  "logGRPC StripRequest StripResponse FullMethod handler req = do {
     _ \<leftarrow> write_log (GrpcCall FullMethod);
     _ \<leftarrow> write_log (GrpcRequest (StripRequest req));
     r \<leftarrow> beside (handler req);
     _ \<leftarrow> (case r of
         Inl e \<Rightarrow> write_log (GrpcError e)
       | Inr resp \<Rightarrow> write_log (GrpcResponse (StripResponse resp)));
     State_Monad.return r }"

lemma write_log_run [simp]: "run_state (write_log e) (s, l) = ((), (s, l @ [e]))"
  by (simp add: write_log_def)

lemma beside_run [simp]: "run_state (beside m) (s, l) = (result_of m s, (after m s, l))"
  by (simp add: beside_def case_prod_beta)

text \<open>The interceptor changes neither the answer of a handler nor what it does, and the requests and
  responses of the log are without their secrets.\<close>

theorem logGRPC_transparent:
  "run_state (logGRPC StripRequest StripResponse FullMethod handler req) (s, l) =
     (result_of (handler req) s, (after (handler req) s,
      l @ [GrpcCall FullMethod, GrpcRequest (StripRequest req),
           case result_of (handler req) s of
             Inl e \<Rightarrow> GrpcError e | Inr resp \<Rightarrow> GrpcResponse (StripResponse resp)]))"
  by (cases "result_of (handler req) s") (simp_all add: logGRPC_def case_prod_beta)

text \<open>What was logged tells two requests apart only by what is not a secret in them and by what was
  answered.\<close>

lemma logGRPC_hides:
  assumes "StripRequest req = StripRequest req'" "result_of (handler req) s = result_of (handler req') s'"
  shows "snd (snd (run_state (logGRPC StripRequest StripResponse m handler req) (s, l))) =
    snd (snd (run_state (logGRPC StripRequest StripResponse m handler req') (s', l)))"
  using assms by (simp add: logGRPC_transparent)

end
