(* ===== verification/Cli.thy ===== *)
theory Cli
  imports Talking Startup "HOL-Library.AList"
begin

text \<open>
  \<^verbatim>\<open>synocli\<close>, the command line tool for the web API (\<^verbatim>\<open>src/synocli/cmd\<close>). A command ends with
  what it prints as its success, with \<^verbatim>\<open>os.Exit(1)\<close>, or with the usage text when it has
  too few arguments. \<^verbatim>\<open>os.Exit\<close> ends the process at once: a deferred logout does not run.
\<close>

subsection \<open>Ending a command\<close>

datatype 'a ended = Usage | Exit1 | Finished 'a

text \<open>\<^verbatim>\<open>cobra.MinimumNArgs(n)\<close>.\<close>

definition minimum_args :: "nat \<Rightarrow> string list \<Rightarrow> ('w, 'a ended) prog \<Rightarrow> ('w, 'a ended) prog" where
  "minimum_args n args run = (if length args < n then State_Monad.return Usage else run)"

text \<open>\<^verbatim>\<open>if err != nil { fmt.Println(err); os.Exit(1) }\<close>.\<close>

definition or_exit :: "('w, err + 'a) prog \<Rightarrow> ('a \<Rightarrow> ('w, 'b ended) prog) \<Rightarrow> ('w, 'b ended) prog" where
  "or_exit m k = do {
     r \<leftarrow> m;
     case r of Inl e \<Rightarrow> State_Monad.return Exit1 | Inr x \<Rightarrow> k x }"

subsection \<open>dsm.go\<close>

text \<open>\<^verbatim>\<open>config\<close> is what \<^verbatim>\<open>LoadConfig\<close> makes of the file given by the flags.\<close>

definition ListDsms :: "err + ClientInfo list \<Rightarrow> int \<Rightarrow> err + DSM list" where
  "ListDsms config dsmId = (case config of
     Inl e \<Rightarrow> Inl (FmtError ''Failed to read config[%s]: %v'')
   | Inr clients \<Rightarrow>
       if dsmId < - 1 \<or> dsmId \<ge> int (length clients) then Inl (FmtError ''Invalid dsmId: %d'')
       else (let selected = map (\<lambda>(i, client). new_DSM client)
               (filter (\<lambda>(i, client). dsmId = - 1 \<or> dsmId = int i) (enumerate 0 clients))
             in if selected = [] then Inl (FmtError ''No client in config'') else Inr selected))"

text \<open>A new \<^verbatim>\<open>webapi.DSM\<close> has no session dsmId when it is first used.\<close>

definition login_new :: "'n env \<Rightarrow> DSM \<Rightarrow> ('n world, err option) prog" where
  "login_new env dsm = do { _ \<leftarrow> set_sid dsm []; Login env dsm }"

definition LoginDsmForTest :: "'n env \<Rightarrow> err + ClientInfo list \<Rightarrow> int \<Rightarrow> ('n world, err + DSM) prog" where
  "LoginDsmForTest env config dsmId = (case ListDsms config dsmId of
     Inl e \<Rightarrow> State_Monad.return (Inl (FmtError ''Failed to list dsms: %v''))
   | Inr selected \<Rightarrow> do {
       l \<leftarrow> login_new env (hd selected);
       State_Monad.return (case l of
         Some e \<Rightarrow> Inl (FmtError ''Failed to login to DSM: [%s]. err: %v'')
       | None \<Rightarrow> Inr (hd selected)) })"

text \<open>The frame of the commands on one storage system: log in, and log out by a deferred call.\<close>

definition with_test_dsm :: "'n env \<Rightarrow> err + ClientInfo list \<Rightarrow> int \<Rightarrow>
    (DSM \<Rightarrow> ('n world, 'a ended) prog) \<Rightarrow> ('n world, 'a ended) prog" where
  "with_test_dsm env config dsmId body = or_exit (LoginDsmForTest env config dsmId) (\<lambda>dsm. do {
     out \<leftarrow> body dsm;
     case out of
       Finished x \<Rightarrow> do { _ \<leftarrow> Logout env dsm; State_Monad.return (Finished x) }
     | Exit1 \<Rightarrow> State_Monad.return Exit1
     | Usage \<Rightarrow> State_Monad.return Usage })"

record login_flags =
  lf_https :: bool
  lf_port :: int
  lf_tlsCACertFile :: string
  lf_tlsServerName :: string
  lf_insecureSkipVerify :: bool

definition login_port :: "login_flags \<Rightarrow> int" where
  "login_port fl = (if lf_port fl \<noteq> - 1 then lf_port fl else if lf_https fl then 5001 else 5000)"

definition cmdDsmLogin :: "'n env \<Rightarrow> (string \<Rightarrow> err + string) \<Rightarrow> login_flags \<Rightarrow> string list \<Rightarrow>
    ('n world, unit ended) prog" where
  "cmdDsmLogin env read_file fl args = minimum_args 3 args (
     case (if lf_tlsCACertFile fl \<noteq> '''' then read_file (lf_tlsCACertFile fl) else Inr '''') of
       Inl e \<Rightarrow> State_Monad.return Exit1
     | Inr tlsCACert \<Rightarrow> do {
         let dsm = \<lparr>Ip = args ! 0, Port = login_port fl, Username = args ! 1, Password = args ! 2,
           Https = lf_https fl, Controller = '''', TLSCACert = tlsCACert, TLSServerName = lf_tlsServerName fl,
           InsecureSkipVerify = lf_insecureSkipVerify fl, Hostname = '''', SupportNvmeof = False, FirmwareVer = ''''\<rparr>;
         l \<leftarrow> login_new env dsm;
         State_Monad.return (case l of Some e \<Rightarrow> Exit1 | None \<Rightarrow> Finished ()) })"

text \<open>The rows of the table.\<close>

definition cmdDsmList :: "err + ClientInfo list \<Rightarrow> (string \<times> int \<times> string \<times> bool) list ended" where
  "cmdDsmList config = (case ListDsms config (- 1) of
     Inl e \<Rightarrow> Exit1
   | Inr selected \<Rightarrow> Finished (map (\<lambda>c. (Ip c, Port c, Username c, Https c)) selected))"

subsection \<open>Listing over storage systems\<close>

text \<open>The loop of \<^verbatim>\<open>lun list\<close> and \<^verbatim>\<open>share list\<close>: a map from addresses to what was listed, which
  is then printed in the order of Go's iteration.\<close>

definition list_from :: "'n env \<Rightarrow> (DSM \<Rightarrow> ('n world, err + 'v list) prog) \<Rightarrow> DSM \<Rightarrow> (string \<times> 'v list) list \<Rightarrow>
    ('n world, (string \<times> 'v list) list + unit) prog" where
  "list_from env request dsm infos = do {
     l \<leftarrow> login_new env dsm;
     case l of
       Some e \<Rightarrow> State_Monad.return (Inr ())
     | None \<Rightarrow> do {
         r \<leftarrow> request dsm;
         case r of
           Inl e \<Rightarrow> State_Monad.return (Inr ())
         | Inr vs \<Rightarrow> do {
             _ \<leftarrow> Logout env dsm;
             State_Monad.return (Inl (AList.update (Ip dsm) vs infos)) } } }"

definition range_map :: "'n env \<Rightarrow> (string \<times> 'v) list \<Rightarrow> ('n world, (string \<times> 'v) list) prog" where
  "range_map env m = do {
     w \<leftarrow> State_Monad.get;
     let (picks, n) = env_map_order env (nas w);
     _ \<leftarrow> State_Monad.set (w\<lparr>nas := n\<rparr>);
     State_Monad.return (permute_by picks m) }"

definition list_all_dsms :: "'n env \<Rightarrow> err + ClientInfo list \<Rightarrow> int \<Rightarrow>
    (DSM \<Rightarrow> ('n world, err + 'v list) prog) \<Rightarrow> ('n world, (string \<times> 'v) list ended) prog" where
  "list_all_dsms env config dsmId request = (case ListDsms config dsmId of
     Inl e \<Rightarrow> State_Monad.return Exit1
   | Inr selected \<Rightarrow> do {
       out \<leftarrow> for_return (list_from env request) selected [];
       case out of
         Inr u \<Rightarrow> State_Monad.return Exit1
       | Inl infos \<Rightarrow> do {
           entries \<leftarrow> range_map env infos;
           State_Monad.return (Finished (concat (map (\<lambda>(ip, vs). map (\<lambda>v. (ip, v)) vs) entries))) } })"

subsection \<open>lun.go\<close>

definition lunTypeToString :: "int \<Rightarrow> string" where
  "lunTypeToString lunType =
     (if lunType = 3 then ''FILE'' else if lunType = 15 then ''ADV'' else if lunType = 259 then ''BLUN_THICK''
      else if lunType = 263 then ''BLUN'' else ''NOT_SUPPORTED('' @ itoa lunType @ '')'')"

definition cmdLunList :: "'n env \<Rightarrow> err + ClientInfo list \<Rightarrow> int \<Rightarrow> ('n world, (string \<times> LunInfo) list ended) prog" where
  "cmdLunList env config dsmId = list_all_dsms env config dsmId (LunList env)"

subsection \<open>share.go\<close>

definition cmdShareGet :: "'n env \<Rightarrow> err + ClientInfo list \<Rightarrow> int \<Rightarrow> string list \<Rightarrow> ('n world, ShareInfo ended) prog" where
  "cmdShareGet env config dsmId args = minimum_args 1 args (with_test_dsm env config dsmId (\<lambda>dsm.
     or_exit (ShareGet env dsm (args ! 0)) (\<lambda>share. State_Monad.return (Finished share))))"

definition cmdShareList :: "'n env \<Rightarrow> err + ClientInfo list \<Rightarrow> int \<Rightarrow> ('n world, (string \<times> ShareInfo) list ended) prog" where
  "cmdShareList env config dsmId = list_all_dsms env config dsmId (ShareList env)"

text \<open>A size that is not a number ends the command; no size is the size 0.\<close>

definition cmdShareCreate :: "'n env \<Rightarrow> err + ClientInfo list \<Rightarrow> int \<Rightarrow> string list \<Rightarrow> ('n world, ShareInfo ended) prog" where
  "cmdShareCreate env config dsmId args = minimum_args 2 args (with_test_dsm env config dsmId (\<lambda>dsm.
     case (if length args \<ge> 3 then parse_int 64 (args ! 2) else Some 0) of
       None \<Rightarrow> State_Monad.return Exit1
     | Some n \<Rightarrow> (let sizeInMB = BytesToMBCeil (word_of_int n) in
         or_exit (ShareCreate env dsm \<lparr>shc_Name = args ! 0,
             shc_ShareInfo = zero_ShareInfo\<lparr>sh_Name := args ! 0, sh_VolPath := args ! 1,
               sh_Desc := ''Created by synocli'', sh_EnableShareCow := False, sh_EnableRecycleBin := True,
               sh_RecycleBinAdminOnly := True, sh_Encryption := 0, sh_QuotaForCreate := Some sizeInMB\<rparr>\<rparr>) (\<lambda>_.
           or_exit (ShareGet env dsm (args ! 0)) (\<lambda>share. State_Monad.return (Finished share))))))"

definition cmdShareDelete :: "'n env \<Rightarrow> err + ClientInfo list \<Rightarrow> int \<Rightarrow> string list \<Rightarrow> ('n world, unit ended) prog" where
  "cmdShareDelete env config dsmId args = minimum_args 1 args (with_test_dsm env config dsmId (\<lambda>dsm.
     or_exit (ShareDelete env dsm (args ! 0)) (\<lambda>_. State_Monad.return (Finished ()))))"

text \<open>The share of a snapshot time: the first share that has a snapshot of that time.\<close>

definition org_share :: "'n env \<Rightarrow> DSM \<Rightarrow> string \<Rightarrow> ShareInfo list \<Rightarrow> ('n world, unit + string ended) prog" where
  "org_share env dsm srcName shares = for_return (\<lambda>share u. do {
     r \<leftarrow> ShareSnapshotList env dsm (sh_Name share);
     State_Monad.return (case r of
       Inl e \<Rightarrow> Inr Exit1
     | Inr snaps \<Rightarrow> if list_ex (\<lambda>snap. ssn_Time snap = srcName) snaps \<and> sh_Name share \<noteq> ''''
         then Inr (Finished (sh_Name share)) else Inl ()) }) shares ()"

definition clone_source :: "'n env \<Rightarrow> DSM \<Rightarrow> bool \<Rightarrow> string \<Rightarrow> ('n world, string ended) prog" where
  "clone_source env dsm fromSnapshot srcName =
     (if \<not> fromSnapshot then State_Monad.return (Finished srcName)
      else or_exit (ShareList env dsm) (\<lambda>shares. do {
        out \<leftarrow> org_share env dsm srcName shares;
        State_Monad.return (case out of Inl u \<Rightarrow> Exit1 | Inr r \<Rightarrow> r) }))"

definition cmdShareClone :: "'n env \<Rightarrow> err + ClientInfo list \<Rightarrow> int \<Rightarrow> string list \<Rightarrow> ('n world, ShareInfo ended) prog" where
  "cmdShareClone env config dsmId args = minimum_args 2 args (with_test_dsm env config dsmId (\<lambda>dsm. do {
     let fromSnapshot = (length args \<ge> 3 \<and> args ! 2 = ''true'');
     let newName = args ! 0;
     let srcName = args ! 1;
     src \<leftarrow> clone_source env dsm fromSnapshot srcName;
     case src of
       Finished orgShareName \<Rightarrow>
         or_exit (ShareGet env dsm orgShareName) (\<lambda>srcShare.
         or_exit (ShareClone env dsm \<lparr>shcl_Name = newName, shcl_Snapshot = (if fromSnapshot then srcName else ''''),
             shcl_ShareInfo = zero_ShareInfo\<lparr>sh_Name := newName, sh_VolPath := sh_VolPath srcShare,
               sh_Desc := ''Cloned from '' @ srcName @ '' by synocli'',
               sh_EnableRecycleBin := sh_EnableRecycleBin srcShare,
               sh_RecycleBinAdminOnly := sh_RecycleBinAdminOnly srcShare, sh_NameOrg := orgShareName\<rparr>\<rparr>) (\<lambda>_.
         or_exit (ShareGet env dsm newName) (\<lambda>share. State_Monad.return (Finished share))))
     | _ \<Rightarrow> State_Monad.return Exit1 }))"

text \<open>The snapshot that is printed: the one of the time the storage system gave, or an empty one.\<close>

definition zero_ShareSnapshotInfo :: ShareSnapshotInfo where
  "zero_ShareSnapshotInfo = \<lparr>ssn_Uuid = '''', ssn_Time = '''', ssn_Desc = '''', ssn_SnapSize = '''',
     ssn_Lock = False, ssn_ScheduleSnapshot = False\<rparr>"

definition cmdShareSnapshotCreate :: "'n env \<Rightarrow> err + ClientInfo list \<Rightarrow> int \<Rightarrow> string list \<Rightarrow>
    ('n world, ShareSnapshotInfo ended) prog" where
  "cmdShareSnapshotCreate env config dsmId args = minimum_args 3 args (with_test_dsm env config dsmId (\<lambda>dsm.
     or_exit (ShareSnapshotCreate env dsm \<lparr>sscs_ShareName = args ! 0, sscs_Desc = args ! 1,
         sscs_IsLocked = StringToBoolean (args ! 2)\<rparr>) (\<lambda>snapTime.
     or_exit (ShareSnapshotList env dsm (args ! 0)) (\<lambda>snaps.
       State_Monad.return (Finished (case find (\<lambda>snap. ssn_Time snap = snapTime) snaps of
         None \<Rightarrow> zero_ShareSnapshotInfo | Some snap \<Rightarrow> snap))))))"

definition cmdShareSnapshotDelete :: "'n env \<Rightarrow> err + ClientInfo list \<Rightarrow> int \<Rightarrow> string list \<Rightarrow> ('n world, unit ended) prog" where
  "cmdShareSnapshotDelete env config dsmId args = minimum_args 2 args (with_test_dsm env config dsmId (\<lambda>dsm.
     or_exit (ShareSnapshotDelete env dsm (args ! 1) (args ! 0)) (\<lambda>_. State_Monad.return (Finished ()))))"

definition shareSnapshotListAll :: "'n env \<Rightarrow> DSM \<Rightarrow> string \<Rightarrow> ('n world, err + ShareSnapshotInfo list) prog" where
  "shareSnapshotListAll env dsm shareName =
     (if shareName \<noteq> '''' then ShareSnapshotList env dsm shareName
      else do {
        r \<leftarrow> ShareList env dsm;
        case r of
          Inl e \<Rightarrow> State_Monad.return (Inl e)
        | Inr shares \<Rightarrow> do {
            out \<leftarrow> for_return (\<lambda>share infos. do {
              s \<leftarrow> ShareSnapshotList env dsm (sh_Name share);
              State_Monad.return (case s of Inl e \<Rightarrow> Inr e | Inr snaps \<Rightarrow> Inl (infos @ snaps)) }) shares [];
            State_Monad.return (case out of Inl infos \<Rightarrow> Inr infos | Inr e \<Rightarrow> Inl e) } })"

definition cmdShareSnapshotList :: "'n env \<Rightarrow> err + ClientInfo list \<Rightarrow> int \<Rightarrow> string list \<Rightarrow>
    ('n world, ShareSnapshotInfo list ended) prog" where
  "cmdShareSnapshotList env config dsmId args = with_test_dsm env config dsmId (\<lambda>dsm.
     or_exit (shareSnapshotListAll env dsm (if length args \<ge> 1 then args ! 0 else ''''))
       (\<lambda>snaps. State_Monad.return (Finished snaps)))"

definition createSharePermission :: "string \<Rightarrow> string \<Rightarrow> SharePermission option" where
  "createSharePermission name acl =
     (let permission = \<lparr>sp_Name = name, sp_IsReadonly = False, sp_IsWritable = False, sp_IsDeny = False,
        sp_IsCustom = False, sp_IsAdmin = False\<rparr>
      in if to_lower acl = ''rw'' then Some (permission\<lparr>sp_IsWritable := True\<rparr>)
         else if to_lower acl = ''ro'' then Some (permission\<lparr>sp_IsReadonly := True\<rparr>)
         else if to_lower acl = ''no'' then Some (permission\<lparr>sp_IsDeny := True\<rparr>)
         else None)"

definition getShareLocalUserPermission :: "'n env \<Rightarrow> DSM \<Rightarrow> string \<Rightarrow> string \<Rightarrow> ('n world, err + SharePermission) prog" where
  "getShareLocalUserPermission env dsm shareName userName = do {
     r \<leftarrow> SharePermissionList env dsm shareName ''local_user'';
     State_Monad.return (case r of
       Inl e \<Rightarrow> Inl e
     | Inr infos \<Rightarrow> (case find (\<lambda>info. sp_Name info = userName) infos of
         None \<Rightarrow> Inl (FmtError ''Permission Not Found.'') | Some info \<Rightarrow> Inr info)) }"

definition cmdSharePermissionList :: "'n env \<Rightarrow> err + ClientInfo list \<Rightarrow> int \<Rightarrow> string list \<Rightarrow>
    ('n world, SharePermission list ended) prog" where
  "cmdSharePermissionList env config dsmId args = minimum_args 1 args (with_test_dsm env config dsmId (\<lambda>dsm.
     or_exit (SharePermissionList env dsm (args ! 0) (if length args \<ge> 2 then args ! 1 else ''local_user''))
       (\<lambda>infos. State_Monad.return (Finished infos))))"

definition cmdSharePermissionSet :: "'n env \<Rightarrow> err + ClientInfo list \<Rightarrow> int \<Rightarrow> string list \<Rightarrow>
    ('n world, SharePermission ended) prog" where
  "cmdSharePermissionSet env config dsmId args = minimum_args 3 args (with_test_dsm env config dsmId (\<lambda>dsm.
     case createSharePermission (args ! 1) (args ! 2) of
       None \<Rightarrow> State_Monad.return Exit1
     | Some permission \<Rightarrow>
         or_exit (SharePermissionSet env dsm \<lparr>sps_Name = args ! 0, sps_UserGroupType = ''local_user'',
             sps_Permissions = [permission]\<rparr>) (\<lambda>_.
         or_exit (getShareLocalUserPermission env dsm (args ! 0) (args ! 1)) (\<lambda>newPermission.
           State_Monad.return (Finished newPermission)))))"

text \<open>The shares before and after the change of the quota.\<close>

definition cmdShareSet :: "'n env \<Rightarrow> err + ClientInfo list \<Rightarrow> int \<Rightarrow> string list \<Rightarrow>
    ('n world, (ShareInfo \<times> ShareInfo) ended) prog" where
  "cmdShareSet env config dsmId args = minimum_args 2 args (with_test_dsm env config dsmId (\<lambda>dsm.
     case parse_int 64 (args ! 1) of
       None \<Rightarrow> State_Monad.return Exit1
     | Some newSize \<Rightarrow>
         or_exit (ShareGet env dsm (args ! 0)) (\<lambda>share.
         or_exit (ShareSet env dsm (args ! 0) \<lparr>su_Name = sh_Name share, su_VolPath = sh_VolPath share,
             su_QuotaForCreate = Some (BytesToMBCeil (word_of_int newSize))\<rparr>) (\<lambda>_.
         or_exit (ShareGet env dsm (args ! 0)) (\<lambda>newShare.
           State_Monad.return (Finished (share, newShare)))))))"

subsection \<open>root.go and main.go\<close>

text \<open>The exit status of the process: \<^verbatim>\<open>Execute\<close> drops the error of \<^verbatim>\<open>rootCmd.Execute\<close>, so a
  command that was given too few arguments ends like one that succeeded.\<close>

fun exit_status :: "'a ended \<Rightarrow> int" where
  "exit_status Usage = 0"
| "exit_status Exit1 = 1"
| "exit_status (Finished x) = 0"

subsection \<open>The storage systems of a command\<close>

lemma ListDsms_selected:
  assumes "ListDsms (Inr clients) dsmId = Inr selected"
  shows "selected \<noteq> [] \<and> set selected \<subseteq> new_DSM ` set clients \<and>
    selected = (if dsmId = - 1 then map new_DSM clients else [new_DSM (clients ! nat dsmId)])"
proof -
  have filtered: "filter (\<lambda>(i, client). k = i) (enumerate m cs) =
      (if m \<le> k \<and> k < m + length cs then [(k, cs ! (k - m))] else [])" for k m and cs :: "ClientInfo list"
    by (induction cs arbitrary: m) (auto simp: nth_Cons' not_less_eq_eq)
  have all: "map (\<lambda>(i, client). new_DSM client) (enumerate m cs) = map new_DSM cs" for m and cs :: "ClientInfo list"
    by (induction cs arbitrary: m) simp_all
  show ?thesis
  proof (cases "dsmId = - 1")
    case True
    with assms all show ?thesis by (auto simp: ListDsms_def Let_def split: if_splits)
  next
    case False
    with assms have "0 \<le> dsmId" "nat dsmId < length clients"
      by (auto simp: ListDsms_def Let_def split: if_splits)
    moreover from this have "(\<lambda>(i, client). dsmId = - 1 \<or> dsmId = int i) = (\<lambda>(i, client :: ClientInfo). nat dsmId = i)"
      using False by (auto simp: fun_eq_iff)
    ultimately show ?thesis
      using assms False filtered [of "nat dsmId" 0 clients] by (auto simp: ListDsms_def Let_def split: if_splits)
  qed
qed

lemma ListDsms_among:
  assumes "ListDsms config dsmId = Inr selected" "\<And>clients. config = Inr clients \<Longrightarrow> set clients \<subseteq> K"
  shows "selected \<noteq> [] \<and> among K selected"
proof (cases config)
  case (Inl e)
  with assms(1) show ?thesis by (simp add: ListDsms_def)
next
  case (Inr clients)
  with ListDsms_selected [of clients dsmId selected] assms(1)
  have "selected \<noteq> []" "set selected \<subseteq> new_DSM ` set clients" by blast+
  with assms(2) [OF Inr] show ?thesis by (force simp: among_def subset_iff image_iff)
qed

text \<open>Every command is a sequence of the steps of \<open>talk\<close> with the entries of the configuration.\<close>

lemma speaks_login_new: "client_of dsm \<in> K \<Longrightarrow> speaks K (login_new env dsm)"
  unfolding login_new_def by (intro speaks_bind speaks_forget speaks_Login)

lemma speaks_or_exit: "speaks K m \<Longrightarrow> (\<And>x. speaks K (k x)) \<Longrightarrow> speaks K (or_exit m k)"
  unfolding or_exit_def by (intro speaks_bind talks_case_sum talks_return TrueI)

lemma speaks_with_test_dsm:
  assumes "\<And>clients. config = Inr clients \<Longrightarrow> set clients \<subseteq> K"
    and body: "\<And>dsm. client_of dsm \<in> K \<Longrightarrow> speaks K (body dsm)"
  shows "speaks K (with_test_dsm env config dsmId body)"
proof (cases "ListDsms config dsmId")
  case (Inl e)
  then show ?thesis by (simp add: with_test_dsm_def or_exit_def LoginDsmForTest_def talks_return)
next
  case (Inr selected)
  with ListDsms_among [OF Inr assms(1)] have dsm: "client_of (hd selected) \<in> K" by (auto simp: among_def)
  have "speaks K (do { out \<leftarrow> body (hd selected);
     case out of
       Finished x \<Rightarrow> do { _ \<leftarrow> Logout env (hd selected); State_Monad.return (Finished x) }
     | Exit1 \<Rightarrow> State_Monad.return Exit1
     | Usage \<Rightarrow> State_Monad.return Usage })"
    by (rule speaks_bind [OF body [OF dsm]])
      (auto split: ended.split intro: talks_return speaks_bind [OF speaks_Logout [OF dsm]])
  then show ?thesis
    unfolding with_test_dsm_def or_exit_def LoginDsmForTest_def
    by (simp add: Inr del: run_state_bind)
      (rule speaks_bind [OF speaks_login_new [OF dsm]], auto split: option.split intro: talks_return)
qed

lemma speaks_list_all_dsms:
  assumes "\<And>clients. config = Inr clients \<Longrightarrow> set clients \<subseteq> K"
    and request: "\<And>dsm. client_of dsm \<in> K \<Longrightarrow> speaks K (request dsm)"
  shows "speaks K (list_all_dsms env config dsmId request)"
proof (cases "ListDsms config dsmId")
  case (Inl e)
  then show ?thesis by (simp add: list_all_dsms_def talks_return)
next
  case (Inr selected)
  with ListDsms_among [OF Inr assms(1)] have among: "among K selected" by simp
  have each: "speaks K (list_from env request dsm infos)" if "dsm \<in> set selected" for dsm infos
    unfolding list_from_def
    by ((rule talk_steps speaks_login_new request speaks_Logout amongD [OF among that] TrueI)+)
  have map: "speaks K (range_map env m)" for m :: "(string \<times> 'b list) list"
    by (auto simp: talks_in_def range_map_def Let_def case_prod_beta intro!: r_into_rtranclp talk.outside)
  show ?thesis unfolding list_all_dsms_def Inr sum.case
    by ((rule talk_steps each map TrueI | assumption)+)
qed

lemmas cli_steps = speaks_with_test_dsm speaks_list_all_dsms speaks_or_exit

lemma speaks_minimum_args: "speaks K run \<Longrightarrow> speaks K (minimum_args n args run)"
  unfolding minimum_args_def by (intro talks_if talks_return TrueI)

lemma speaks_cli_helpers [talk_rules]:
  assumes "client_of dsm \<in> K"
  shows "speaks K (clone_source env dsm b u)" "speaks K (shareSnapshotListAll env dsm u)"
    "speaks K (getShareLocalUserPermission env dsm u u')"
  unfolding clone_source_def org_share_def shareSnapshotListAll_def getShareLocalUserPermission_def
  by ((rule cli_steps talk_steps assms talk_rules TrueI)+)

lemma talks_case_ended:
  "talks_in \<pi> K f Q \<Longrightarrow> talks_in \<pi> K g Q \<Longrightarrow> (\<And>x. talks_in \<pi> K (h x) Q) \<Longrightarrow>
   talks_in \<pi> K (case r of Usage \<Rightarrow> f | Exit1 \<Rightarrow> g | Finished x \<Rightarrow> h x) Q"
  by (cases r) simp_all

text \<open>The commands, each with a configuration whose entries are \<open>K\<close>.\<close>

lemma speaks_commands:
  assumes "\<And>clients. config = Inr clients \<Longrightarrow> set clients \<subseteq> K"
  shows "speaks K (cmdLunList env config dsmId)" "speaks K (cmdShareList env config dsmId)"
    "speaks K (cmdShareGet env config dsmId args)" "speaks K (cmdShareCreate env config dsmId args)"
    "speaks K (cmdShareDelete env config dsmId args)" "speaks K (cmdShareClone env config dsmId args)"
    "speaks K (cmdShareSnapshotCreate env config dsmId args)" "speaks K (cmdShareSnapshotDelete env config dsmId args)"
    "speaks K (cmdShareSnapshotList env config dsmId args)" "speaks K (cmdSharePermissionList env config dsmId args)"
    "speaks K (cmdSharePermissionSet env config dsmId args)" "speaks K (cmdShareSet env config dsmId args)"
  unfolding cmdLunList_def cmdShareList_def cmdShareGet_def cmdShareCreate_def cmdShareDelete_def cmdShareClone_def
    cmdShareSnapshotCreate_def cmdShareSnapshotDelete_def cmdShareSnapshotList_def cmdSharePermissionList_def
    cmdSharePermissionSet_def cmdShareSet_def
  by ((rule speaks_minimum_args cli_steps talks_case_ended assms talk_steps talk_rules TrueI | assumption)+)

subsection \<open>Sessions that are left behind\<close>

definition ends_session :: "call \<Rightarrow> bool" where
  "ends_session c \<longleftrightarrow> c_method c = Some (PStr ''logout'')"

definition is_logout_request :: "params \<Rightarrow> bool" where
  "is_logout_request ps \<longleftrightarrow> param ''method'' ps = Some (PStr ''logout'')"

abbreviation stays :: "call \<Rightarrow> bool" where
  "stays c \<equiv> \<not> ends_session c"

lemma sent_stays:
  assumes "sent env dsm ps dec r t" "\<not> is_logout_request ps"
  shows "list_all stays t"
  using assms(1)
  by (rule sent_only) (use assms(2) in \<open>auto simp: carries_def ends_session_def is_logout_request_def is_login_def c_method_def\<close>)

context sender
begin

lemma send_stays: "not_login ps \<Longrightarrow> \<not> is_logout_request ps \<Longrightarrow> only D stays (send dsm ps)"
  by (rule emits_mono [OF send_emits]) (auto dest: sent_stays)

lemma finish_stays:
  "not_login ps \<Longrightarrow> \<not> is_logout_request ps \<Longrightarrow> only D stays (do { r \<leftarrow> send dsm ps; State_Monad.return (g r) })"
  by (rule finish) (auto dest: sent_stays)

end

named_theorems stays_rules \<open>operations that do not log out\<close>

lemma shares_stay [stays_rules]:
  "only D stays (ShareGet env dsm u)" "only D stays (ShareList env dsm)" "only D stays (ShareCreate env dsm s1)"
  "only D stays (ShareDelete env dsm u)" "only D stays (ShareSet env dsm u s2)"
  "only D stays (ShareSnapshotCreate env dsm s3)" "only D stays (ShareSnapshotList env dsm u)"
  "only D stays (SharePermissionSet env dsm s4)" "only D stays (SharePermissionList env dsm u g)"
  unfolding ShareGet_def ShareList_def ShareCreate_def ShareDelete_def ShareSet_def
    ShareSnapshotCreate_def ShareSnapshotList_def SharePermissionSet_def SharePermissionList_def
  by (rule share.send_stays; simp add: not_login_def is_logout_request_def)+

lemma share_others_stay [stays_rules]:
  "only D stays (ShareClone env dsm s)" "only D stays (ShareSnapshotDelete env dsm u u')"
  unfolding ShareClone_def ShareSnapshotDelete_def
  by (auto intro!: emits_if emits_return share.send_stays share.finish_stays
      simp: not_login_def is_logout_request_def)

lemma Login_stays [stays_rules]: "only D stays (login_new env dsm)"
  unfolding login_new_def
  by (rule only_bind [OF emits_mono [OF set_sid_emits]], simp, rule emits_mono [OF Login_emits])
    (auto simp: login_trace_def list_all_iff ends_session_def c_method_def login_params_def)

lemma Logout_once:
  "emits D (Logout env dsm) (\<lambda>r t. list_all (is_logout dsm) t \<and> length t = (if reach env dsm then 1 else 0))"
proof -
  let ?ps = "[(''api'', PStr ''SYNO.API.Auth''), (''method'', PStr ''logout''), (''version'', PStr ''1'')]"
  have "emits D (sendRequestWithoutConnectionCheck env dsm [] dec_unit ?ps entry_cgi)
      (\<lambda>r t. list_all (is_logout dsm) t \<and> length t = (if reach env dsm then 1 else 0))"
    by (rule emits_mono [OF emits_conj [OF sends_emits once_emits]])
      (auto simp: is_logout_def carries_def sent_def split: if_splits)
  then show ?thesis
    unfolding Logout_def
    by (rule emits_bind, intro emits_case_sum)
      (auto intro!: emits_return emits_bind [OF set_sid_emits])
qed

text \<open>A command that finishes logs out of the storage system it used, once; one that ends with
  \<^verbatim>\<open>os.Exit(1)\<close> never does.\<close>

definition logs_out :: "'n env \<Rightarrow> err + ClientInfo list \<Rightarrow> int \<Rightarrow> 'a ended \<Rightarrow> call list \<Rightarrow> bool" where
  "logs_out env config dsmId out t = (case out of
     Finished x \<Rightarrow> (case ListDsms config dsmId of Inl e \<Rightarrow> False | Inr selected \<Rightarrow>
       (\<exists>t1 t2. t = t1 @ t2 \<and> list_all stays t1 \<and> list_all (is_logout (hd selected)) t2 \<and>
         length t2 = (if reach env (hd selected) then 1 else 0)))
   | _ \<Rightarrow> list_all stays t)"

lemma with_test_dsm_logs_out:
  assumes "\<And>D dsm. only D stays (body dsm)"
  shows "emits D (with_test_dsm env config dsmId body) (logs_out env config dsmId)"
proof (cases "ListDsms config dsmId")
  case (Inl e)
  then show ?thesis
    by (simp add: with_test_dsm_def or_exit_def LoginDsmForTest_def) (rule emits_return, simp add: logs_out_def)
next
  case (Inr selected)
  let ?dsm = "hd selected"
  have run: "emits D (do { out \<leftarrow> body ?dsm;
     case out of
       Finished x \<Rightarrow> do { _ \<leftarrow> Logout env ?dsm; State_Monad.return (Finished x) }
     | Exit1 \<Rightarrow> State_Monad.return Exit1
     | Usage \<Rightarrow> State_Monad.return Usage }) (\<lambda>out t'. logs_out env config dsmId out (t @ t'))"
    if t: "list_all stays t" for t
  proof (rule emits_bind [OF assms])
    fix out and t' :: "call list"
    assume t': "list_all stays t'"
    show "emits D (case out of
         Finished x \<Rightarrow> do { _ \<leftarrow> Logout env ?dsm; State_Monad.return (Finished x) }
       | Exit1 \<Rightarrow> State_Monad.return Exit1
       | Usage \<Rightarrow> State_Monad.return Usage) (\<lambda>out t''. logs_out env config dsmId out (t @ t' @ t''))"
    proof (cases out)
      case (Finished x)
      have "logs_out env config dsmId (Finished x) (t @ t' @ t'')"
        if "list_all (is_logout ?dsm) t'' \<and> length t'' = (if reach env ?dsm then 1 else 0)" for t''
        unfolding logs_out_def Inr ended.case sum.case
        by (rule exI [of _ "t @ t'"], rule exI [of _ t'']) (use that t t' in simp)
      with Finished show ?thesis by (auto intro!: emits_bind [OF Logout_once] emits_return)
    qed (use t t' in \<open>auto intro!: emits_return simp: logs_out_def\<close>)
  qed
  have "emits D (do { r \<leftarrow> State_Monad.return (case l of
         Some e \<Rightarrow> Inl (FmtError ''Failed to login to DSM: [%s]. err: %v'')
       | None \<Rightarrow> Inr ?dsm);
     case r of Inl e \<Rightarrow> State_Monad.return Exit1 | Inr dsm \<Rightarrow> do {
       out \<leftarrow> body dsm;
       case out of
         Finished x \<Rightarrow> do { _ \<leftarrow> Logout env dsm; State_Monad.return (Finished x) }
       | Exit1 \<Rightarrow> State_Monad.return Exit1
       | Usage \<Rightarrow> State_Monad.return Usage } }) (\<lambda>out t'. logs_out env config dsmId out (t @ t'))"
    if t: "list_all stays t" for l :: "err option" and t
  proof (cases l)
    case None
    with run [OF t] show ?thesis by (simp del: run_state_bind)
  next
    case (Some e)
    show ?thesis
      by (simp only: Some option.case State_Monad.bind_left_identity sum.case)
        (rule emits_return, simp add: logs_out_def t)
  qed
  then show ?thesis
    unfolding with_test_dsm_def or_exit_def LoginDsmForTest_def Inr sum.case
    by (simp only: State_Monad.bind_assoc) (rule emits_bind [OF Login_stays])
qed

lemma only_or_exit [stays_rules]: "only D R m \<Longrightarrow> (\<And>x. only D R (k x)) \<Longrightarrow> only D R (or_exit m k)"
  unfolding or_exit_def by (intro only_bind emits_case_sum emits_return) simp_all

lemma only_case_ended [stays_rules]:
  "only D R f \<Longrightarrow> only D R g \<Longrightarrow> (\<And>x. only D R (h x)) \<Longrightarrow>
   only D R (case r of Usage \<Rightarrow> f | Exit1 \<Rightarrow> g | Finished x \<Rightarrow> h x)"
  by (cases r) simp_all

lemma helpers_stay [stays_rules]:
  "only D stays (clone_source env dsm b u)" "only D stays (shareSnapshotListAll env dsm u)"
  "only D stays (getShareLocalUserPermission env dsm u u')"
  unfolding clone_source_def org_share_def shareSnapshotListAll_def getShareLocalUserPermission_def
  by ((intro stays_rules only_for_return emits_rules; simp)+)

lemma minimum_args_logs_out:
  assumes "emits D run (logs_out env config dsmId)"
  shows "emits D (minimum_args n args run) (logs_out env config dsmId)"
  unfolding minimum_args_def using assms by (intro emits_if emits_return) (simp_all add: logs_out_def)


end
