(* ===== verification/Printing.thy ===== *)
theory Printing
  imports Cli Printed
begin

text \<open>
  The tables that the commands of \<^verbatim>\<open>src/synocli\<close> print: the text that they pass to the tab writer
  of the Go library and flush, as rows of padded cells, for the result with which a command of
  \<open>Cli\<close> finishes. The layout of the columns is that of the library. A padded cell is as wide in
  characters as its format says.
\<close>

subsection \<open>Rows and cells\<close>

text \<open>\<^verbatim>\<open>%-Ns\<close>, and a row of cells that each end with a tab.\<close>

definition pad :: "nat \<Rightarrow> string \<Rightarrow> string" where
  "pad n s = s @ replicate (n - length s) CHR '' ''"

definition tab :: char where "tab = CHR 0x09"
definition newline :: char where "newline = CHR 0x0A"

definition tw_row :: "string list \<Rightarrow> string" where
  "tw_row cells = concat (map (\<lambda>c. c @ [tab]) cells) @ [newline]"

text \<open>The header is buffered and each row is followed by a flush: without a row nothing comes out.\<close>

definition flushed :: "string \<Rightarrow> string list \<Rightarrow> string" where
  "flushed header rows = (if rows = [] then '''' else header @ concat rows)"

subsection \<open>lun list, share list\<close>

definition lun_header :: string where
  "lun_header = tw_row [pad 16 ''Host:'', pad 52 ''Name:'', pad 36 ''Uuid:'', pad 10 ''Location:'',
     pad 12 ''LunType:'', pad 16 ''Size:'', pad 16 ''Used:'']"

definition lun_row :: "string \<times> LunInfo \<Rightarrow> string" where
  "lun_row = (\<lambda>(ip, info). tw_row [pad 16 ip, pad 52 (lun_Name info), pad 36 (lun_Uuid info),
     pad 10 (lun_Location info), pad 12 (lunTypeToString (lun_LunType info)),
     pad 16 (itoa (uint (lun_Size info))), pad 16 (itoa (uint (lun_Used info)))])"

definition print_luns :: "(string \<times> LunInfo) list \<Rightarrow> string" where
  "print_luns infos = flushed lun_header (map lun_row infos) @ ''Success, LunList()'' @ [newline]"

definition share_header :: string where
  "share_header = tw_row [pad 16 ''Host:'', pad 32 ''Name:'', pad 36 ''Uuid:'', pad 10 ''VolPath:'',
     pad 64 ''Desc:'', pad 12 ''Quota(MB):'', ''Cow:'', ''RecycleBin:'', ''RBAdminOnly:'',
     pad 10 ''Encryption:'', ''CanSnap:'']"

definition share_row :: "string \<times> ShareInfo \<Rightarrow> string" where
  "share_row = (\<lambda>(ip, info). tw_row [pad 16 ip, pad 32 (sh_Name info), pad 36 (sh_Uuid info),
     pad 10 (sh_VolPath info), pad 64 (sh_Desc info), pad 12 (itoa (sint (sh_QuotaValueInMB info))),
     bool_str (sh_EnableShareCow info), bool_str (sh_EnableRecycleBin info),
     bool_str (sh_RecycleBinAdminOnly info), pad 10 (itoa (sh_Encryption info)),
     bool_str (sh_SupportSnapshot info)])"

definition print_shares :: "(string \<times> ShareInfo) list \<Rightarrow> string" where
  "print_shares infos = flushed share_header (map share_row infos) @ ''Success, ShareList()'' @ [newline]"

subsection \<open>share snap_list, share permission_list\<close>

text \<open>The headers of these have no tab at the end.\<close>

definition snap_header :: string where
  "snap_header = ''id:'' @ [tab] @ ''Time:'' @ [tab] @ ''Desc:'' @ [tab] @ ''Lock:'' @ [tab] @
     ''ScheduleSnapshot:'' @ [newline]"

definition snap_row :: "nat \<times> ShareSnapshotInfo \<Rightarrow> string" where
  "snap_row = (\<lambda>(i, info). tw_row [itoa (int i), pad 32 (ssn_Time info), pad 32 (ssn_Desc info),
     bool_str (ssn_Lock info), bool_str (ssn_ScheduleSnapshot info)])"

definition print_snaps :: "string \<Rightarrow> ShareSnapshotInfo list \<Rightarrow> string" where
  "print_snaps shareName snaps = flushed snap_header (map snap_row (enumerate 0 snaps)) @
     ''Success, ShareSnapList('' @ shareName @ '')'' @ [newline]"

definition permission_header :: string where
  "permission_header = ''id:'' @ [tab] @ pad 20 ''Name:'' @ [tab] @ pad 10 ''IsAdmin'' @ [tab] @
     pad 12 ''IsReadonly:'' @ [tab] @ pad 12 ''IsWritable:'' @ [tab] @ pad 10 ''IsDeny:'' @ [tab] @
     pad 10 ''IsCustom:'' @ [newline]"

definition permission_row :: "nat \<times> SharePermission \<Rightarrow> string" where
  "permission_row = (\<lambda>(i, info). tw_row [itoa (int i), pad 20 (sp_Name info), pad 10 (bool_str (sp_IsAdmin info)),
     pad 12 (bool_str (sp_IsReadonly info)), pad 12 (bool_str (sp_IsWritable info)),
     pad 10 (bool_str (sp_IsDeny info)), pad 10 (bool_str (sp_IsCustom info))])"

definition print_permissions :: "string \<Rightarrow> SharePermission list \<Rightarrow> string" where
  "print_permissions shareName infos = flushed permission_header (map permission_row (enumerate 0 infos)) @
     ''Success, SharePermissionList('' @ shareName @ '')'' @ [newline]"

subsection \<open>dsm list\<close>

text \<open>Printed without a tab writer, so the header comes out whatever follows.\<close>

definition dsm_header :: string where
  "dsm_header = pad 2 ''id'' @ [tab] @ pad 32 ''Host'' @ [tab] @ pad 6 ''Port'' @ [tab] @
     pad 32 ''Username'' @ [tab] @ ''Https'' @ [newline]"

definition dsm_row :: "nat \<times> string \<times> int \<times> string \<times> bool \<Rightarrow> string" where
  "dsm_row = (\<lambda>(i, ip, port, username, https).
     tw_row [pad 2 (itoa (int i)), pad 32 ip, pad 6 (itoa port), pad 32 username, bool_str https])"

definition print_dsms :: "string \<Rightarrow> (string \<times> int \<times> string \<times> bool) list \<Rightarrow> string" where
  "print_dsms configFile entries = ''List DSM infos in: '' @ configFile @ [newline] @ dsm_header @
     concat (map dsm_row (enumerate 0 entries))"

subsection \<open>What can be read back\<close>

text \<open>The values of a row, without their padding.\<close>

definition unpad :: "string \<Rightarrow> string" where
  "unpad s = rev (dropWhile (\<lambda>c. c = CHR '' '') (rev s))"

definition read_row :: "string \<Rightarrow> string list" where
  "read_row s = map unpad (butlast (split_on tab s))"

text \<open>A value that a table does not distort.\<close>

definition printable :: "string \<Rightarrow> bool" where
  "printable s \<longleftrightarrow> tab \<notin> set s \<and> (s = [] \<or> last s \<noteq> CHR '' '')"

lemma tab_newline [simp]: "tab \<noteq> CHR '' ''" "newline \<noteq> tab"
  by (simp_all add: tab_def newline_def)

lemma dropWhile_replicate: "P x \<Longrightarrow> dropWhile P (replicate n x @ xs) = dropWhile P xs"
  by (induction n) auto

lemma unpad_pad:
  assumes "printable s"
  shows "unpad (pad n s) = s"
proof -
  have "dropWhile (\<lambda>c. c = CHR '' '') (rev s) = rev s"
    using assms by (cases s rule: rev_cases) (auto simp: printable_def)
  then show ?thesis by (simp add: unpad_def pad_def dropWhile_replicate)
qed

lemma unpad_id: "printable s \<Longrightarrow> unpad s = s"
  using unpad_pad [of s 0] by (simp add: pad_def)

lemma tab_pad [simp]: "tab \<in> set (pad n s) \<longleftrightarrow> tab \<in> set s"
  by (auto simp: pad_def)

lemma split_row: "list_all (\<lambda>c. tab \<notin> set c) cells \<Longrightarrow> split_on tab (tw_row cells) = cells @ [[newline]]"
proof (induction cells)
  case Nil
  show ?case by (simp add: tw_row_def)
next
  case (Cons c cells)
  have "tw_row (c # cells) = c @ tab # tw_row cells" by (simp add: tw_row_def)
  with Cons show ?case by (simp add: split_on_append_sep split_on_no_sep)
qed

text \<open>A row of padded values is read back as the values.\<close>

lemma read_back:
  assumes "list_all2 (\<lambda>c v. printable v \<and> (\<exists>n. c = pad n v)) cells values"
  shows "read_row (tw_row cells) = values"
proof -
  have "list_all (\<lambda>c. tab \<notin> set c) cells"
    using assms by (induction rule: list_all2_induct) (auto simp: printable_def)
  moreover have "map unpad cells = values"
    using assms by (induction rule: list_all2_induct) (auto simp: unpad_pad)
  ultimately show ?thesis by (simp add: read_row_def split_row)
qed

lemma padded [simp]: "\<exists>n. pad k v = pad n v" "\<exists>n. v = pad n v"
proof -
  show "\<exists>n. v = pad n v" by (rule exI [of _ 0]) (simp add: pad_def)
qed auto

lemma printable_bool [simp]: "printable (bool_str b)"
  by (simp add: printable_def bool_str_def tab_def)

lemma printable_itoa [simp]: "printable (itoa i)"
proof -
  have "\<not> is_space c" if "c \<in> set (itoa i)" for c using itoa_chars [of i] that by (simp add: list_all_iff)
  moreover have "is_space tab" "is_space CHR '' ''" by (simp_all add: is_space_def tab_def)
  ultimately show ?thesis unfolding printable_def by (metis last_in_set)
qed

lemma printable_lun_type [simp]: "printable (lunTypeToString t)"
proof -
  have "tab \<notin> set (itoa t)" using printable_itoa [of t] by (simp add: printable_def)
  then show ?thesis by (simp add: lunTypeToString_def printable_def tab_def)
qed

text \<open>A row of \<^verbatim>\<open>share list\<close> and one of \<^verbatim>\<open>lun list\<close> show every field that is printed, as it is.\<close>

lemma share_row_reads:
  assumes "printable ip" "printable (sh_Name info)" "printable (sh_Uuid info)" "printable (sh_VolPath info)"
    "printable (sh_Desc info)"
  shows "read_row (share_row (ip, info)) = [ip, sh_Name info, sh_Uuid info, sh_VolPath info, sh_Desc info,
     itoa (sint (sh_QuotaValueInMB info)), bool_str (sh_EnableShareCow info), bool_str (sh_EnableRecycleBin info),
     bool_str (sh_RecycleBinAdminOnly info), itoa (sh_Encryption info), bool_str (sh_SupportSnapshot info)]"
  unfolding share_row_def prod.case by (rule read_back) (simp add: assms)

lemma lun_row_reads:
  assumes "printable ip" "printable (lun_Name info)" "printable (lun_Uuid info)" "printable (lun_Location info)"
  shows "read_row (lun_row (ip, info)) = [ip, lun_Name info, lun_Uuid info, lun_Location info,
     lunTypeToString (lun_LunType info), itoa (uint (lun_Size info)), itoa (uint (lun_Used info))]"
  unfolding lun_row_def prod.case by (rule read_back) (simp add: assms)

text \<open>A list without entries is printed without its header.\<close>

lemma empty_tables:
  "print_luns [] = ''Success, LunList()'' @ [newline]" "print_shares [] = ''Success, ShareList()'' @ [newline]"
  "print_snaps s [] = ''Success, ShareSnapList('' @ s @ '')'' @ [newline]"
  "print_permissions s [] = ''Success, SharePermissionList('' @ s @ '')'' @ [newline]"
  by (simp_all add: print_luns_def print_shares_def print_snaps_def print_permissions_def flushed_def)

end
