(* ===== verification/UnitTests.thy ===== *)
theory UnitTests
  imports Provision Detach
begin

text \<open>
  The unit tests of the repository (\<^verbatim>\<open>*_test.go\<close>) as lemmas: the definitions compute what the tests
  expect of the code, on the inputs of the tests, and on the storage systems and hosts the
  tests make up. What the tests sample of the lookup of a share holds in general.
\<close>

subsection \<open>share_lookup_test.go\<close>

text \<open>A request for the export rules of a share.\<close>

definition asks_rules :: "call \<Rightarrow> bool" where
  "asks_rules c \<longleftrightarrow> c_api c = Some priv_api"

abbreviation spares_rules :: "call \<Rightarrow> bool" where
  "spares_rules c \<equiv> \<not> asks_rules c"

text \<open>A login does not ask for them, nor does the listing of the shares.\<close>

lemma ShareList_spares: "only D (\<lambda>c. is_login c \<or> spares_rules c) (ShareList env dsm)"
  unfolding ShareList_def
  by (rule emits_mono [OF share.send_emits])
    (auto simp: not_login_def elim!: sent_only simp: carries_def asks_rules_def c_api_def)

text \<open>Whatever else is sent: the requests for export rules are those of one share of the storage
  system, which has the prefix and the property that is looked for.\<close>

definition one_share :: "DSM \<Rightarrow> (ShareInfo \<Rightarrow> bool) \<Rightarrow> call list \<Rightarrow> bool" where
  "one_share dsm pred t \<longleftrightarrow> (\<exists>share. has_prefix (sh_Name share) SharePrefix \<and> pred share \<and>
     list_all (\<lambda>c. is_login c \<or> spares_rules c \<or> carries dsm (nfs_load_params (sh_Name share)) c) t)"

definition no_share :: "call list \<Rightarrow> bool" where
  "no_share t \<longleftrightarrow> list_all (\<lambda>c. is_login c \<or> spares_rules c) t"

lemma no_share_append [simp]: "no_share (t @ t') \<longleftrightarrow> no_share t \<and> no_share t'"
  by (simp add: no_share_def)

lemma no_share_Nil [simp]: "no_share []"
  by (simp add: no_share_def)

lemma one_share_append: "no_share t \<Longrightarrow> one_share dsm pred t' \<Longrightarrow> one_share dsm pred (t @ t')"
  by (fastforce simp: one_share_def no_share_def list_all_iff)

lemma shareToVolume_one:
  assumes "has_prefix (sh_Name share) SharePrefix" "pred share"
  shows "emits D (shareToVolume env dsm share) (\<lambda>_ t. one_share dsm pred t)"
proof -
  have load: "emits D (ShareNfsPrivilegeLoad env dsm (sh_Name share))
      (\<lambda>_. list_all (\<lambda>c. is_login c \<or> carries dsm (nfs_load_params (sh_Name share)) c))"
    unfolding ShareNfsPrivilegeLoad_def
    by (rule emits_mono [OF nfs.send_emits]) (auto simp: not_login_def nfs_load_params_def elim!: sent_only)
  show ?thesis unfolding shareToVolume_def
    by (rule emits_bind [OF load], rule emits_return)
      (use assms in \<open>auto simp: one_share_def list_all_iff intro!: exI [of _ share]\<close>)
qed

lemma find_share_one:
  "emits D (for_return (find_share env pred dsm) shares ())
     (\<lambda>out t. case out of Inl _ \<Rightarrow> no_share t | Inr _ \<Rightarrow> one_share dsm pred t)"
proof -
  have "emits D (for_return (find_share env pred dsm) shares ())
     (\<lambda>out t. case out of Inl _ \<Rightarrow> no_share ([] @ t) | Inr _ \<Rightarrow> one_share dsm pred ([] @ t))"
  proof (rule for_return_emits [where Inv = "\<lambda>_ _. no_share" and Q = "\<lambda>_. one_share dsm pred" and pre = "[]"])
    fix share u t
    assume t: "no_share t"
    show "emits D (find_share env pred dsm share u)
       (\<lambda>out t'. case out of Inl _ \<Rightarrow> no_share (t @ t') | Inr _ \<Rightarrow> one_share dsm pred (t @ t'))"
      unfolding find_share_def
    proof (rule emits_if)
      assume "\<not> (\<not> has_prefix (sh_Name share) SharePrefix \<or> \<not> pred share)"
      then have found: "emits D (shareToVolume env dsm share) (\<lambda>_ t. one_share dsm pred t)"
        by (intro shareToVolume_one) simp_all
      show "emits D (do { r \<leftarrow> shareToVolume env dsm share;
          State_Monad.return (Inr (case r of
            Inl e \<Rightarrow> (None, Some (Wrapf ''DSM[%s] failed to load NFS privilege of share(%s): %w'' e))
          | Inr info \<Rightarrow> (Some info, None))) })
         (\<lambda>out t'. case out of Inl _ \<Rightarrow> no_share (t @ t') | Inr _ \<Rightarrow> one_share dsm pred (t @ t'))"
        by (rule emits_bind [OF found], rule emits_return) (simp add: one_share_append t)
    qed (rule emits_return, simp add: t)
  qed (simp add: no_share_def)
  then show ?thesis unfolding append_Nil .
qed

text \<open>C20: Looking up a share asks a storage system for the export rules of one share at most,
  however many shares there are: one that has the prefix of the driver and is looked for. When
  no share matches, none is asked for.\<close>

theorem findSMBorNFSVolume_cost:
  "emits D (findSMBorNFSVolume env pred) (\<lambda>r t.
     no_share t \<or> (\<exists>dsm \<in> snd ` set D. one_share dsm pred t))"
  unfolding findSMBorNFSVolume_def
proof (rule emits_bind [OF range_dsms_emits])
  fix ds and t0 :: "call list"
  assume ds: "t0 = [] \<and> set ds = snd ` set D"
  let ?Q = "\<lambda>t. \<exists>dsm \<in> snd ` set D. one_share dsm pred t"
  have "emits D (for_return (find_share_dsm env pred) ds None)
     (\<lambda>out t. case out of Inl _ \<Rightarrow> no_share ([] @ t) | Inr _ \<Rightarrow> ?Q ([] @ t))"
  proof (rule for_return_emits [where Inv = "\<lambda>_ _. no_share" and Q = "\<lambda>_. ?Q" and pre = "[]"])
    fix dsm t and listErr :: "err option"
    assume dsm: "dsm \<in> set ds" and t: "no_share t"
    let ?R = "\<lambda>out t'. case out of Inl _ \<Rightarrow> no_share (t @ t') | Inr _ \<Rightarrow> ?Q (t @ t')"
    have found: "?Q (t @ t1 @ t2)" if "no_share t1" "one_share dsm pred t2" for t1 t2
      using that t dsm ds by (intro bexI [of _ dsm] one_share_append) auto
    have search: "emits D (do {
        out \<leftarrow> for_return (find_share env pred dsm) shares ();
        State_Monad.return (case out of Inl _ \<Rightarrow> Inl listErr | Inr res \<Rightarrow> Inr res) })
       (\<lambda>out t'. case out of Inl _ \<Rightarrow> no_share t' | Inr _ \<Rightarrow> ?Q (t @ t1 @ t'))"
      if t1: "no_share t1" for shares t1
      by (rule emits_bind [OF find_share_one], rule emits_return)
        (use t t1 found in \<open>auto split: sum.splits\<close>)
    show "emits D (find_share_dsm env pred dsm listErr) ?R"
      unfolding find_share_dsm_def
    proof (rule emits_if)
      show "emits D (do {
          r \<leftarrow> ShareList env dsm;
          case r of
            Inl e \<Rightarrow> State_Monad.return (Inl (errors_join
               [listErr, Some (Wrapf ''DSM[%s] failed to list shares: %w'' e)]))
          | Inr shares \<Rightarrow> do {
              out \<leftarrow> for_return (find_share env pred dsm) shares ();
              State_Monad.return (case out of Inl _ \<Rightarrow> Inl listErr | Inr res \<Rightarrow> Inr res) } }) ?R"
        by (rule emits_bind [OF ShareList_spares], rule emits_case_sum, rule emits_return)
          (simp_all only: no_share_def [symmetric] search sum.case no_share_append no_share_Nil t simp_thms)
    qed (rule emits_return, simp add: t)
  qed (simp add: no_share_def)
  then show "emits D (do {
      out \<leftarrow> for_return (find_share_dsm env pred) ds None;
      State_Monad.return (case out of Inl listErr \<Rightarrow> (None, listErr) | Inr res \<Rightarrow> res) })
     (\<lambda>r t. no_share (t0 @ t) \<or> ?Q (t0 @ t))"
    by (rule emits_bind, intro emits_return) (auto simp: ds split: sum.splits)
qed

subsection \<open>nfs_utils_test.go\<close>

text \<open>\<^verbatim>\<open>TestMountPermissionsFor\<close>, with \<^verbatim>\<open>os.ModeDir\<close> as bit 31; the octal modes in decimal.\<close>

definition dir_mode :: "file_mode \<Rightarrow> file_mode" where
  "dir_mode m = or (push_bit 31 1) m"

lemma test_MountPermissionsFor:
  "mountPermissionsFor (dir_mode 511) 488 = 488"
  "mountPermissionsFor (dir_mode (or ModeSetgid 504)) 488 = or ModeSetgid 504"
  "mountPermissionsFor (dir_mode (or ModeSetgid 504)) 493 = or ModeSetgid 509"
  "mountPermissionsFor (dir_mode (or ModeSetgid 511)) 488 = or ModeSetgid 504"
  "mountPermissionsFor (dir_mode (or ModeSetgid 504)) 448 = or ModeSetgid 504"
  "mountPermissionsFor (dir_mode 448) 504 = 504"
  by code_simp+

text \<open>\<^verbatim>\<open>TestResultKeepsKubeletFromRedoingTheChown\<close>.\<close>

lemma test_ResultKeepsKubeletFromRedoingTheChown:
  "list_all (\<lambda>requested. and (mountPermissionsFor (dir_mode (or ModeSetgid 504)) requested) 56 = 56 \<and>
     and (mountPermissionsFor (dir_mode (or ModeSetgid 504)) requested) ModeSetgid \<noteq> 0)
   [448, 488, 493, 504, 509, 511]"
  by code_simp

text \<open>\<^verbatim>\<open>TestChmodIfPermissionMismatch\<close>: what is done to a directory with a mode.\<close>

definition chmod_host :: "(err + file_mode) \<Rightarrow> nat host" where
  "chmod_host mode = silent_host\<lparr>h_lstat_mode := (\<lambda>p n. (mode, n))\<rparr>"

definition node0 :: "nat node" where
  "node0 = \<lparr>dsm_world = world0, events = []\<rparr>"

lemma test_ChmodIfPermissionMismatch:
  "events (after (chmodIfPermissionMismatch (chmod_host (Inr (dir_mode (or ModeSetgid 504)))) ''vol'' 488) node0) = [Look ''vol'']"
  "events (after (chmodIfPermissionMismatch (chmod_host (Inr (dir_mode 511))) ''vol'' 488) node0) = [Look ''vol'', Chmod ''vol'' 488]"
  "result_of (chmodIfPermissionMismatch (chmod_host (Inl (FmtError ''absent''))) ''vol'' 488) node0 \<noteq> None"
  by code_simp+

subsection \<open>nodeserver_test.go, controllerserver_test.go\<close>

lemma test_WithXfsMountOptions:
  "withXfsMountOptions ''xfs'' [''rw''] = [''rw'', ''nouuid'']"
  "withXfsMountOptions ''xfs'' [''rw'', ''nouuid''] = [''rw'', ''nouuid'']"
  "withXfsMountOptions ''ext4'' [''rw''] = [''rw'']"
  "withXfsMountOptions '''' [''rw''] = [''rw'']"
  "withXfsMountOptions ''xfs'' [''rw'', ''noatime''] = [''rw'', ''noatime'', ''nouuid'']"
  by code_simp+

lemma test_IsShareProtocol:
  "isShareProtocol ProtocolNfs" "isShareProtocol ProtocolSmb" "\<not> isShareProtocol ProtocolIscsi"
  "\<not> isShareProtocol ProtocolNvme" "\<not> isShareProtocol ''''"
  by code_simp+

subsection \<open>lookup_failure_test.go\<close>

text \<open>The service of the test, which cannot tell whether a volume exists; its state is whether
  \<^verbatim>\<open>CreateVolume\<close> was called. The last of the tests, of the node server, is an instance of
  \<open>NodeUnstageVolume_safe\<close>.\<close>

definition volume_with_id :: "string \<Rightarrow> K8sVolumeRespSpec" where
  "volume_with_id i = (DsmLunToK8sVolume '''' zero_LunInfo zero_TargetInfo)\<lparr>kv_VolumeId := i\<rparr>"

definition errListIncomplete :: err where
  "errListIncomplete = FmtError ''DSM[1.2.3.4] failed to load NFS privilege of share(k8s-csi-pvc-x): busy''"

definition lookupFailingService :: "bool IDsmService" where
  "lookupFailingService = \<lparr>
     svc_AddDsm = \<lambda>_. State_Monad.return None, svc_RemoveAllDsms = State_Monad.return (),
     svc_GetDsm = \<lambda>_. State_Monad.return (Inl (FmtError ''not used in these tests'')),
     svc_GetDsmsCount = State_Monad.return 1, svc_ListDsmVolumes = \<lambda>_. State_Monad.return (Inr []),
     svc_CreateVolume = \<lambda>_. do {
       _ \<leftarrow> State_Monad.set True;
       State_Monad.return (Inr (Some (volume_with_id ''newly-created''))) },
     svc_DeleteVolume = \<lambda>_. State_Monad.return None,
     svc_ListVolumes = State_Monad.return ([volume_with_id ''still-visible''], Some errListIncomplete),
     svc_GetVolume = \<lambda>_. State_Monad.return (Inl errListIncomplete),
     svc_ExpandVolume = \<lambda>_ _. State_Monad.return (Inr None), svc_CreateSnapshot = \<lambda>_. State_Monad.return (Inr None),
     svc_DeleteSnapshot = \<lambda>_. State_Monad.return None, svc_ListAllSnapshots = State_Monad.return [],
     svc_ListSnapshots = \<lambda>_. State_Monad.return [],
     svc_GetVolumeByName = \<lambda>_. State_Monad.return (Inl errListIncomplete),
     svc_GetSnapshotByName = \<lambda>_. State_Monad.return None\<rparr>"

definition failing_server :: "bool controllerServer" where
  "failing_server = NewControllerServer (NewControllerAndNodeDriver '''' '''') lookupFailingService"

definition mount_capability :: VolumeCapability where
  "mount_capability = \<lparr>cap_AccessMode = SINGLE_NODE_WRITER, cap_AccessType = MountVolume '''' [] ''''\<rparr>"

definition one_gigabyte :: CreateVolumeRequest where
  "one_gigabyte = \<lparr>cvr_Name = ''pvc-1'',
     cvr_CapacityRange = Some \<lparr>cr_RequiredBytes = 1073741824, cr_LimitBytes = 0\<rparr>,
     cvr_VolumeCapabilities = Some [mount_capability], cvr_Parameters = (\<lambda>_. None),
     cvr_VolumeContentSource = None\<rparr>"

definition wantUnavailable :: "err + 'a \<Rightarrow> bool" where
  "wantUnavailable r = (case r of Inl (Status Unavailable) \<Rightarrow> True | _ \<Rightarrow> False)"

lemma test_LookupFailure:
  "wantUnavailable (result_of (controllerServer_ValidateVolumeCapabilities failing_server ''vol-1''
     (Some [mount_capability])) False)"
  "wantUnavailable (result_of (controllerServer_ListVolumes failing_server 0 '''') False)"
  "wantUnavailable (result_of (controllerServer_CreateVolume failing_server one_gigabyte) False)"
  "\<not> after (controllerServer_CreateVolume failing_server one_gigabyte) False"
  by code_simp+

subsection \<open>hostexec_test.go\<close>

abbreviation test_path :: string where
  "test_path \<equiv> ''PATH=/usr/local/sbin:/usr/local/bin:/usr/sbin:/usr/bin:/sbin:/bin''"

lemma test_New:
  "new_executor [] ''/tmp/chroot_test'' True \<noteq> Inl e"
  "isl (new_executor [] ''/invalid/path'' False)"
  by (simp_all add: new_executor_def)

lemma test_wrapEnv:
  "wrapEnv ''echo'' [] = (''/usr/bin/env'', [''-i'', test_path, ''echo''])"
  "wrapEnv ''echo'' [''hello'', ''world''] = (''/usr/bin/env'', [''-i'', test_path, ''echo'', ''hello'', ''world''])"
  "wrapEnv ''/bin/echo'' [] = (''/bin/echo'', [])"
  "wrapEnv ''/bin/echo'' [''hello'', ''world''] = (''/bin/echo'', [''hello'', ''world''])"
  by code_simp+

definition test_executor :: "(string \<times> string) list \<Rightarrow> string \<Rightarrow> executor" where
  "test_executor cmds dir = \<lparr>commandMap = cmds, chrootDir = dir\<rparr>"

lemma test_resolveCmd:
  "resolveCmd (test_executor [] '''') ''echo'' [''hello'', ''world''] = (''echo'', [''hello'', ''world''])"
  "resolveCmd (test_executor [(''echo'', ''/bin/echo'')] '''') ''echo'' [''hello'', ''world''] = (''/bin/echo'', [''hello'', ''world''])"
  "resolveCmd (test_executor [(''cat'', ''/dummy/cat'')] '''') ''echo'' [''hello'', ''world''] = (''echo'', [''hello'', ''world''])"
  "resolveCmd (test_executor [(''echo'', '''')] '''') ''echo'' [''hello'', ''world''] = (''echo'', [''hello'', ''world''])"
  by code_simp+

lemma test_wrapChroot:
  "wrapChroot (test_executor [] '''') ''echo'' [''hello'', ''world''] = (''echo'', [''hello'', ''world''])"
  "wrapChroot (test_executor [] ''/tmp'') ''echo'' [''hello'', ''world''] = (''/usr/sbin/chroot'', [''/tmp'', ''echo'', ''hello'', ''world''])"
  by code_simp+

lemma test_wrap:
  "wrap (test_executor [] '''') ''/bin/echo'' [''hello'', ''world''] = (''/bin/echo'', [''hello'', ''world''])"
  "wrap (test_executor [] '''') ''echo'' [''hello'', ''world''] = (''/usr/bin/env'', [''-i'', test_path, ''echo'', ''hello'', ''world''])"
  "wrap (test_executor [] ''/tmp'') ''/bin/echo'' [''hello'', ''world''] = (''/usr/sbin/chroot'', [''/tmp'', ''/bin/echo'', ''hello'', ''world''])"
  "wrap (test_executor [(''echo'', ''/bin/echo'')] '''') ''echo'' [''hello'', ''world''] = (''/bin/echo'', [''hello'', ''world''])"
  "wrap (test_executor [(''echo'', ''/bin/echo'')] ''/tmp'') ''echo'' [''hello'', ''world''] = (''/usr/sbin/chroot'', [''/tmp'', ''/bin/echo'', ''hello'', ''world''])"
  by code_simp+

subsection \<open>restore_size_test.go\<close>

lemma test_CheckRestoreSize:
  "checkRestoreSize 2147483648 1073741824 = None" "checkRestoreSize 1073741824 1073741824 = None"
  "checkRestoreSize 536870912 1073741824 = Some (Status OutOfRange)" "checkRestoreSize 0 1073741824 = None"
  by code_simp+

lemma test_NeedsExpandTo:
  "needsExpandTo 2147483648 1073741824 = 2147483648" "needsExpandTo 1073741824 1073741824 = 0"
  "needsExpandTo 536870912 1073741824 = 0" "needsExpandTo 0 1073741824 = 0"
  by code_simp+

lemma test_ShareQuotaRoundingNeverUnderDelivers:
  "list_all (\<lambda>size. sint (BytesToMBCeil size) * 1048576 \<ge> sint size) [1, 1048575, 1048576, 1048577, 3145735]"
  by code_simp

subsection \<open>rollback_test.go\<close>

text \<open>The outside world is the list of what was undone.\<close>

definition undo_step :: "string \<Rightarrow> bool \<Rightarrow> (string list world, err + unit) prog" where
  "undo_step name works = do {
     w \<leftarrow> State_Monad.get;
     _ \<leftarrow> State_Monad.set (w\<lparr>nas := nas w @ [name]\<rparr>);
     State_Monad.return (if works then Inr () else Inl (FmtError ''DSM is busy'')) }"

definition order_world :: "string list world" where
  "order_world = \<lparr>nas = [], dsms = [], sids = (\<lambda>_. []), calls = []\<rparr>"

definition create_like :: "bool \<Rightarrow> bool \<Rightarrow> (string list world, err + unit) prog" where
  "create_like new works = with_rollback (State_Monad.return
     (if new then rollback_add [] ''share'' (undo_step ''share'' True) else [],
      if works then Inr () else Inl (FmtError ''a later step failed'')))"

lemma test_Rollback:
  "nas (after (rollback_run (rollback_add (rollback_add [] ''LUN'' (undo_step ''LUN'' True)) ''target''
     (undo_step ''target'' True))) order_world) = [''target'', ''LUN'']"
  "nas (after (rollback_run (rollback_add (rollback_add [] ''LUN'' (undo_step ''LUN'' True)) ''target''
     (undo_step ''target'' False))) order_world) = [''target'', ''LUN'']"
  "nas (after (rollback_run []) order_world) = []"
  "nas (after (create_like True False) order_world) = [''share'']" "isl (result_of (create_like True False) order_world)"
  "nas (after (create_like True True) order_world) = []" "\<not> isl (result_of (create_like True True) order_world)"
  "nas (after (create_like False False) order_world) = []" "isl (result_of (create_like False False) order_world)"
  by code_simp+

subsection \<open>share_retry_test.go\<close>

text \<open>A busy share service is asked again, other errors are not, and the error survives; with the
  two further attempts that \<open>script_env\<close> grants.\<close>

definition busy_until :: "nat \<Rightarrow> int \<Rightarrow> nat env" where
  "busy_until k ecode = script_env (\<lambda>n. if n < k then api_error ecode else api_ok JNull)"

lemmas retry_run = busy_until_def ShareDelete_def shareNfsPrivilegeSaveOnce_def shareRequest_def nfsPrivilegeRequest_def
  backoff_retry_def run_sendRequest_script share_attempt_def nfs_attempt_def retried_def shareErrCodeMapping_def
  nfsPrivilegeShareLoadFailErrCode_def dec_unit_def Let_def case_prod_beta numeral_2_eq_2

lemma test_ShareBusyIsRetriedUntilItClears:
  "result_of (ShareDelete (busy_until 2 3328) http_dsm ''s'') world0 = Inr ()"
  "length (calls (after (ShareDelete (busy_until 2 3328) http_dsm ''s'') world0)) = 3"
  by (simp_all add: retry_run)

lemma test_OtherErrorsAreNotRetried:
  "result_of (ShareDelete (busy_until 9 402) http_dsm ''s'') world0 = Inl NoSuchShareError"
  "length (calls (after (ShareDelete (busy_until 9 402) http_dsm ''s'') world0)) = 1"
  by (simp_all add: retry_run)

lemma test_BusyGivesUpAfterTheDeadline:
  "result_of (ShareDelete (busy_until 9 3328) http_dsm ''s'') world0 = Inl ShareSystemBusyError"
  "length (calls (after (ShareDelete (busy_until 9 3328) http_dsm ''s'') world0)) = 3"
  by (simp_all add: retry_run)

definition any_rules :: SharePrivilege where
  "any_rules = \<lparr>spv_ShareName = ''s'', spv_Rule = []\<rparr>"

lemma test_NfsPrivilegeShareLoadFailIsRetried:
  "result_of (shareNfsPrivilegeSaveOnce (busy_until 2 2370) http_dsm any_rules) world0 = Inr ()"
  "length (calls (after (shareNfsPrivilegeSaveOnce (busy_until 2 2370) http_dsm any_rules) world0)) = 3"
  "length (calls (after (shareNfsPrivilegeSaveOnce (busy_until 9 402) http_dsm any_rules) world0)) = 1"
  by (simp_all add: retry_run)

lemma test_RetryBudgets:
  "shareBusyRetryTimeout < 120000" "nfsPrivilegeRetryTimeout < 120000"
  "nfsPrivilegeRetryTimeout < shareBusyRetryTimeout"
  "nfsPrivilegeVerifyTimeout \<le> 60000" "nfsPrivilegeRetryTimeout < nfsPrivilegeVerifyTimeout"
  by (simp_all add: shareBusyRetryTimeout_def nfsPrivilegeRetryTimeout_def nfsPrivilegeVerifyTimeout_def)

subsection \<open>share_privilege_verify_test.go\<close>

text \<open>A storage system that drops the first saves, or fails the first loads, and says success.\<close>

record privilege_dsm =
  pd_saves :: nat
  pd_loads :: nat
  pd_rules :: json

definition privilege_env :: "nat \<Rightarrow> nat \<Rightarrow> privilege_dsm env" where
  "privilege_env applyAfter loadFails = \<lparr>env_pem_parses = (\<lambda>_. True), env_system_pool = True,
     env_url_parses = (\<lambda>_ _ _ _. True),
     env_http = (\<lambda>_ req f.
       if param ''method'' (rq_query req) = Some (PStr ''save'') then
         (api_ok JNull, f\<lparr>pd_saves := pd_saves f + 1,
            pd_rules := (case param ''rule'' (rq_query req) of
              Some (PJson j) \<Rightarrow> (if pd_saves f + 1 > applyAfter then j else pd_rules f) | _ \<Rightarrow> pd_rules f)\<rparr>)
       else if param ''method'' (rq_query req) = Some (PStr ''load'') then
         (if pd_loads f + 1 \<le> loadFails then api_error 2301
          else api_ok (JObj [(''share_name'', JStr ''k8s-csi-test''), (''rule'', pd_rules f)]),
          f\<lparr>pd_loads := pd_loads f + 1\<rparr>)
       else (api_ok JNull, f)),
     env_retries = (\<lambda>_ _. 3), env_map_order = (\<lambda>f. ([], f))\<rparr>"

definition rule_for :: "string \<Rightarrow> string \<Rightarrow> PrivilegeRule" where
  "rule_for client privilege = \<lparr>pr_Async = False, pr_Client = client, pr_Crossmnt = False, pr_Insecure = False,
     pr_Privilege = privilege, pr_RootSquash = '''',
     pr_SecurityFlavor = \<lparr>sf_Kerbros = False, sf_KerbrosIntegrity = False, sf_KerbrosPrivacy = False, sf_Sys = False\<rparr>\<rparr>"

definition wantPrivilege :: SharePrivilege where
  "wantPrivilege = \<lparr>spv_ShareName = ''k8s-csi-test'', spv_Rule = [rule_for ''10.0.0.1'' ''RW'', rule_for ''10.0.0.2'' ''RW'']\<rparr>"

definition privilege_world :: "privilege_dsm world" where
  "privilege_world = \<lparr>nas = \<lparr>pd_saves = 0, pd_loads = 0, pd_rules = JArr []\<rparr>, dsms = [], sids = (\<lambda>_. []), calls = []\<rparr>"

text \<open>One attempt to save, by what it leaves on the storage system.\<close>

definition saved_rules :: "nat \<Rightarrow> privilege_dsm \<Rightarrow> privilege_dsm" where
  "saved_rules applyAfter f = f\<lparr>pd_saves := pd_saves f + 1,
     pd_rules := (if pd_saves f + 1 > applyAfter then JArr (map enc_PrivilegeRule (spv_Rule wantPrivilege)) else pd_rules f)\<rparr>"

lemma run_save_once:
  "result_of (shareNfsPrivilegeSaveOnce (privilege_env k l) http_dsm wantPrivilege) w = Inr ()"
  "nas (after (shareNfsPrivilegeSaveOnce (privilege_env k l) http_dsm wantPrivilege) w) = saved_rules k (nas w)"
  by (simp_all add: shareNfsPrivilegeSaveOnce_def nfsPrivilegeRequest_def backoff_retry_def numeral_3_eq_3
      sendRequest_def sendRequestWithoutConnectionCheck_def newHTTPClient_def privilege_env_def nfs_save_params_def
      nfs_attempt_def saved_rules_def dec_unit_def Let_def case_prod_beta retried_def)

lemma dec_rules: "dec_all dec_PrivilegeRule (map enc_PrivilegeRule rs) = Some rs"
  by (induction rs) (simp_all add: PrivilegeRule_roundtrip)

lemma dec_privileges:
  "dec_SharePrivilege (JObj [(''share_name'', JStr n), (''rule'', JArr (map enc_PrivilegeRule rs))]) =
     Some \<lparr>spv_ShareName = n, spv_Rule = rs\<rparr>"
  by (simp add: dec_SharePrivilege_def jfield_def dec_rules)

text \<open>What is read back: the rules, unless this load fails.\<close>

definition kept :: "PrivilegeRule list \<Rightarrow> privilege_dsm \<Rightarrow> bool" where
  "kept rs f \<longleftrightarrow> pd_rules f = JArr (map enc_PrivilegeRule rs)"

lemma run_load:
  assumes "kept rs (nas w)"
  shows "pd_loads (nas w) \<ge> l \<Longrightarrow>
      result_of (ShareNfsPrivilegeLoad (privilege_env k l) http_dsm n) w = Inr \<lparr>spv_ShareName = ''k8s-csi-test'', spv_Rule = rs\<rparr>"
    "pd_loads (nas w) < l \<Longrightarrow>
      result_of (ShareNfsPrivilegeLoad (privilege_env k l) http_dsm n) w = Inl (DsmApiError 2301)"
    "nas (after (ShareNfsPrivilegeLoad (privilege_env k l) http_dsm n) w) = (nas w)\<lparr>pd_loads := pd_loads (nas w) + 1\<rparr>"
  using assms
  by (simp_all add: ShareNfsPrivilegeLoad_def nfsPrivilegeRequest_def backoff_retry_def numeral_3_eq_3
      sendRequest_def sendRequestWithoutConnectionCheck_def newHTTPClient_def privilege_env_def nfs_load_params_def
      nfs_attempt_def kept_def dec_privileges Let_def case_prod_beta retried_def nfsPrivilegeShareLoadFailErrCode_def)

definition missing_in :: "(string \<times> string) list \<Rightarrow> string list" where
  "missing_in rules = missingPrivilegeRules
     \<lparr>spv_ShareName = '''', spv_Rule = map (\<lambda>(c, p). rule_for c p) rules\<rparr> wantPrivilege"

lemma test_MissingPrivilegeRules:
  "missingPrivilegeRules wantPrivilege wantPrivilege = []"
  "missing_in [(''10.0.0.1'', ''RW'')] = [''10.0.0.2'']"
  "missing_in [(''10.0.0.1'', ''RW''), (''10.0.0.2'', ''RO'')] = [''10.0.0.2'']"
  "missing_in [] = [''10.0.0.1'', ''10.0.0.2'']"
  "missing_in [(''10.0.0.1'', ''RW''), (''10.0.0.2'', ''RW''), (''192.168.1.1'', ''RW'')] = []"
  by code_simp+

text \<open>After \<open>i\<close> attempts that failed: as many saves and loads, and the rules once a save counted.\<close>

definition rules_after :: "nat \<Rightarrow> nat \<Rightarrow> PrivilegeRule list" where
  "rules_after k i = (if i > k then spv_Rule wantPrivilege else [])"

definition failed_attempts :: "nat \<Rightarrow> nat \<Rightarrow> privilege_dsm \<Rightarrow> bool" where
  "failed_attempts k i f \<longleftrightarrow> pd_saves f = i \<and> pd_loads f = i \<and> kept (rules_after k i) f"

lemma missing_after:
  "missingPrivilegeRules \<lparr>spv_ShareName = n, spv_Rule = rules_after k i\<rparr> wantPrivilege = [] \<longleftrightarrow> i > k"
proof (cases "i > k")
  case True
  then show ?thesis
    by (simp add: rules_after_def missingPrivilegeRules_def inEffect_def wantPrivilege_def rule_for_def)
next
  case False
  then show ?thesis
    by (simp add: rules_after_def missingPrivilegeRules_def inEffect_def wantPrivilege_def rule_for_def)
qed

lemma attempt_step:
  assumes "failed_attempts k i (nas w)"
  shows "failed_attempts k (i + 1) (nas (after (save_attempt (privilege_env k l) http_dsm wantPrivilege) w))"
    "snd (result_of (save_attempt (privilege_env k l) http_dsm wantPrivilege) w) = None \<longleftrightarrow> i \<ge> k \<and> i \<ge> l"
    "snd (result_of (save_attempt (privilege_env k l) http_dsm wantPrivilege) w) = Some (p, e) \<Longrightarrow> \<not> p"
proof -
  let ?env = "privilege_env k l"
  let ?v = "after (shareNfsPrivilegeSaveOnce ?env http_dsm wantPrivilege) w"
  let ?load = "ShareNfsPrivilegeLoad ?env http_dsm (spv_ShareName wantPrivilege)"
  have v: "pd_saves (nas ?v) = i + 1" "pd_loads (nas ?v) = i" "kept (rules_after k (i + 1)) (nas ?v)"
    using assms by (auto simp: run_save_once saved_rules_def failed_attempts_def kept_def rules_after_def)
  have run: "run_state (save_attempt ?env http_dsm wantPrivilege) w =
      (case result_of ?load ?v of
         Inl e \<Rightarrow> (((), Some (False, e)), after ?load ?v)
       | Inr got \<Rightarrow> (((), if missingPrivilegeRules got wantPrivilege \<noteq> [] then
             Some (False, FmtError ''DSM[%s] did not apply the NFS export rules of share(%s) for %v'') else None), after ?load ?v))"
    by (simp add: save_attempt_def run_save_once case_prod_beta split: sum.split)
  have loaded: "nas (after ?load ?v) = (nas ?v)\<lparr>pd_loads := i + 1\<rparr>"
    using run_load(3) [OF v(3)] v(2) by simp
  from loaded v show "failed_attempts k (i + 1) (nas (after (save_attempt ?env http_dsm wantPrivilege) w))"
    by (simp add: run failed_attempts_def kept_def split: sum.split)
  show "snd (result_of (save_attempt ?env http_dsm wantPrivilege) w) = None \<longleftrightarrow> i \<ge> k \<and> i \<ge> l"
    using run_load(1,2) [OF v(3), of l k "spv_ShareName wantPrivilege"] v(2)
    by (cases "i < l") (auto simp: run missing_after)
  show "snd (result_of (save_attempt ?env http_dsm wantPrivilege) w) = Some (p, e) \<Longrightarrow> \<not> p"
    by (simp add: run split: sum.splits if_splits)
qed

lemma attempts:
  assumes "failed_attempts k i (nas w)" "i \<le> max k l"
  shows "(snd (result_of (retry_n n (save_attempt (privilege_env k l) http_dsm wantPrivilege)) w) = None \<longleftrightarrow> max k l \<le> i + n) \<and>
    failed_attempts k (min (max k l) (i + n) + 1)
      (nas (after (retry_n n (save_attempt (privilege_env k l) http_dsm wantPrivilege)) w))"
  using assms
proof (induction n arbitrary: i w)
  case 0
  with attempt_step [OF 0(1), of l] show ?case by (auto simp: case_prod_beta)
next
  case (Suc n)
  let ?op = "save_attempt (privilege_env k l) http_dsm wantPrivilege"
  show ?case
  proof (cases "snd (result_of ?op w)")
    case None
    with attempt_step(2) [OF Suc.prems(1), of l] Suc.prems(2) have "i = max k l" by auto
    moreover from this have "min (max k l) (i + Suc n) = i" by simp
    ultimately show ?thesis using None attempt_step(1) [OF Suc.prems(1), of l]
      by (simp add: case_prod_beta del: max_less_iff_conj max.bounded_iff)
  next
    case (Some pe)
    obtain p e where pe: "pe = (p, e)" by fastforce
    with Some attempt_step [OF Suc.prems(1), of l] have np: "\<not> p" "i < max k l" by auto
    have step: "run_state (retry_n (Suc n) ?op) w = run_state (retry_n n ?op) (after ?op w)"
      using Some pe np(1) by (simp add: case_prod_beta)
    show ?thesis unfolding step
      using Suc.IH [OF attempt_step(1) [OF Suc.prems(1), of l]] np(2) by simp
  qed
qed

text \<open>The tests: a save that is dropped \<open>k\<close> times and loads that fail \<open>l\<close> times are overcome by the
  three further attempts that the environment grants, each with one save and one load; one
  that is dropped more often is an error.\<close>

lemma test_ShareNfsPrivilegeSave:
  "let (e, w) = run_state (ShareNfsPrivilegeSave (privilege_env k l) http_dsm wantPrivilege) privilege_world
   in (e = None \<longleftrightarrow> max k l \<le> 3) \<and> pd_saves (nas w) = min (max k l) 3 + 1 \<and> pd_loads (nas w) = min (max k l) 3 + 1"
proof -
  have "failed_attempts k 0 (nas privilege_world)"
    by (simp add: failed_attempts_def privilege_world_def kept_def rules_after_def)
  from attempts [OF this, of l 3] show ?thesis
    by (simp add: ShareNfsPrivilegeSave_def backoff_retry_def privilege_env_def [of k l, THEN arg_cong [of _ _ env_retries]]
        failed_attempts_def case_prod_beta)
qed

subsection \<open>device_identity_test.go\<close>

text \<open>The slice of \<^verbatim>\<open>sysfs\<close> the tests build under \<^verbatim>\<open>/t\<close>: links, directories and files by path.\<close>

definition rightIqn :: string where "rightIqn = ''iqn.2000-01.com.synology:nas.pvc-right''"
definition wrongIqn :: string where "wrongIqn = ''iqn.2000-01.com.synology:nas.pvc-wrong''"

definition sysfs_host :: "(string \<times> string) list \<Rightarrow> (string \<times> string list) list \<Rightarrow> (string \<times> string) list \<Rightarrow> nat host" where
  "sysfs_host links dirs files = silent_host\<lparr>h_eval_symlinks := (\<lambda>p n. (map_of links p, n)),
     h_read_dir := (\<lambda>p n. (map_of dirs p, n)), h_read_file := (\<lambda>p n. (map_of files p, n))\<rparr>"

definition fakeSysfs :: "string \<Rightarrow> string \<Rightarrow> nat host" where
  "fakeSysfs hctl iqn = sysfs_host
     [(''/t/sdx'', ''/t/sdx''), (''/t/dm-0'', ''/t/dm-0''),
      (''/t/block/sdx/device'', ''/t/devices/platform/host6/session7/target6:0:0/'' @ hctl)]
     [(''/t/block/dm-0/slaves'', [''sdx''])]
     [(''/t/class/iscsi_session/session7/targetname'', iqn @ [CHR 0x0A])]"

definition identity :: "nat host \<Rightarrow> string \<Rightarrow> bool" where
  "identity host dev \<longleftrightarrow> result_of (verifyIscsiDevice host dev rightIqn 1 ''/t'') node0 = None"

lemma test_DeviceIdentity:
  "identity (fakeSysfs ''6:0:0:1'' rightIqn) ''/t/sdx''"
  "\<not> identity (fakeSysfs ''6:0:0:1'' wrongIqn) ''/t/sdx''"
  "\<not> identity (fakeSysfs ''6:0:0:2'' rightIqn) ''/t/sdx''"
  "\<not> identity (fakeSysfs ''6:0:0:1'' wrongIqn) ''/t/dm-0''"
  by code_simp+

lemma test_NonIscsiDeviceIsRefused:
  "\<not> identity (sysfs_host [(''/t/sda'', ''/t/sda''),
     (''/t/block/sda/device'', ''/t/devices/pci0000:00/ata1/target0:0:0/0:0:0:0'')] [] []) ''/t/sda''"
  by code_simp

lemma test_UnreadableSysfsDoesNotBlockTheMount:
  "identity (sysfs_host [(''/t/sdq'', ''/t/sdq'')] [] []) ''/t/sdq''"
  by code_simp

subsection \<open>unstage_teardown_test.go\<close>

text \<open>The executor records the commands; the session list is what \<^verbatim>\<open>iscsiadm -m session\<close> prints, and a
  command with the word \<open>failing\<close> fails.\<close>

definition teardown_host :: "string \<Rightarrow> string \<Rightarrow> nat host" where
  "teardown_host sessions failing = silent_host\<lparr>h_run := (\<lambda>c args n.
     ((if take 2 args = [''-m'', ''session''] then sessions else '''',
       if failing \<in> set args then Some (ExecFailed ''command failed'') else None), n))\<rparr>"

definition plain_executor :: executor where
  "plain_executor = test_executor [(''iscsiadm'', ''/iscsiadm''), (''blockdev'', ''/blockdev'')] ''''"

definition testIqn :: string where "testIqn = ''iqn.2000-01.com.synology:test.target''"

definition session_line :: string where
  "session_line = ''tcp: [1] 1.2.3.4:3260,1 '' @ testIqn @ '' (non-flash)''"

definition logout_test :: "string \<Rightarrow> string \<Rightarrow> bool \<times> string list list" where
  "logout_test sessions failing = (let (e, s) = run_state
      (initiator_logout (teardown_host sessions failing) plain_executor testIqn ''1.2.3.4'') node0
    in (e = None, map (\<lambda>ev. case ev of Exec c args \<Rightarrow> filter (\<lambda>a. a \<in> {''--logout'', ''delete''}) args | _ \<Rightarrow> []) (events s)))"

lemma test_LogoutRemovesTheNodeRecord: "logout_test session_line ''-'' = (True, [[], [''--logout''], [''delete'']])"
  by code_simp

lemma test_NodeRecordIsRemovedEvenWithNoSession: "logout_test '''' ''-'' = (True, [[], [''delete'']])"
  by code_simp

lemma test_LogoutSucceedsWhenTheRecordCannotBeRemoved:
  "logout_test session_line ''delete'' = (True, [[], [''--logout''], [''delete'']])"
  by code_simp

lemma test_Flush:
  "result_of (blockdev_flushbufs (teardown_host '''' ''-'') plain_executor ''/dev/sdx'') node0 = None"
  "events (after (blockdev_flushbufs (teardown_host '''' ''-'') plain_executor ''/dev/sdx'') node0) =
     [Exec ''/blockdev'' [''--flushbufs'', ''/dev/sdx'']]"
  "result_of (blockdev_flushbufs (teardown_host '''' ''--flushbufs'') plain_executor ''/dev/sdx'') node0 \<noteq> None"
  by code_simp+

subsection \<open>dsmwebapi_tls_test.go\<close>

text \<open>A server with a certificate \<open>pem\<close> for the names \<open>sans\<close>: the handshake of a client that checks
  it succeeds when the certificate was added to its pool and the name it expects, the override
  or the address, is among the names.\<close>

definition handshake :: "string \<Rightarrow> string list \<Rightarrow> http_client \<Rightarrow> string \<Rightarrow> bool" where
  "handshake pem sans client host = (case client of
     PlainClient \<Rightarrow> False
   | TlsClient cfg \<Rightarrow> tls_InsecureSkipVerify cfg \<or>
       ((case tls_RootCAs cfg of None \<Rightarrow> False | Some (sys, added) \<Rightarrow> added = pem) \<and>
        (if tls_ServerName cfg \<noteq> '''' then tls_ServerName cfg else host) \<in> set sans))"

definition tls_server :: "string \<Rightarrow> string list \<Rightarrow> nat env" where
  "tls_server pem sans = silent_env\<lparr>env_pem_parses := (\<lambda>_. True), env_url_parses := (\<lambda>_ _ _ _. True),
     env_http := (\<lambda>client req n.
       (if handshake pem sans client (rq_host req) then api_ok (JObj [(''sid'', JStr ''test-sid'')]) else NoReply, n))\<rparr>"

definition tls_client :: "bool \<Rightarrow> string \<Rightarrow> string \<Rightarrow> DSM" where
  "tls_client insecure ca serverName = https_dsm\<lparr>Ip := ''127.0.0.1'', InsecureSkipVerify := insecure,
     TLSCACert := ca, TLSServerName := serverName\<rparr>"

definition tls_login :: "string list \<Rightarrow> DSM \<Rightarrow> bool \<times> string" where
  "tls_login sans dsm = (let (e, w) = run_state (Login (tls_server ''cert1'' sans) dsm) (world0\<lparr>dsms := []\<rparr>)
     in (e = None, sids w (Ip dsm)))"

lemma test_TLS:
  "tls_login [''127.0.0.1''] (tls_client False '''' '''') = (False, '''')"
  "tls_login [''127.0.0.1''] (tls_client True '''' '''') = (True, ''test-sid'')"
  "tls_login [''127.0.0.1''] (tls_client False ''cert1'' '''') = (True, ''test-sid'')"
  "tls_login [''127.0.0.1''] (tls_client False ''cert2'' '''') = (False, '''')"
  "tls_login [''synology''] (tls_client False ''cert1'' ''synology'') = (True, ''test-sid'')"
  "tls_login [''synology''] (tls_client False ''cert1'' '''') = (False, '''')"
  by code_simp+

end
